(* ===== verification/Prelude.thy ===== *)
theory Prelude
  imports Main "HOL-Library.Word" "HOL-Library.AList" "HOL-Library.Sublist"
begin

text \<open>
  Shared vocabulary of the development.

  \<^item> Machine integers are words of their width; an address of type Ipv4Addr is a 32 bit word and
    is compared as \<open>u32::from\<close> compares it.  A byte buffer is a list of 8 bit words.
  \<^item> Fallible code returns a value of type \<open>'e + 'a\<close>, with \<open>Inl\<close> the error.
  \<^item> HashMap and DashMap are association lists with distinct keys.  Look-up, insertion, removal
    and retain depend only on the finite map the list stands for; iteration follows the list, which
    stands for whatever order the hash map happens to have.
  \<^item> A HashSet is a list read through \<open>set\<close>.
  \<^item> An \<open>ipnet::Ipv4Net\<close> value comes from a crate outside the repository.  It is the record of
    what the methods the program calls on it return, and \<open>ipv4_net_ok\<close> is the documented relation
    between them.
\<close>

unbundle bit_operations_syntax

named_theorems hmap_simps \<open>look-up after the operations of a hash map\<close>
named_theorems byte_simps \<open>big endian encodings and their lengths\<close>

named_theorems witness_eval \<open>definitions unfolded to evaluate a concrete input\<close>

section \<open>Machine types\<close>

type_synonym u8 = "8 word"
type_synonym u16 = "16 word"
type_synonym u32 = "32 word"
type_synonym u64 = "64 word"
type_synonym bytes = "8 word list"
type_synonym ipv4 = "32 word"

text \<open>An i64 is kept as its 64 bit pattern, so that the \<open>as\<close> casts between i64 and u64 are the
  identity; \<open>sint\<close> reads its value.\<close>

type_synonym i64 = "64 word"

definition ip4 :: "nat \<Rightarrow> nat \<Rightarrow> nat \<Rightarrow> nat \<Rightarrow> ipv4" where
  "ip4 a b c d = of_nat (((a * 256 + b) * 256 + c) * 256 + d)"

definition saturating_add :: "'a::len word \<Rightarrow> 'a word \<Rightarrow> 'a word" where
  "saturating_add a b = (if a + b < a then - 1 else a + b)"

definition saturating_sub :: "'a::len word \<Rightarrow> 'a word \<Rightarrow> 'a word" where
  "saturating_sub a b = (if a < b then 0 else a - b)"

section \<open>Big endian encodings\<close>

definition u16_be :: "u16 \<Rightarrow> bytes" where
  "u16_be w = [ucast (drop_bit 8 w), ucast w]"

definition u16_of_be :: "u8 \<Rightarrow> u8 \<Rightarrow> u16" where
  "u16_of_be a b = push_bit 8 (ucast a) OR ucast b"

definition u32_be :: "u32 \<Rightarrow> bytes" where
  "u32_be w = [ucast (drop_bit 24 w), ucast (drop_bit 16 w), ucast (drop_bit 8 w), ucast w]"

definition u32_of_be :: "u8 \<Rightarrow> u8 \<Rightarrow> u8 \<Rightarrow> u8 \<Rightarrow> u32" where
  "u32_of_be a b c d =
     push_bit 24 (ucast a) OR push_bit 16 (ucast b) OR push_bit 8 (ucast c) OR ucast d"

section \<open>Hash maps and hash sets\<close>

type_synonym ('k, 'v) hmap = "('k \<times> 'v) list"
type_synonym 'a hset = "'a list"

definition hm_get :: "('k, 'v) hmap \<Rightarrow> 'k \<Rightarrow> 'v option" where
  "hm_get m k = map_of m k"

definition hm_contains :: "('k, 'v) hmap \<Rightarrow> 'k \<Rightarrow> bool" where
  "hm_contains m k = (hm_get m k \<noteq> None)"

definition hm_insert :: "'k \<Rightarrow> 'v \<Rightarrow> ('k, 'v) hmap \<Rightarrow> ('k, 'v) hmap" where
  "hm_insert k v m = AList.update k v m"

definition hm_remove :: "'k \<Rightarrow> ('k, 'v) hmap \<Rightarrow> ('k, 'v) hmap" where
  "hm_remove k m = AList.delete k m"

definition hm_retain :: "('k \<Rightarrow> 'v \<Rightarrow> bool) \<Rightarrow> ('k, 'v) hmap \<Rightarrow> ('k, 'v) hmap" where
  "hm_retain P m = filter (\<lambda>(k, v). P k v) m"

definition hm_keys :: "('k, 'v) hmap \<Rightarrow> 'k list" where
  "hm_keys m = map fst m"

definition hm_values :: "('k, 'v) hmap \<Rightarrow> 'v list" where
  "hm_values m = map snd m"

definition hm_ok :: "('k, 'v) hmap \<Rightarrow> bool" where
  "hm_ok m = distinct (map fst m)"

text \<open>\<open>iter().find_map(|(k, v)| (v == x).then_some(k))\<close>: the first key, in iteration order, whose
  value is the one looked for.\<close>

fun hm_find_key :: "('v \<Rightarrow> bool) \<Rightarrow> ('k, 'v) hmap \<Rightarrow> 'k option" where
  "hm_find_key P [] = None"
| "hm_find_key P ((k, v) # m) = (if P v then Some k else hm_find_key P m)"

section \<open>Networks\<close>

record ipv4_net =
  net_network :: ipv4
  net_broadcast :: ipv4
  net_prefix_len :: u8
  net_contains :: "ipv4 \<Rightarrow> bool"

text \<open>Documented behaviour of \<open>ipnet::Ipv4Net\<close>: a network contains exactly the addresses from its
  network address up to its broadcast address.\<close>

definition ipv4_net_ok :: "ipv4_net \<Rightarrow> bool" where
  "ipv4_net_ok n = (net_network n \<le> net_broadcast n \<and>
     (\<forall>a. net_contains n a = (net_network n \<le> a \<and> a \<le> net_broadcast n)))"

text \<open>A concrete network, for the witnesses: the block of \<open>2 ^ (32 - p)\<close> addresses around \<open>a\<close>.\<close>

definition cidr :: "ipv4 \<Rightarrow> nat \<Rightarrow> ipv4_net" where
  "cidr a p = (let lo = push_bit (32 - p) (drop_bit (32 - p) a);
                   hi = lo OR mask (32 - p)
               in \<lparr>net_network = lo, net_broadcast = hi, net_prefix_len = of_nat p,
                   net_contains = (\<lambda>x. lo \<le> x \<and> x \<le> hi)\<rparr>)"

section \<open>Lemmas on words and encodings\<close>

lemma u16_be_length [simp, byte_simps]: "length (u16_be w) = 2"
  by (simp add: u16_be_def)

lemma u32_be_length [simp, byte_simps]: "length (u32_be w) = 4"
  by (simp add: u32_be_def)

lemma u16_of_be_u16_be [simp]:
  "u16_of_be (ucast (drop_bit 8 w)) (ucast w) = w"
  by (rule bit_word_eqI) (auto simp: u16_of_be_def bit_simps)

lemma u32_of_be_u32_be [simp]:
  "u32_of_be (ucast (drop_bit 24 w)) (ucast (drop_bit 16 w)) (ucast (drop_bit 8 w)) (ucast w) = w"
proof (rule bit_word_eqI)
  fix n assume n: "n < LENGTH(32)"
  consider "n < 8" | "8 \<le> n" "n < 16" | "16 \<le> n" "n < 24" | "24 \<le> n" by linarith
  then show "bit (u32_of_be (ucast (drop_bit 24 w)) (ucast (drop_bit 16 w))
      (ucast (drop_bit 8 w)) (ucast w)) n = bit w n"
    using n by cases (auto simp: u32_of_be_def bit_simps)
qed

lemma u32_of_be_nth:
  "u32_of_be (u32_be a ! 0) (u32_be a ! 1) (u32_be a ! 2) (u32_be a ! 3) = a"
  by (simp add: u32_be_def)

lemma u32_be_inject [simp]: "u32_be a = u32_be b \<longleftrightarrow> a = b"
  by (metis u32_of_be_nth)

lemma saturating_add_ge: "a \<le> saturating_add a b"
  by (auto simp: saturating_add_def)

lemma unat_saturating_add:
  "unat (saturating_add a (b :: 'a::len word)) = min (unat a + unat b) (2 ^ LENGTH('a) - 1)"
proof (cases "a + b < a")
  case True
  then have "2 ^ LENGTH('a) \<le> unat a + unat b"
    using no_olen_add_nat [of a b] by (simp add: not_less [symmetric])
  then show ?thesis
    using True by (simp add: saturating_add_def unsigned_minus_1_eq_mask mask_eq_exp_minus_1)
next
  case False
  then have "unat (a + b) = unat a + unat b" by (simp add: not_less unat_plus_simple [symmetric])
  moreover have "unat (a + b) < 2 ^ LENGTH('a)" by (rule unsigned_less)
  ultimately show ?thesis using False by (simp add: saturating_add_def)
qed

lemma unat_add_1: "i < e \<Longrightarrow> unat (i + 1) = Suc (unat (i :: 'a::len word))"
proof -
  assume "i < e"
  then have "unat i < unat e" by (simp add: word_less_nat_alt)
  moreover have "unat e < 2 ^ LENGTH('a)" by (rule unsigned_less)
  ultimately have "Suc (unat i) < 2 ^ LENGTH('a)" by linarith
  then show ?thesis by (simp add: unat_word_ariths)
qed

lemma add_1_le_iff: "lo \<noteq> - 1 \<Longrightarrow> (lo + 1 \<le> a) = (lo < (a :: 'a::len word))"
proof -
  assume "lo \<noteq> - 1"
  then have "lo < - 1" by (simp add: word_order.not_eq_extremum)
  from unat_add_1 [OF this] show ?thesis by (simp add: word_le_nat_alt word_less_nat_alt Suc_le_eq)
qed

section \<open>The hash map contract\<close>

text \<open>What every client of a hash map relies on, and the facts derived from it once.  The last two
  derived laws are the ones reservations use: undoing an insertion of a fresh key gives the old map
  back, and moving a value to another key forgets the first one.\<close>

locale hash_map =
  fixes get :: "'m \<Rightarrow> 'k \<Rightarrow> 'v option"
    and insert_at :: "'k \<Rightarrow> 'v \<Rightarrow> 'm \<Rightarrow> 'm"
    and remove_at :: "'k \<Rightarrow> 'm \<Rightarrow> 'm"
    and retain :: "('k \<Rightarrow> 'v \<Rightarrow> bool) \<Rightarrow> 'm \<Rightarrow> 'm"
    and keys :: "'m \<Rightarrow> 'k list"
    and ok :: "'m \<Rightarrow> bool"
  assumes get_insert: "get (insert_at k v m) k' = (if k' = k then Some v else get m k')"
    and get_remove: "get (remove_at k m) k' = (if k' = k then None else get m k')"
    and get_retain: "ok m \<Longrightarrow> get (retain P m) k =
          (case get m k of None \<Rightarrow> None | Some v \<Rightarrow> if P k v then Some v else None)"
    and set_keys: "set (keys m) = {k. get m k \<noteq> None}"
    and distinct_keys: "ok m \<Longrightarrow> distinct (keys m)"
    and ok_insert: "ok m \<Longrightarrow> ok (insert_at k v m)"
    and ok_remove: "ok m \<Longrightarrow> ok (remove_at k m)"
    and ok_retain: "ok m \<Longrightarrow> ok (retain P m)"
begin

lemma finite_dom: "finite {k. get m k \<noteq> None}"
  using set_keys [of m] by (metis List.finite_set)

lemma length_keys: "ok m \<Longrightarrow> length (keys m) = card {k. get m k \<noteq> None}"
  using distinct_card [OF distinct_keys] set_keys by metis

lemma remove_insert_fresh: "get m k = None \<Longrightarrow> get (remove_at k (insert_at k v m)) = get m"
  by (auto simp: fun_eq_iff get_insert get_remove)

lemma move_value:
  "old \<noteq> new \<Longrightarrow>
   get (remove_at old (insert_at new v m)) k =
     (if k = new then Some v else if k = old then None else get m k)"
  by (auto simp: get_insert get_remove)

end

interpretation hm: hash_map hm_get hm_insert hm_remove hm_retain hm_keys hm_ok
proof
  fix m :: "('k, 'v) hmap" and k :: 'k and P
  assume ok: "hm_ok m"
  then show "hm_get (hm_retain P m) k =
      (case hm_get m k of None \<Rightarrow> None | Some v \<Rightarrow> if P k v then Some v else None)"
  proof (induction m)
    case (Cons kv m)
    then show ?case
      by (cases kv) (auto simp: hm_get_def hm_retain_def hm_ok_def map_of_eq_None_iff
          split: option.splits intro: map_of_SomeD)
  qed (simp add: hm_get_def hm_retain_def)
  show "hm_ok (hm_retain P m)"
    using ok by (auto simp: hm_ok_def hm_retain_def intro: distinct_map_filter)
qed (auto simp: hm_get_def hm_insert_def hm_remove_def hm_keys_def hm_ok_def
        AList.update_conv' AList.delete_conv' AList.distinct_update AList.distinct_delete
        map_of_eq_None_iff)

declare hm.get_insert [hmap_simps] hm.get_remove [hmap_simps]
declare hm.ok_insert [simp] hm.ok_remove [simp] hm.ok_retain [simp]

lemma hm_get_insert_fun [simp]: "hm_get (hm_insert k v m) = (hm_get m)(k \<mapsto> v)"
  by (simp add: fun_eq_iff hmap_simps)

lemma hm_get_remove_fun [simp]: "hm_get (hm_remove k m) = (hm_get m)(k := None)"
  by (simp add: fun_eq_iff hmap_simps)

lemma hm_get_map_values: "hm_get (map (\<lambda>(k, v). (k, g k v)) m) k = map_option (g k) (hm_get m k)"
  by (induction m) (auto simp: hm_get_def)

lemma hm_ok_map_values [simp]: "hm_ok (map (\<lambda>(k, v). (k, g k v)) m) = hm_ok m"
  by (simp add: hm_ok_def comp_def case_prod_beta)

lemma hm_ok_Nil [simp]: "hm_ok []"
  by (simp add: hm_ok_def)

lemma hm_get_Nil [simp]: "hm_get [] k = None"
  by (simp add: hm_get_def)

lemma hm_contains_iff: "hm_contains m k \<longleftrightarrow> (\<exists>v. hm_get m k = Some v)"
  by (simp add: hm_contains_def)

lemma hm_mem_iff: "hm_ok m \<Longrightarrow> (k, v) \<in> set m \<longleftrightarrow> hm_get m k = Some v"
  by (simp add: hm_ok_def hm_get_def)

lemma hm_find_key_SomeD: "hm_find_key P m = Some k \<Longrightarrow> \<exists>v. (k, v) \<in> set m \<and> P v"
  by (induction P m rule: hm_find_key.induct) (auto split: if_splits)

lemma hm_find_key_NoneD: "hm_find_key P m = None \<longleftrightarrow> (\<forall>(k, v) \<in> set m. \<not> P v)"
  by (induction P m rule: hm_find_key.induct) auto

lemma hm_find_key_Some: "hm_ok m \<Longrightarrow> hm_find_key P m = Some k \<Longrightarrow> \<exists>v. hm_get m k = Some v \<and> P v"
  using hm_find_key_SomeD hm_mem_iff by metis

lemma hm_find_key_None:
  "hm_ok m \<Longrightarrow> hm_find_key P m = None \<longleftrightarrow> (\<forall>k v. hm_get m k = Some v \<longrightarrow> \<not> P v)"
  by (auto simp: hm_find_key_NoneD hm_mem_iff)

lemma hm_get_cong_values:
  "hm_ok m \<Longrightarrow> v \<in> set (hm_values m) \<longleftrightarrow> (\<exists>k. hm_get m k = Some v)"
  by (force simp: hm_values_def hm_ok_def hm_get_def)

section \<open>Networks\<close>

lemma cidr_ok: "ipv4_net_ok (cidr a p)"
  by (auto simp: ipv4_net_ok_def cidr_def Let_def le_word_or2)

lemma net_host:
  "ipv4_net_ok n \<Longrightarrow> net_contains n d \<Longrightarrow> d \<noteq> net_network n \<Longrightarrow> d \<noteq> net_broadcast n \<Longrightarrow>
   net_network n < d \<and> d < net_broadcast n"
  by (auto simp: ipv4_net_ok_def order.strict_iff_order)

section \<open>Invariants of a step relation\<close>

locale invariant_system =
  fixes step :: "'s \<Rightarrow> 's \<Rightarrow> bool"
    and inv :: "'s \<Rightarrow> bool"
  assumes preserved: "step s s' \<Longrightarrow> inv s \<Longrightarrow> inv s'"
begin

lemma reachable: "step\<^sup>*\<^sup>* s s' \<Longrightarrow> inv s \<Longrightarrow> inv s'"
  by (induction rule: rtranclp_induct) (auto intro: preserved)

end

declare ip4_def [witness_eval] cidr_def [witness_eval] u16_of_be_def [witness_eval]
  u32_of_be_def [witness_eval] u16_be_def [witness_eval] u32_be_def [witness_eval]
  mask_numeral [witness_eval]

end
