(* ===== verification/Address_Scan.thy ===== *)
theory Address_Scan
  imports Prelude
begin

text \<open>
  Looking for a free address: the loop \<open>for i in start..end\<close> with \<open>continue\<close> on a taken address, which
  the local allocator and the lease authority share.  \<open>ip_allocator\<close> is the contract of an allocator
  built on it.
\<close>

function scan_ip :: "(ipv4 \<Rightarrow> bool) \<Rightarrow> u32 \<Rightarrow> u32 \<Rightarrow> ipv4 option" where
  "scan_ip taken i e = (if i < e then if taken i then scan_ip taken (i + 1) e else Some i else None)"
  by pat_completeness auto
termination
proof (relation "measure (\<lambda>(_, i, e). unat e - unat i)")
  fix taken :: "ipv4 \<Rightarrow> bool" and i e :: u32
  assume "i < e"
  then have "unat i < unat e" "unat (i + 1) = Suc (unat i)"
    by (simp_all add: unat_add_1 word_less_nat_alt)
  then show "((taken, i + 1, e), taken, i, e) \<in> measure (\<lambda>(_, i, e). unat e - unat i)" by simp
qed simp

declare scan_ip.simps [simp del]

lemma scan_ip_Some:
  "scan_ip taken i e = Some a \<Longrightarrow>
   i \<le> a \<and> a < e \<and> \<not> taken a \<and> (\<forall>b. i \<le> b \<and> b < a \<longrightarrow> taken b)"
proof (induction taken i e rule: scan_ip.induct)
  case (1 taken i e)
  show ?case
  proof (cases "i < e \<and> taken i")
    case True
    then have s: "unat (i + 1) = Suc (unat i)" by (auto intro: unat_add_1)
    have "scan_ip taken (i + 1) e = Some a" using 1(2) True by (simp add: scan_ip.simps [of _ i])
    with 1(1) True have IH: "i + 1 \<le> a" "a < e" "\<not> taken a" "\<forall>b. i + 1 \<le> b \<and> b < a \<longrightarrow> taken b" by auto
    have "taken b" if "i \<le> b" "b < a" for b
    proof (cases "b = i")
      case False
      then have "i + 1 \<le> b" using that s by (simp add: word_le_nat_alt word_unat_eq_iff)
      then show ?thesis using IH(4) that by blast
    qed (use True in simp)
    with IH s show ?thesis by (auto simp: word_le_nat_alt)
  next
    case False
    then show ?thesis using 1(2) by (auto simp: scan_ip.simps [of _ i] split: if_splits)
  qed
qed

lemma scan_ip_None:
  "scan_ip taken i e = None \<longleftrightarrow> (\<forall>b. i \<le> b \<and> b < e \<longrightarrow> taken b)"
proof (induction taken i e rule: scan_ip.induct)
  case (1 taken i e)
  show ?case
  proof (cases "i < e \<and> taken i")
    case True
    then have s: "unat (i + 1) = Suc (unat i)" by (auto intro: unat_add_1)
    have "(i \<le> b) = (b = i \<or> i + 1 \<le> b)" for b
      using s by (auto simp: word_le_nat_alt word_unat_eq_iff)
    then show ?thesis using 1 True by (auto simp: scan_ip.simps [of _ i])
  next
    case False
    then show ?thesis by (auto simp: scan_ip.simps [of _ i])
  qed
qed

section \<open>The contract of an allocator\<close>

locale ip_allocator =
  fixes find_ip :: "'s \<Rightarrow> 'e + ipv4"
    and taken :: "'s \<Rightarrow> ipv4 \<Rightarrow> bool"
    and lo hi :: ipv4
    and exhausted :: 'e
  assumes by_scan: "find_ip s =
      (case scan_ip (taken s) (lo + 1) hi of None \<Rightarrow> Inl exhausted | Some a \<Rightarrow> Inr a)"
begin

lemma found_iff:
  assumes "lo \<noteq> - 1"
  shows "find_ip s = Inr a \<longleftrightarrow>
    lo < a \<and> a < hi \<and> \<not> taken s a \<and> (\<forall>b. lo < b \<and> b < a \<longrightarrow> taken s b)"
proof
  assume "find_ip s = Inr a"
  then have "scan_ip (taken s) (lo + 1) hi = Some a" by (auto simp: by_scan split: option.splits)
  from scan_ip_Some [OF this] show "lo < a \<and> a < hi \<and> \<not> taken s a \<and> (\<forall>b. lo < b \<and> b < a \<longrightarrow> taken s b)"
    by (simp add: add_1_le_iff assms)
next
  assume r: "lo < a \<and> a < hi \<and> \<not> taken s a \<and> (\<forall>b. lo < b \<and> b < a \<longrightarrow> taken s b)"
  then obtain c where c: "scan_ip (taken s) (lo + 1) hi = Some c"
    using scan_ip_None [of "taken s" "lo + 1" hi]
    by (cases "scan_ip (taken s) (lo + 1) hi") (auto simp: add_1_le_iff assms)
  from scan_ip_Some [OF c] have "c = a"
    using r by (metis add_1_le_iff assms not_less_iff_gr_or_eq)
  with c show "find_ip s = Inr a" by (simp add: by_scan)
qed

lemma exhausted_iff:
  assumes "lo \<noteq> - 1"
  shows "(\<exists>e. find_ip s = Inl e) \<longleftrightarrow> (\<forall>a. lo < a \<and> a < hi \<longrightarrow> taken s a)"
  using scan_ip_None [of "taken s" "lo + 1" hi]
  by (auto simp: by_scan add_1_le_iff assms split: option.splits)

lemma error_is_exhausted: "find_ip s = Inl e \<Longrightarrow> e = exhausted"
  by (auto simp: by_scan split: option.splits)

lemma free_address_suffices:
  assumes "lo \<noteq> - 1" "lo < a" "a < hi" "\<not> taken s a"
  obtains b where "find_ip s = Inr b" "b \<le> a"
proof (cases "find_ip s")
  case (Inl e)
  then show thesis using exhausted_iff [OF assms(1), of s] assms by blast
next
  case (Inr b)
  then show thesis using that found_iff [OF assms(1), of s b] assms by (meson not_le)
qed

end

end
