(* ===== verification/Std_Text.thy ===== *)
theory Std_Text
  imports Prelude
begin

text \<open>
  The text functions of the Rust standard library the program uses: the dotted decimal form of an
  IPv4 address (\<open>Ipv4Addr::to_string\<close> and its \<open>FromStr\<close> instance) and \<open>str::trim().is_empty()\<close>.  A
  string is the list of the bytes of its UTF-8 encoding.
\<close>

section \<open>Dotted decimal addresses\<close>

definition digit_char :: "nat \<Rightarrow> char" where
  "digit_char d = char_of (48 + d)"

definition is_digit :: "char \<Rightarrow> bool" where
  "is_digit c = (48 \<le> (of_char c :: nat) \<and> (of_char c :: nat) \<le> 57)"

definition digit_val :: "char \<Rightarrow> nat" where
  "digit_val c = of_char c - 48"

definition octet_to_string :: "nat \<Rightarrow> string" where
  "octet_to_string n =
     (if n < 10 then [digit_char n]
      else if n < 100 then [digit_char (n div 10), digit_char (n mod 10)]
      else [digit_char (n div 100), digit_char (n div 10 mod 10), digit_char (n mod 10)])"

definition octet :: "nat \<Rightarrow> ipv4 \<Rightarrow> nat" where
  "octet i a = unat a div 256 ^ (3 - i) mod 256"

definition ipv4_to_string :: "ipv4 \<Rightarrow> string" where
  "ipv4_to_string a =
     octet_to_string (octet 0 a) @ ''.'' @ octet_to_string (octet 1 a) @ ''.'' @
     octet_to_string (octet 2 a) @ ''.'' @ octet_to_string (octet 3 a)"

text \<open>One octet: one to three digits, no leading zero before another digit, at most 255.\<close>

definition parse_octet :: "string \<Rightarrow> (nat \<times> string) option" where
  "parse_octet s =
     (let ds = takeWhile is_digit s; v = foldl (\<lambda>a c. a * 10 + digit_val c) 0 ds
      in if ds = [] \<or> length ds > 3 \<or> (length ds > 1 \<and> digit_val (hd ds) = 0) \<or> v > 255 then None
         else Some (v, dropWhile is_digit s))"

definition parse_dot :: "string \<Rightarrow> string option" where
  "parse_dot s = (case s of c # r \<Rightarrow> if c = CHR ''.'' then Some r else None | [] \<Rightarrow> None)"

definition read_ipv4 :: "string \<Rightarrow> (ipv4 \<times> string) option" where
  "read_ipv4 s =
     (case parse_octet s of None \<Rightarrow> None | Some (a, s) \<Rightarrow>
      case parse_dot s of None \<Rightarrow> None | Some s \<Rightarrow>
      case parse_octet s of None \<Rightarrow> None | Some (b, s) \<Rightarrow>
      case parse_dot s of None \<Rightarrow> None | Some s \<Rightarrow>
      case parse_octet s of None \<Rightarrow> None | Some (c, s) \<Rightarrow>
      case parse_dot s of None \<Rightarrow> None | Some s \<Rightarrow>
      case parse_octet s of None \<Rightarrow> None | Some (d, s) \<Rightarrow> Some (ip4 a b c d, s))"

definition ipv4_parse :: "string \<Rightarrow> ipv4 option" where
  "ipv4_parse s =
     (if length s > 15 then None
      else case read_ipv4 s of Some (a, []) \<Rightarrow> Some a | _ \<Rightarrow> None)"

section \<open>Blank strings\<close>

text \<open>\<open>trim\<close> removes the code points with the Unicode property White\_Space, here in their UTF-8
  encodings.  \<open>strip_ws\<close> drops one such code point.\<close>

definition strip_ws :: "string \<Rightarrow> string option" where
  "strip_ws s =
     (case map (of_char :: char \<Rightarrow> nat) (take 3 s) of
        [] \<Rightarrow> None
      | a # r \<Rightarrow>
          if 9 \<le> a \<and> a \<le> 13 \<or> a = 32 then Some (drop 1 s)
          else if a = 0xC2 \<and> r \<noteq> [] \<and> (hd r = 0x85 \<or> hd r = 0xA0) then Some (drop 2 s)
          else if length r = 2 \<and>
                  (a = 0xE1 \<and> r = [0x9A, 0x80] \<or>
                   a = 0xE2 \<and> hd r = 0x80 \<and>
                     (0x80 \<le> r ! 1 \<and> r ! 1 \<le> 0x8A \<or> r ! 1 = 0xA8 \<or> r ! 1 = 0xA9 \<or> r ! 1 = 0xAF) \<or>
                   a = 0xE2 \<and> r = [0x81, 0x9F] \<or>
                   a = 0xE3 \<and> r = [0x80, 0x80]) then Some (drop 3 s)
          else None)"

lemma strip_ws_length: "strip_ws s = Some t \<Longrightarrow> length t < length s"
  by (cases s) (auto simp: strip_ws_def Let_def split: if_splits)

function str_blank :: "string \<Rightarrow> bool" where
  "str_blank s = (if s = [] then True else case strip_ws s of None \<Rightarrow> False | Some t \<Rightarrow> str_blank t)"
  by pat_completeness auto
termination
  by (relation "measure length") (auto dest: strip_ws_length)

declare str_blank.simps [simp del]

section \<open>Round trip of addresses\<close>

lemma digit_char [simp]:
  assumes "d < 10"
  shows "is_digit (digit_char d)" "digit_val (digit_char d) = d"
  using assms by (simp_all add: is_digit_def digit_val_def digit_char_def)

lemma octet_less [simp]: "octet i a < 256"
  by (simp add: octet_def)

lemma octet_to_string_length: "length (octet_to_string n) \<le> 3"
  by (simp add: octet_to_string_def)

lemma parse_octet_to_string:
  assumes "n < 256" "rest = [] \<or> \<not> is_digit (hd rest)"
  shows "parse_octet (octet_to_string n @ rest) = Some (n, rest)"
proof -
  have r: "takeWhile is_digit rest = []" "dropWhile is_digit rest = rest"
    using assms(2) by (cases rest; simp)+
  consider "n < 10" | "10 \<le> n" "n < 100" | "100 \<le> n" by linarith
  then show ?thesis
  proof cases
    case 1
    then show ?thesis using assms r by (simp add: parse_octet_def octet_to_string_def Let_def)
  next
    case 2
    then have "n div 10 < 10" "n mod 10 < 10" "n div 10 \<noteq> 0" by auto
    with 2 show ?thesis using assms r by (simp add: parse_octet_def octet_to_string_def Let_def)
  next
    case 3
    then have d: "n div 100 < 10" "n div 10 mod 10 < 10" "n mod 10 < 10" "n div 100 \<noteq> 0"
      using assms by auto
    have "n div 100 * 10 + n div 10 mod 10 = n div 10" by (simp add: div_mult2_eq [of n 10 10, simplified])
    then have "(n div 100 * 10 + n div 10 mod 10) * 10 + n mod 10 = n" by simp
    with 3 d show ?thesis using assms r by (simp add: parse_octet_def octet_to_string_def Let_def)
  qed
qed

lemma not_digit_dot [simp]: "\<not> is_digit (CHR ''.'')"
  by (simp add: is_digit_def)

lemma ip4_octets: "ip4 (octet 0 a) (octet 1 a) (octet 2 a) (octet 3 a) = a"
proof -
  let ?n = "unat a"
  have "?n < 256 * (256 * (256 * 256))" using unsigned_less [of a] by simp
  then have "?n div 16777216 mod 256 = ?n div 16777216" by (simp add: less_mult_imp_div_less)
  moreover have "?n = ?n div 256 * 256 + ?n mod 256" by simp
  moreover have "?n div 256 = ?n div 65536 * 256 + ?n div 256 mod 256"
    by (simp add: div_mult2_eq [of ?n 256 256, simplified])
  moreover have "?n div 65536 = ?n div 16777216 * 256 + ?n div 65536 mod 256"
    by (simp add: div_mult2_eq [of ?n 65536 256, simplified])
  ultimately have "((octet 0 a * 256 + octet 1 a) * 256 + octet 2 a) * 256 + octet 3 a = ?n"
    by (simp add: octet_def)
  then show ?thesis by (simp add: ip4_def)
qed

lemma read_ipv4_to_string:
  assumes "rest = [] \<or> \<not> is_digit (hd rest)"
  shows "read_ipv4 (ipv4_to_string a @ rest) = Some (a, rest)"
proof -
  have "parse_octet (octet_to_string (octet i a) @ CHR ''.'' # r) =
      Some (octet i a, CHR ''.'' # r)" for i r
    by (rule parse_octet_to_string) simp_all
  moreover have "parse_octet (octet_to_string (octet 3 a) @ rest) = Some (octet 3 a, rest)"
    using assms by (intro parse_octet_to_string) simp_all
  ultimately show ?thesis
    by (simp add: read_ipv4_def ipv4_to_string_def parse_dot_def ip4_octets [simplified])
qed

lemma ipv4_parse_to_string: "ipv4_parse (ipv4_to_string a) = Some a"
proof -
  have "length (ipv4_to_string a) \<le> 15"
    using octet_to_string_length [of "octet 0 a"] octet_to_string_length [of "octet 1 a"]
      octet_to_string_length [of "octet 2 a"] octet_to_string_length [of "octet 3 a"]
    by (simp add: ipv4_to_string_def)
  with read_ipv4_to_string [of "[]" a] show ?thesis by (simp add: ipv4_parse_def)
qed

end
