(* ===== verification/Control_Message.thy ===== *)
theory Control_Message
  imports Prelude
begin

text \<open>
  Control messages between client and server
  (official-vnts-source-2.0.0/src/protocol/control_message.rs).

  The protobuf structs and their codec are generated by the build from proto/control_message.proto.
  The structs appear as records with the fields of the schema; the generated functions (encode,
  decode and the enum accessors, which map an unknown number to the first variant) are the fields
  of the record \<open>proto_codec\<close>, an argument of the definitions that use them.
\<close>

section \<open>Messages\<close>

definition CLIENT_CAP_WIREGUARD_SUBNET_RELAY :: u64 where
  "CLIENT_CAP_WIREGUARD_SUBNET_RELAY = 1"

definition CLIENT_CAP_WIREGUARD_BROADCAST_RELAY :: u64 where
  "CLIENT_CAP_WIREGUARD_BROADCAST_RELAY = 2"

definition CLIENT_CAP_WIREGUARD_EXTENDED_RELAY :: u64 where
  "CLIENT_CAP_WIREGUARD_EXTENDED_RELAY =
     CLIENT_CAP_WIREGUARD_SUBNET_RELAY OR CLIENT_CAP_WIREGUARD_BROADCAST_RELAY"

datatype registration_mode = Normal | PreRegister

datatype node_type = NodeVnt | NodeWireguard

record wireguard_p2p_registration =
  p2p_public_key :: bytes
  p2p_port :: u16

record reg_request_msg =
  rq_network_code :: string
  rq_device_id :: string
  rq_ip :: "ipv4 option"
  rq_name :: string
  rq_version :: string
  rq_key_sign :: "string option"
  rq_ip_variable :: bool
  rq_server_id :: u32
  rq_registration_mode :: registration_mode
  rq_allow_wire_guard :: bool
  rq_wireguard_p2p :: "wireguard_p2p_registration option"
  rq_client_capabilities :: u64

record proto_reg_request_msg =
  pr_network_code :: string
  pr_device_id :: string
  pr_ip :: "u32 option"
  pr_name :: string
  pr_version :: string
  pr_key_sign :: "string option"
  pr_ip_variable :: bool
  pr_server_id :: u32
  pr_registration_mode :: u32
  pr_allow_wire_guard :: bool
  pr_wireguard_p2p_public_key :: bytes
  pr_wireguard_p2p_port :: u32
  pr_client_capabilities :: u64

record reg_response_msg =
  rs_ip :: ipv4
  rs_prefix_len :: u8
  rs_gateway :: ipv4
  rs_server_version :: string

record proto_reg_response_msg =
  prs_ip :: u32
  prs_prefix_len :: u32
  prs_gateway :: u32
  prs_server_version :: string

datatype request_message = ReqReg reg_request_msg | ReqConfirmReg

datatype proto_request_payload = PReqReg proto_reg_request_msg | PReqConfirmReg

datatype response_message =
    ResReg reg_response_msg
  | ResError u32 string
  | ResConfirmReg bool

datatype proto_response_payload =
    PResReg proto_reg_response_msg
  | PResError u32 string
  | PResConfirmReg bool

record selective_broadcast =
  sb_ips :: "ipv4 hset"
  sb_data :: bytes

record proto_selective_broadcast =
  psb_ips :: "u32 list"
  psb_data :: bytes

record client_simple_info =
  ci_ip :: ipv4
  ci_online :: bool
  ci_node_type :: node_type

record proto_client_simple_info =
  pci_ip :: u32
  pci_online :: bool
  pci_node_type :: u32

record client_simple_info_list =
  cl_data_version :: u64
  cl_list :: "client_simple_info list"
  cl_is_all :: bool
  cl_time :: i64

record proto_client_simple_info_list =
  pcl_data_version :: u64
  pcl_list :: "proto_client_simple_info list"
  pcl_is_all :: bool
  pcl_time :: i64

datatype message_error =
    NetworkCodeEmpty | NetworkCodeTooLong nat
  | DeviceIdEmpty | DeviceIdTooLong nat
  | NameTooLong nat | VersionTooLong nat
  | P2pRequiresAllowWireGuard | CapabilitiesRequireAllowWireGuard
  | InvalidP2pRegistration | DecodeError | Unsupported

section \<open>The generated codec\<close>

record proto_codec =
  pc_registration_mode :: "u32 \<Rightarrow> registration_mode"
  pc_node_type :: "u32 \<Rightarrow> node_type"
  pc_encode_request :: "proto_request_payload option \<Rightarrow> bytes"
  pc_decode_request :: "bytes \<Rightarrow> proto_request_payload option option"
  pc_encode_response :: "proto_response_payload option \<Rightarrow> bytes"
  pc_encode_broadcast :: "proto_selective_broadcast \<Rightarrow> bytes"
  pc_decode_broadcast :: "bytes \<Rightarrow> proto_selective_broadcast option"
  pc_encode_client_list :: "proto_client_simple_info_list \<Rightarrow> bytes"
  pc_decode_client_list :: "bytes \<Rightarrow> proto_client_simple_info_list option"

fun registration_mode_i32 :: "registration_mode \<Rightarrow> u32" where
  "registration_mode_i32 Normal = 0"
| "registration_mode_i32 PreRegister = 1"

fun node_type_i32 :: "node_type \<Rightarrow> u32" where
  "node_type_i32 NodeVnt = 0"
| "node_type_i32 NodeWireguard = 1"

text \<open>Documented behaviour of the generated enum accessors: the number of a variant is read back as
  that variant.\<close>

definition codec_enums_ok :: "proto_codec \<Rightarrow> bool" where
  "codec_enums_ok C \<longleftrightarrow>
     (\<forall>m. pc_registration_mode C (registration_mode_i32 m) = m) \<and>
     (\<forall>t. pc_node_type C (node_type_i32 t) = t)"

section \<open>Registration requests\<close>

definition MAX_NETWORK_CODE_LEN :: nat where
  "MAX_NETWORK_CODE_LEN = 32"

definition MAX_DEVICE_ID_LEN :: nat where
  "MAX_DEVICE_ID_LEN = 64"

definition MAX_NAME_LEN :: nat where
  "MAX_NAME_LEN = 128"

definition MAX_VERSION_LEN :: nat where
  "MAX_VERSION_LEN = 32"

definition reg_request_check :: "reg_request_msg \<Rightarrow> message_error + unit" where
  "reg_request_check m =
     (if rq_network_code m = [] then Inl NetworkCodeEmpty
      else if length (rq_network_code m) > MAX_NETWORK_CODE_LEN
      then Inl (NetworkCodeTooLong (length (rq_network_code m)))
      else if rq_device_id m = [] then Inl DeviceIdEmpty
      else if length (rq_device_id m) > MAX_DEVICE_ID_LEN
      then Inl (DeviceIdTooLong (length (rq_device_id m)))
      else if length (rq_name m) > MAX_NAME_LEN then Inl (NameTooLong (length (rq_name m)))
      else if length (rq_version m) > MAX_VERSION_LEN
      then Inl (VersionTooLong (length (rq_version m)))
      else if rq_wireguard_p2p m \<noteq> None \<and> \<not> rq_allow_wire_guard m
      then Inl P2pRequiresAllowWireGuard
      else if rq_client_capabilities m AND CLIENT_CAP_WIREGUARD_EXTENDED_RELAY \<noteq> 0
              \<and> \<not> rq_allow_wire_guard m
      then Inl CapabilitiesRequireAllowWireGuard
      else Inr ())"

definition reg_request_from ::
  "proto_codec \<Rightarrow> proto_reg_request_msg \<Rightarrow> message_error + reg_request_msg" where
  "reg_request_from C msg =
     (let registration_mode = pc_registration_mode C (pr_registration_mode msg);
          key = pr_wireguard_p2p_public_key msg;
          port = pr_wireguard_p2p_port msg;
          p2p = (if key = [] \<and> port = 0 then Inr None
                 else if 1 \<le> port \<and> port \<le> 65535 \<and> length key = 32
                 then Inr (Some \<lparr>p2p_public_key = key, p2p_port = ucast port\<rparr>)
                 else Inl InvalidP2pRegistration)
      in case p2p of
           Inl e \<Rightarrow> Inl e
         | Inr wireguard_p2p \<Rightarrow>
             Inr \<lparr>rq_network_code = pr_network_code msg,
                  rq_device_id = pr_device_id msg,
                  rq_ip = pr_ip msg,
                  rq_name = pr_name msg,
                  rq_version = pr_version msg,
                  rq_key_sign = pr_key_sign msg,
                  rq_ip_variable = pr_ip_variable msg,
                  rq_server_id = pr_server_id msg,
                  rq_registration_mode = registration_mode,
                  rq_allow_wire_guard = pr_allow_wire_guard msg,
                  rq_wireguard_p2p = wireguard_p2p,
                  rq_client_capabilities = pr_client_capabilities msg\<rparr>)"

definition reg_request_to :: "reg_request_msg \<Rightarrow> proto_reg_request_msg" where
  "reg_request_to m =
     (let (key, port) = (case rq_wireguard_p2p m of
                           None \<Rightarrow> ([], 0)
                         | Some r \<Rightarrow> (p2p_public_key r, ucast (p2p_port r)))
      in \<lparr>pr_network_code = rq_network_code m,
          pr_device_id = rq_device_id m,
          pr_ip = rq_ip m,
          pr_name = rq_name m,
          pr_version = rq_version m,
          pr_key_sign = rq_key_sign m,
          pr_ip_variable = rq_ip_variable m,
          pr_server_id = rq_server_id m,
          pr_registration_mode = registration_mode_i32 (rq_registration_mode m),
          pr_allow_wire_guard = rq_allow_wire_guard m,
          pr_wireguard_p2p_public_key = key,
          pr_wireguard_p2p_port = port,
          pr_client_capabilities = rq_client_capabilities m\<rparr>)"

section \<open>Requests and responses\<close>

definition reg_response_to :: "reg_response_msg \<Rightarrow> proto_reg_response_msg" where
  "reg_response_to m =
     \<lparr>prs_ip = rs_ip m, prs_prefix_len = ucast (rs_prefix_len m), prs_gateway = rs_gateway m,
      prs_server_version = rs_server_version m\<rparr>"

definition request_from_slice :: "proto_codec \<Rightarrow> bytes \<Rightarrow> message_error + request_message" where
  "request_from_slice C buf =
     (case pc_decode_request C buf of
        None \<Rightarrow> Inl DecodeError
      | Some None \<Rightarrow> Inl Unsupported
      | Some (Some (PReqReg reg)) \<Rightarrow>
          (case reg_request_from C reg of Inl e \<Rightarrow> Inl e | Inr r \<Rightarrow> Inr (ReqReg r))
      | Some (Some PReqConfirmReg) \<Rightarrow> Inr ReqConfirmReg)"

definition request_encode :: "proto_codec \<Rightarrow> request_message \<Rightarrow> bytes" where
  "request_encode C m =
     pc_encode_request C (Some (case m of
        ReqReg reg \<Rightarrow> PReqReg (reg_request_to reg)
      | ReqConfirmReg \<Rightarrow> PReqConfirmReg))"

definition response_encode :: "proto_codec \<Rightarrow> response_message \<Rightarrow> bytes" where
  "response_encode C m =
     pc_encode_response C (Some (case m of
        ResReg reg \<Rightarrow> PResReg (reg_response_to reg)
      | ResError code message \<Rightarrow> PResError code message
      | ResConfirmReg success \<Rightarrow> PResConfirmReg success))"

definition selective_broadcast_from_slice ::
  "proto_codec \<Rightarrow> bytes \<Rightarrow> message_error + selective_broadcast" where
  "selective_broadcast_from_slice C buf =
     (case pc_decode_broadcast C buf of
        None \<Rightarrow> Inl DecodeError
      | Some msg \<Rightarrow> Inr \<lparr>sb_ips = remdups (psb_ips msg), sb_data = psb_data msg\<rparr>)"

definition selective_broadcast_encode :: "proto_codec \<Rightarrow> selective_broadcast \<Rightarrow> bytes" where
  "selective_broadcast_encode C m =
     pc_encode_broadcast C \<lparr>psb_ips = sb_ips m, psb_data = sb_data m\<rparr>"

definition client_simple_info_from ::
  "proto_codec \<Rightarrow> proto_client_simple_info \<Rightarrow> client_simple_info" where
  "client_simple_info_from C msg =
     \<lparr>ci_ip = pci_ip msg, ci_online = pci_online msg,
      ci_node_type = pc_node_type C (pci_node_type msg)\<rparr>"

definition client_simple_info_to :: "client_simple_info \<Rightarrow> proto_client_simple_info" where
  "client_simple_info_to m =
     \<lparr>pci_ip = ci_ip m, pci_online = ci_online m, pci_node_type = node_type_i32 (ci_node_type m)\<rparr>"

definition client_list_from_slice ::
  "proto_codec \<Rightarrow> bytes \<Rightarrow> message_error + client_simple_info_list" where
  "client_list_from_slice C buf =
     (case pc_decode_client_list C buf of
        None \<Rightarrow> Inl DecodeError
      | Some msg \<Rightarrow>
          Inr \<lparr>cl_data_version = pcl_data_version msg,
               cl_list = map (client_simple_info_from C) (pcl_list msg),
               cl_is_all = pcl_is_all msg, cl_time = pcl_time msg\<rparr>)"

definition client_list_to :: "client_simple_info_list \<Rightarrow> proto_client_simple_info_list" where
  "client_list_to m =
     \<lparr>pcl_data_version = cl_data_version m, pcl_list = map client_simple_info_to (cl_list m),
      pcl_is_all = cl_is_all m, pcl_time = cl_time m\<rparr>"

definition client_list_encode :: "proto_codec \<Rightarrow> client_simple_info_list \<Rightarrow> bytes" where
  "client_list_encode C m = pc_encode_client_list C (client_list_to m)"

section \<open>Round trips\<close>

text \<open>The values a RegRequestMsg can take in Rust: the key is an array of 32 bytes.  A port of zero is
  representable but never produced by \<open>from\<close>.\<close>

definition p2p_registration_ok :: "wireguard_p2p_registration \<Rightarrow> bool" where
  "p2p_registration_ok r = (length (p2p_public_key r) = 32 \<and> p2p_port r \<noteq> 0)"

lemma port_range: "1 \<le> (ucast (p :: u16) :: u32) \<and> (ucast p :: u32) \<le> 65535" if "p \<noteq> 0"
proof -
  have "unat p < 65536" using unsigned_less [of p] by simp
  moreover have "unat p \<noteq> 0" using that by (simp add: unat_eq_0)
  ultimately show ?thesis by (simp add: word_le_nat_alt unsigned_ucast_eq take_bit_nat_eq_self)
qed

lemma ucast_port [simp]: "(ucast (ucast (p :: u16) :: u32) :: u16) = p"
  by (auto intro!: bit_word_eqI simp: bit_simps)

lemma reg_request_from_to:
  assumes "codec_enums_ok C" "\<forall>r. rq_wireguard_p2p m = Some r \<longrightarrow> p2p_registration_ok r"
  shows "reg_request_from C (reg_request_to m) = Inr m"
proof (cases "rq_wireguard_p2p m")
  case None
  then show ?thesis
    using assms(1) by (simp add: reg_request_from_def reg_request_to_def codec_enums_ok_def)
next
  case (Some r)
  then have r: "length (p2p_public_key r) = 32" "p2p_port r \<noteq> 0"
    using assms(2) by (simp_all add: p2p_registration_ok_def)
  then have "p2p_public_key r \<noteq> []" by auto
  with Some r port_range [OF r(2)] show ?thesis
    using assms(1) by (simp add: reg_request_from_def reg_request_to_def codec_enums_ok_def)
qed

lemma reg_request_from_p2p:
  "(\<exists>m. reg_request_from C q = Inr m) \<longleftrightarrow>
     pr_wireguard_p2p_public_key q = [] \<and> pr_wireguard_p2p_port q = 0 \<or>
     length (pr_wireguard_p2p_public_key q) = 32 \<and> 1 \<le> pr_wireguard_p2p_port q \<and>
       pr_wireguard_p2p_port q \<le> 65535"
  by (auto simp: reg_request_from_def Let_def)

lemma client_simple_info_from_to:
  "codec_enums_ok C \<Longrightarrow> client_simple_info_from C (client_simple_info_to i) = i"
  by (simp add: client_simple_info_from_def client_simple_info_to_def codec_enums_ok_def)

section \<open>Properties\<close>

text \<open>\<open>RegRequestMsg::check\<close> accepts a registration exactly when the network code and the device
  identifier are non empty, all texts are within their limits, and a client that did not opt in to
  WireGuard announces neither a direct WireGuard endpoint nor a WireGuard relay capability.\<close>

theorem reg_request_check_exact:
  "reg_request_check m = Inr () \<longleftrightarrow>
     0 < length (rq_network_code m) \<and> length (rq_network_code m) \<le> 32 \<and>
     0 < length (rq_device_id m) \<and> length (rq_device_id m) \<le> 64 \<and>
     length (rq_name m) \<le> 128 \<and> length (rq_version m) \<le> 32 \<and>
     (rq_allow_wire_guard m \<or>
      rq_wireguard_p2p m = None \<and> rq_client_capabilities m AND 1 = 0 \<and>
      rq_client_capabilities m AND 2 = 0)"
proof -
  have "(c AND 3 = 0) = (c AND 1 = 0 \<and> c AND 2 = 0)" for c :: u64
  proof -
    have "c AND 3 = (c AND 1) OR (c AND 2)" by (simp add: bit.conj_disj_distrib [symmetric])
    then show ?thesis by (simp add: or_eq_0_iff)
  qed
  then show ?thesis
    by (auto simp: reg_request_check_def MAX_NETWORK_CODE_LEN_def MAX_DEVICE_ID_LEN_def
        MAX_NAME_LEN_def MAX_VERSION_LEN_def CLIENT_CAP_WIREGUARD_EXTENDED_RELAY_def
        CLIENT_CAP_WIREGUARD_SUBNET_RELAY_def CLIENT_CAP_WIREGUARD_BROADCAST_RELAY_def)
qed

text \<open>Decoding an encoded registration or client list gives it back, provided the protobuf codec
  does so for the generated message and the direct WireGuard endpoint, if any, has a 32 byte key and
  a non zero port; and a registration on the wire is refused exactly when its key and port are
  neither both absent nor both valid.\<close>

theorem message_round_trip:
  assumes "codec_enums_ok C"
    and "\<forall>r. rq_wireguard_p2p m = Some r \<longrightarrow> p2p_registration_ok r"
    and "pc_decode_request C (pc_encode_request C (Some (PReqReg (reg_request_to m)))) =
           Some (Some (PReqReg (reg_request_to m)))"
    and "pc_decode_request C buf = Some (Some (PReqReg q))"
    and "pc_decode_client_list C (pc_encode_client_list C (client_list_to l)) = Some (client_list_to l)"
  shows "request_from_slice C (request_encode C (ReqReg m)) = Inr (ReqReg m) \<and>
    client_list_from_slice C (client_list_encode C l) = Inr l \<and>
    ((\<exists>e. request_from_slice C buf = Inl e) \<longleftrightarrow>
      \<not> (pr_wireguard_p2p_public_key q = [] \<and> pr_wireguard_p2p_port q = 0 \<or>
         length (pr_wireguard_p2p_public_key q) = 32 \<and> 1 \<le> pr_wireguard_p2p_port q \<and>
           pr_wireguard_p2p_port q \<le> 65535))"
proof (intro conjI)
  show "request_from_slice C (request_encode C (ReqReg m)) = Inr (ReqReg m)"
    using assms(3) reg_request_from_to [OF assms(1,2)]
    by (simp add: request_from_slice_def request_encode_def)
  have "map (client_simple_info_from C \<circ> client_simple_info_to) (cl_list l) = cl_list l"
    by (simp add: client_simple_info_from_to [OF assms(1)] o_def)
  then show "client_list_from_slice C (client_list_encode C l) = Inr l"
    using assms(5) by (simp add: client_list_from_slice_def client_list_encode_def client_list_to_def)
  have "(\<exists>e. request_from_slice C buf = Inl e) \<longleftrightarrow> \<not> (\<exists>m. reg_request_from C q = Inr m)"
    using assms(4) by (auto simp: request_from_slice_def split: sum.split)
  then show "(\<exists>e. request_from_slice C buf = Inl e) \<longleftrightarrow>
      \<not> (pr_wireguard_p2p_public_key q = [] \<and> pr_wireguard_p2p_port q = 0 \<or>
         length (pr_wireguard_p2p_public_key q) = 32 \<and> 1 \<le> pr_wireguard_p2p_port q \<and>
           pr_wireguard_p2p_port q \<le> 65535)"
    by (simp add: reg_request_from_p2p)
qed

definition wit_request :: reg_request_msg where
  "wit_request = \<lparr>rq_network_code = ''net'', rq_device_id = ''dev'', rq_ip = None, rq_name = ''d'',
     rq_version = ''2'', rq_key_sign = None, rq_ip_variable = False, rq_server_id = 0,
     rq_registration_mode = Normal, rq_allow_wire_guard = True,
     rq_wireguard_p2p = Some \<lparr>p2p_public_key = replicate 32 7, p2p_port = 51820\<rparr>,
     rq_client_capabilities = 3\<rparr>"

definition wit_client_list :: client_simple_info_list where
  "wit_client_list = \<lparr>cl_data_version = 4,
     cl_list = [\<lparr>ci_ip = ip4 10 26 0 2, ci_online = True, ci_node_type = NodeWireguard\<rparr>],
     cl_is_all = True, cl_time = 0\<rparr>"

definition wit_codec :: proto_codec where
  "wit_codec = \<lparr>pc_registration_mode = (\<lambda>i. if i = 1 then PreRegister else Normal),
     pc_node_type = (\<lambda>i. if i = 1 then NodeWireguard else NodeVnt),
     pc_encode_request = (\<lambda>_. [1]),
     pc_decode_request = (\<lambda>_. Some (Some (PReqReg (reg_request_to wit_request)))),
     pc_encode_response = (\<lambda>_. [2]), pc_encode_broadcast = (\<lambda>_. [3]),
     pc_decode_broadcast = (\<lambda>_. None), pc_encode_client_list = (\<lambda>_. [4]),
     pc_decode_client_list = (\<lambda>_. Some (client_list_to wit_client_list))\<rparr>"

lemma wit_codec_enums_ok: "codec_enums_ok wit_codec"
proof -
  have "pc_registration_mode wit_codec (registration_mode_i32 m) = m" for m
    by (cases m) (simp_all add: wit_codec_def)
  moreover have "pc_node_type wit_codec (node_type_i32 t) = t" for t
    by (cases t) (simp_all add: wit_codec_def)
  ultimately show ?thesis by (simp add: codec_enums_ok_def)
qed

theorem message_round_trip_witness:
  "request_from_slice wit_codec (request_encode wit_codec (ReqReg wit_request)) = Inr (ReqReg wit_request) \<and>
   client_list_from_slice wit_codec (client_list_encode wit_codec wit_client_list) = Inr wit_client_list"
proof -
  have "\<forall>r. rq_wireguard_p2p wit_request = Some r \<longrightarrow> p2p_registration_ok r"
    by (simp add: wit_request_def p2p_registration_ok_def)
  moreover have "pc_decode_request wit_codec b = Some (Some (PReqReg (reg_request_to wit_request)))"
    "pc_decode_client_list wit_codec b = Some (client_list_to wit_client_list)" for b
    by (simp_all add: wit_codec_def)
  ultimately show ?thesis
    using message_round_trip [OF wit_codec_enums_ok, of wit_request "[]" _ wit_client_list] by simp
qed

end
