(* ===== verification/Lease_State.thy ===== *)
theory Lease_State
  imports Address_Scan Std_Text Control_Message
begin

text \<open>
  The address leases of one virtual network: DeviceEntry and NetworkStateInner
  (official-vnts-source-2.0.0/src/server/network_state_provider.rs).

  \<open>lease_state\<close> is the struct guarded by the mutex \<open>lease_state\<close> of NetworkState; each of its methods
  is one function here, so each runs atomically.  \<open>Arc<TrafficStats>\<close> objects are shared between the
  device entries and the traffic map of NetworkState; they live in an explicit store
  (\<open>stats_store\<close>, with \<open>next_stats\<close> the next unused reference), and an entry holds the reference.
  The results of \<open>SystemTime::now()\<close> are arguments.  A SystemTime is the number of nanoseconds since
  the Unix epoch.

  \<open>lease_inv\<close> is the invariant: the index \<open>device_ip_map\<close> points to the holder of every lease inside
  the network, and no address is both leased to a device and reserved for a WireGuard peer.
\<close>

section \<open>Device entries\<close>

type_synonym system_time = int

record traffic_stats =
  tx_total_bytes :: u64
  rx_total_bytes :: u64

definition traffic_stats_new :: traffic_stats where
  "traffic_stats_new = \<lparr>tx_total_bytes = 0, rx_total_bytes = 0\<rparr>"

definition add_tx :: "u64 \<Rightarrow> traffic_stats \<Rightarrow> traffic_stats" where
  "add_tx n s = s\<lparr>tx_total_bytes := tx_total_bytes s + n\<rparr>"

definition add_rx :: "u64 \<Rightarrow> traffic_stats \<Rightarrow> traffic_stats" where
  "add_rx n s = s\<lparr>rx_total_bytes := rx_total_bytes s + n\<rparr>"

record device_entry =
  de_device_id :: string
  de_ip :: "ipv4 option"
  de_random_id :: u64
  de_device_name :: string
  de_device_version :: string
  de_is_connected :: bool
  de_last_connect_time :: system_time
  de_disconnect_time :: "system_time option"
  de_data_version :: u64
  de_key_sign :: "string option"
  de_latency_ms :: "u32 option"
  de_traffic_stats :: nat

record device_record =
  dr_device_id :: string
  dr_network_code :: string
  dr_ip :: "string option"
  dr_device_name :: string
  dr_device_version :: string
  dr_last_connect_time :: i64
  dr_tx_bytes :: i64
  dr_rx_bytes :: i64

definition system_time_to_i64 :: "system_time \<Rightarrow> i64" where
  "system_time_to_i64 st = of_int ((if st < 0 then 0 else st) div 1000000000)"

definition i64_to_system_time :: "i64 \<Rightarrow> system_time" where
  "i64_to_system_time ts = uint ts * 1000000000"

section \<open>The state\<close>

record lease_state =
  data_version :: u64
  last_wireguard_change_version :: u64
  device_map :: "(string, device_entry) hmap"
  device_ip_map :: "(ipv4, string) hmap"
  wireguard_peer_ip_map :: "(ipv4, string) hmap"
  remote_wireguard_sources :: "(string, ipv4 hset) hmap"
  stats_store :: "(nat, traffic_stats) hmap"
  next_stats :: nat

datatype lease_error =
    IpIsGateway | IpOutsideNetwork
  | IpUsedByWireguardPeer string | IpUsedByDevice string string | IpServerDataError
  | IpUsedByVntDevice string
  | IpExhaustion

definition stats_at :: "lease_state \<Rightarrow> nat \<Rightarrow> traffic_stats" where
  "stats_at st r = (case hm_get (stats_store st) r of Some s \<Rightarrow> s | None \<Rightarrow> traffic_stats_new)"

text \<open>\<open>Arc::new\<close>: a fresh object in the store.\<close>

definition stats_alloc :: "traffic_stats \<Rightarrow> lease_state \<Rightarrow> nat \<times> lease_state" where
  "stats_alloc s st =
     (next_stats st, st\<lparr>stats_store := hm_insert (next_stats st) s (stats_store st),
                        next_stats := Suc (next_stats st)\<rparr>)"

definition from_record :: "system_time \<Rightarrow> device_record \<Rightarrow> nat \<Rightarrow> device_entry" where
  "from_record now r ref =
     \<lparr>de_device_id = dr_device_id r,
      de_ip = Option.bind (dr_ip r) ipv4_parse,
      de_random_id = 0,
      de_device_name = dr_device_name r,
      de_device_version = dr_device_version r,
      de_is_connected = False,
      de_last_connect_time = i64_to_system_time (dr_last_connect_time r),
      de_disconnect_time = Some now,
      de_data_version = 0,
      de_key_sign = None,
      de_latency_ms = None,
      de_traffic_stats = ref\<rparr>"

definition to_record :: "lease_state \<Rightarrow> string \<Rightarrow> device_entry \<Rightarrow> device_record" where
  "to_record st network_code e =
     \<lparr>dr_device_id = de_device_id e,
      dr_network_code = network_code,
      dr_ip = map_option ipv4_to_string (de_ip e),
      dr_device_name = de_device_name e,
      dr_device_version = de_device_version e,
      dr_last_connect_time = system_time_to_i64 (de_last_connect_time e),
      dr_tx_bytes = tx_total_bytes (stats_at st (de_traffic_stats e)),
      dr_rx_bytes = rx_total_bytes (stats_at st (de_traffic_stats e))\<rparr>"

section \<open>WireGuard reservations\<close>

definition wireguard_peer_ip :: "lease_state \<Rightarrow> string \<Rightarrow> ipv4 option" where
  "wireguard_peer_ip st peer_id = hm_find_key (\<lambda>owner. owner = peer_id) (wireguard_peer_ip_map st)"

definition prepare_wireguard_peer_ip_reservation ::
  "string \<Rightarrow> ipv4 \<Rightarrow> lease_state \<Rightarrow> (lease_error + ipv4 option) \<times> lease_state" where
  "prepare_wireguard_peer_ip_reservation peer_id ip st =
     (case hm_get (device_ip_map st) ip of
        Some device_id \<Rightarrow> (Inl (IpUsedByVntDevice device_id), st)
      | None \<Rightarrow>
          (case hm_get (wireguard_peer_ip_map st) ip of
             Some existing \<Rightarrow>
               if existing \<noteq> peer_id then (Inl (IpUsedByWireguardPeer existing), st)
               else (Inr (wireguard_peer_ip st peer_id),
                     st\<lparr>wireguard_peer_ip_map := hm_insert ip peer_id (wireguard_peer_ip_map st)\<rparr>)
           | None \<Rightarrow>
               (Inr (wireguard_peer_ip st peer_id),
                st\<lparr>wireguard_peer_ip_map := hm_insert ip peer_id (wireguard_peer_ip_map st)\<rparr>)))"

definition commit_wireguard_peer_ip_reservation ::
  "string \<Rightarrow> ipv4 \<Rightarrow> ipv4 option \<Rightarrow> lease_state \<Rightarrow> lease_state" where
  "commit_wireguard_peer_ip_reservation peer_id ip previous_ip st =
     (case previous_ip of
        None \<Rightarrow> st
      | Some previous \<Rightarrow>
          if previous \<noteq> ip \<and> hm_get (wireguard_peer_ip_map st) previous = Some peer_id
          then st\<lparr>wireguard_peer_ip_map := hm_remove previous (wireguard_peer_ip_map st)\<rparr>
          else st)"

definition rollback_wireguard_peer_ip_reservation ::
  "string \<Rightarrow> ipv4 \<Rightarrow> ipv4 option \<Rightarrow> lease_state \<Rightarrow> lease_state" where
  "rollback_wireguard_peer_ip_reservation peer_id ip previous_ip st =
     (if previous_ip \<noteq> Some ip \<and> hm_get (wireguard_peer_ip_map st) ip = Some peer_id
      then st\<lparr>wireguard_peer_ip_map := hm_remove ip (wireguard_peer_ip_map st)\<rparr>
      else st)"

definition inner_release_wireguard_peer_ip :: "string \<Rightarrow> lease_state \<Rightarrow> bool \<times> lease_state" where
  "inner_release_wireguard_peer_ip peer_id st =
     (let m = hm_retain (\<lambda>_ existing. existing \<noteq> peer_id) (wireguard_peer_ip_map st)
      in (length m \<noteq> length (wireguard_peer_ip_map st), st\<lparr>wireguard_peer_ip_map := m\<rparr>))"

section \<open>Devices\<close>

definition inner_offline_ip ::
  "string \<Rightarrow> string \<Rightarrow> ipv4 \<Rightarrow> u64 \<Rightarrow> system_time \<Rightarrow> lease_state \<Rightarrow>
   (bool \<times> device_record option) \<times> lease_state" where
  "inner_offline_ip network_code device_id ip random_id now st =
     (case hm_get (device_map st) device_id of
        None \<Rightarrow> ((False, None), st)
      | Some e \<Rightarrow>
          if de_random_id e \<noteq> random_id then ((False, None), st)
          else if de_ip e \<noteq> Some ip then ((False, None), st)
          else let v = data_version st + 1;
                   e' = e\<lparr>de_data_version := v, de_is_connected := False, de_disconnect_time := Some now\<rparr>;
                   st' = st\<lparr>data_version := v, device_map := hm_insert device_id e' (device_map st)\<rparr>
               in ((True, Some (to_record st' network_code e')), st'))"

definition inner_collect_expired_devices ::
  "nat \<Rightarrow> system_time \<Rightarrow> lease_state \<Rightarrow> string list" where
  "inner_collect_expired_devices lease_duration now st =
     map fst (filter (\<lambda>(k, v).
       \<not> de_is_connected v \<and>
       (case de_disconnect_time v of
          Some disconnect_time \<Rightarrow> \<not> disconnect_time + int lease_duration > now
        | None \<Rightarrow> False)) (device_map st))"

definition remove_device_step :: "string \<Rightarrow> lease_state \<Rightarrow> lease_state" where
  "remove_device_step device_id st =
     (case hm_get (device_map st) device_id of
        None \<Rightarrow> st
      | Some e \<Rightarrow>
          (let st = st\<lparr>device_map := hm_remove device_id (device_map st)\<rparr>
           in case de_ip e of
                None \<Rightarrow> st
              | Some ip \<Rightarrow> st\<lparr>device_ip_map := hm_remove ip (device_ip_map st)\<rparr>))"

definition inner_remove_devices :: "string list \<Rightarrow> lease_state \<Rightarrow> lease_state" where
  "inner_remove_devices device_ids st =
     (if device_ids = [] then st
      else fold remove_device_step device_ids (st\<lparr>data_version := data_version st + 1\<rparr>))"

definition add_device :: "device_entry \<Rightarrow> lease_state \<Rightarrow> lease_state" where
  "add_device e st =
     (let st = (case de_ip e of
                  None \<Rightarrow> st
                | Some ip \<Rightarrow> st\<lparr>device_ip_map := hm_insert ip (de_device_id e) (device_ip_map st)\<rparr>)
      in st\<lparr>device_map := hm_insert (de_device_id e) e (device_map st)\<rparr>)"

section \<open>Allocation\<close>

definition ip_taken :: "ipv4 \<Rightarrow> lease_state \<Rightarrow> ipv4 \<Rightarrow> bool" where
  "ip_taken gateway st ip =
     (ip = gateway \<or> hm_contains (device_ip_map st) ip \<or> hm_contains (wireguard_peer_ip_map st) ip)"

definition find_available_ip :: "ipv4_net \<Rightarrow> ipv4 \<Rightarrow> lease_state \<Rightarrow> lease_error + ipv4" where
  "find_available_ip net gateway st =
     (let start = net_network net + 1; end = net_broadcast net
      in case scan_ip (ip_taken gateway st) start end of
           Some ip \<Rightarrow> Inr ip
         | None \<Rightarrow> Inl IpExhaustion)"

text \<open>The entry both allocation branches build for a new lease, with a fresh statistics object.\<close>

definition add_new_device ::
  "reg_request_msg \<Rightarrow> ipv4 \<Rightarrow> u64 \<Rightarrow> system_time \<Rightarrow> lease_state \<Rightarrow> lease_state" where
  "add_new_device req ip random_id now st =
     (let st = st\<lparr>data_version := data_version st + 1\<rparr>;
          (ref, st) = stats_alloc traffic_stats_new st
      in add_device
           \<lparr>de_device_id = rq_device_id req, de_ip = Some ip, de_random_id = random_id,
            de_device_name = rq_name req, de_device_version = rq_version req,
            de_is_connected = True, de_last_connect_time = now, de_disconnect_time = None,
            de_data_version = data_version st, de_key_sign = rq_key_sign req,
            de_latency_ms = None, de_traffic_stats = ref\<rparr> st)"

text \<open>A known device that asks for no address or for the one it has.\<close>

definition reconnect_device ::
  "ipv4_net \<Rightarrow> ipv4 \<Rightarrow> reg_request_msg \<Rightarrow> u64 \<Rightarrow> system_time \<Rightarrow> device_entry \<Rightarrow> lease_state \<Rightarrow>
   (lease_error + ipv4 \<times> ipv4 option) \<times> lease_state" where
  "reconnect_device net gateway req random_id now e st =
     (let v = data_version st + 1;
          e' = e\<lparr>de_is_connected := True, de_disconnect_time := None, de_random_id := random_id,
                 de_last_connect_time := now, de_data_version := v, de_key_sign := rq_key_sign req\<rparr>;
          device_id = rq_device_id req
      in case de_ip e of
           Some current_ip \<Rightarrow>
             (Inr (current_ip, None),
              st\<lparr>data_version := v, device_map := hm_insert device_id e' (device_map st)\<rparr>)
         | None \<Rightarrow>
             (case find_available_ip net gateway st of
                Inl err \<Rightarrow> (Inl err, st)
              | Inr ip \<Rightarrow>
                  (Inr (ip, None),
                   st\<lparr>data_version := v,
                      device_map := hm_insert device_id (e'\<lparr>de_ip := Some ip\<rparr>) (device_map st),
                      device_ip_map := hm_insert ip (de_device_id e) (device_ip_map st)\<rparr>)))"

text \<open>The loop body that tries the requested address: None is the \<open>break\<close> to automatic allocation.\<close>

definition claim_requested_ip ::
  "ipv4_net \<Rightarrow> ipv4 \<Rightarrow> reg_request_msg \<Rightarrow> u64 \<Rightarrow> system_time \<Rightarrow> ipv4 option \<Rightarrow> ipv4 \<Rightarrow> lease_state \<Rightarrow>
   ((lease_error + ipv4 \<times> ipv4 option) \<times> lease_state) option" where
  "claim_requested_ip net gateway req random_id now old ip st =
     (if ip = gateway then
        if rq_ip_variable req then None else Some (Inl IpIsGateway, st)
      else if \<not> net_contains net ip then
        if rq_ip_variable req then None else Some (Inl IpOutsideNetwork, st)
      else case hm_get (wireguard_peer_ip_map st) ip of
        Some peer_id \<Rightarrow>
          if rq_ip_variable req then None else Some (Inl (IpUsedByWireguardPeer peer_id), st)
      | None \<Rightarrow>
      (case hm_get (device_ip_map st) ip of
        Some holder \<Rightarrow>
          if rq_ip_variable req then None
          else (case hm_get (device_map st) holder of
                  Some v \<Rightarrow> Some (Inl (IpUsedByDevice (de_device_name v) (de_device_id v)), st)
                | None \<Rightarrow> Some (Inl IpServerDataError, st))
      | None \<Rightarrow>
          let st = (case old of
                      Some old_ip \<Rightarrow> st\<lparr>device_ip_map := hm_remove old_ip (device_ip_map st)\<rparr>
                    | None \<Rightarrow> st)
          in Some (Inr (ip, old), add_new_device req ip random_id now st)))"

definition allocate_automatic ::
  "ipv4_net \<Rightarrow> ipv4 \<Rightarrow> reg_request_msg \<Rightarrow> u64 \<Rightarrow> system_time \<Rightarrow> ipv4 option \<Rightarrow> lease_state \<Rightarrow>
   (lease_error + ipv4 \<times> ipv4 option) \<times> lease_state" where
  "allocate_automatic net gateway req random_id now old st =
     (case find_available_ip net gateway st of
        Inl err \<Rightarrow> (Inl err, st)
      | Inr ip \<Rightarrow> (Inr (ip, old), add_new_device req ip random_id now st))"

definition allocate_ip ::
  "ipv4_net \<Rightarrow> ipv4 \<Rightarrow> reg_request_msg \<Rightarrow> u64 \<Rightarrow> system_time \<Rightarrow> lease_state \<Rightarrow>
   (lease_error + ipv4 \<times> ipv4 option) \<times> lease_state" where
  "allocate_ip net gateway req random_id now st =
     (let expect_ip = rq_ip req; existing = hm_get (device_map st) (rq_device_id req) in
      case existing of
        Some e \<Rightarrow>
          if expect_ip = None \<or> de_ip e = expect_ip
          then reconnect_device net gateway req random_id now e st
          else (case expect_ip of
                  Some ip \<Rightarrow>
                    (case claim_requested_ip net gateway req random_id now (de_ip e) ip st of
                       Some r \<Rightarrow> r
                     | None \<Rightarrow> allocate_automatic net gateway req random_id now (de_ip e) st)
                | None \<Rightarrow> allocate_automatic net gateway req random_id now (de_ip e) st)
      | None \<Rightarrow>
          (case expect_ip of
             Some ip \<Rightarrow>
               (case claim_requested_ip net gateway req random_id now None ip st of
                  Some r \<Rightarrow> r
                | None \<Rightarrow> allocate_automatic net gateway req random_id now None st)
           | None \<Rightarrow> allocate_automatic net gateway req random_id now None st))"

section \<open>Loading\<close>

text \<open>\<open>records\<close> and \<open>allocations\<close> are the results of the two database queries; None is a query that
  failed, which the code logs and treats as empty.\<close>

definition load_device ::
  "ipv4_net \<Rightarrow> ipv4 \<Rightarrow> system_time \<Rightarrow> device_record \<Rightarrow> lease_state \<Rightarrow> lease_state" where
  "load_device net gateway now r st =
     (let (ref, st) = stats_alloc \<lparr>tx_total_bytes = dr_tx_bytes r, rx_total_bytes = dr_rx_bytes r\<rparr> st;
          e = from_record now r ref;
          st = (case de_ip e of
                  Some ip \<Rightarrow>
                    if net_contains net ip \<and> gateway \<noteq> ip
                    then st\<lparr>device_ip_map := hm_insert ip (de_device_id e) (device_ip_map st)\<rparr>
                    else st
                | None \<Rightarrow> st)
      in st\<lparr>data_version := max (data_version st) (de_data_version e),
            device_map := hm_insert (de_device_id e) e (device_map st)\<rparr>)"

definition load_allocation :: "ipv4_net \<Rightarrow> ipv4 \<Rightarrow> ipv4 \<times> string \<Rightarrow> lease_state \<Rightarrow> lease_state" where
  "load_allocation net gateway a st =
     (case a of (ip, peer_id) \<Rightarrow>
        if net_contains net ip \<and> gateway \<noteq> ip
        then st\<lparr>wireguard_peer_ip_map := hm_insert ip peer_id (wireguard_peer_ip_map st)\<rparr>
        else st)"

definition empty_lease_state :: lease_state where
  "empty_lease_state =
     \<lparr>data_version = 0, last_wireguard_change_version = 0, device_map = [], device_ip_map = [],
      wireguard_peer_ip_map = [], remote_wireguard_sources = [], stats_store = [], next_stats = 0\<rparr>"

definition build_initial_inner_state ::
  "ipv4_net \<Rightarrow> ipv4 \<Rightarrow> system_time \<Rightarrow> device_record list option \<Rightarrow> (ipv4 \<times> string) list option \<Rightarrow>
   lease_state" where
  "build_initial_inner_state net gateway now records allocations =
     (let st = (case records of
                  Some rs \<Rightarrow> fold (load_device net gateway now) rs empty_lease_state
                | None \<Rightarrow> empty_lease_state)
      in case allocations of
           Some as \<Rightarrow> fold (load_allocation net gateway) as st
         | None \<Rightarrow> st)"

section \<open>The invariant\<close>

text \<open>Stated on the finite maps the hash maps stand for, so that the effect of each operation is a
  function update.\<close>

type_synonym devices = "string \<rightharpoonup> device_entry"
type_synonym pool = "ipv4 \<rightharpoonup> string"

definition keyed :: "devices \<Rightarrow> bool" where
  "keyed dm = (\<forall>d e. dm d = Some e \<longrightarrow> de_device_id e = d)"

definition indexed :: "ipv4_net \<Rightarrow> ipv4 \<Rightarrow> devices \<Rightarrow> pool \<Rightarrow> bool" where
  "indexed net gw dm im =
     (\<forall>d e ip. dm d = Some e \<longrightarrow> de_ip e = Some ip \<longrightarrow> net_contains net ip \<longrightarrow> ip \<noteq> gw \<longrightarrow>
        im ip = Some d)"

definition in_net :: "ipv4_net \<Rightarrow> ipv4 \<Rightarrow> pool \<Rightarrow> bool" where
  "in_net net gw im = (\<forall>ip d. im ip = Some d \<longrightarrow> net_contains net ip \<and> ip \<noteq> gw)"

definition disjoint_pools :: "pool \<Rightarrow> pool \<Rightarrow> bool" where
  "disjoint_pools im wm = (\<forall>ip. im ip = None \<or> wm ip = None)"

definition maps_inv :: "ipv4_net \<Rightarrow> ipv4 \<Rightarrow> devices \<Rightarrow> pool \<Rightarrow> pool \<Rightarrow> bool" where
  "maps_inv net gw dm im wm = (keyed dm \<and> indexed net gw dm im \<and> in_net net gw im \<and> disjoint_pools im wm)"

definition lease_inv :: "ipv4_net \<Rightarrow> ipv4 \<Rightarrow> lease_state \<Rightarrow> bool" where
  "lease_inv net gw st \<longleftrightarrow>
     hm_ok (device_map st) \<and> hm_ok (device_ip_map st) \<and> hm_ok (wireguard_peer_ip_map st) \<and>
     maps_inv net gw (hm_get (device_map st)) (hm_get (device_ip_map st)) (hm_get (wireguard_peer_ip_map st))"

lemma maps_inv_same_ip:
  assumes "maps_inv net gw dm im wm" "dm d = Some e" "de_ip e' = de_ip e" "de_device_id e' = d"
  shows "maps_inv net gw (dm(d \<mapsto> e')) im wm"
  using assms by (simp add: maps_inv_def keyed_def indexed_def)

lemma indexedD:
  "maps_inv net gw dm im wm \<Longrightarrow> dm d = Some e \<Longrightarrow> de_ip e = Some ip \<Longrightarrow> net_contains net ip \<Longrightarrow> ip \<noteq> gw \<Longrightarrow>
   im ip = Some d"
  by (simp add: maps_inv_def indexed_def)


lemma maps_inv_remove:
  assumes "maps_inv net gw dm im wm" "dm d = Some e"
  shows "maps_inv net gw (dm(d := None)) (case de_ip e of None \<Rightarrow> im | Some ip \<Rightarrow> im(ip := None)) wm"
proof (cases "de_ip e")
  case None then show ?thesis using assms by (simp add: maps_inv_def keyed_def indexed_def)
next
  case (Some ip)
  have "indexed net gw (dm(d := None)) (im(ip := None))"
    unfolding indexed_def
  proof (intro allI impI)
    fix d' e' ip'
    assume a: "(dm(d := None)) d' = Some e'" "de_ip e' = Some ip'" "net_contains net ip'" "ip' \<noteq> gw"
    then have "d' \<noteq> d" "im ip' = Some d'" using indexedD [OF assms(1)] by (auto split: if_splits)
    moreover have "ip' = ip \<Longrightarrow> im ip' = Some d" using indexedD [OF assms(1,2) Some] a by simp
    ultimately have "d' \<noteq> d" "im ip' = Some d'" "ip' \<noteq> ip" by auto
    then show "(im(ip := None)) ip' = Some d'" by simp
  qed
  with Some assms show ?thesis
    by (simp add: maps_inv_def keyed_def in_net_def disjoint_pools_def)
qed


lemma maps_inv_lease:
  assumes "maps_inv net gw dm im wm" "im ip = None" "wm ip = None" "net_contains net ip" "ip \<noteq> gw"
    "de_ip e = Some ip" "de_device_id e = d"
  shows "maps_inv net gw (dm(d \<mapsto> e)) (im(ip \<mapsto> d)) wm"
  using assms by (auto simp: maps_inv_def keyed_def indexed_def in_net_def disjoint_pools_def)

lemma maps_inv_drop_index:
  assumes "maps_inv net gw dm im wm" "dm d = Some e" "de_ip e = Some old"
  shows "maps_inv net gw (dm(d := None)) (im(old := None)) wm"
  using maps_inv_remove [OF assms(1,2)] assms(3) by simp

lemma maps_inv_drop: "maps_inv net gw dm im wm \<Longrightarrow> maps_inv net gw (dm(d := None)) im wm"
  by (simp add: maps_inv_def keyed_def indexed_def)

lemma maps_inv_wg_insert:
  "maps_inv net gw dm im wm \<Longrightarrow> im ip = None \<Longrightarrow> maps_inv net gw dm im (wm(ip \<mapsto> p))"
  by (auto simp: maps_inv_def disjoint_pools_def)

lemma maps_inv_wg_shrink:
  "maps_inv net gw dm im wm \<Longrightarrow> (\<And>ip. wm' ip = None \<or> wm' ip = wm ip) \<Longrightarrow> maps_inv net gw dm im wm'"
  unfolding maps_inv_def disjoint_pools_def by metis

lemma lease_inv_fields [simp]:
  "lease_inv net gw (st\<lparr>data_version := v\<rparr>) = lease_inv net gw st"
  "lease_inv net gw (st\<lparr>last_wireguard_change_version := v\<rparr>) = lease_inv net gw st"
  "lease_inv net gw (st\<lparr>remote_wireguard_sources := m\<rparr>) = lease_inv net gw st"
  "lease_inv net gw (st\<lparr>stats_store := s\<rparr>) = lease_inv net gw st"
  "lease_inv net gw (st\<lparr>next_stats := n\<rparr>) = lease_inv net gw st"
  by (simp_all add: lease_inv_def)

lemma add_new_device_maps:
  obtains e where "de_ip e = Some ip" "de_device_id e = rq_device_id req" "de_random_id e = random_id"
    "de_is_connected e" "de_data_version e = data_version st + 1" "de_traffic_stats e = next_stats st"
    "device_map (add_new_device req ip random_id now st) = hm_insert (rq_device_id req) e (device_map st)"
    "device_ip_map (add_new_device req ip random_id now st) = hm_insert ip (rq_device_id req) (device_ip_map st)"
    "wireguard_peer_ip_map (add_new_device req ip random_id now st) = wireguard_peer_ip_map st"
    "data_version (add_new_device req ip random_id now st) = data_version st + 1"
  by (rule that [of "\<lparr>de_device_id = rq_device_id req, de_ip = Some ip, de_random_id = random_id,
            de_device_name = rq_name req, de_device_version = rq_version req,
            de_is_connected = True, de_last_connect_time = now, de_disconnect_time = None,
            de_data_version = data_version st + 1, de_key_sign = rq_key_sign req,
            de_latency_ms = None, de_traffic_stats = next_stats st\<rparr>"])
    (simp_all add: add_new_device_def add_device_def stats_alloc_def Let_def)

lemma lease_inv_add_new_device:
  assumes "lease_inv net gw (st\<lparr>device_map := hm_remove (rq_device_id req) (device_map st)\<rparr>)"
    and "hm_get (device_ip_map st) ip = None" "hm_get (wireguard_peer_ip_map st) ip = None"
    and "net_contains net ip" "ip \<noteq> gw" "hm_ok (device_map st)"
  shows "lease_inv net gw (add_new_device req ip random_id now st)"
proof -
  obtain e where e: "de_ip e = Some ip" "de_device_id e = rq_device_id req"
    "device_map (add_new_device req ip random_id now st) = hm_insert (rq_device_id req) e (device_map st)"
    "device_ip_map (add_new_device req ip random_id now st) = hm_insert ip (rq_device_id req) (device_ip_map st)"
    "wireguard_peer_ip_map (add_new_device req ip random_id now st) = wireguard_peer_ip_map st"
    by (rule add_new_device_maps)
  from assms(1) have m: "maps_inv net gw ((hm_get (device_map st))(rq_device_id req := None))
      (hm_get (device_ip_map st)) (hm_get (wireguard_peer_ip_map st))"
    by (simp add: lease_inv_def)
  from maps_inv_lease [OF this assms(2-5) e(1,2)] show ?thesis
    using assms by (simp add: lease_inv_def e(3-5))
qed

lemma lease_inv_drop: "lease_inv net gw st \<Longrightarrow> lease_inv net gw (st\<lparr>device_map := hm_remove d (device_map st)\<rparr>)"
  by (simp add: lease_inv_def maps_inv_drop)

lemma lease_inv_drop_index:
  "lease_inv net gw st \<Longrightarrow> hm_get (device_map st) d = Some e \<Longrightarrow> de_ip e = Some old \<Longrightarrow>
   lease_inv net gw (st\<lparr>device_ip_map := hm_remove old (device_ip_map st), device_map := hm_remove d (device_map st)\<rparr>)"
  by (simp add: lease_inv_def maps_inv_drop_index)

lemma lease_inv_update_entry:
  assumes "lease_inv net gw st" "hm_get (device_map st) d = Some e" "de_ip e' = de_ip e" "de_device_id e' = de_device_id e"
  shows "lease_inv net gw (st\<lparr>device_map := hm_insert d e' (device_map st)\<rparr>)"
proof -
  have "de_device_id e' = d" using assms by (simp add: lease_inv_def maps_inv_def keyed_def)
  then show ?thesis using assms by (simp add: lease_inv_def maps_inv_same_ip)
qed

interpretation pool: ip_allocator "find_available_ip net gw" "ip_taken gw" "net_network net" "net_broadcast net" IpExhaustion
  for net gw
  by unfold_locales (simp add: find_available_ip_def)

lemma find_available_ip_free:
  assumes "find_available_ip net gw st = Inr ip" "ipv4_net_ok net" "net_network net \<noteq> - 1"
  shows "net_network net < ip" "ip < net_broadcast net" "net_contains net ip" "ip \<noteq> gw"
    "hm_get (device_ip_map st) ip = None" "hm_get (wireguard_peer_ip_map st) ip = None"
  using pool.found_iff [OF assms(3), of gw st ip] assms(1,2)
  by (auto simp: ip_taken_def hm_contains_def ipv4_net_ok_def)

lemma lease_inv_reconnect:
  assumes "lease_inv net gw st" "hm_get (device_map st) (rq_device_id req) = Some e"
    and "reconnect_device net gw req rid now e st = (r, st')" "ipv4_net_ok net" "net_network net \<noteq> - 1"
  shows "lease_inv net gw st'"
proof (cases "de_ip e")
  case (Some ip)
  have "de_device_id e = rq_device_id req" using assms(1,2) by (simp add: lease_inv_def maps_inv_def keyed_def)
  with Some assms show ?thesis
    by (auto simp: reconnect_device_def Let_def lease_inv_def intro!: maps_inv_same_ip)
next
  case None
  have id: "de_device_id e = rq_device_id req" using assms(1,2) by (simp add: lease_inv_def maps_inv_def keyed_def)
  show ?thesis
  proof (cases "find_available_ip net gw st")
    case (Inl x) then show ?thesis using None assms(1,3) by (simp add: reconnect_device_def Let_def)
  next
    case (Inr ip)
    note f = find_available_ip_free [OF Inr assms(4,5)]
    show ?thesis using None Inr assms(1,3) f id
      by (auto simp: reconnect_device_def Let_def lease_inv_def intro!: maps_inv_lease)
  qed
qed

lemma lease_inv_claim:
  assumes "lease_inv net gw st" "claim_requested_ip net gw req rid now old ip st = Some (r, st')"
    and "\<And>o'. old = Some o' \<Longrightarrow> \<exists>e. hm_get (device_map st) (rq_device_id req) = Some e \<and> de_ip e = Some o'"
  shows "lease_inv net gw st'"
proof (cases "r")
  case (Inl x)
  then have "st' = st" using assms(2) 
    by (auto simp: claim_requested_ip_def Let_def split: if_splits option.splits)
  then show ?thesis using assms(1) by simp
next
  case (Inr x)
  let ?st = "case old of Some old_ip \<Rightarrow> st\<lparr>device_ip_map := hm_remove old_ip (device_ip_map st)\<rparr> | None \<Rightarrow> st"
  from Inr assms(2) have ip: "ip \<noteq> gw" "net_contains net ip" "hm_get (wireguard_peer_ip_map st) ip = None"
      "hm_get (device_ip_map st) ip = None" and st': "st' = add_new_device req ip rid now ?st"
    by (auto simp: claim_requested_ip_def Let_def split: if_splits option.splits)
  have "lease_inv net gw (?st\<lparr>device_map := hm_remove (rq_device_id req) (device_map ?st)\<rparr>)"
  proof (cases old)
    case (Some o')
    then show ?thesis using assms(3) [OF Some] lease_inv_drop_index [OF assms(1)] by auto
  qed (simp add: lease_inv_drop assms(1))
  then show ?thesis unfolding st'
    by (rule lease_inv_add_new_device) (use ip assms(1) in \<open>auto simp: lease_inv_def split: option.splits\<close>)
qed

lemma lease_inv_automatic:
  assumes "lease_inv net gw st" "allocate_automatic net gw req rid now old st = (r, st')"
    "ipv4_net_ok net" "net_network net \<noteq> - 1"
  shows "lease_inv net gw st'"
proof (cases "find_available_ip net gw st")
  case (Inl x) then show ?thesis using assms(1,2) by (simp add: allocate_automatic_def)
next
  case (Inr ip)
  have "st' = add_new_device req ip rid now st" using assms(2) Inr by (simp add: allocate_automatic_def)
  then show ?thesis
    using lease_inv_add_new_device [OF lease_inv_drop [OF assms(1)]] find_available_ip_free [OF Inr assms(3,4)] assms(1)
    by (simp add: lease_inv_def)
qed

lemma lease_inv_allocate_ip:
  assumes "lease_inv net gw st" "allocate_ip net gw req rid now st = (r, st')"
    "ipv4_net_ok net" "net_network net \<noteq> - 1"
  shows "lease_inv net gw st'"
  using assms(2) unfolding allocate_ip_def Let_def
  by (auto split: option.splits if_splits
      intro: lease_inv_reconnect [OF assms(1) _ _ assms(3,4)] lease_inv_automatic [OF assms(1) _ assms(3,4)]
             lease_inv_claim [OF assms(1)])

lemma lease_inv_remove_device_step: "lease_inv net gw st \<Longrightarrow> lease_inv net gw (remove_device_step d st)"
proof -
  assume i: "lease_inv net gw st"
  show ?thesis
  proof (cases "hm_get (device_map st) d")
    case (Some e)
    then show ?thesis using i maps_inv_remove [of net gw _ _ _ d e]
      by (cases "de_ip e") (auto simp: remove_device_step_def Let_def lease_inv_def)
  qed (simp add: remove_device_step_def i)
qed

lemma lease_inv_remove_devices: "lease_inv net gw st \<Longrightarrow> lease_inv net gw (inner_remove_devices ds st)"
proof -
  have "lease_inv net gw st \<Longrightarrow> lease_inv net gw (fold remove_device_step ds st)" for st
    by (induction ds arbitrary: st) (auto simp: lease_inv_remove_device_step)
  then show "lease_inv net gw st \<Longrightarrow> ?thesis" by (simp add: inner_remove_devices_def)
qed

lemma lease_inv_offline:
  assumes "lease_inv net gw st" "inner_offline_ip nc d ip rid now st = (r, st')"
  shows "lease_inv net gw st'"
  using assms(2) lease_inv_update_entry [of net gw "st\<lparr>data_version := data_version st + 1\<rparr>" d] assms(1)
  by (auto simp: inner_offline_ip_def Let_def split: option.splits if_splits)

lemma lease_inv_prepare:
  assumes "lease_inv net gw st" "prepare_wireguard_peer_ip_reservation p ip st = (r, st')"
  shows "lease_inv net gw st'"
  using assms by (auto simp: prepare_wireguard_peer_ip_reservation_def lease_inv_def
      split: option.splits if_splits intro!: maps_inv_wg_insert)

lemma lease_inv_wg_shrink:
  assumes "lease_inv net gw st" "hm_ok m" "\<And>ip. hm_get m ip = None \<or> hm_get m ip = hm_get (wireguard_peer_ip_map st) ip"
  shows "lease_inv net gw (st\<lparr>wireguard_peer_ip_map := m\<rparr>)"
proof -
  have "maps_inv net gw (hm_get (device_map st)) (hm_get (device_ip_map st)) (hm_get m)"
    by (rule maps_inv_wg_shrink [where wm = "hm_get (wireguard_peer_ip_map st)"])
      (use assms in \<open>auto simp: lease_inv_def\<close>)
  then show ?thesis using assms by (simp add: lease_inv_def)
qed

lemma lease_inv_wg_remove:
  "lease_inv net gw st \<Longrightarrow> lease_inv net gw (st\<lparr>wireguard_peer_ip_map := hm_remove ip (wireguard_peer_ip_map st)\<rparr>)"
  by (rule lease_inv_wg_shrink) (simp_all add: lease_inv_def)

lemma lease_inv_commit: "lease_inv net gw st \<Longrightarrow> lease_inv net gw (commit_wireguard_peer_ip_reservation p ip prev st)"
  by (simp add: commit_wireguard_peer_ip_reservation_def lease_inv_wg_remove split: option.split)

lemma lease_inv_rollback: "lease_inv net gw st \<Longrightarrow> lease_inv net gw (rollback_wireguard_peer_ip_reservation p ip prev st)"
  by (simp add: rollback_wireguard_peer_ip_reservation_def lease_inv_wg_remove)

lemma lease_inv_release:
  assumes "lease_inv net gw st" "inner_release_wireguard_peer_ip p st = (r, st')"
  shows "lease_inv net gw st'"
proof -
  have ok: "hm_ok (wireguard_peer_ip_map st)" using assms by (simp add: lease_inv_def)
  have "st' = st\<lparr>wireguard_peer_ip_map := hm_retain (\<lambda>_ q. q \<noteq> p) (wireguard_peer_ip_map st)\<rparr>"
    using assms(2) by (simp add: inner_release_wireguard_peer_ip_def Let_def)
  moreover have "lease_inv net gw (st\<lparr>wireguard_peer_ip_map := hm_retain (\<lambda>_ q. q \<noteq> p) (wireguard_peer_ip_map st)\<rparr>)"
    by (rule lease_inv_wg_shrink [OF assms(1)]) (auto simp: ok hm.get_retain [OF ok] split: option.split)
  ultimately show ?thesis by simp
qed
end
