(* ===== verification/Lease_Steps.thy ===== *)
theory Lease_Steps
  imports Lease_State
begin

text \<open>
  Reachable lease tables.  \<open>lease_step\<close> has one rule per critical section of the mutex
  \<open>lease_state\<close> of NetworkState; the state also records the WireGuard reservation in flight.  The
  invariant \<open>sys_inv\<close> holds initially for any database content that respects the table constraints
  (\<open>db_consistent\<close>) and is preserved by every step.  The properties are its consequences, the
  functional behaviour of \<open>allocate_ip\<close>, and two defects.
\<close>

section \<open>The initial state\<close>

definition record_ip :: "device_record \<Rightarrow> ipv4 option" where
  "record_ip r = Option.bind (dr_ip r) ipv4_parse"

text \<open>What the constraints of the database tables give: the device identifiers of a network are
  distinct, no two devices have the same address, and no device address is reserved for a peer.\<close>

definition db_consistent :: "device_record list \<Rightarrow> (ipv4 \<times> string) list \<Rightarrow> bool" where
  "db_consistent rs as \<longleftrightarrow>
     distinct (map dr_device_id rs) \<and>
     sorted_wrt (\<lambda>r r'. record_ip r = None \<or> record_ip r \<noteq> record_ip r') rs \<and>
     (\<forall>r \<in> set rs. \<forall>a \<in> set as. record_ip r \<noteq> Some (fst a)) \<and>
     distinct (map fst as) \<and> distinct (map snd as)"

lemma load_device_maps:
  "\<exists>e. de_ip e = record_ip r \<and> de_device_id e = dr_device_id r \<and>
     device_map (load_device net gw now r st) = hm_insert (dr_device_id r) e (device_map st) \<and>
     device_ip_map (load_device net gw now r st) =
       (case record_ip r of None \<Rightarrow> device_ip_map st
        | Some ip \<Rightarrow> if net_contains net ip \<and> ip \<noteq> gw then hm_insert ip (dr_device_id r) (device_ip_map st)
                     else device_ip_map st) \<and>
     wireguard_peer_ip_map (load_device net gw now r st) = wireguard_peer_ip_map st"
  by (rule exI [of _ "from_record now r (next_stats st)"])
    (auto simp: load_device_def stats_alloc_def from_record_def record_ip_def Let_def split: option.split)

lemma lease_inv_load_device:
  assumes "lease_inv net gw st" "hm_get (device_map st) (dr_device_id r) = None"
    "\<forall>ip. record_ip r = Some ip \<longrightarrow> hm_get (device_ip_map st) ip = None" "wireguard_peer_ip_map st = []"
  shows "lease_inv net gw (load_device net gw now r st)"
proof -
  obtain e where e: "de_ip e = record_ip r" "de_device_id e = dr_device_id r"
     "device_map (load_device net gw now r st) = hm_insert (dr_device_id r) e (device_map st)"
     "device_ip_map (load_device net gw now r st) =
       (case record_ip r of None \<Rightarrow> device_ip_map st
        | Some ip \<Rightarrow> if net_contains net ip \<and> ip \<noteq> gw then hm_insert ip (dr_device_id r) (device_ip_map st)
                     else device_ip_map st)"
     "wireguard_peer_ip_map (load_device net gw now r st) = wireguard_peer_ip_map st"
    using load_device_maps [of r net gw now st] by blast
  have m: "maps_inv net gw (hm_get (device_map st)) (hm_get (device_ip_map st)) (hm_get (wireguard_peer_ip_map st))"
    and ok: "hm_ok (device_map st)" "hm_ok (device_ip_map st)" using assms(1) by (simp_all add: lease_inv_def)
  show ?thesis
  proof (cases "\<exists>ip. record_ip r = Some ip \<and> net_contains net ip \<and> ip \<noteq> gw")
    case True
    then obtain ip where ip: "record_ip r = Some ip" "net_contains net ip" "ip \<noteq> gw" by blast
    then have "maps_inv net gw ((hm_get (device_map st))(dr_device_id r \<mapsto> e))
        ((hm_get (device_ip_map st))(ip \<mapsto> dr_device_id r)) (hm_get (wireguard_peer_ip_map st))"
      using m assms e by (intro maps_inv_lease) auto
    then show ?thesis using ip ok e(3-5) assms(4) by (simp add: lease_inv_def)
  next
    case False
    then have "device_ip_map (load_device net gw now r st) = device_ip_map st"
      by (auto simp: e(4) split: option.split)
    moreover have "maps_inv net gw ((hm_get (device_map st))(dr_device_id r \<mapsto> e)) (hm_get (device_ip_map st))
        (hm_get (wireguard_peer_ip_map st))"
      using m False e(1,2) by (auto simp: maps_inv_def keyed_def indexed_def)
    ultimately show ?thesis using ok e(3,5) assms(4) by (simp add: lease_inv_def)
  qed
qed

lemma load_devices_inv:
  assumes "lease_inv net gw st" "wireguard_peer_ip_map st = []"
    "distinct (map dr_device_id rs)"
    "sorted_wrt (\<lambda>r r'. record_ip r = None \<or> record_ip r \<noteq> record_ip r') rs"
    "\<forall>r \<in> set rs. hm_get (device_map st) (dr_device_id r) = None"
    "\<forall>r \<in> set rs. \<forall>ip. record_ip r = Some ip \<longrightarrow> hm_get (device_ip_map st) ip = None"
  shows "lease_inv net gw (fold (load_device net gw now) rs st) \<and>
    wireguard_peer_ip_map (fold (load_device net gw now) rs st) = [] \<and>
    (\<forall>ip d. hm_get (device_ip_map (fold (load_device net gw now) rs st)) ip = Some d \<longrightarrow>
       hm_get (device_ip_map st) ip = Some d \<or> (\<exists>r \<in> set rs. record_ip r = Some ip))"
  using assms
proof (induction rs arbitrary: st)
  case (Cons r rs)
  let ?st = "load_device net gw now r st"
  obtain e where e: 
     "device_map ?st = hm_insert (dr_device_id r) e (device_map st)"
     "device_ip_map ?st =
       (case record_ip r of None \<Rightarrow> device_ip_map st
        | Some ip \<Rightarrow> if net_contains net ip \<and> ip \<noteq> gw then hm_insert ip (dr_device_id r) (device_ip_map st)
                     else device_ip_map st)"
     "wireguard_peer_ip_map ?st = wireguard_peer_ip_map st"
    using load_device_maps [of r net gw now st] by blast
  have new: "hm_get (device_ip_map ?st) ip = Some d \<Longrightarrow> hm_get (device_ip_map st) ip = Some d \<or> record_ip r = Some ip" for ip d
    by (auto simp: e(2) split: option.splits if_splits)
  have "lease_inv net gw ?st" by (rule lease_inv_load_device) (use Cons.prems in auto)
  moreover have "\<forall>r' \<in> set rs. hm_get (device_map ?st) (dr_device_id r') = None"
    using Cons.prems(3,5) by (simp add: e(1)) (metis imageI)
  moreover have "\<forall>r' \<in> set rs. \<forall>ip. record_ip r' = Some ip \<longrightarrow> hm_get (device_ip_map ?st) ip = None"
  proof (intro ballI allI impI)
    fix r' ip assume r': "r' \<in> set rs" "record_ip r' = Some ip"
    then have "record_ip r \<noteq> Some ip" using Cons.prems(4) by auto
    then show "hm_get (device_ip_map ?st) ip = None"
      using new [of ip] Cons.prems(6) r' by (cases "hm_get (device_ip_map ?st) ip") auto
  qed
  ultimately have IH: "lease_inv net gw (fold (load_device net gw now) rs ?st) \<and>
    wireguard_peer_ip_map (fold (load_device net gw now) rs ?st) = [] \<and>
    (\<forall>ip d. hm_get (device_ip_map (fold (load_device net gw now) rs ?st)) ip = Some d \<longrightarrow>
       hm_get (device_ip_map ?st) ip = Some d \<or> (\<exists>r \<in> set rs. record_ip r = Some ip))"
    by (intro Cons.IH) (use Cons.prems in \<open>simp_all add: e(3)\<close>)
  moreover have "hm_get (device_ip_map (fold (load_device net gw now) rs ?st)) ip = Some d \<Longrightarrow>
      hm_get (device_ip_map st) ip = Some d \<or> (\<exists>r' \<in> set (r # rs). record_ip r' = Some ip)" for ip d
    using IH new [of ip d] by (meson list.set_intros)
  ultimately show ?case by simp
qed simp

lemma load_allocations_inv:
  assumes "lease_inv net gw st" "\<forall>a \<in> set as. hm_get (device_ip_map st) (fst a) = None"
  shows "lease_inv net gw (fold (load_allocation net gw) as st)"
  using assms
proof (induction as arbitrary: st)
  case (Cons a as)
  obtain ip p where a: "a = (ip, p)" by fastforce
  have "lease_inv net gw (load_allocation net gw a st)"
    using Cons.prems by (simp add: a load_allocation_def lease_inv_def maps_inv_wg_insert)
  moreover have "device_ip_map (load_allocation net gw a st) = device_ip_map st"
    by (simp add: a load_allocation_def)
  ultimately show ?case using Cons by simp
qed simp

lemma lease_inv_initial:
  assumes "db_consistent rs as"
  shows "lease_inv net gw (build_initial_inner_state net gw now (Some rs) (Some as))"
proof -
  let ?st = "fold (load_device net gw now) rs empty_lease_state"
  have e: "lease_inv net gw empty_lease_state"
    by (simp add: lease_inv_def empty_lease_state_def maps_inv_def keyed_def indexed_def in_net_def disjoint_pools_def)
  have st: "lease_inv net gw ?st" and new: "\<And>ip d. hm_get (device_ip_map ?st) ip = Some d \<Longrightarrow>
      hm_get (device_ip_map empty_lease_state) ip = Some d \<or> (\<exists>r \<in> set rs. record_ip r = Some ip)"
    using load_devices_inv [OF e, of rs now] assms
    by (auto simp: db_consistent_def empty_lease_state_def)
  have "hm_get (device_ip_map ?st) (fst a) = None" if "a \<in> set as" for a
  proof (cases "hm_get (device_ip_map ?st) (fst a)")
    case (Some d)
    then obtain r where "r \<in> set rs" "record_ip r = Some (fst a)"
      using new by (auto simp: empty_lease_state_def)
    then show ?thesis using assms that by (auto simp: db_consistent_def)
  qed
  then show ?thesis
    using load_allocations_inv [OF st] by (simp add: build_initial_inner_state_def)
qed

section \<open>Steps\<close>

text \<open>The state of the lease table together with the reservation in flight.  \<open>prepare\<close>, the database
  write and \<open>commit\<close> or \<open>rollback\<close> of \<open>reserve_wireguard_peer_ip_with\<close> are separate critical sections
  of the mutex; \<open>wireguard_ip_update_lock\<close>, held across them, allows one reservation at a time and
  excludes \<open>release\<close>, but not the operations of VNT devices.\<close>

type_synonym reservation = "string \<times> ipv4 \<times> ipv4 option"

inductive lease_step ::
  "ipv4_net \<Rightarrow> ipv4 \<Rightarrow> lease_state \<times> reservation option \<Rightarrow> lease_state \<times> reservation option \<Rightarrow> bool"
  for net :: ipv4_net and gw :: ipv4 where
  step_allocate: "allocate_ip net gw req rid now st = (r, st') \<Longrightarrow> lease_step net gw (st, res) (st', res)"
| step_offline: "inner_offline_ip nc d ip rid now st = (r, st') \<Longrightarrow> lease_step net gw (st, res) (st', res)"
| step_remove_devices: "lease_step net gw (st, res) (inner_remove_devices ds st, res)"
| step_latency: "hm_get (device_ip_map st) ip = Some d \<Longrightarrow> hm_get (device_map st) d = Some e \<Longrightarrow>
    lease_step net gw (st, res)
      (st\<lparr>device_map := hm_insert d (e\<lparr>de_latency_ms := Some l\<rparr>) (device_map st)\<rparr>, res)"
| step_prepare: "net_contains net ip \<Longrightarrow> ip \<noteq> gw \<Longrightarrow>
    prepare_wireguard_peer_ip_reservation p ip st = (Inr prev, st') \<Longrightarrow>
    lease_step net gw (st, None) (st', Some (p, ip, prev))"
| step_commit: "lease_step net gw (st, Some (p, ip, prev))
    (commit_wireguard_peer_ip_reservation p ip prev st, None)"
| step_rollback: "lease_step net gw (st, Some (p, ip, prev))
    (rollback_wireguard_peer_ip_reservation p ip prev st, None)"
| step_release: "inner_release_wireguard_peer_ip p st = (b, st') \<Longrightarrow> lease_step net gw (st, None) (st', None)"

inductive_cases lease_stepE: "lease_step net gw s s'"

text \<open>The reservation part of the invariant: outside a reservation each peer has at most one address;
  during a reservation the peer may have two, the new one and the one it had before.\<close>

definition one_each :: "pool \<Rightarrow> string set \<Rightarrow> bool" where
  "one_each wm X = (\<forall>i j q. wm i = Some q \<longrightarrow> wm j = Some q \<longrightarrow> q \<notin> X \<longrightarrow> i = j)"

definition res_inv :: "pool \<Rightarrow> reservation option \<Rightarrow> bool" where
  "res_inv wm res =
     (case res of
        None \<Rightarrow> one_each wm {}
      | Some (p, ip, prev) \<Rightarrow>
          wm ip = Some p \<and> one_each wm {p} \<and>
          (\<forall>i. wm i = Some p \<longrightarrow> i = ip \<or> prev = Some i) \<and> (\<forall>i. prev = Some i \<longrightarrow> wm i = Some p))"

lemma one_each_shrink:
  "one_each wm X \<Longrightarrow> (\<And>i. wm' i = None \<or> wm' i = wm i) \<Longrightarrow> one_each wm' X"
  unfolding one_each_def by (metis option.distinct(1))

lemma one_each_close: "one_each wm {p} \<Longrightarrow> (\<And>i. wm i = Some p \<Longrightarrow> i = a) \<Longrightarrow> one_each wm {}"
  unfolding one_each_def by (metis empty_iff singletonD)

lemma one_each_open: "one_each wm {} \<Longrightarrow> one_each (wm(ip \<mapsto> p)) {p}"
  by (auto simp: one_each_def)

lemma wireguard_peer_ip_Some:
  "hm_ok (wireguard_peer_ip_map st) \<Longrightarrow> wireguard_peer_ip st p = Some ip \<Longrightarrow>
   hm_get (wireguard_peer_ip_map st) ip = Some p"
  using hm_find_key_Some by (fastforce simp: wireguard_peer_ip_def)

lemma wireguard_peer_ip_None:
  "hm_ok (wireguard_peer_ip_map st) \<Longrightarrow> wireguard_peer_ip st p = None \<longleftrightarrow>
   (\<forall>ip. hm_get (wireguard_peer_ip_map st) ip \<noteq> Some p)"
  using hm_find_key_None [of "wireguard_peer_ip_map st"] by (fastforce simp: wireguard_peer_ip_def)

lemma prepare_Inr:
  assumes "prepare_wireguard_peer_ip_reservation p ip st = (Inr prev, st')"
  shows "prev = wireguard_peer_ip st p" "hm_get (device_ip_map st) ip = None"
    "hm_get (wireguard_peer_ip_map st) ip = None \<or> hm_get (wireguard_peer_ip_map st) ip = Some p"
    "st' = st\<lparr>wireguard_peer_ip_map := hm_insert ip p (wireguard_peer_ip_map st)\<rparr>"
  using assms by (auto simp: prepare_wireguard_peer_ip_reservation_def split: option.splits if_splits)

lemma res_inv_prepare:
  assumes "hm_ok (wireguard_peer_ip_map st)" "res_inv (hm_get (wireguard_peer_ip_map st)) None"
    "prepare_wireguard_peer_ip_reservation p ip st = (Inr prev, st')"
  shows "res_inv (hm_get (wireguard_peer_ip_map st')) (Some (p, ip, prev))"
proof -
  let ?wm = "hm_get (wireguard_peer_ip_map st)"
  note pr = prepare_Inr [OF assms(3)]
  have one: "one_each ?wm {}" using assms(2) by (simp add: res_inv_def)
  have 1: "?wm i = Some p" if "prev = Some i" for i
    using wireguard_peer_ip_Some [OF assms(1), of p i] pr(1) that by simp
  have 2: "prev = Some i" if "?wm i = Some p" for i
  proof (cases prev)
    case None
    then show ?thesis using wireguard_peer_ip_None [OF assms(1), of p] pr(1) that by simp
  next
    case (Some j)
    then have "?wm j = Some p" using wireguard_peer_ip_Some [OF assms(1), of p j] pr(1) by simp
    then have "j = i" using one that unfolding one_each_def by blast
    with Some show ?thesis by simp
  qed
  from 1 2 have "(?wm i = Some p) = (prev = Some i)" for i by blast
  then show ?thesis using one_each_open [OF one, of ip p] by (simp add: res_inv_def pr(4))
qed

lemma res_inv_commit:
  assumes "res_inv (hm_get (wireguard_peer_ip_map st)) (Some (p, ip, prev))"
  shows "res_inv (hm_get (wireguard_peer_ip_map (commit_wireguard_peer_ip_reservation p ip prev st))) None"
    and "hm_get (wireguard_peer_ip_map (commit_wireguard_peer_ip_reservation p ip prev st)) ip = Some p"
proof -
  let ?wm = "hm_get (wireguard_peer_ip_map st)"
  have r: "?wm ip = Some p" "one_each ?wm {p}" "\<And>i. ?wm i = Some p \<Longrightarrow> i = ip \<or> prev = Some i"
    "\<And>i. prev = Some i \<Longrightarrow> ?wm i = Some p"
    using assms by (auto simp: res_inv_def)
  have eq: "hm_get (wireguard_peer_ip_map (commit_wireguard_peer_ip_reservation p ip prev st)) =
      (case prev of Some q \<Rightarrow> if q \<noteq> ip then ?wm(q := None) else ?wm | None \<Rightarrow> ?wm)"
    using r(4) by (simp add: commit_wireguard_peer_ip_reservation_def split: option.split)
  have "one_each (case prev of Some q \<Rightarrow> if q \<noteq> ip then ?wm(q := None) else ?wm | None \<Rightarrow> ?wm) {}"
  proof (rule one_each_close [where p = p and a = ip])
    show "one_each (case prev of Some q \<Rightarrow> if q \<noteq> ip then ?wm(q := None) else ?wm | None \<Rightarrow> ?wm) {p}"
      by (rule one_each_shrink [OF r(2)]) (simp split: option.split)
  qed (use r(3) in \<open>auto split: option.splits if_splits\<close>)
  then show "res_inv (hm_get (wireguard_peer_ip_map (commit_wireguard_peer_ip_reservation p ip prev st))) None"
    by (simp add: res_inv_def eq)
  show "hm_get (wireguard_peer_ip_map (commit_wireguard_peer_ip_reservation p ip prev st)) ip = Some p"
    using r(1) by (simp add: eq split: option.split)
qed

lemma res_inv_rollback:
  assumes "res_inv (hm_get (wireguard_peer_ip_map st)) (Some (p, ip, prev))"
  shows "res_inv (hm_get (wireguard_peer_ip_map (rollback_wireguard_peer_ip_reservation p ip prev st))) None"
proof -
  let ?wm = "hm_get (wireguard_peer_ip_map st)"
  have r: "?wm ip = Some p" "one_each ?wm {p}" "\<And>i. ?wm i = Some p \<Longrightarrow> i = ip \<or> prev = Some i"
    using assms by (auto simp: res_inv_def)
  have eq: "hm_get (wireguard_peer_ip_map (rollback_wireguard_peer_ip_reservation p ip prev st)) =
      (if prev \<noteq> Some ip then ?wm(ip := None) else ?wm)"
    using r(1) by (simp add: rollback_wireguard_peer_ip_reservation_def)
  have "one_each (if prev \<noteq> Some ip then ?wm(ip := None) else ?wm) {}"
  proof (rule one_each_close [where p = p and a = "the prev"])
    show "one_each (if prev \<noteq> Some ip then ?wm(ip := None) else ?wm) {p}"
      by (rule one_each_shrink [OF r(2)]) simp
    fix i
    assume "(if prev \<noteq> Some ip then ?wm(ip := None) else ?wm) i = Some p"
    then have "prev = Some i" using r(3) [of i] by (auto split: if_splits)
    then show "i = the prev" by simp
  qed
  then show ?thesis by (simp add: res_inv_def eq)
qed

lemma res_inv_release:
  assumes "hm_ok (wireguard_peer_ip_map st)" "res_inv (hm_get (wireguard_peer_ip_map st)) None"
    "inner_release_wireguard_peer_ip p st = (b, st')"
  shows "res_inv (hm_get (wireguard_peer_ip_map st')) None"
  using assms by (auto simp: res_inv_def one_each_def inner_release_wireguard_peer_ip_def Let_def
      hm.get_retain split: option.splits if_splits)


section \<open>Reachable states\<close>

lemma allocate_ip_keeps_reservations:
  "allocate_ip net gw req rid now st = (r, st') \<Longrightarrow> wireguard_peer_ip_map st' = wireguard_peer_ip_map st"
proof -
  have [simp]: "wireguard_peer_ip_map (add_new_device req ip rid now st) = wireguard_peer_ip_map st" for ip st
    by (rule add_new_device_maps)
  show "allocate_ip net gw req rid now st = (r, st') \<Longrightarrow> ?thesis"
    by (auto simp: allocate_ip_def Let_def reconnect_device_def claim_requested_ip_def allocate_automatic_def
        split: option.splits sum.splits if_splits)
qed

lemma remove_devices_keeps_reservations [simp]:
  "wireguard_peer_ip_map (inner_remove_devices ds st) = wireguard_peer_ip_map st"
proof -
  have "wireguard_peer_ip_map (remove_device_step d st) = wireguard_peer_ip_map st" for d st
    by (simp add: remove_device_step_def Let_def split: option.split)
  then have "wireguard_peer_ip_map (fold remove_device_step ds st) = wireguard_peer_ip_map st" for st
    by (induction ds arbitrary: st) simp_all
  then show ?thesis by (simp add: inner_remove_devices_def)
qed

lemma offline_keeps_reservations:
  "inner_offline_ip nc d ip rid now st = (r, st') \<Longrightarrow> wireguard_peer_ip_map st' = wireguard_peer_ip_map st"
  by (auto simp: inner_offline_ip_def Let_def split: option.splits if_splits)

definition sys_inv :: "ipv4_net \<Rightarrow> ipv4 \<Rightarrow> lease_state \<times> reservation option \<Rightarrow> bool" where
  "sys_inv net gw s = (ipv4_net_ok net \<and> net_network net \<noteq> - 1 \<and> lease_inv net gw (fst s) \<and>
     res_inv (hm_get (wireguard_peer_ip_map (fst s))) (snd s))"

lemma sys_invD:
  assumes "sys_inv net gw (st, res)"
  shows "ipv4_net_ok net" "net_network net \<noteq> - 1" "lease_inv net gw st"
    "res_inv (hm_get (wireguard_peer_ip_map st)) res" "hm_ok (wireguard_peer_ip_map st)"
  using assms by (simp_all add: sys_inv_def lease_inv_def)

lemma sys_invI:
  assumes "sys_inv net gw (st, res)" "lease_inv net gw st'" "res_inv (hm_get (wireguard_peer_ip_map st')) res'"
  shows "sys_inv net gw (st', res')"
  using assms by (simp add: sys_inv_def)

lemma sys_inv_step:
  assumes "lease_step net gw s s'" "sys_inv net gw s"
  shows "sys_inv net gw s'"
  using assms(1)
proof (cases rule: lease_step.cases)
  case (step_allocate req rid now st r st' res)
  note i = assms(2) [unfolded step_allocate(1)]
  show ?thesis unfolding step_allocate(2)
    by (rule sys_invI [OF i lease_inv_allocate_ip [OF sys_invD(3) [OF i] step_allocate(3) sys_invD(1,2) [OF i]]])
      (simp add: allocate_ip_keeps_reservations [OF step_allocate(3)] sys_invD(4) [OF i])
next
  case (step_offline nc d ip rid now st r st' res)
  note i = assms(2) [unfolded step_offline(1)]
  show ?thesis unfolding step_offline(2)
    by (rule sys_invI [OF i lease_inv_offline [OF sys_invD(3) [OF i] step_offline(3)]])
      (simp add: offline_keeps_reservations [OF step_offline(3)] sys_invD(4) [OF i])
next
  case (step_remove_devices st res ds)
  note i = assms(2) [unfolded step_remove_devices(1)]
  show ?thesis unfolding step_remove_devices(2)
    by (rule sys_invI [OF i]) (simp_all add: lease_inv_remove_devices sys_invD(3,4) [OF i])
next
  case (step_latency st ip d e res l)
  note i = assms(2) [unfolded step_latency(1)]
  show ?thesis unfolding step_latency(2)
    by (rule sys_invI [OF i lease_inv_update_entry [OF sys_invD(3) [OF i] step_latency(4)]])
      (simp_all add: sys_invD(4) [OF i])
next
  case (step_prepare ip p st prev st')
  note i = assms(2) [unfolded step_prepare(1)]
  show ?thesis unfolding step_prepare(2)
    by (rule sys_invI [OF i lease_inv_prepare [OF sys_invD(3) [OF i] step_prepare(5)]
          res_inv_prepare [OF sys_invD(5) [OF i] sys_invD(4) [OF i] step_prepare(5)]])
next
  case (step_commit st p ip prev)
  note i = assms(2) [unfolded step_commit(1)]
  show ?thesis unfolding step_commit(2)
    by (rule sys_invI [OF i lease_inv_commit [OF sys_invD(3) [OF i]] res_inv_commit(1) [OF sys_invD(4) [OF i]]])
next
  case (step_rollback st p ip prev)
  note i = assms(2) [unfolded step_rollback(1)]
  show ?thesis unfolding step_rollback(2)
    by (rule sys_invI [OF i lease_inv_rollback [OF sys_invD(3) [OF i]] res_inv_rollback [OF sys_invD(4) [OF i]]])
next
  case (step_release p st b st')
  note i = assms(2) [unfolded step_release(1)]
  show ?thesis unfolding step_release(2)
    by (rule sys_invI [OF i lease_inv_release [OF sys_invD(3) [OF i] step_release(3)]
          res_inv_release [OF sys_invD(5) [OF i] sys_invD(4) [OF i] step_release(3)]])
qed

interpretation leases: invariant_system "lease_step net gw" "sys_inv net gw" for net gw
  by unfold_locales (rule sys_inv_step)

lemma load_allocation_pool:
  "hm_get (wireguard_peer_ip_map (fold (load_allocation net gw) as st)) i = Some p \<Longrightarrow>
   hm_get (wireguard_peer_ip_map st) i = Some p \<or> (i, p) \<in> set as"
proof (induction as arbitrary: st)
  case (Cons a as)
  have "hm_get (wireguard_peer_ip_map (load_allocation net gw a st)) i = Some p \<Longrightarrow>
      hm_get (wireguard_peer_ip_map st) i = Some p \<or> (i, p) = a"
    by (auto simp: load_allocation_def split: prod.splits if_splits)
  then show ?case using Cons.IH [of "load_allocation net gw a st"] Cons.prems by auto
qed simp

lemma load_device_keeps_reservations:
  "wireguard_peer_ip_map (fold (load_device net gw now) rs st) = wireguard_peer_ip_map st"
proof (induction rs arbitrary: st)
  case (Cons r rs)
  then show ?case using load_device_maps [of r net gw now st] by auto
qed simp

lemma sys_inv_initial:
  assumes "db_consistent rs as" "ipv4_net_ok net" "net_network net \<noteq> - 1"
  shows "sys_inv net gw (build_initial_inner_state net gw now (Some rs) (Some as), None)"
proof -
  let ?wm = "hm_get (wireguard_peer_ip_map (build_initial_inner_state net gw now (Some rs) (Some as)))"
  have mem: "?wm i = Some p \<Longrightarrow> (i, p) \<in> set as" for i p
    using load_allocation_pool [of net gw as _ i p]
    by (fastforce simp: build_initial_inner_state_def load_device_keeps_reservations empty_lease_state_def)
  have "i = j" if "?wm i = Some p" "?wm j = Some p" for i j p
  proof -
    have "distinct (map snd as)" using assms(1) by (simp add: db_consistent_def)
    then show ?thesis using mem [OF that(1)] mem [OF that(2)] by (metis inj_onD distinct_map fst_conv snd_conv)
  qed
  then have "res_inv ?wm None" by (auto simp: res_inv_def one_each_def)
  then show ?thesis using lease_inv_initial [OF assms(1), of net gw now] assms by (simp add: sys_inv_def)
qed

section \<open>The effect of an allocation\<close>

lemma allocate_ip_Inl: "allocate_ip net gw req rid now st = (Inl err, st') \<Longrightarrow> st' = st"
  by (auto simp: allocate_ip_def Let_def reconnect_device_def claim_requested_ip_def
      allocate_automatic_def split: option.splits sum.splits if_splits)

text \<open>How the device map changes when an allocation succeeds: one entry, for the requesting device.\<close>

definition leased_entry :: "reg_request_msg \<Rightarrow> ipv4 \<Rightarrow> u64 \<Rightarrow> system_time \<Rightarrow> u64 \<Rightarrow> device_entry \<Rightarrow> bool" where
  "leased_entry req ip rid now v e \<longleftrightarrow>
     de_ip e = Some ip \<and> de_is_connected e \<and> de_random_id e = rid \<and> de_disconnect_time e = None \<and>
     de_last_connect_time e = now \<and> de_data_version e = v \<and> de_key_sign e = rq_key_sign req"

lemma add_new_device_entry:
  "\<exists>e. device_map (add_new_device req ip rid now st) = hm_insert (rq_device_id req) e (device_map st) \<and>
     leased_entry req ip rid now (data_version st + 1) e"
  by (rule exI [of _ "\<lparr>de_device_id = rq_device_id req, de_ip = Some ip, de_random_id = rid,
            de_device_name = rq_name req, de_device_version = rq_version req,
            de_is_connected = True, de_last_connect_time = now, de_disconnect_time = None,
            de_data_version = data_version st + 1, de_key_sign = rq_key_sign req,
            de_latency_ms = None, de_traffic_stats = next_stats st\<rparr>"])
    (simp add: add_new_device_def add_device_def stats_alloc_def Let_def leased_entry_def)

lemma add_new_device_version [simp]:
  "data_version (add_new_device req ip rid now st) = data_version st + 1"
  by (simp add: add_new_device_def add_device_def stats_alloc_def Let_def)

lemma allocate_ip_Inr:
  assumes "allocate_ip net gw req rid now st = (Inr (ip, old), st')"
  shows "\<exists>e. device_map st' = hm_insert (rq_device_id req) e (device_map st) \<and>
    leased_entry req ip rid now (data_version st + 1) e" "data_version st' = data_version st + 1"
proof -
  have "(\<exists>e. device_map st' = hm_insert (rq_device_id req) e (device_map st) \<and>
      leased_entry req ip rid now (data_version st + 1) e) \<and> data_version st' = data_version st + 1"
    if "reconnect_device net gw req rid now e st = (Inr (ip, old), st')" for e
    using that by (auto simp: reconnect_device_def Let_def leased_entry_def split: option.splits sum.splits)
  moreover have "(\<exists>e. device_map st' = hm_insert (rq_device_id req) e (device_map st) \<and>
      leased_entry req ip rid now (data_version st + 1) e) \<and> data_version st' = data_version st + 1"
    if "claim_requested_ip net gw req rid now o' a st = Some (Inr (ip, old), st')" for o' a
    using that add_new_device_entry [of req ip rid now]
    by (auto simp: claim_requested_ip_def Let_def split: option.splits if_splits)
      (metis lease_state.select_convs(1,3) lease_state.surjective lease_state.update_convs(4))
  moreover have "(\<exists>e. device_map st' = hm_insert (rq_device_id req) e (device_map st) \<and>
      leased_entry req ip rid now (data_version st + 1) e) \<and> data_version st' = data_version st + 1"
    if "allocate_automatic net gw req rid now o' st = (Inr (ip, old), st')" for o'
    using that add_new_device_entry [of req ip rid now st]
    by (auto simp: allocate_automatic_def split: sum.splits)
  ultimately show "\<exists>e. device_map st' = hm_insert (rq_device_id req) e (device_map st) \<and>
    leased_entry req ip rid now (data_version st + 1) e" "data_version st' = data_version st + 1"
    using assms by (auto simp: allocate_ip_def Let_def split: option.splits if_splits)
qed

lemma allocate_ip_flexible_error:
  assumes "allocate_ip net gw req rid now st = (Inl err, st')" "rq_ip req = None \<or> rq_ip_variable req"
  shows "find_available_ip net gw st = Inl err"
  using assms by (auto simp: allocate_ip_def Let_def reconnect_device_def claim_requested_ip_def
      allocate_automatic_def split: option.splits sum.splits if_splits)

lemma allocate_ip_fixed:
  assumes "allocate_ip net gw req rid now st = (Inr (ip, old), st')" "rq_ip req = Some a" "\<not> rq_ip_variable req"
  shows "ip = a"
  using assms by (auto simp: allocate_ip_def Let_def reconnect_device_def claim_requested_ip_def
      allocate_automatic_def split: option.splits sum.splits if_splits)


section \<open>Properties\<close>

datatype lease_owner = VntDevice string | WireguardPeer string

fun holds :: "lease_state \<Rightarrow> lease_owner \<Rightarrow> ipv4 \<Rightarrow> bool" where
  "holds st (VntDevice d) ip =
     (case hm_get (device_map st) d of Some e \<Rightarrow> de_ip e = Some ip | None \<Rightarrow> False)"
| "holds st (WireguardPeer p) ip = (hm_get (wireguard_peer_ip_map st) ip = Some p)"

lemma holds_unique:
  assumes "lease_inv net gw st" "net_contains net ip" "ip \<noteq> gw" "holds st o1 ip" "holds st o2 ip"
  shows "o1 = o2"
proof -
  let ?im = "hm_get (device_ip_map st)"
  have m: "maps_inv net gw (hm_get (device_map st)) ?im (hm_get (wireguard_peer_ip_map st))"
    using assms(1) by (simp add: lease_inv_def)
  have vnt: "?im ip = Some d" if "holds st (VntDevice d) ip" for d
    using that indexedD [OF m _ _ assms(2,3)] by (auto split: option.splits)
  have wg: "?im ip = None" if "holds st (WireguardPeer p) ip" for p
    using that m by (auto simp: maps_inv_def disjoint_pools_def)
  show ?thesis
  proof (cases o1)
    case (VntDevice d)
    then have d: "?im ip = Some d" using vnt assms(4) by blast
    then show ?thesis using VntDevice vnt wg assms(5) by (cases o2) (metis option.inject, metis option.distinct(1))
  next
    case (WireguardPeer p)
    then have "?im ip = None" "hm_get (wireguard_peer_ip_map st) ip = Some p" using wg assms(4) by auto
    then show ?thesis using WireguardPeer vnt assms(5)
      by (cases o2) (metis option.distinct(1), simp)
  qed
qed

definition wit_net :: ipv4_net where
  "wit_net = cidr (ip4 10 26 0 0) 24"

definition wit_gw :: ipv4 where
  "wit_gw = ip4 10 26 0 1"

lemma wit_net_ok: "ipv4_net_ok wit_net" "net_network wit_net \<noteq> - 1"
  by (simp add: wit_net_def cidr_ok) (simp add: wit_net_def witness_eval)

definition wit_reg :: "string \<Rightarrow> ipv4 option \<Rightarrow> bool \<Rightarrow> reg_request_msg" where
  "wit_reg d ip var = \<lparr>rq_network_code = ''net'', rq_device_id = d, rq_ip = ip, rq_name = ''n'',
     rq_version = ''2'', rq_key_sign = None, rq_ip_variable = var, rq_server_id = 0,
     rq_registration_mode = Normal, rq_allow_wire_guard = True, rq_wireguard_p2p = None,
     rq_client_capabilities = 3\<rparr>"

definition wit_init :: lease_state where
  "wit_init = build_initial_inner_state wit_net wit_gw 0 (Some []) (Some [])"

definition wit_one :: lease_state where
  "wit_one = snd (allocate_ip wit_net wit_gw (wit_reg ''a'' None False) 7 0 wit_init)"

lemma wit_one_ip: "fst (allocate_ip wit_net wit_gw (wit_reg ''a'' None False) 7 0 wit_init) = Inr (ip4 10 26 0 2, None)"
  by (simp add: witness_eval wit_init_def wit_net_def wit_gw_def build_initial_inner_state_def empty_lease_state_def
     allocate_ip_def wit_reg_def allocate_automatic_def find_available_ip_def scan_ip.simps ip_taken_def hm_contains_def hm_get_def)

lemmas lease_eval = witness_eval wit_init_def wit_net_def wit_gw_def build_initial_inner_state_def
  empty_lease_state_def allocate_ip_def wit_reg_def allocate_automatic_def claim_requested_ip_def
  reconnect_device_def find_available_ip_def scan_ip.simps ip_taken_def hm_contains_def hm_get_def
  hm_insert_def hm_remove_def add_new_device_def add_device_def stats_alloc_def traffic_stats_new_def

lemma wit_init_steps:
  "(lease_step wit_net wit_gw)\<^sup>*\<^sup>* (build_initial_inner_state wit_net wit_gw 0 (Some []) (Some []), None) (wit_one, None)"
proof -
  have "lease_step wit_net wit_gw (wit_init, None) (wit_one, None)"
    by (rule step_allocate [where r = "fst (allocate_ip wit_net wit_gw (wit_reg ''a'' None False) 7 0 wit_init)"])
      (simp add: wit_one_def)
  then show ?thesis by (simp add: wit_init_def)
qed

lemma wit_one_holds: "holds wit_one (VntDevice ''a'') (ip4 10 26 0 2)"
proof -
  obtain e where e: "device_map wit_one = hm_insert ''a'' e (device_map wit_init)" "de_ip e = Some (ip4 10 26 0 2)"
    using allocate_ip_Inr(1) [of wit_net wit_gw "wit_reg ''a'' None False" 7 0 wit_init "ip4 10 26 0 2" None wit_one] wit_one_ip
    by (auto simp: wit_one_def leased_entry_def wit_reg_def prod_eq_iff)
  then show ?thesis by simp
qed

lemma wit_one_maps: "hm_get (device_ip_map wit_one) (ip4 10 26 0 2) = Some ''a''"
proof -
  have "sys_inv wit_net wit_gw (wit_one, None)"
    by (rule leases.reachable [OF wit_init_steps sys_inv_initial [OF _ wit_net_ok]]) (simp add: db_consistent_def)
  then have "maps_inv wit_net wit_gw (hm_get (device_map wit_one)) (hm_get (device_ip_map wit_one))
      (hm_get (wireguard_peer_ip_map wit_one))" by (simp add: sys_inv_def lease_inv_def)
  then show ?thesis using wit_one_holds indexedD
    by (fastforce simp: wit_net_def wit_gw_def witness_eval split: option.splits)
qed

lemma wit_one_eq: "wit_one =
  \<lparr>data_version = 1, last_wireguard_change_version = 0,
   device_map = [(''a'', \<lparr>de_device_id = ''a'', de_ip = Some (ip4 10 26 0 2), de_random_id = 7,
      de_device_name = ''n'', de_device_version = ''2'', de_is_connected = True,
      de_last_connect_time = 0, de_disconnect_time = None, de_data_version = 1, de_key_sign = None,
      de_latency_ms = None, de_traffic_stats = 0\<rparr>)],
   device_ip_map = [(ip4 10 26 0 2, ''a'')], wireguard_peer_ip_map = [],
   remote_wireguard_sources = [], stats_store = [(0, \<lparr>tx_total_bytes = 0, rx_total_bytes = 0\<rparr>)],
   next_stats = 1\<rparr>"
  by (simp add: wit_one_def lease_eval)

lemma wit_one_free: "find_available_ip wit_net wit_gw wit_one = Inr (ip4 10 26 0 3)"
  by (simp add: wit_one_eq lease_eval)

lemma wit_prepare: "prepare_wireguard_peer_ip_reservation ''p'' (ip4 10 26 0 9) wit_one =
    (Inr None, wit_one\<lparr>wireguard_peer_ip_map := [(ip4 10 26 0 9, ''p'')]\<rparr>)"
  by (simp add: prepare_wireguard_peer_ip_reservation_def wit_one_eq wireguard_peer_ip_def lease_eval)

lemma held_step_keeps_reservations:
  assumes "lease_step net gw (a, Some r) (b, Some r)"
  shows "wireguard_peer_ip_map b = wireguard_peer_ip_map a"
  using assms by (cases rule: lease_step.cases) (auto simp: allocate_ip_keeps_reservations offline_keeps_reservations)

text \<open>C1. No address is ever given to two owners.  From any database content that respects the
  table constraints, whatever registrations, disconnections, expiries and releases happen, and
  however they interleave with the three phases of a WireGuard reservation, every host address of the
  network is held by at most one VNT device or WireGuard peer.\<close>

theorem address_exclusive:
  assumes "ipv4_net_ok net" "net_network net \<noteq> - 1" "db_consistent rs as"
    and "(lease_step net gw)\<^sup>*\<^sup>* (build_initial_inner_state net gw now (Some rs) (Some as), None) (st, res)"
    and "net_contains net ip" "ip \<noteq> gw" "holds st o1 ip" "holds st o2 ip"
  shows "o1 = o2"
proof -
  have "sys_inv net gw (st, res)"
    by (rule leases.reachable [OF assms(4) sys_inv_initial [OF assms(3,1,2)]])
  then show ?thesis by (intro holds_unique [OF sys_invD(3) assms(5-8)])
qed

theorem address_exclusive_witness:
  "{o'. holds wit_one o' (ip4 10 26 0 2)} = {VntDevice ''a''}"
proof -
  have db: "db_consistent [] []" by (simp add: db_consistent_def)
  have n: "net_contains wit_net (ip4 10 26 0 2)" "ip4 10 26 0 2 \<noteq> wit_gw"
    by (simp_all add: wit_net_def wit_gw_def witness_eval)
  show ?thesis
    using address_exclusive [OF wit_net_ok db wit_init_steps n _ wit_one_holds] wit_one_holds by blast
qed

text \<open>C4. A WireGuard address reservation is atomic although the lease table is unlocked while the
  database is written: whatever VNT devices do in between, a rollback restores exactly the
  reservations that were there before, a commit leaves the peer with exactly the new address and
  every other peer with its own, and no device obtains the reserved address meanwhile.\<close>

theorem reservation_atomic:
  assumes "ipv4_net_ok net" "net_network net \<noteq> - 1" "db_consistent rs as"
    and "(lease_step net gw)\<^sup>*\<^sup>* (build_initial_inner_state net gw now (Some rs) (Some as), None) (st, None)"
    and "net_contains net ip" "ip \<noteq> gw"
    and "prepare_wireguard_peer_ip_reservation p ip st = (Inr prev, st1)"
    and "(\<lambda>a b. lease_step net gw (a, Some (p, ip, prev)) (b, Some (p, ip, prev)))\<^sup>*\<^sup>* st1 st2"
  shows "hm_get (wireguard_peer_ip_map (rollback_wireguard_peer_ip_reservation p ip prev st2)) =
      hm_get (wireguard_peer_ip_map st) \<and>
    hm_get (wireguard_peer_ip_map (commit_wireguard_peer_ip_reservation p ip prev st2)) =
      (\<lambda>i. if i = ip then Some p else if hm_get (wireguard_peer_ip_map st) i = Some p then None
           else hm_get (wireguard_peer_ip_map st) i) \<and>
    hm_get (device_ip_map st2) ip = None"
proof -
  let ?wm = "hm_get (wireguard_peer_ip_map st)"
  have "sys_inv net gw (st, None)"
    by (rule leases.reachable [OF assms(4) sys_inv_initial [OF assms(3,1,2)]])
  note i0 = this sys_invD [OF this]
  note pr = prepare_Inr [OF assms(7)]
  have "lease_step net gw (st, None) (st1, Some (p, ip, prev))" by (rule step_prepare [OF assms(5-7)])
  then have i1: "sys_inv net gw (st1, Some (p, ip, prev))" by (rule leases.preserved) (rule i0(1))
  have "sys_inv net gw (st2, Some (p, ip, prev)) \<and> wireguard_peer_ip_map st2 = wireguard_peer_ip_map st1"
    using assms(8)
  proof (induction rule: rtranclp_induct)
    case (step a b)
    then show ?case using leases.preserved held_step_keeps_reservations by metis
  qed (simp add: i1)
  then have i2: "sys_inv net gw (st2, Some (p, ip, prev))"
    and w: "hm_get (wireguard_peer_ip_map st2) = ?wm(ip \<mapsto> p)" by (simp_all add: pr(4))
  have one: "\<And>a b. ?wm a = Some p \<Longrightarrow> ?wm b = Some p \<Longrightarrow> a = b"
    using i0(5) by (simp add: res_inv_def one_each_def)
  have prev: "?wm a = Some p \<longleftrightarrow> prev = Some a" for a
    using one wireguard_peer_ip_Some [OF i0(6)] wireguard_peer_ip_None [OF i0(6), of p] pr(1)
    by (metis not_Some_eq)
  have "hm_get (device_ip_map st2) ip = None"
    using sys_invD(3) [OF i2] w by (auto simp: lease_inv_def maps_inv_def disjoint_pools_def dest: spec [of _ ip])
  moreover have "hm_get (wireguard_peer_ip_map (rollback_wireguard_peer_ip_reservation p ip prev st2)) = ?wm"
    using prev [of ip] pr(3) by (auto simp: rollback_wireguard_peer_ip_reservation_def w fun_eq_iff)
  moreover have "hm_get (wireguard_peer_ip_map (commit_wireguard_peer_ip_reservation p ip prev st2)) =
      (\<lambda>i. if i = ip then Some p else if ?wm i = Some p then None else ?wm i)"
    using prev by (auto simp: commit_wireguard_peer_ip_reservation_def w fun_eq_iff split: option.split)
  ultimately show ?thesis by blast
qed

theorem reservation_atomic_witness:
  "hm_get (wireguard_peer_ip_map (rollback_wireguard_peer_ip_reservation ''p'' (ip4 10 26 0 9) None
     (wit_one\<lparr>wireguard_peer_ip_map := [(ip4 10 26 0 9, ''p'')]\<rparr>))) = hm_get (wireguard_peer_ip_map wit_one)"
proof -
  have "net_contains wit_net (ip4 10 26 0 9)" "ip4 10 26 0 9 \<noteq> wit_gw" by (simp_all add: lease_eval)
  moreover have "db_consistent [] []" by (simp add: db_consistent_def)
  ultimately show ?thesis using reservation_atomic [OF wit_net_ok _ wit_init_steps _ _ wit_prepare] by blast
qed

text \<open>C30. Automatic allocation returns the lowest address strictly between the network and the
  broadcast address that is neither the gateway nor held by a device nor reserved for a peer, and it
  reports exhaustion exactly when there is none.\<close>

theorem find_available_ip_least:
  assumes "net_network net \<noteq> - 1"
  shows "(find_available_ip net gw st = Inr ip \<longleftrightarrow>
      net_network net < ip \<and> ip < net_broadcast net \<and> \<not> ip_taken gw st ip \<and>
      (\<forall>b. net_network net < b \<and> b < ip \<longrightarrow> ip_taken gw st b)) \<and>
    (find_available_ip net gw st = Inl IpExhaustion \<longleftrightarrow>
      (\<forall>b. net_network net < b \<and> b < net_broadcast net \<longrightarrow> ip_taken gw st b))"
proof -
  have "(\<exists>e. find_available_ip net gw st = Inl e) \<longleftrightarrow>
      (\<forall>b. net_network net < b \<and> b < net_broadcast net \<longrightarrow> ip_taken gw st b)"
    by (rule pool.exhausted_iff [OF assms])
  then show ?thesis
    using pool.found_iff [OF assms] pool.error_is_exhausted by blast
qed

theorem find_available_ip_least_witness:
  "find_available_ip wit_net wit_gw wit_one = Inr (ip4 10 26 0 3) \<and> net_network wit_net < ip4 10 26 0 3 \<and>
   \<not> ip_taken wit_gw wit_one (ip4 10 26 0 3)"
  using find_available_ip_least [OF wit_net_ok(2)] wit_one_free by blast



text \<open>C40. A leak: when a known device asks for an unusable address and accepts another one,
  \<open>allocate_ip\<close> gives it a new address but keeps its previous address in the index, unlike the branch
  that grants the requested address.  Once the device is removed, the previous address stays taken
  although nobody holds it.\<close>

theorem variable_request_leaks_address:
  assumes "hm_get (device_map st) (rq_device_id req) = Some e" "de_ip e = Some old"
    and "hm_get (device_ip_map st) old = Some (rq_device_id req)"
    and "rq_ip req = Some a" "a \<noteq> old" "rq_ip_variable req" "ip_taken gw st a \<or> \<not> net_contains net a"
    and "find_available_ip net gw st = Inr new"
  shows "\<exists>st'. allocate_ip net gw req rid now st = (Inr (new, Some old), st') \<and>
    new \<noteq> old \<and> holds st' (VntDevice (rq_device_id req)) new \<and>
    hm_get (device_ip_map st') old = Some (rq_device_id req) \<and>
    hm_get (device_map (inner_remove_devices [rq_device_id req] st')) (rq_device_id req) = None \<and>
    ip_taken gw (inner_remove_devices [rq_device_id req] st') old"
proof -
  let ?st = "add_new_device req new rid now st"
  have "scan_ip (ip_taken gw st) (net_network net + 1) (net_broadcast net) = Some new"
    using assms(8) by (auto simp: find_available_ip_def split: option.splits)
  then have new: "new \<noteq> old" using scan_ip_Some assms(3) by (fastforce simp: ip_taken_def hm_contains_def)
  have "claim_requested_ip net gw req rid now (Some old) a st = None"
    using assms(6,7) by (auto simp: claim_requested_ip_def ip_taken_def hm_contains_def split: option.split)
  then have al: "allocate_ip net gw req rid now st = (Inr (new, Some old), ?st)"
    using assms by (simp add: allocate_ip_def allocate_automatic_def)
  obtain e' where e': "de_ip e' = Some new"
    "device_map ?st = hm_insert (rq_device_id req) e' (device_map st)"
    "device_ip_map ?st = hm_insert new (rq_device_id req) (device_ip_map st)"
    by (rule add_new_device_maps)
  have "hm_get (device_ip_map ?st) old = Some (rq_device_id req)" using new assms(3) by (simp add: e'(3))
  then show ?thesis
    using new al by (simp add: e' inner_remove_devices_def remove_device_step_def Let_def ip_taken_def hm_contains_def)
qed

theorem variable_request_leaks_address_witness:
  "\<exists>st'. allocate_ip wit_net wit_gw (wit_reg ''a'' (Some wit_gw) True) 8 1 wit_one =
     (Inr (ip4 10 26 0 3, Some (ip4 10 26 0 2)), st') \<and> ip_taken wit_gw (inner_remove_devices [''a''] st') (ip4 10 26 0 2)"
proof -
  let ?r = "wit_reg ''a'' (Some wit_gw) True"
  have r: "rq_device_id ?r = ''a''" "rq_ip ?r = Some wit_gw" "rq_ip_variable ?r" by (simp_all add: wit_reg_def)
  obtain e where "hm_get (device_map wit_one) ''a'' = Some e" "de_ip e = Some (ip4 10 26 0 2)"
    using wit_one_holds by (auto split: option.splits)
  moreover have "wit_gw \<noteq> ip4 10 26 0 2" by (simp add: lease_eval)
  moreover have "ip_taken wit_gw wit_one wit_gw" by (simp add: ip_taken_def)
  ultimately show ?thesis
    using variable_request_leaks_address [of wit_one ?r e "ip4 10 26 0 2" wit_gw wit_gw wit_net "ip4 10 26 0 3"]
      wit_one_maps wit_one_free by (simp add: r) metis
qed

text \<open>An explicit request for the network or broadcast address of the virtual network is
  granted, although automatic allocation never hands it out.\<close>

theorem requested_edge_address_granted:
  assumes "ipv4_net_ok net" "a = net_network net \<or> a = net_broadcast net" "a \<noteq> gw"
    and "hm_get (device_map st) (rq_device_id req) = None" "\<not> ip_taken gw st a"
    and "rq_ip req = Some a"
  shows "fst (allocate_ip net gw req rid now st) = Inr (a, None) \<and>
    (net_network net \<noteq> - 1 \<longrightarrow> find_available_ip net gw st \<noteq> Inr a)"
proof -
  have "net_contains net a" using assms(1,2) by (auto simp: ipv4_net_ok_def)
  then have "fst (allocate_ip net gw req rid now st) = Inr (a, None)"
    using assms by (simp add: allocate_ip_def claim_requested_ip_def ip_taken_def hm_contains_def)
  moreover have "find_available_ip net gw st \<noteq> Inr a" if "net_network net \<noteq> - 1"
    using find_available_ip_free(1,2) [OF _ assms(1) that] assms(2) by blast
  ultimately show ?thesis by blast
qed

theorem requested_edge_address_granted_witness:
  "fst (allocate_ip wit_net wit_gw (wit_reg ''b'' (Some (ip4 10 26 0 255)) False) 8 1 wit_one) =
     Inr (ip4 10 26 0 255, None)"
proof -
  have "ip4 10 26 0 255 = net_broadcast wit_net" "ip4 10 26 0 255 \<noteq> wit_gw"
    "hm_get (device_map wit_one) ''b'' = None" "\<not> ip_taken wit_gw wit_one (ip4 10 26 0 255)"
    by (simp_all add: lease_eval wit_one_eq)
  then show ?thesis
    using requested_edge_address_granted [OF wit_net_ok(1), of "ip4 10 26 0 255" wit_gw wit_one "wit_reg ''b'' (Some (ip4 10 26 0 255)) False"]
    by (simp add: wit_reg_def)
qed

end
