(* ===== verification/Socket_Text.thy ===== *)
theory Socket_Text
  imports Std_Text
begin

text \<open>
  Socket addresses of the Rust standard library and their text form (\<open>SocketAddr::to_string\<close> and the
  part of its \<open>FromStr\<close> instance that yields an IPv4 address).  The flow label of an IPv6 address is
  not kept: it is neither printed nor compared by the program.
\<close>

datatype socket_addr = SocketV4 ipv4 u16 | SocketV6 "128 word" u16 u32
  \<comment> \<open>address, port, and the scope of an IPv6 address\<close>

datatype ip_addr = IpV4 ipv4 | IpV6 "128 word"

fun socket_ip :: "socket_addr \<Rightarrow> ip_addr" where
  "socket_ip (SocketV4 a _) = IpV4 a"
| "socket_ip (SocketV6 a _ _) = IpV6 a"

fun is_ipv4 :: "socket_addr \<Rightarrow> bool" where
  "is_ipv4 (SocketV4 _ _) = True"
| "is_ipv4 (SocketV6 _ _ _) = False"

fun socket_port :: "socket_addr \<Rightarrow> u16" where
  "socket_port (SocketV4 _ p) = p"
| "socket_port (SocketV6 _ p _) = p"

section \<open>Numbers\<close>

fun dec_to_string :: "nat \<Rightarrow> string" where
  "dec_to_string n = (if n < 10 then [digit_char n] else dec_to_string (n div 10) @ [digit_char (n mod 10)])"

declare dec_to_string.simps [simp del]

definition hex_char :: "nat \<Rightarrow> char" where
  "hex_char d = (if d < 10 then digit_char d else char_of (87 + d))"

fun hex_to_string :: "nat \<Rightarrow> string" where
  "hex_to_string n = (if n < 16 then [hex_char n] else hex_to_string (n div 16) @ [hex_char (n mod 16)])"

declare hex_to_string.simps [simp del]

definition dec_val :: "string \<Rightarrow> nat" where
  "dec_val ds = foldl (\<lambda>a c. a * 10 + digit_val c) 0 ds"

section \<open>IPv6 addresses\<close>

definition segments :: "128 word \<Rightarrow> nat list" where
  "segments a = map (\<lambda>i. unat a div 65536 ^ (7 - i) mod 65536) [0..<8]"

text \<open>The loop that looks for the longest run of zero segments: start and length of the longest and
  of the current run.\<close>

fun zero_span :: "nat \<Rightarrow> nat list \<Rightarrow> nat \<times> nat \<Rightarrow> nat \<times> nat \<Rightarrow> nat \<times> nat" where
  "zero_span i [] longest current = longest"
| "zero_span i (s # ss) longest current =
     (if s = 0
      then let current = (if snd current = 0 then i else fst current, snd current + 1)
           in zero_span (i + 1) ss (if snd current > snd longest then current else longest) current
      else zero_span (i + 1) ss longest (0, 0))"

fun colon_join :: "nat list \<Rightarrow> string" where
  "colon_join [] = ''''"
| "colon_join [s] = hex_to_string s"
| "colon_join (s # ss) = hex_to_string s @ '':'' @ colon_join ss"

definition ipv6_to_string :: "128 word \<Rightarrow> string" where
  "ipv6_to_string a =
     (let ss = segments a in
      if take 6 ss = [0, 0, 0, 0, 0, 0xFFFF] then ''::ffff:'' @ ipv4_to_string (ucast a)
      else case zero_span 0 ss (0, 0) (0, 0) of (start, len) \<Rightarrow>
        if len > 1 then colon_join (take start ss) @ ''::'' @ colon_join (drop (start + len) ss)
        else colon_join ss)"

section \<open>Socket addresses\<close>

fun socket_to_string :: "socket_addr \<Rightarrow> string" where
  "socket_to_string (SocketV4 a p) = ipv4_to_string a @ '':'' @ dec_to_string (unat p)"
| "socket_to_string (SocketV6 a p scope) =
     ''['' @ ipv6_to_string a @ (if scope = 0 then '''' else ''%'' @ dec_to_string (unat scope)) @ '']:'' @
     dec_to_string (unat p)"

text \<open>\<open>parse::<SocketAddr>()\<close> followed by the test \<open>is_ipv4\<close>: only the IPv4 form passes.\<close>

definition read_port :: "string \<Rightarrow> u16 option" where
  "read_port s =
     (case s of
        c # ds \<Rightarrow> if c = CHR '':'' \<and> ds \<noteq> [] \<and> list_all is_digit ds \<and> dec_val ds \<le> 65535
                  then Some (of_nat (dec_val ds)) else None
      | [] \<Rightarrow> None)"

definition parse_socket_v4 :: "string \<Rightarrow> (ipv4 \<times> u16) option" where
  "parse_socket_v4 s =
     (case read_ipv4 s of
        None \<Rightarrow> None
      | Some (a, rest) \<Rightarrow> map_option (\<lambda>p. (a, p)) (read_port rest))"

section \<open>Round trip\<close>

lemma dec_to_string_digits: "dec_to_string n \<noteq> [] \<and> list_all is_digit (dec_to_string n)"
  by (induction n rule: dec_to_string.induct) (subst (1 2) dec_to_string.simps, simp)

lemma dec_val_to_string: "dec_val (dec_to_string n) = n"
proof (induction n rule: dec_to_string.induct)
  case (1 n)
  then show ?case by (subst dec_to_string.simps) (simp add: dec_val_def)
qed

lemma parse_socket_to_string: "parse_socket_v4 (socket_to_string (SocketV4 a p)) = Some (a, p)"
proof -
  have "read_ipv4 (ipv4_to_string a @ CHR '':'' # dec_to_string (unat p)) = Some (a, CHR '':'' # dec_to_string (unat p))"
    by (rule read_ipv4_to_string) (simp add: is_digit_def)
  moreover have "unat p < 2 ^ LENGTH(16)" by (rule unsigned_less)
  ultimately show ?thesis
    by (simp add: parse_socket_v4_def read_port_def dec_to_string_digits dec_val_to_string)
qed

text \<open>An IPv6 text is not taken for an IPv4 address.\<close>

lemma parse_socket_v6: "parse_socket_v4 (socket_to_string (SocketV6 a p sc)) = None"
  by (simp add: parse_socket_v4_def read_ipv4_def parse_octet_def Let_def is_digit_def)

end
