(* ===== verification/Net_Packet.thy ===== *)
theory Net_Packet
  imports Prelude
begin

text \<open>
  The wire format of the tunnel protocol (official-vnts-source-2.0.0/src/protocol/ip_packet_protocol.rs).

  \<open>net_header\<close> is the 16 byte repr(C) struct NetHeader, \<open>msg_type\<close> its message type enum, and
  \<open>net_packet\<close> the buffer wrapper NetPacket.  Every accessor of NetPacket reads the header out of the
  buffer and every setter writes it back, so the lemmas on setters are stated on buffers.  The locale
  \<open>header_setter\<close> is the contract of one setter; each setter of NetPacket is an instance of it.
\<close>

section \<open>The header\<close>

record net_header =
  type_byte :: u8
  ttl_byte :: u8
  flags_byte :: u8
  reserved_byte :: u8
  hdr_seq :: u32
  hdr_src_id :: u32
  hdr_dest_id :: u32

definition COMPRESSED :: u8 where
  "COMPRESSED = 0x80"

definition GATEWAY :: u8 where
  "GATEWAY = 0x40"

definition hdr_msg_type :: "net_header \<Rightarrow> u8" where
  "hdr_msg_type h = type_byte h AND 0x7F"

definition hdr_set_msg_type :: "u8 \<Rightarrow> net_header \<Rightarrow> net_header" where
  "hdr_set_msg_type m h = h\<lparr>type_byte := (m AND 0x7F) OR 0x80\<rparr>"

definition hdr_max_ttl :: "net_header \<Rightarrow> u8" where
  "hdr_max_ttl h = drop_bit 4 (ttl_byte h)"

definition hdr_curr_ttl :: "net_header \<Rightarrow> u8" where
  "hdr_curr_ttl h = ttl_byte h AND 0x0F"

definition hdr_set_ttl :: "u8 \<Rightarrow> u8 \<Rightarrow> net_header \<Rightarrow> net_header" where
  "hdr_set_ttl mx cur h = h\<lparr>ttl_byte := push_bit 4 mx OR (cur AND 0x0F)\<rparr>"

definition hdr_decr_ttl :: "net_header \<Rightarrow> bool \<times> net_header" where
  "hdr_decr_ttl h =
     (let cur = hdr_curr_ttl h
      in if cur \<le> 1 then (False, h)
         else (True, h\<lparr>ttl_byte := (ttl_byte h AND 0xF0) OR (cur - 1)\<rparr>))"

definition hdr_set_flag :: "u8 \<Rightarrow> bool \<Rightarrow> net_header \<Rightarrow> net_header" where
  "hdr_set_flag msk val h =
     (if val then h\<lparr>flags_byte := flags_byte h OR msk\<rparr>
      else h\<lparr>flags_byte := flags_byte h AND NOT msk\<rparr>)"

section \<open>Message types\<close>

datatype msg_type =
    Turn | Broadcast | ExcludeBroadcast | TargetBroadcast
  | Ping | Pong | PingTurn | PongTurn
  | PunchStart1 | PunchStart2 | PunchReq | PunchRes
  | PushClientIps
  | RpcReq | RpcRes
  | Quic | WireGuardRelay | WireGuardP2pControl | WireGuardSubnetRelay | WireGuardBroadcastRelay

datatype io_error = InvalidMsgType u8 | InvalidInput | InvalidMessageLength

fun msg_type_into :: "msg_type \<Rightarrow> u8" where
  "msg_type_into Turn = 1"
| "msg_type_into Broadcast = 2"
| "msg_type_into ExcludeBroadcast = 3"
| "msg_type_into TargetBroadcast = 4"
| "msg_type_into Ping = 5"
| "msg_type_into Pong = 6"
| "msg_type_into PingTurn = 7"
| "msg_type_into PongTurn = 8"
| "msg_type_into PunchStart1 = 9"
| "msg_type_into PunchStart2 = 10"
| "msg_type_into PunchReq = 11"
| "msg_type_into PunchRes = 12"
| "msg_type_into PushClientIps = 13"
| "msg_type_into RpcReq = 14"
| "msg_type_into RpcRes = 15"
| "msg_type_into Quic = 17"
| "msg_type_into WireGuardRelay = 18"
| "msg_type_into WireGuardP2pControl = 20"
| "msg_type_into WireGuardSubnetRelay = 21"
| "msg_type_into WireGuardBroadcastRelay = 22"

definition msg_type_try_from :: "u8 \<Rightarrow> io_error + msg_type" where
  "msg_type_try_from value =
     (if value = 1 then Inr Turn
      else if value = 2 then Inr Broadcast
      else if value = 3 then Inr ExcludeBroadcast
      else if value = 4 then Inr TargetBroadcast
      else if value = 5 then Inr Ping
      else if value = 6 then Inr Pong
      else if value = 7 then Inr PingTurn
      else if value = 8 then Inr PongTurn
      else if value = 9 then Inr PunchStart1
      else if value = 10 then Inr PunchStart2
      else if value = 11 then Inr PunchReq
      else if value = 12 then Inr PunchRes
      else if value = 13 then Inr PushClientIps
      else if value = 14 then Inr RpcReq
      else if value = 15 then Inr RpcRes
      else if value = 17 then Inr Quic
      else if value = 18 then Inr WireGuardRelay
      else if value = 20 then Inr WireGuardP2pControl
      else if value = 21 then Inr WireGuardSubnetRelay
      else if value = 22 then Inr WireGuardBroadcastRelay
      else Inl (InvalidMsgType value))"

section \<open>The packet\<close>

text \<open>\<open>Ref::from_prefix\<close> overlays the struct on the first 16 bytes: it fails on a shorter buffer, the
  three U32 fields are in network byte order.\<close>

definition HEAD_LENGTH :: nat where
  "HEAD_LENGTH = 16"

record net_packet =
  buffer :: bytes

definition header_of_bytes :: "bytes \<Rightarrow> net_header" where
  "header_of_bytes b =
     \<lparr>type_byte = b ! 0, ttl_byte = b ! 1, flags_byte = b ! 2, reserved_byte = b ! 3,
      hdr_seq = u32_of_be (b ! 4) (b ! 5) (b ! 6) (b ! 7),
      hdr_src_id = u32_of_be (b ! 8) (b ! 9) (b ! 10) (b ! 11),
      hdr_dest_id = u32_of_be (b ! 12) (b ! 13) (b ! 14) (b ! 15)\<rparr>"

definition header_bytes :: "net_header \<Rightarrow> bytes" where
  "header_bytes h =
     [type_byte h, ttl_byte h, flags_byte h, reserved_byte h] @
     u32_be (hdr_seq h) @ u32_be (hdr_src_id h) @ u32_be (hdr_dest_id h)"

definition from_prefix :: "bytes \<Rightarrow> net_header option" where
  "from_prefix b = (if length b < HEAD_LENGTH then None else Some (header_of_bytes b))"

definition new_packet :: "bytes \<Rightarrow> io_error + net_packet" where
  "new_packet b = (if length b < HEAD_LENGTH then Inl InvalidInput else Inr \<lparr>buffer = b\<rparr>)"

definition header :: "net_packet \<Rightarrow> net_header" where
  "header p = header_of_bytes (buffer p)"

definition packet_msg_type :: "net_packet \<Rightarrow> io_error + msg_type" where
  "packet_msg_type p = msg_type_try_from (hdr_msg_type (header p))"

definition max_ttl :: "net_packet \<Rightarrow> u8" where
  "max_ttl p = hdr_max_ttl (header p)"

definition ttl :: "net_packet \<Rightarrow> u8" where
  "ttl p = hdr_curr_ttl (header p)"

definition packet_seq :: "net_packet \<Rightarrow> u32" where
  "packet_seq p = hdr_seq (header p)"

definition src_id :: "net_packet \<Rightarrow> u32" where
  "src_id p = hdr_src_id (header p)"

definition dest_id :: "net_packet \<Rightarrow> u32" where
  "dest_id p = hdr_dest_id (header p)"

definition is_compressed :: "net_packet \<Rightarrow> bool" where
  "is_compressed p = (flags_byte (header p) AND COMPRESSED \<noteq> 0)"

definition is_gateway :: "net_packet \<Rightarrow> bool" where
  "is_gateway p = (flags_byte (header p) AND GATEWAY \<noteq> 0)"

definition payload :: "net_packet \<Rightarrow> bytes" where
  "payload p = drop HEAD_LENGTH (buffer p)"

definition header_mut :: "(net_header \<Rightarrow> net_header) \<Rightarrow> net_packet \<Rightarrow> net_packet" where
  "header_mut f p = p\<lparr>buffer := header_bytes (f (header p)) @ drop HEAD_LENGTH (buffer p)\<rparr>"

definition set_msg_type :: "msg_type \<Rightarrow> net_packet \<Rightarrow> net_packet" where
  "set_msg_type m = header_mut (hdr_set_msg_type (msg_type_into m))"

definition decr_ttl :: "net_packet \<Rightarrow> bool \<times> net_packet" where
  "decr_ttl p = (fst (hdr_decr_ttl (header p)), header_mut (\<lambda>h. snd (hdr_decr_ttl h)) p)"

definition set_ttl :: "u8 \<Rightarrow> net_packet \<Rightarrow> net_packet" where
  "set_ttl t = header_mut (hdr_set_ttl t t)"

definition set_seq :: "u32 \<Rightarrow> net_packet \<Rightarrow> net_packet" where
  "set_seq s = header_mut (\<lambda>h. h\<lparr>hdr_seq := s\<rparr>)"

definition set_src_id :: "u32 \<Rightarrow> net_packet \<Rightarrow> net_packet" where
  "set_src_id i = header_mut (\<lambda>h. h\<lparr>hdr_src_id := i\<rparr>)"

definition set_dest_id :: "u32 \<Rightarrow> net_packet \<Rightarrow> net_packet" where
  "set_dest_id i = header_mut (\<lambda>h. h\<lparr>hdr_dest_id := i\<rparr>)"

definition set_compressed_flag :: "bool \<Rightarrow> net_packet \<Rightarrow> net_packet" where
  "set_compressed_flag c = header_mut (hdr_set_flag COMPRESSED c)"

definition set_gateway_flag :: "bool \<Rightarrow> net_packet \<Rightarrow> net_packet" where
  "set_gateway_flag g = header_mut (hdr_set_flag GATEWAY g)"

definition set_payload :: "bytes \<Rightarrow> net_packet \<Rightarrow> io_error + net_packet" where
  "set_payload data p =
     (if length (buffer p) < HEAD_LENGTH + length data then Inl InvalidMessageLength
      else Inr (p\<lparr>buffer := take HEAD_LENGTH (buffer p) @ data @
                     drop (HEAD_LENGTH + length data) (buffer p)\<rparr>))"

section \<open>Headers and buffers\<close>

definition packet_ok :: "net_packet \<Rightarrow> bool" where
  "packet_ok p = (HEAD_LENGTH \<le> length (buffer p))"

lemma header_bytes_length [simp, byte_simps]: "length (header_bytes h) = HEAD_LENGTH"
  by (simp add: header_bytes_def HEAD_LENGTH_def)

lemma header_of_header_bytes [simp]: "header_of_bytes (header_bytes h @ r) = h"
  by (simp add: header_of_bytes_def header_bytes_def u32_be_def)

lemma header_header_mut [simp]: "header (header_mut f p) = f (header p)"
  by (simp add: header_def header_mut_def)

lemma payload_header_mut [simp]: "payload (header_mut f p) = payload p"
  by (simp add: payload_def header_mut_def)

lemma header_mut_length: "packet_ok p \<Longrightarrow> length (buffer (header_mut f p)) = length (buffer p)"
  by (simp add: packet_ok_def header_mut_def)

lemma packet_ok_header_mut [simp]: "packet_ok (header_mut f p)"
  by (simp add: packet_ok_def header_mut_def)

lemma new_packet_ok: "new_packet b = Inr p \<Longrightarrow> packet_ok p \<and> buffer p = b"
  by (auto simp: new_packet_def packet_ok_def split: if_splits)

lemma from_prefix_header: "packet_ok p \<Longrightarrow> from_prefix (buffer p) = Some (header p)"
  by (simp add: from_prefix_def packet_ok_def header_def)

lemma buffer_length: "packet_ok p \<Longrightarrow> length (buffer p) = HEAD_LENGTH + length (payload p)"
  by (simp add: packet_ok_def payload_def)

lemma header_append:
  "HEAD_LENGTH \<le> length b \<Longrightarrow> header_of_bytes (take HEAD_LENGTH b @ r) = header_of_bytes b"
  by (simp add: header_of_bytes_def HEAD_LENGTH_def nth_append)

lemma set_payload_Inr:
  assumes "packet_ok p" "set_payload data p = Inr q"
  shows "header q = header p" "packet_ok q" "length (buffer q) = length (buffer p)"
    "take (length data) (payload q) = data"
  using assms by (auto simp: set_payload_def header_def packet_ok_def payload_def header_append
      split: if_splits)

section \<open>The contract of a header setter\<close>

text \<open>A setter changes the header by one function of the value it sets, leaves the payload and the
  buffer length alone, and keeps the buffer long enough for the next access.\<close>

locale header_setter =
  fixes setter :: "'v \<Rightarrow> net_packet \<Rightarrow> net_packet"
    and upd :: "'v \<Rightarrow> net_header \<Rightarrow> net_header"
  assumes header_set: "header (setter v p) = upd v (header p)"
    and payload_set: "payload (setter v p) = payload p"
    and ok_set: "packet_ok (setter v p)"
begin

lemma from_prefix_set: "from_prefix (buffer (setter v p)) = Some (upd v (header p))"
  by (simp add: from_prefix_header ok_set header_set)

lemma length_set: "packet_ok p \<Longrightarrow> length (buffer (setter v p)) = length (buffer p)"
  by (simp add: buffer_length ok_set payload_set)

lemma keeps_field: "(\<And>h. g (upd v h) = g h) \<Longrightarrow> g (header (setter v p)) = g (header p)"
  by (simp add: header_set)

end

interpretation ty: header_setter set_msg_type "\<lambda>m. hdr_set_msg_type (msg_type_into m)"
  by unfold_locales (simp_all add: set_msg_type_def)

interpretation ttl_field: header_setter set_ttl "\<lambda>t. hdr_set_ttl t t"
  by unfold_locales (simp_all add: set_ttl_def)

interpretation seq_field: header_setter set_seq "\<lambda>s h. h\<lparr>hdr_seq := s\<rparr>"
  by unfold_locales (simp_all add: set_seq_def)

interpretation src: header_setter set_src_id "\<lambda>i h. h\<lparr>hdr_src_id := i\<rparr>"
  by unfold_locales (simp_all add: set_src_id_def)

interpretation dest: header_setter set_dest_id "\<lambda>i h. h\<lparr>hdr_dest_id := i\<rparr>"
  by unfold_locales (simp_all add: set_dest_id_def)

interpretation compressed: header_setter set_compressed_flag "hdr_set_flag COMPRESSED"
  by unfold_locales (simp_all add: set_compressed_flag_def)

interpretation gateway_flag: header_setter set_gateway_flag "hdr_set_flag GATEWAY"
  by unfold_locales (simp_all add: set_gateway_flag_def)

lemmas setter_header =
  ty.header_set ttl_field.header_set seq_field.header_set src.header_set dest.header_set
  compressed.header_set gateway_flag.header_set

lemmas setter_frame =
  ty.payload_set ttl_field.payload_set seq_field.payload_set src.payload_set dest.payload_set
  compressed.payload_set gateway_flag.payload_set
  ty.ok_set ttl_field.ok_set seq_field.ok_set src.ok_set dest.ok_set
  compressed.ok_set gateway_flag.ok_set

lemmas setter_length =
  ty.length_set ttl_field.length_set seq_field.length_set src.length_set dest.length_set
  compressed.length_set gateway_flag.length_set

lemmas header_defs =
  hdr_msg_type_def hdr_set_msg_type_def hdr_max_ttl_def hdr_curr_ttl_def hdr_set_ttl_def
  hdr_set_flag_def COMPRESSED_def GATEWAY_def

lemmas packet_accessors =
  packet_msg_type_def max_ttl_def ttl_def packet_seq_def src_id_def dest_id_def
  is_compressed_def is_gateway_def

section \<open>Nibbles, flags and message types\<close>

lemma nibble_low: "(x :: u8) AND 0x0F = take_bit 4 x"
  by (simp add: take_bit_eq_mask mask_numeral)

lemma nibble_high: "(x :: u8) AND 0xF0 = push_bit 4 (drop_bit 4 x)"
proof -
  have *: "(0xF0 :: u8) = NOT (mask 4)" by (simp add: mask_numeral)
  show ?thesis unfolding * by (auto intro!: bit_word_eqI simp: bit_simps)
qed

lemma msg_type_try_from_into: "msg_type_try_from (msg_type_into m) = Inr m"
  by (cases m) (simp_all add: msg_type_try_from_def)

lemma msg_type_try_from_Inr: "msg_type_try_from v = Inr m \<Longrightarrow> msg_type_into m = v"
  by (auto simp: msg_type_try_from_def split: if_splits)

lemma msg_type_into_inject: "msg_type_into a = msg_type_into b \<longleftrightarrow> a = b"
  by (metis msg_type_try_from_into sum.inject(2))

lemma hdr_msg_type_set [simp]: "hdr_msg_type (hdr_set_msg_type (msg_type_into m) h) = msg_type_into m"
  by (cases m) (simp_all add: hdr_msg_type_def hdr_set_msg_type_def)

lemma hdr_ttl_set [simp]:
  "hdr_max_ttl (hdr_set_ttl a b h) = take_bit 4 a" "hdr_curr_ttl (hdr_set_ttl a b h) = take_bit 4 b"
  unfolding hdr_max_ttl_def hdr_curr_ttl_def hdr_set_ttl_def nibble_low
  by (auto intro!: bit_word_eqI simp: bit_simps)

lemma hdr_flag_set:
  "(flags_byte (hdr_set_flag m v h) AND m \<noteq> 0) \<longleftrightarrow> v" if "m \<noteq> 0"
  using that by (auto simp: hdr_set_flag_def bit.conj_disj_distrib2 and.assoc)

lemma nibble_join:
  assumes "unat (c :: u8) < 16"
  shows "drop_bit 4 (push_bit 4 y OR c) = take_bit 4 y" "take_bit 4 (push_bit 4 y OR c) = c"
proof -
  have "unat (take_bit 4 c) = unat c"
    using assms by (simp add: unsigned_take_bit_eq take_bit_nat_eq_self)
  then have "c = take_bit 4 c" by (metis word_unat_eq_iff)
  then obtain d where c: "c = take_bit 4 d" by blast
  show "drop_bit 4 (push_bit 4 y OR c) = take_bit 4 y" "take_bit 4 (push_bit 4 y OR c) = c"
    unfolding c by (auto intro!: bit_word_eqI simp: bit_simps)
qed

lemma hdr_decr_ttl_unat:
  assumes "hdr_decr_ttl h = (b, h')"
  shows "b \<longleftrightarrow> 1 < unat (hdr_curr_ttl h)" "unat (hdr_curr_ttl h') = unat (hdr_curr_ttl h) - (if b then 1 else 0)"
    "hdr_max_ttl h' = hdr_max_ttl h"
proof -
  let ?c = "take_bit 4 (ttl_byte h)"
  have lt: "unat ?c < 16" by (simp add: unsigned_take_bit_eq take_bit_nat_def)
  show "b \<longleftrightarrow> 1 < unat (hdr_curr_ttl h)"
    using assms by (auto simp: hdr_decr_ttl_def Let_def word_le_nat_alt split: if_splits)
  have "unat (hdr_curr_ttl h') = unat (hdr_curr_ttl h) - (if b then 1 else 0) \<and>
    hdr_max_ttl h' = hdr_max_ttl h"
  proof (cases "?c \<le> 1")
    case False
    then have c: "unat (?c - 1) = unat ?c - 1" by (intro unat_minus_one) auto
    with lt have "unat (?c - 1) < 16" by simp
    note l = nibble_join [OF this]
    have [simp]: "take_bit 4 (drop_bit 4 (ttl_byte h)) = drop_bit 4 (ttl_byte h)"
      by (rule bit_word_eqI)
        (use bit_imp_le_length [of "ttl_byte h"] in \<open>fastforce simp: bit_simps\<close>)
    from False have "b" "h' = h\<lparr>ttl_byte := push_bit 4 (drop_bit 4 (ttl_byte h)) OR (?c - 1)\<rparr>"
      using assms by (auto simp: hdr_decr_ttl_def Let_def hdr_curr_ttl_def nibble_low nibble_high)
    then show ?thesis
      by (simp_all add: hdr_curr_ttl_def hdr_max_ttl_def nibble_low l c del: take_bit_or drop_bit_or)
  next
    case True
    then show ?thesis
      using assms by (auto simp: hdr_decr_ttl_def Let_def hdr_curr_ttl_def nibble_low)
  qed
  then show "unat (hdr_curr_ttl h') = unat (hdr_curr_ttl h) - (if b then 1 else 0)"
    "hdr_max_ttl h' = hdr_max_ttl h" by auto
qed

lemma decr_ttl_header: "fst (decr_ttl p) = fst (hdr_decr_ttl (header p))"
  "header (snd (decr_ttl p)) = snd (hdr_decr_ttl (header p))"
  by (simp_all add: decr_ttl_def)

lemma decr_ttl_iterate:
  "unat (ttl (((\<lambda>q. snd (decr_ttl q)) ^^ n) p)) = (if unat (ttl p) = 0 then 0 else max 1 (unat (ttl p) - n)) \<and>
   max_ttl (((\<lambda>q. snd (decr_ttl q)) ^^ n) p) = max_ttl p"
proof (induction n)
  case (Suc n)
  let ?q = "((\<lambda>q. snd (decr_ttl q)) ^^ n) p"
  obtain b h where h: "hdr_decr_ttl (header ?q) = (b, h)" by fastforce
  from hdr_decr_ttl_unat [OF h] Suc show ?case
    by (auto simp: ttl_def max_ttl_def decr_ttl_header h split: if_splits)
qed (simp add: ttl_def)

section \<open>Properties\<close>

text \<open>MsgType and its byte code are inverse to each other: decoding the code of a message type
  gives that type back, a byte that decodes is the code of the type it decodes to, and a byte is
  refused exactly when it is the code of no message type.\<close>

theorem msg_type_codec:
  "msg_type_try_from (msg_type_into m) = Inr m \<and>
   (msg_type_try_from v = Inr m \<longleftrightarrow> v = msg_type_into m) \<and>
   (msg_type_try_from v = Inl (InvalidMsgType v) \<longleftrightarrow> v \<notin> range msg_type_into)"
proof (intro conjI)
  show "msg_type_try_from (msg_type_into m) = Inr m" by (rule msg_type_try_from_into)
  show "msg_type_try_from v = Inr m \<longleftrightarrow> v = msg_type_into m"
    using msg_type_try_from_Inr msg_type_try_from_into by blast
  have "msg_type_try_from v = Inl (InvalidMsgType v) \<or> (\<exists>m. msg_type_try_from v = Inr m)"
    by (simp add: msg_type_try_from_def)
  then show "msg_type_try_from v = Inl (InvalidMsgType v) \<longleftrightarrow> v \<notin> range msg_type_into"
    using msg_type_try_from_Inr msg_type_try_from_into by force
qed

text \<open>Every setter of NetPacket changes its own header field and nothing else: on a packet that
  \<open>NetPacket::new\<close> accepted, reading the buffer back after the setter gives the old header with that
  field replaced, the payload is the old payload, and the buffer keeps its length, so that the
  unwrap in \<open>header\<close> and \<open>header_mut\<close> never fails.\<close>

theorem packet_setters_isolated:
  assumes "new_packet b = Inr p"
  shows "from_prefix (buffer p) = Some (header p) \<and>
    from_prefix (buffer (set_msg_type m p)) =
      Some ((header p)\<lparr>type_byte := msg_type_into m OR 0x80\<rparr>) \<and>
    from_prefix (buffer (set_ttl t p)) =
      Some ((header p)\<lparr>ttl_byte := push_bit 4 t OR (t AND 0x0F)\<rparr>) \<and>
    from_prefix (buffer (set_seq s p)) = Some ((header p)\<lparr>hdr_seq := s\<rparr>) \<and>
    from_prefix (buffer (set_src_id i p)) = Some ((header p)\<lparr>hdr_src_id := i\<rparr>) \<and>
    from_prefix (buffer (set_dest_id j p)) = Some ((header p)\<lparr>hdr_dest_id := j\<rparr>) \<and>
    from_prefix (buffer (set_gateway_flag g p)) =
      Some ((header p)\<lparr>flags_byte := if g then flags_byte (header p) OR 0x40
                                   else flags_byte (header p) AND NOT 0x40\<rparr>) \<and>
    (\<forall>q \<in> {set_msg_type m p, set_ttl t p, set_seq s p, set_src_id i p, set_dest_id j p,
             set_gateway_flag g p, set_compressed_flag g p}.
       payload q = drop 16 b \<and> length (buffer q) = length b)"
proof -
  have "packet_ok p" "buffer p = b" using new_packet_ok [OF assms] by auto
  then have p: "packet_ok p" "from_prefix b = Some (header p)" "payload p = drop 16 b" "buffer p = b"
    using from_prefix_header [of p] by (auto simp: payload_def HEAD_LENGTH_def)
  have m: "msg_type_into m AND 0x7F = msg_type_into m" by (cases m) simp_all
  note setters = ty.from_prefix_set ttl_field.from_prefix_set seq_field.from_prefix_set
    src.from_prefix_set dest.from_prefix_set gateway_flag.from_prefix_set
  show ?thesis
    using p by (simp add: setters hdr_set_msg_type_def m hdr_set_ttl_def
        hdr_set_flag_def GATEWAY_def setter_frame setter_length)
qed

theorem packet_setters_isolated_witness:
  "new_packet (replicate 20 0) = Inr \<lparr>buffer = replicate 20 0\<rparr> \<and>
   from_prefix (buffer (set_dest_id 0x0A1A0002 \<lparr>buffer = replicate 20 0\<rparr>)) =
     Some ((header \<lparr>buffer = replicate 20 0\<rparr>)\<lparr>hdr_dest_id := 0x0A1A0002\<rparr>)"
proof -
  have n: "new_packet (replicate 20 0) = Inr \<lparr>buffer = replicate 20 0\<rparr>"
    by (simp add: new_packet_def HEAD_LENGTH_def)
  from n packet_setters_isolated [OF n] show ?thesis by blast
qed

text \<open>The hop budget: a packet sent with \<open>set_ttl t\<close> passes the TTL check of a relay exactly
  \<open>t mod 16 - 1\<close> times, however it is routed, and its max TTL field still says \<open>t mod 16\<close> after any
  number of hops.\<close>

theorem ttl_hop_budget:
  "(fst (decr_ttl (((\<lambda>q. snd (decr_ttl q)) ^^ n) (set_ttl t p))) \<longleftrightarrow> n + 1 < unat t mod 16) \<and>
   unat (max_ttl (((\<lambda>q. snd (decr_ttl q)) ^^ n) (set_ttl t p))) = unat t mod 16"
proof -
  let ?q = "((\<lambda>q. snd (decr_ttl q)) ^^ n) (set_ttl t p)"
  have t: "unat (take_bit 4 t) = unat t mod 16"
    by (simp add: unsigned_take_bit_eq take_bit_nat_def)
  have q0: "unat (ttl (set_ttl t p)) = unat t mod 16" "unat (max_ttl (set_ttl t p)) = unat t mod 16"
    by (simp_all add: ttl_def max_ttl_def setter_header t)
  obtain b h where h: "hdr_decr_ttl (header ?q) = (b, h)" by fastforce
  have "fst (decr_ttl ?q) \<longleftrightarrow> 1 < unat (ttl ?q)"
    using hdr_decr_ttl_unat(1) [OF h] by (simp add: decr_ttl_header h ttl_def)
  then have "fst (decr_ttl ?q) \<longleftrightarrow> n + 1 < unat t mod 16"
    using decr_ttl_iterate [of n "set_ttl t p"] q0 by (auto split: if_splits)
  moreover have "unat (max_ttl ?q) = unat t mod 16"
    using decr_ttl_iterate [of n "set_ttl t p"] q0 by simp
  ultimately show ?thesis by blast
qed

end
