(* ===== verification/Pnet.thy ===== *)
theory Pnet
  imports Prelude
begin

text \<open>
  The interface of the packet library \<open>pnet_packet\<close>, a crate outside the repository.

  The record \<open>pnet\<close> has one field per accessor, setter or checksum function the program calls; the
  model's definitions take such a record as an argument.  A constructor such as \<open>Ipv4Packet::new\<close>
  appears as the test whether it returns Some; a view is the byte slice it was built on, and a
  setter of a mutable view returns the slice it leaves behind.  \<open>pnet_layout\<close> states the documented
  meaning of the accessors: the field offsets of RFC 791, 792 and 768.  It says nothing of the two
  checksum functions.  \<open>rfc_pnet\<close> is a concrete instance, used by the witnesses.
\<close>

record pnet =
  ipv4_new :: "bytes \<Rightarrow> bool"
  ipv4_version :: "bytes \<Rightarrow> u8"
  ipv4_header_length :: "bytes \<Rightarrow> u8"
  ipv4_total_length :: "bytes \<Rightarrow> u16"
  ipv4_flags :: "bytes \<Rightarrow> u8"
  ipv4_fragment_offset :: "bytes \<Rightarrow> u16"
  ipv4_next_level_protocol :: "bytes \<Rightarrow> u8"
  ipv4_source :: "bytes \<Rightarrow> ipv4"
  ipv4_destination :: "bytes \<Rightarrow> ipv4"
  ipv4_set_version :: "u8 \<Rightarrow> bytes \<Rightarrow> bytes"
  ipv4_set_header_length :: "u8 \<Rightarrow> bytes \<Rightarrow> bytes"
  ipv4_set_total_length :: "u16 \<Rightarrow> bytes \<Rightarrow> bytes"
  ipv4_set_ttl :: "u8 \<Rightarrow> bytes \<Rightarrow> bytes"
  ipv4_set_next_level_protocol :: "u8 \<Rightarrow> bytes \<Rightarrow> bytes"
  ipv4_set_source :: "ipv4 \<Rightarrow> bytes \<Rightarrow> bytes"
  ipv4_set_destination :: "ipv4 \<Rightarrow> bytes \<Rightarrow> bytes"
  ipv4_set_checksum :: "u16 \<Rightarrow> bytes \<Rightarrow> bytes"
  ipv4_checksum :: "bytes \<Rightarrow> u16"
  icmp_new :: "bytes \<Rightarrow> bool"
  icmp_type :: "bytes \<Rightarrow> u8"
  icmp_set_type :: "u8 \<Rightarrow> bytes \<Rightarrow> bytes"
  icmp_set_checksum :: "u16 \<Rightarrow> bytes \<Rightarrow> bytes"
  icmp_checksum :: "bytes \<Rightarrow> u16"
  udp_new :: "bytes \<Rightarrow> bool"
  udp_source :: "bytes \<Rightarrow> u16"
  udp_destination :: "bytes \<Rightarrow> u16"
  udp_length :: "bytes \<Rightarrow> u16"
  udp_payload :: "bytes \<Rightarrow> bytes"
  udp_set_source :: "u16 \<Rightarrow> bytes \<Rightarrow> bytes"
  udp_set_destination :: "u16 \<Rightarrow> bytes \<Rightarrow> bytes"
  udp_set_length :: "u16 \<Rightarrow> bytes \<Rightarrow> bytes"
  udp_set_payload :: "bytes \<Rightarrow> bytes \<Rightarrow> bytes"
  udp_set_checksum :: "u16 \<Rightarrow> bytes \<Rightarrow> bytes"
  udp_ipv4_checksum :: "bytes \<Rightarrow> ipv4 \<Rightarrow> ipv4 \<Rightarrow> u16"
  ipv4_payload :: "bytes \<Rightarrow> bytes"
  echo_request_new :: "bytes \<Rightarrow> bool"
  echo_request_type :: "bytes \<Rightarrow> u8"
  icmp_set_code :: "u8 \<Rightarrow> bytes \<Rightarrow> bytes"

text \<open>Writing bytes over a slice at an offset.\<close>

definition overwrite :: "nat \<Rightarrow> bytes \<Rightarrow> bytes \<Rightarrow> bytes" where
  "overwrite off d b = take off b @ d @ drop (off + length d) b"

definition ipv4_layout :: "pnet \<Rightarrow> bool" where
  "ipv4_layout P \<longleftrightarrow>
     (\<forall>b. ipv4_new P b = (20 \<le> length b)) \<and>
     (\<forall>b. 20 \<le> length b \<longrightarrow>
        ipv4_version P b = drop_bit 4 (b ! 0) \<and>
        ipv4_header_length P b = b ! 0 AND 0x0F \<and>
        ipv4_total_length P b = u16_of_be (b ! 2) (b ! 3) \<and>
        ipv4_flags P b = drop_bit 5 (b ! 6) \<and>
        ipv4_fragment_offset P b = u16_of_be (b ! 6) (b ! 7) AND 0x1FFF \<and>
        ipv4_next_level_protocol P b = b ! 9 \<and>
        ipv4_source P b = u32_of_be (b ! 12) (b ! 13) (b ! 14) (b ! 15) \<and>
        ipv4_destination P b = u32_of_be (b ! 16) (b ! 17) (b ! 18) (b ! 19)) \<and>
     (\<forall>b. 20 \<le> length b \<longrightarrow>
        (\<forall>v. ipv4_set_version P v b = overwrite 0 [push_bit 4 v OR (b ! 0 AND 0x0F)] b) \<and>
        (\<forall>v. ipv4_set_header_length P v b = overwrite 0 [(b ! 0 AND 0xF0) OR (v AND 0x0F)] b) \<and>
        (\<forall>v. ipv4_set_total_length P v b = overwrite 2 (u16_be v) b) \<and>
        (\<forall>v. ipv4_set_ttl P v b = overwrite 8 [v] b) \<and>
        (\<forall>v. ipv4_set_next_level_protocol P v b = overwrite 9 [v] b) \<and>
        (\<forall>v. ipv4_set_checksum P v b = overwrite 10 (u16_be v) b) \<and>
        (\<forall>v. ipv4_set_source P v b = overwrite 12 (u32_be v) b) \<and>
        (\<forall>v. ipv4_set_destination P v b = overwrite 16 (u32_be v) b))"

definition icmp_layout :: "pnet \<Rightarrow> bool" where
  "icmp_layout P \<longleftrightarrow>
     (\<forall>b. icmp_new P b = (4 \<le> length b)) \<and>
     (\<forall>b. 4 \<le> length b \<longrightarrow>
        icmp_type P b = b ! 0 \<and>
        (\<forall>v. icmp_set_type P v b = overwrite 0 [v] b) \<and>
        (\<forall>v. icmp_set_checksum P v b = overwrite 2 (u16_be v) b))"

text \<open>The payload of a UDP view is bounded by the length field; a payload is written after the eight
  byte header.\<close>

definition udp_layout :: "pnet \<Rightarrow> bool" where
  "udp_layout P \<longleftrightarrow>
     (\<forall>b. udp_new P b = (8 \<le> length b)) \<and>
     (\<forall>b. 8 \<le> length b \<longrightarrow>
        udp_source P b = u16_of_be (b ! 0) (b ! 1) \<and>
        udp_destination P b = u16_of_be (b ! 2) (b ! 3) \<and>
        udp_length P b = u16_of_be (b ! 4) (b ! 5) \<and>
        udp_payload P b = drop 8 (take (unat (u16_of_be (b ! 4) (b ! 5))) b) \<and>
        (\<forall>v. udp_set_source P v b = overwrite 0 (u16_be v) b) \<and>
        (\<forall>v. udp_set_destination P v b = overwrite 2 (u16_be v) b) \<and>
        (\<forall>v. udp_set_length P v b = overwrite 4 (u16_be v) b) \<and>
        (\<forall>v. udp_set_checksum P v b = overwrite 6 (u16_be v) b) \<and>
        (\<forall>d. 8 + length d \<le> length b \<longrightarrow> udp_set_payload P d b = overwrite 8 d b))"

text \<open>The payload of an IPv4 view starts after the options and is bounded by the total length and by the buffer.\<close>

definition echo_layout :: "pnet \<Rightarrow> bool" where
  "echo_layout P \<longleftrightarrow>
     (\<forall>b. 20 \<le> length b \<longrightarrow> ipv4_payload P b =
        (let h = unat (b ! 0 AND 0x0F) * 4 in
         take (unat (u16_of_be (b ! 2) (b ! 3)) - h) (drop (max 20 h) b))) \<and>
     (\<forall>b. echo_request_new P b = (8 \<le> length b)) \<and>
     (\<forall>b. 8 \<le> length b \<longrightarrow> echo_request_type P b = b ! 0) \<and>
     (\<forall>v b. 4 \<le> length b \<longrightarrow> icmp_set_code P v b = overwrite 1 [v] b)"

definition pnet_layout :: "pnet \<Rightarrow> bool" where
  "pnet_layout P = (ipv4_layout P \<and> icmp_layout P \<and> udp_layout P)"

definition rfc_pnet :: pnet where
  "rfc_pnet =
     \<lparr>ipv4_new = (\<lambda>b. 20 \<le> length b),
      ipv4_version = (\<lambda>b. drop_bit 4 (b ! 0)),
      ipv4_header_length = (\<lambda>b. b ! 0 AND 0x0F),
      ipv4_total_length = (\<lambda>b. u16_of_be (b ! 2) (b ! 3)),
      ipv4_flags = (\<lambda>b. drop_bit 5 (b ! 6)),
      ipv4_fragment_offset = (\<lambda>b. u16_of_be (b ! 6) (b ! 7) AND 0x1FFF),
      ipv4_next_level_protocol = (\<lambda>b. b ! 9),
      ipv4_source = (\<lambda>b. u32_of_be (b ! 12) (b ! 13) (b ! 14) (b ! 15)),
      ipv4_destination = (\<lambda>b. u32_of_be (b ! 16) (b ! 17) (b ! 18) (b ! 19)),
      ipv4_set_version = (\<lambda>v b. overwrite 0 [push_bit 4 v OR (b ! 0 AND 0x0F)] b),
      ipv4_set_header_length = (\<lambda>v b. overwrite 0 [(b ! 0 AND 0xF0) OR (v AND 0x0F)] b),
      ipv4_set_total_length = (\<lambda>v b. overwrite 2 (u16_be v) b),
      ipv4_set_ttl = (\<lambda>v b. overwrite 8 [v] b),
      ipv4_set_next_level_protocol = (\<lambda>v b. overwrite 9 [v] b),
      ipv4_set_source = (\<lambda>v b. overwrite 12 (u32_be v) b),
      ipv4_set_destination = (\<lambda>v b. overwrite 16 (u32_be v) b),
      ipv4_set_checksum = (\<lambda>v b. overwrite 10 (u16_be v) b),
      ipv4_checksum = (\<lambda>b. 0),
      icmp_new = (\<lambda>b. 4 \<le> length b),
      icmp_type = (\<lambda>b. b ! 0),
      icmp_set_type = (\<lambda>v b. overwrite 0 [v] b),
      icmp_set_checksum = (\<lambda>v b. overwrite 2 (u16_be v) b),
      icmp_checksum = (\<lambda>b. 0),
      udp_new = (\<lambda>b. 8 \<le> length b),
      udp_source = (\<lambda>b. u16_of_be (b ! 0) (b ! 1)),
      udp_destination = (\<lambda>b. u16_of_be (b ! 2) (b ! 3)),
      udp_length = (\<lambda>b. u16_of_be (b ! 4) (b ! 5)),
      udp_payload = (\<lambda>b. drop 8 (take (unat (u16_of_be (b ! 4) (b ! 5))) b)),
      udp_set_source = (\<lambda>v b. overwrite 0 (u16_be v) b),
      udp_set_destination = (\<lambda>v b. overwrite 2 (u16_be v) b),
      udp_set_length = (\<lambda>v b. overwrite 4 (u16_be v) b),
      udp_set_payload = (\<lambda>d b. overwrite 8 d b),
      udp_set_checksum = (\<lambda>v b. overwrite 6 (u16_be v) b),
      udp_ipv4_checksum = (\<lambda>b s d. 0),
      ipv4_payload = (\<lambda>b. let h = unat (b ! 0 AND 0x0F) * 4 in
        take (unat (u16_of_be (b ! 2) (b ! 3)) - h) (drop (max 20 h) b)),
      echo_request_new = (\<lambda>b. 8 \<le> length b),
      echo_request_type = (\<lambda>b. b ! 0),
      icmp_set_code = (\<lambda>v b. overwrite 1 [v] b)\<rparr>"

lemma rfc_pnet_layout: "pnet_layout rfc_pnet"
  by (simp add: pnet_layout_def ipv4_layout_def icmp_layout_def udp_layout_def rfc_pnet_def)

lemma rfc_echo_layout: "echo_layout rfc_pnet"
  by (simp add: echo_layout_def rfc_pnet_def)

lemma length_overwrite [simp, byte_simps]:
  "off + length d \<le> length b \<Longrightarrow> length (overwrite off d b) = length b"
  by (simp add: overwrite_def)

lemma nth_overwrite:
  "off + length d \<le> length b \<Longrightarrow> i < length b \<Longrightarrow>
   overwrite off d b ! i = (if i < off then b ! i else if i < off + length d then d ! (i - off) else b ! i)"
  by (auto simp: overwrite_def nth_append min_def)

lemma drop_overwrite:
  assumes "off + length d \<le> n" "n \<le> length b"
  shows "drop n (overwrite off d b) = drop n b"
proof -
  from assms have "length b \<le> off \<longrightarrow> length d = 0" by linarith
  with assms show ?thesis by (simp add: overwrite_def min_def)
qed

lemma u16_be_nth: "u16_of_be (u16_be v ! 0) (u16_be v ! Suc 0) = v"
  by (simp add: u16_be_def)

lemma overwrite_twice: 
  "length d = length e \<Longrightarrow> off + length d \<le> length b \<Longrightarrow>
   overwrite off d (overwrite off e b) = overwrite off d b"
  by (rule nth_equalityI) (simp_all add: nth_overwrite)

lemma ipv4_get:
  assumes "ipv4_layout P" "20 \<le> length b"
  shows "ipv4_new P b" "ipv4_version P b = drop_bit 4 (b ! 0)"
    "ipv4_header_length P b = b ! 0 AND 0x0F"
    "ipv4_total_length P b = u16_of_be (b ! 2) (b ! 3)"
    "ipv4_next_level_protocol P b = b ! 9"
    "ipv4_source P b = u32_of_be (b ! 12) (b ! 13) (b ! 14) (b ! 15)"
    "ipv4_destination P b = u32_of_be (b ! 16) (b ! 17) (b ! 18) (b ! 19)"
  using assms by (simp_all add: ipv4_layout_def)


declare rfc_pnet_def [witness_eval] overwrite_def [witness_eval]

end
