(* ===== verification/Wireguard_Bridge.thy ===== *)
theory Wireguard_Bridge
  imports Net_Packet Pnet
begin

text \<open>
  Validation and construction of relayed packets
  (official-vnts-source-2.0.0/src/server/wireguard_bridge.rs).

  The parsers and validators are functions of the packet library interface \<open>pnet\<close> and of the virtual
  network; every early return of the code is a value of \<open>relay_validation_error\<close>.  The locale
  \<open>relay_validator\<close> states what a relay server relies on: an accepted packet carries the expected
  source, and acceptance fixes the route.
\<close>

definition MAX_INNER_IPV4_PACKET_SIZE :: nat where
  "MAX_INNER_IPV4_PACKET_SIZE = 1420"

definition RELAY_TTL :: u8 where
  "RELAY_TTL = 5"

definition ipv4_BROADCAST :: ipv4 where
  "ipv4_BROADCAST = 0xFFFFFFFF"

definition is_multicast :: "ipv4 \<Rightarrow> bool" where
  "is_multicast a = (drop_bit 28 a = 0xE)"

definition is_unspecified :: "ipv4 \<Rightarrow> bool" where
  "is_unspecified a = (a = 0)"

definition PROTO_ICMP :: u8 where
  "PROTO_ICMP = 1"

datatype relay_origin = FromVnt | FromWireGuard

record ipv4_route =
  route_source :: ipv4
  route_destination :: ipv4

datatype relay_validation_error =
    InvalidMessageType | InvalidFlags | Expired | TooShort | TooLarge | InvalidVersion
  | InvalidHeaderLength | InvalidTotalLength | SourceMismatch | DestinationMismatch
  | InvalidDestination | DestinationOutsideNetwork | InvalidControlPacket

section \<open>Inner packets\<close>

definition parse_unbound_inner_ipv4 ::
  "pnet \<Rightarrow> bytes \<Rightarrow> relay_validation_error + ipv4_route \<times> nat" where
  "parse_unbound_inner_ipv4 P packet =
     (if length packet < 20 then Inl TooShort
      else if length packet > MAX_INNER_IPV4_PACKET_SIZE then Inl TooLarge
      else if \<not> ipv4_new P packet then Inl TooShort
      else if ipv4_version P packet \<noteq> 4 then Inl InvalidVersion
      else let header_length = unat (ipv4_header_length P packet) * 4 in
        if header_length < 20 \<or> header_length > length packet then Inl InvalidHeaderLength
        else if unat (ipv4_total_length P packet) \<noteq> length packet then Inl InvalidTotalLength
        else Inr (\<lparr>route_source = ipv4_source P packet,
                   route_destination = ipv4_destination P packet\<rparr>, header_length))"

definition parse_inner_ipv4 ::
  "pnet \<Rightarrow> bytes \<Rightarrow> ipv4 \<Rightarrow> relay_validation_error + ipv4_route \<times> nat" where
  "parse_inner_ipv4 P packet expected_source =
     (case parse_unbound_inner_ipv4 P packet of
        Inl e \<Rightarrow> Inl e
      | Inr parsed \<Rightarrow>
          if route_source (fst parsed) \<noteq> expected_source then Inl SourceMismatch
          else Inr parsed)"

definition validate_inner_ipv4 ::
  "pnet \<Rightarrow> bytes \<Rightarrow> ipv4 \<Rightarrow> ipv4_net \<Rightarrow> ipv4 \<Rightarrow> relay_validation_error + ipv4_route" where
  "validate_inner_ipv4 P packet expected_source network gateway =
     (case parse_inner_ipv4 P packet expected_source of
        Inl e \<Rightarrow> Inl e
      | Inr (route, _) \<Rightarrow>
          let destination = route_destination route in
          if destination = ipv4_BROADCAST \<or> is_multicast destination
             \<or> destination = net_network network \<or> destination = net_broadcast network
             \<or> destination = gateway
          then Inl InvalidDestination
          else if \<not> net_contains network destination then Inl DestinationOutsideNetwork
          else Inr route)"

definition validate_broadcast_inner_ipv4 ::
  "pnet \<Rightarrow> bytes \<Rightarrow> ipv4 \<Rightarrow> ipv4_net \<Rightarrow> ipv4 \<Rightarrow> relay_validation_error + ipv4_route" where
  "validate_broadcast_inner_ipv4 P packet expected_source network gateway =
     (case parse_inner_ipv4 P packet expected_source of
        Inl e \<Rightarrow> Inl e
      | Inr (route, _) \<Rightarrow>
          if route_source route = gateway \<or> \<not> net_contains network (route_source route)
          then Inl SourceMismatch
          else if route_destination route \<noteq> ipv4_BROADCAST
               \<and> route_destination route \<noteq> net_broadcast network
               \<and> \<not> is_multicast (route_destination route)
          then Inl InvalidDestination
          else Inr route)"

definition validate_subnet_inner_ipv4 ::
  "pnet \<Rightarrow> bytes \<Rightarrow> ipv4 \<Rightarrow> ipv4_net \<Rightarrow> ipv4 \<Rightarrow> ipv4_net \<Rightarrow>
   relay_validation_error + ipv4_route" where
  "validate_subnet_inner_ipv4 P packet expected_source virtual_network gateway lan_network =
     (case parse_inner_ipv4 P packet expected_source of
        Inl e \<Rightarrow> Inl e
      | Inr (route, _) \<Rightarrow>
          if \<not> net_contains virtual_network (route_source route)
             \<or> route_source route = net_network virtual_network
             \<or> route_source route = net_broadcast virtual_network
             \<or> route_source route = gateway
          then Inl SourceMismatch
          else if is_unspecified (route_destination route)
               \<or> route_destination route = ipv4_BROADCAST
               \<or> is_multicast (route_destination route)
               \<or> net_contains virtual_network (route_destination route)
          then Inl InvalidDestination
          else if \<not> net_contains lan_network (route_destination route)
          then Inl DestinationOutsideNetwork
          else Inr route)"

text \<open>The answer to a ping of the gateway.  \<open>Ok(None)\<close> means the packet is not an echo request to the
  gateway.  Each mutable view is taken on the reply buffer, or on its part after the IP header.\<close>

definition on_suffix :: "nat \<Rightarrow> (bytes \<Rightarrow> bytes) \<Rightarrow> bytes \<Rightarrow> bytes" where
  "on_suffix n f b = take n b @ f (drop n b)"

definition build_gateway_echo_reply ::
  "pnet \<Rightarrow> bytes \<Rightarrow> ipv4 \<Rightarrow> ipv4 \<Rightarrow> relay_validation_error + bytes option" where
  "build_gateway_echo_reply P packet expected_source gateway =
     (case parse_inner_ipv4 P packet expected_source of
        Inl e \<Rightarrow> Inl e
      | Inr (route, header_length) \<Rightarrow>
          if route_destination route \<noteq> gateway then Inr None
          else if \<not> ipv4_new P packet then Inl TooShort
          else if ipv4_next_level_protocol P packet \<noteq> PROTO_ICMP then Inr None
          else if ipv4_fragment_offset P packet \<noteq> 0 \<or> ipv4_flags P packet AND 1 \<noteq> 0
          then Inl InvalidControlPacket
          else let icmp = drop header_length packet in
          if \<not> icmp_new P icmp then Inl InvalidControlPacket
          else if icmp_type P icmp \<noteq> 8 \<or> length icmp < 8 then Inr None
          else let reply = on_suffix header_length
                      (\<lambda>v. icmp_set_checksum P 0 (icmp_set_type P 0 v)) packet in
          if \<not> icmp_new P (drop header_length reply) then Inl InvalidControlPacket
          else let
            icmp_sum = icmp_checksum P (drop header_length reply);
            reply = on_suffix header_length (icmp_set_checksum P icmp_sum) reply in
          if \<not> ipv4_new P reply then Inl InvalidControlPacket
          else let
            reply = ipv4_set_checksum P 0 (ipv4_set_destination P expected_source
                      (ipv4_set_source P gateway reply)) in
          if \<not> ipv4_new P reply then Inl InvalidControlPacket
          else Inr (Some (ipv4_set_checksum P (ipv4_checksum P reply) reply)))"

section \<open>Relay packets received from VNT clients\<close>

definition validate_vnt_relay ::
  "pnet \<Rightarrow> net_packet \<Rightarrow> ipv4 \<Rightarrow> ipv4_net \<Rightarrow> ipv4 \<Rightarrow> relay_validation_error + ipv4_route" where
  "validate_vnt_relay P packet expected_source network gateway =
     (if packet_msg_type packet \<noteq> Inr WireGuardRelay then Inl InvalidMessageType
      else if is_compressed packet \<or> is_gateway packet then Inl InvalidFlags
      else if ttl packet = 0 then Inl Expired
      else if src_id packet \<noteq> expected_source then Inl SourceMismatch
      else case validate_inner_ipv4 P (payload packet) expected_source network gateway of
             Inl e \<Rightarrow> Inl e
           | Inr route \<Rightarrow>
               if dest_id packet \<noteq> route_destination route then Inl DestinationMismatch
               else Inr route)"

definition validate_vnt_broadcast_relay ::
  "pnet \<Rightarrow> net_packet \<Rightarrow> ipv4 \<Rightarrow> ipv4_net \<Rightarrow> ipv4 \<Rightarrow> relay_validation_error + ipv4_route" where
  "validate_vnt_broadcast_relay P packet expected_source network gateway =
     (if packet_msg_type packet \<noteq> Inr WireGuardBroadcastRelay then Inl InvalidMessageType
      else if is_compressed packet \<or> is_gateway packet then Inl InvalidFlags
      else if ttl packet = 0 then Inl Expired
      else if src_id packet \<noteq> expected_source then Inl SourceMismatch
      else if dest_id packet \<noteq> ipv4_BROADCAST then Inl DestinationMismatch
      else validate_broadcast_inner_ipv4 P (payload packet) expected_source network gateway)"

definition validate_vnt_subnet_relay ::
  "pnet \<Rightarrow> net_packet \<Rightarrow> ipv4 \<Rightarrow> ipv4_net \<Rightarrow> ipv4 \<Rightarrow> relay_validation_error + ipv4_route" where
  "validate_vnt_subnet_relay P packet expected_vnt_gateway virtual_network gateway =
     (if packet_msg_type packet \<noteq> Inr WireGuardSubnetRelay then Inl InvalidMessageType
      else if is_compressed packet \<or> is_gateway packet then Inl InvalidFlags
      else if ttl packet = 0 then Inl Expired
      else if src_id packet \<noteq> expected_vnt_gateway then Inl SourceMismatch
      else let target = dest_id packet in
      if \<not> net_contains virtual_network target
         \<or> target = net_network virtual_network
         \<or> target = net_broadcast virtual_network
         \<or> target = gateway
         \<or> target = expected_vnt_gateway
      then Inl InvalidDestination
      else case parse_unbound_inner_ipv4 P (payload packet) of
             Inl e \<Rightarrow> Inl e
           | Inr (route, _) \<Rightarrow>
               if route_destination route \<noteq> target then Inl DestinationMismatch
               else if is_unspecified (route_source route)
                    \<or> route_source route = ipv4_BROADCAST
                    \<or> is_multicast (route_source route)
                    \<or> net_contains virtual_network (route_source route)
               then Inl SourceMismatch
               else Inr route)"

section \<open>Relay packets the server builds\<close>

text \<open>The two \<open>expect\<close> calls are written out: the buffer is long enough for both.\<close>

definition build_wireguard_envelope :: "msg_type \<Rightarrow> bytes \<Rightarrow> ipv4 \<Rightarrow> ipv4 \<Rightarrow> bytes option" where
  "build_wireguard_envelope message_type inner source destination =
     (case new_packet (replicate (HEAD_LENGTH + length inner) 0) of
        Inl _ \<Rightarrow> None
      | Inr packet \<Rightarrow>
          let packet = set_msg_type message_type packet;
              packet = set_ttl RELAY_TTL packet;
              packet = set_src_id source packet;
              packet = set_dest_id destination packet
          in case set_payload inner packet of
               Inl _ \<Rightarrow> None
             | Inr packet \<Rightarrow> Some (buffer packet))"

definition build_wireguard_relay :: "bytes \<Rightarrow> ipv4_route \<Rightarrow> bytes option" where
  "build_wireguard_relay inner route =
     build_wireguard_envelope WireGuardRelay inner (route_source route) (route_destination route)"

definition build_wireguard_broadcast_relay :: "bytes \<Rightarrow> ipv4_route \<Rightarrow> ipv4 \<Rightarrow> bytes option" where
  "build_wireguard_broadcast_relay inner route target =
     build_wireguard_envelope WireGuardBroadcastRelay inner (route_source route) target"

definition build_wireguard_subnet_relay :: "bytes \<Rightarrow> ipv4_route \<Rightarrow> ipv4 \<Rightarrow> bytes option" where
  "build_wireguard_subnet_relay inner route vnt_gateway =
     build_wireguard_envelope WireGuardSubnetRelay inner (route_source route) vnt_gateway"

section \<open>What the parsers accept\<close>

definition inner_ipv4_ok :: "pnet \<Rightarrow> bytes \<Rightarrow> bool" where
  "inner_ipv4_ok P b \<longleftrightarrow>
     20 \<le> length b \<and> length b \<le> 1420 \<and> ipv4_new P b \<and> ipv4_version P b = 4 \<and>
     20 \<le> unat (ipv4_header_length P b) * 4 \<and> unat (ipv4_header_length P b) * 4 \<le> length b \<and>
     unat (ipv4_total_length P b) = length b"

definition inner_route :: "pnet \<Rightarrow> bytes \<Rightarrow> ipv4_route" where
  "inner_route P b = \<lparr>route_source = ipv4_source P b, route_destination = ipv4_destination P b\<rparr>"

lemma parse_unbound_iff:
  "parse_unbound_inner_ipv4 P b = Inr (r, h) \<longleftrightarrow>
     inner_ipv4_ok P b \<and> r = inner_route P b \<and> h = unat (ipv4_header_length P b) * 4"
  by (auto simp: parse_unbound_inner_ipv4_def inner_ipv4_ok_def inner_route_def Let_def
      MAX_INNER_IPV4_PACKET_SIZE_def)

lemma parse_unbound_InlD: "parse_unbound_inner_ipv4 P b = Inl e \<Longrightarrow> \<not> inner_ipv4_ok P b"
  by (metis parse_unbound_iff sum.distinct(1))

lemma parse_inner_iff:
  "parse_inner_ipv4 P b s = Inr (r, h) \<longleftrightarrow>
     inner_ipv4_ok P b \<and> r = inner_route P b \<and> h = unat (ipv4_header_length P b) * 4 \<and>
     ipv4_source P b = s"
  unfolding parse_inner_ipv4_def
  by (auto simp: parse_unbound_iff inner_route_def dest: parse_unbound_InlD
      split: sum.split if_splits)

lemma parse_inner_InlD:
  "parse_inner_ipv4 P b s = Inl e \<Longrightarrow> \<not> (inner_ipv4_ok P b \<and> ipv4_source P b = s)"
  by (metis parse_inner_iff sum.distinct(1))

lemma validate_inner_iff:
  "validate_inner_ipv4 P b s n g = Inr r \<longleftrightarrow>
     inner_ipv4_ok P b \<and> r = inner_route P b \<and> ipv4_source P b = s \<and>
     (let d = ipv4_destination P b in
        d \<noteq> ipv4_BROADCAST \<and> \<not> is_multicast d \<and> d \<noteq> net_network n \<and> d \<noteq> net_broadcast n \<and> d \<noteq> g \<and>
        net_contains n d)"
  unfolding validate_inner_ipv4_def
  by (auto simp: parse_inner_iff inner_route_def Let_def dest: parse_inner_InlD
      split: sum.split prod.split if_splits)

lemma validate_broadcast_inner_iff:
  "validate_broadcast_inner_ipv4 P b s n g = Inr r \<longleftrightarrow>
     inner_ipv4_ok P b \<and> r = inner_route P b \<and> ipv4_source P b = s \<and> s \<noteq> g \<and> net_contains n s \<and>
     (let d = ipv4_destination P b in
        d = ipv4_BROADCAST \<or> d = net_broadcast n \<or> is_multicast d)"
  unfolding validate_broadcast_inner_ipv4_def
  by (auto simp: parse_inner_iff inner_route_def Let_def dest: parse_inner_InlD
      split: sum.split prod.split if_splits)

lemma validate_subnet_inner_iff:
  "validate_subnet_inner_ipv4 P b s n g l = Inr r \<longleftrightarrow>
     inner_ipv4_ok P b \<and> r = inner_route P b \<and> ipv4_source P b = s \<and>
     net_contains n s \<and> s \<noteq> net_network n \<and> s \<noteq> net_broadcast n \<and> s \<noteq> g \<and>
     (let d = ipv4_destination P b in
        \<not> is_unspecified d \<and> d \<noteq> ipv4_BROADCAST \<and> \<not> is_multicast d \<and> \<not> net_contains n d \<and>
        net_contains l d)"
  unfolding validate_subnet_inner_ipv4_def
  by (auto simp: parse_inner_iff inner_route_def Let_def dest: parse_inner_InlD
      split: sum.split prod.split if_splits)

lemma validate_vnt_relay_iff:
  "validate_vnt_relay P p s n g = Inr r \<longleftrightarrow>
     packet_msg_type p = Inr WireGuardRelay \<and> \<not> is_compressed p \<and> \<not> is_gateway p \<and> ttl p \<noteq> 0 \<and>
     src_id p = s \<and> validate_inner_ipv4 P (payload p) s n g = Inr r \<and>
     dest_id p = route_destination r"
  unfolding validate_vnt_relay_def
  by (cases "validate_inner_ipv4 P (payload p) s n g") auto

lemma validate_vnt_broadcast_relay_iff:
  "validate_vnt_broadcast_relay P p s n g = Inr r \<longleftrightarrow>
     packet_msg_type p = Inr WireGuardBroadcastRelay \<and> \<not> is_compressed p \<and> \<not> is_gateway p \<and>
     ttl p \<noteq> 0 \<and> src_id p = s \<and> dest_id p = ipv4_BROADCAST \<and>
     validate_broadcast_inner_ipv4 P (payload p) s n g = Inr r"
  unfolding validate_vnt_broadcast_relay_def by auto

lemma validate_vnt_subnet_relay_iff:
  "validate_vnt_subnet_relay P p s n g = Inr r \<longleftrightarrow>
     packet_msg_type p = Inr WireGuardSubnetRelay \<and> \<not> is_compressed p \<and> \<not> is_gateway p \<and>
     ttl p \<noteq> 0 \<and> src_id p = s \<and> inner_ipv4_ok P (payload p) \<and>
     dest_id p = ipv4_destination P (payload p) \<and> net_contains n (dest_id p) \<and>
     dest_id p \<noteq> net_network n \<and> dest_id p \<noteq> net_broadcast n \<and> dest_id p \<noteq> g \<and> dest_id p \<noteq> s \<and>
     (let i = ipv4_source P (payload p) in \<not> is_unspecified i \<and> i \<noteq> ipv4_BROADCAST \<and>
        \<not> is_multicast i \<and> \<not> net_contains n i) \<and>
     r = inner_route P (payload p)"
proof (cases "parse_unbound_inner_ipv4 P (payload p)")
  case (Inl e)
  then show ?thesis by (simp add: validate_vnt_subnet_relay_def Let_def parse_unbound_InlD)
next
  case (Inr q)
  then obtain h where q: "q = (inner_route P (payload p), h)" and ok: "inner_ipv4_ok P (payload p)"
    by (cases q) (simp add: parse_unbound_iff)
  show ?thesis
    unfolding validate_vnt_subnet_relay_def Let_def Inr q inner_route_def
    by (simp add: ok) (metis)
qed

section \<open>The contract of a relay validator\<close>

text \<open>What the packet handler relies on when it hands a client packet to one of the validators: an
  accepted packet has the message type of the validator, is neither compressed nor marked as
  gateway traffic, is not expired, and names the session's own address as its source; and the
  route returned is the one in the inner IP header.\<close>

locale relay_validator =
  fixes validate :: "pnet \<Rightarrow> net_packet \<Rightarrow> ipv4 \<Rightarrow> ipv4_net \<Rightarrow> ipv4 \<Rightarrow> relay_validation_error + ipv4_route"
    and mtype :: msg_type
  assumes accepted: "validate P p s n g = Inr r \<Longrightarrow>
      packet_msg_type p = Inr mtype \<and> \<not> is_compressed p \<and> \<not> is_gateway p \<and> ttl p \<noteq> 0 \<and>
      src_id p = s \<and> inner_ipv4_ok P (payload p) \<and> r = inner_route P (payload p)"
begin

lemma source_bound: "validate P p s n g = Inr r \<Longrightarrow> validate P p s' n g = Inr r' \<Longrightarrow> s' = s \<and> r' = r"
  by (auto dest: accepted)

lemma other_type: "packet_msg_type p \<noteq> Inr mtype \<Longrightarrow> \<exists>e. validate P p s n g = Inl e"
  by (cases "validate P p s n g") (auto dest: accepted)

end

locale relay_validator_pair =
  one: relay_validator validate1 mtype1 + two: relay_validator validate2 mtype2
  for validate1 mtype1 validate2 mtype2 +
  assumes types_differ: "mtype1 \<noteq> mtype2"
begin

lemma exclusive: "validate1 P p s n g = Inr r \<Longrightarrow> \<exists>e. validate2 P p s' n' g' = Inl e"
proof -
  assume "validate1 P p s n g = Inr r"
  then have "packet_msg_type p = Inr mtype1" by (auto dest: one.accepted)
  then show ?thesis by (intro two.other_type) (simp add: types_differ)
qed

end

interpretation unicast: relay_validator validate_vnt_relay WireGuardRelay
  by unfold_locales (auto simp: validate_vnt_relay_iff validate_inner_iff Let_def)

interpretation bcast: relay_validator validate_vnt_broadcast_relay WireGuardBroadcastRelay
  by unfold_locales (auto simp: validate_vnt_broadcast_relay_iff validate_broadcast_inner_iff)

interpretation subnet: relay_validator validate_vnt_subnet_relay WireGuardSubnetRelay
  by unfold_locales (auto simp: validate_vnt_subnet_relay_iff)

interpretation unicast_bcast: relay_validator_pair validate_vnt_relay WireGuardRelay
    validate_vnt_broadcast_relay WireGuardBroadcastRelay
  by unfold_locales simp

interpretation unicast_subnet: relay_validator_pair validate_vnt_relay WireGuardRelay
    validate_vnt_subnet_relay WireGuardSubnetRelay
  by unfold_locales simp

interpretation bcast_subnet: relay_validator_pair validate_vnt_broadcast_relay WireGuardBroadcastRelay
    validate_vnt_subnet_relay WireGuardSubnetRelay
  by unfold_locales simp

section \<open>Envelopes\<close>

lemma build_wireguard_envelope_fields:
  obtains b where "build_wireguard_envelope m inner s d = Some b"
    and "new_packet b = Inr \<lparr>buffer = b\<rparr>"
    and "packet_msg_type \<lparr>buffer = b\<rparr> = Inr m"
    and "ttl \<lparr>buffer = b\<rparr> = 5" and "max_ttl \<lparr>buffer = b\<rparr> = 5"
    and "src_id \<lparr>buffer = b\<rparr> = s" and "dest_id \<lparr>buffer = b\<rparr> = d"
    and "\<not> is_compressed \<lparr>buffer = b\<rparr>" and "\<not> is_gateway \<lparr>buffer = b\<rparr>"
    and "payload \<lparr>buffer = b\<rparr> = inner"
proof -
  let ?z = "\<lparr>buffer = replicate (HEAD_LENGTH + length inner) 0 :: bytes\<rparr>"
  let ?q = "set_dest_id d (set_src_id s (set_ttl RELAY_TTL (set_msg_type m ?z)))"
  have z: "packet_ok ?z" by (simp add: packet_ok_def)
  have "length (buffer ?q) = length (buffer ?z)"
    by (simp only: setter_length setter_frame z)
  then have len: "length (buffer ?q) = HEAD_LENGTH + length inner" by simp
  define r where "r = ?q\<lparr>buffer := take HEAD_LENGTH (buffer ?q) @ inner\<rparr>"
  have set: "set_payload inner ?q = Inr r" by (simp add: set_payload_def len r_def)
  note sp = set_payload_Inr [OF dest.ok_set set]
  have "header ?z = \<lparr>type_byte = 0, ttl_byte = 0, flags_byte = 0, reserved_byte = 0, hdr_seq = 0,
      hdr_src_id = 0, hdr_dest_id = 0\<rparr>"
    by (simp add: header_def header_of_bytes_def HEAD_LENGTH_def u32_of_be_def)
  then have hr: "header r = \<lparr>type_byte = (msg_type_into m AND 0x7F) OR 0x80, ttl_byte = 0x55,
      flags_byte = 0, reserved_byte = 0, hdr_seq = 0, hdr_src_id = s, hdr_dest_id = d\<rparr>"
    by (simp add: sp(1) setter_header hdr_set_msg_type_def hdr_set_ttl_def RELAY_TTL_def)
  have mt: "msg_type_try_from (((msg_type_into m AND 0x7F) OR 0x80) AND 0x7F) = Inr m"
    using hdr_msg_type_set [of m] by (simp add: hdr_msg_type_def hdr_set_msg_type_def
        msg_type_try_from_into del: and_numerals)
  have b: "build_wireguard_envelope m inner s d = Some (buffer r)"
    by (simp add: build_wireguard_envelope_def new_packet_def set Let_def)
  have r: "\<lparr>buffer = buffer r\<rparr> = r" by simp
  have pr: "payload r = inner"
    using len by (simp add: r_def payload_def)
  show thesis
  proof (rule that [OF b])
    show "new_packet (buffer r) = Inr \<lparr>buffer = buffer r\<rparr>"
      using sp(2) by (simp add: new_packet_def packet_ok_def)
    show "packet_msg_type \<lparr>buffer = buffer r\<rparr> = Inr m"
      unfolding r packet_msg_type_def hdr_msg_type_def hr using mt by simp
  qed (use pr in \<open>simp_all add: r max_ttl_def ttl_def src_id_def dest_id_def is_compressed_def
      is_gateway_def hr hdr_max_ttl_def hdr_curr_ttl_def\<close>)
qed

section \<open>The echo reply\<close>

lemma on_suffix_overwrite:
  "n \<le> length b \<Longrightarrow> on_suffix n (overwrite off d) b = overwrite (n + off) d b"
  by (simp add: on_suffix_def overwrite_def take_add ac_simps)

lemma on_suffix_comp:
  "n \<le> length b \<Longrightarrow> on_suffix n (\<lambda>v. f (g v)) b = on_suffix n f (on_suffix n g b)"
  by (simp add: on_suffix_def)

lemma on_suffix_cong: "f (drop n b) = g (drop n b) \<Longrightarrow> on_suffix n f b = on_suffix n g b"
  by (simp add: on_suffix_def)

lemma build_gateway_echo_reply_Some:
  assumes "build_gateway_echo_reply P b s g = Inr (Some w)" and L: "pnet_layout P"
  defines "h \<equiv> unat (ipv4_header_length P b) * 4"
  obtains c1 c2 where "inner_ipv4_ok P b" "ipv4_source P b = s" "ipv4_destination P b = g"
    "b ! 9 = PROTO_ICMP" "b ! h = 8" "h + 8 \<le> length b" "20 \<le> h"
    "w = overwrite 10 (u16_be c2) (overwrite 16 (u32_be s) (overwrite 12 (u32_be g)
       (overwrite (h + 2) (u16_be c1) (overwrite h [0] b))))"
proof -
  from L have icmp: "icmp_layout P" and ip: "ipv4_layout P" by (simp_all add: pnet_layout_def)
  obtain r h' where p: "parse_inner_ipv4 P b s = Inr (r, h')" and d: "route_destination r = g"
    using assms(1) by (auto simp: build_gateway_echo_reply_def split: sum.splits prod.splits if_splits)
  then have ok: "inner_ipv4_ok P b" and r: "r = inner_route P b" and h: "h' = h" "ipv4_source P b = s"
    by (simp_all add: parse_inner_iff h_def)
  have len: "20 \<le> length b" "20 \<le> h" "h \<le> length b" using ok by (auto simp: inner_ipv4_ok_def h_def)
  note B = assms(1) [unfolded build_gateway_echo_reply_def p sum.case prod.case h(1) Let_def]
  have proto: "b ! 9 = PROTO_ICMP" using B d ip len by (auto simp: ipv4_layout_def split: if_splits)
  have l8: "h + 8 \<le> length b" and ty: "icmp_type P (drop h b) = 8" using B d by (auto split: if_splits)
  then have t8: "b ! h = 8" using icmp len by (simp add: icmp_layout_def)
  let ?r1 = "on_suffix h (\<lambda>v. icmp_set_checksum P 0 (icmp_set_type P 0 v)) b"
  have r1: "?r1 = overwrite (h + 2) (u16_be 0) (overwrite h [0] b)"
  proof -
    have "?r1 = on_suffix h (\<lambda>v. overwrite 2 (u16_be 0) (overwrite 0 [0] v)) b"
      by (rule on_suffix_cong) (use icmp l8 in \<open>simp add: icmp_layout_def\<close>)
    then show ?thesis using l8 by (simp add: on_suffix_comp on_suffix_overwrite)
  qed
  have r1l: "length ?r1 = length b" using l8 by (simp add: r1)
  define c1 where "c1 = icmp_checksum P (drop h ?r1)"
  let ?r2 = "on_suffix h (icmp_set_checksum P c1) ?r1"
  have r2: "?r2 = overwrite (h + 2) (u16_be c1) ?r1"
  proof -
    have "?r2 = on_suffix h (overwrite 2 (u16_be c1)) ?r1"
      by (rule on_suffix_cong) (use icmp l8 r1l in \<open>simp add: icmp_layout_def\<close>)
    then show ?thesis using l8 r1l by (simp add: on_suffix_overwrite)
  qed
  have r2l: "length ?r2 = length b" unfolding r2 using l8 r1l by simp
  let ?r3 = "ipv4_set_checksum P 0 (ipv4_set_destination P s (ipv4_set_source P g ?r2))"
  have r3: "?r3 = overwrite 10 (u16_be 0) (overwrite 16 (u32_be s) (overwrite 12 (u32_be g) ?r2))"
    using ip len r2l by (simp add: ipv4_layout_def)
  have w: "w = ipv4_set_checksum P (ipv4_checksum P ?r3) ?r3"
    using B d unfolding c1_def by (auto split: if_splits)
  have "length ?r3 = length b" unfolding r3 using len r2l by simp
  then have "w = overwrite 10 (u16_be (ipv4_checksum P ?r3)) ?r3"
    using w ip len by (simp add: ipv4_layout_def)
  then have "w = overwrite 10 (u16_be (ipv4_checksum P ?r3)) (overwrite 16 (u32_be s) (overwrite 12 (u32_be g) ?r2))"
    unfolding r3 using len r2l by (simp add: overwrite_twice)
  moreover have "?r2 = overwrite (h + 2) (u16_be c1) (overwrite h [0] b)"
    using r2 l8 by (simp add: r1 overwrite_twice)
  ultimately show thesis using that [OF ok h(2) _ proto t8 l8 len(2)] d r by (simp add: inner_route_def)
qed

section \<open>Properties\<close>

lemmas bridge_eval = witness_eval validate_inner_ipv4_def parse_inner_ipv4_def
  parse_unbound_inner_ipv4_def MAX_INNER_IPV4_PACKET_SIZE_def is_multicast_def is_unspecified_def
  ipv4_BROADCAST_def PROTO_ICMP_def on_suffix_def

definition wit_ping :: bytes where
  "wit_ping = [0x45, 0, 0, 28, 0, 0, 0, 0, 64, 1, 0, 0, 10, 26, 0, 2, 10, 26, 0, 1,
               8, 0, 0, 0, 0, 7, 0, 1]"

definition wit_unicast :: bytes where
  "wit_unicast = [0x45, 0, 0, 20, 0, 0, 0, 0, 64, 17, 0, 0, 10, 26, 0, 2, 10, 26, 0, 3]"

definition wit_route :: ipv4_route where
  "wit_route = \<lparr>route_source = ip4 10 26 0 2, route_destination = ip4 10 26 0 3\<rparr>"

lemma wit_unicast_valid:
  "validate_inner_ipv4 rfc_pnet wit_unicast (ip4 10 26 0 2) (cidr (ip4 10 26 0 0) 24) (ip4 10 26 0 1) =
     Inr wit_route"
  by (simp add: bridge_eval wit_unicast_def wit_route_def)

text \<open>An inner packet is accepted for unicast relay exactly when it is a complete IPv4 packet of
  20 to 1420 bytes whose header and total lengths agree with the buffer, it is sent from the
  address bound to the sender, and its destination is a host address of the virtual network: strictly
  between the network and the broadcast address, not the gateway, not multicast and not the limited
  broadcast address.  The route returned is the one in the IP header.\<close>

theorem validate_inner_ipv4_exact:
  assumes "ipv4_net_ok n"
  shows "validate_inner_ipv4 P b s n g = Inr r \<longleftrightarrow>
    (20 \<le> length b \<and> length b \<le> 1420 \<and> ipv4_new P b \<and> ipv4_version P b = 4 \<and>
     20 \<le> unat (ipv4_header_length P b) * 4 \<and> unat (ipv4_header_length P b) * 4 \<le> length b \<and>
     unat (ipv4_total_length P b) = length b) \<and>
    ipv4_source P b = s \<and>
    net_network n < ipv4_destination P b \<and> ipv4_destination P b < net_broadcast n \<and>
    ipv4_destination P b \<noteq> g \<and> \<not> is_multicast (ipv4_destination P b) \<and>
    ipv4_destination P b \<noteq> 0xFFFFFFFF \<and>
    r = \<lparr>route_source = ipv4_source P b, route_destination = ipv4_destination P b\<rparr>"
  using assms
  by (auto simp: validate_inner_iff inner_ipv4_ok_def inner_route_def ipv4_net_ok_def Let_def
      ipv4_BROADCAST_def order.strict_iff_order)

theorem validate_inner_ipv4_exact_witness:
  "ipv4_net_ok (cidr (ip4 10 26 0 0) 24) \<and>
   net_network (cidr (ip4 10 26 0 0) 24) < ipv4_destination rfc_pnet wit_unicast \<and>
   ipv4_source rfc_pnet wit_unicast = ip4 10 26 0 2"
  using validate_inner_ipv4_exact [OF cidr_ok] wit_unicast_valid cidr_ok by blast

text \<open>C5. A relay packet from a client is bound to the client's session: whichever of the three
  validators accepts it, the header names the session address as source, the message type is the
  validator's own and the other two validators refuse the packet; a unicast relay also has the
  session address in its inner IP header and is addressed, inside and outside, to one host of the
  virtual network that is neither gateway, network nor broadcast address.\<close>

theorem relay_validators_bind_session:
  assumes "ipv4_net_ok n"
  shows "(validate_vnt_relay P p s n g = Inr r \<longrightarrow>
      src_id p = s \<and> route_source r = s \<and> dest_id p = route_destination r \<and>
      net_network n < dest_id p \<and> dest_id p < net_broadcast n \<and> dest_id p \<noteq> g \<and>
      (\<exists>e. validate_vnt_broadcast_relay P p s' n' g' = Inl e) \<and>
      (\<exists>e. validate_vnt_subnet_relay P p s' n' g' = Inl e)) \<and>
    (validate_vnt_broadcast_relay P p s n g = Inr r \<longrightarrow>
      src_id p = s \<and> route_source r = s \<and> s \<noteq> g \<and>
      (\<exists>e. validate_vnt_subnet_relay P p s' n' g' = Inl e)) \<and>
    (validate_vnt_subnet_relay P p s n g = Inr r \<longrightarrow>
      src_id p = s \<and> dest_id p = route_destination r \<and> dest_id p \<noteq> s \<and>
      net_network n < dest_id p \<and> dest_id p < net_broadcast n \<and> dest_id p \<noteq> g \<and>
      \<not> net_contains n (route_source r))"
proof -
  have 1: "src_id p = s \<and> route_source r = s \<and> dest_id p = route_destination r \<and>
      net_network n < dest_id p \<and> dest_id p < net_broadcast n \<and> dest_id p \<noteq> g"
    if "validate_vnt_relay P p s n g = Inr r"
    using that net_host [OF assms, of "dest_id p"]
    by (auto simp: validate_vnt_relay_iff validate_inner_iff inner_route_def Let_def)
  have 2: "src_id p = s \<and> route_source r = s \<and> s \<noteq> g"
    if "validate_vnt_broadcast_relay P p s n g = Inr r"
    using that
    by (auto simp: validate_vnt_broadcast_relay_iff validate_broadcast_inner_iff inner_route_def)
  have 3: "src_id p = s \<and> dest_id p = route_destination r \<and> dest_id p \<noteq> s \<and>
      net_network n < dest_id p \<and> dest_id p < net_broadcast n \<and> dest_id p \<noteq> g \<and>
      \<not> net_contains n (route_source r)"
    if "validate_vnt_subnet_relay P p s n g = Inr r"
  proof -
    note v = that [unfolded validate_vnt_subnet_relay_iff Let_def]
    have "net_network n < dest_id p \<and> dest_id p < net_broadcast n"
      by (rule net_host [OF assms]) (use v in blast)+
    moreover have "src_id p = s" "dest_id p \<noteq> s" "dest_id p \<noteq> g" using v by blast+
    moreover have "dest_id p = route_destination r" "\<not> net_contains n (route_source r)"
      using v by (simp_all add: inner_route_def)
    ultimately show ?thesis by blast
  qed
  show ?thesis
    by (intro conjI impI unicast_bcast.exclusive unicast_subnet.exclusive bcast_subnet.exclusive)
      (use 1 2 3 in blast)+
qed

text \<open>C32. Round trip: the envelope built around a validated inner packet is a well formed packet that
  the receiving side validates to the same route, with the inner packet as its payload and a budget
  of five hops.\<close>

theorem relay_round_trip:
  assumes "validate_inner_ipv4 P b s n g = Inr r"
  shows "\<exists>w. build_wireguard_relay b r = Some w \<and> new_packet w = Inr \<lparr>buffer = w\<rparr> \<and>
      payload \<lparr>buffer = w\<rparr> = b \<and> ttl \<lparr>buffer = w\<rparr> = 5 \<and>
      validate_vnt_relay P \<lparr>buffer = w\<rparr> s n g = Inr r"
proof -
  have "route_source r = s" using assms by (auto simp: validate_inner_iff inner_route_def)
  moreover obtain w where "build_wireguard_relay b r = Some w" "new_packet w = Inr \<lparr>buffer = w\<rparr>"
    "packet_msg_type \<lparr>buffer = w\<rparr> = Inr WireGuardRelay" "ttl \<lparr>buffer = w\<rparr> = 5"
    "src_id \<lparr>buffer = w\<rparr> = route_source r" "dest_id \<lparr>buffer = w\<rparr> = route_destination r"
    "\<not> is_compressed \<lparr>buffer = w\<rparr>" "\<not> is_gateway \<lparr>buffer = w\<rparr>" "payload \<lparr>buffer = w\<rparr> = b"
    unfolding build_wireguard_relay_def by (rule build_wireguard_envelope_fields)
  ultimately show ?thesis using assms by (auto simp: validate_vnt_relay_iff)
qed

theorem relay_round_trip_witness:
  "\<exists>w. build_wireguard_relay wit_unicast wit_route = Some w \<and>
       validate_vnt_relay rfc_pnet \<lparr>buffer = w\<rparr> (ip4 10 26 0 2) (cidr (ip4 10 26 0 0) 24)
         (ip4 10 26 0 1) = Inr wit_route"
  using relay_round_trip [OF wit_unicast_valid] by blast

theorem relay_validators_bind_session_witness:
  "\<exists>w. build_wireguard_relay wit_unicast wit_route = Some w \<and>
       src_id \<lparr>buffer = w\<rparr> = ip4 10 26 0 2 \<and> dest_id \<lparr>buffer = w\<rparr> \<noteq> ip4 10 26 0 1"
proof -
  obtain w where "build_wireguard_relay wit_unicast wit_route = Some w"
    "new_packet w = Inr \<lparr>buffer = w\<rparr>"
    "packet_msg_type \<lparr>buffer = w\<rparr> = Inr WireGuardRelay" "ttl \<lparr>buffer = w\<rparr> = 5"
    "src_id \<lparr>buffer = w\<rparr> = route_source wit_route"
    "dest_id \<lparr>buffer = w\<rparr> = route_destination wit_route"
    "\<not> is_compressed \<lparr>buffer = w\<rparr>" "\<not> is_gateway \<lparr>buffer = w\<rparr>" "payload \<lparr>buffer = w\<rparr> = wit_unicast"
    unfolding build_wireguard_relay_def by (rule build_wireguard_envelope_fields)
  moreover from this have "validate_vnt_relay rfc_pnet \<lparr>buffer = w\<rparr> (ip4 10 26 0 2)
      (cidr (ip4 10 26 0 0) 24) (ip4 10 26 0 1) = Inr wit_route"
    using wit_unicast_valid by (simp add: validate_vnt_relay_iff wit_route_def)
  ultimately show ?thesis using relay_validators_bind_session [OF cidr_ok] by blast
qed



end
