(* ===== verification/Network_State.thy ===== *)
theory Network_State
  imports Lease_Steps Socket_Text Wireguard_Bridge "HOL-Library.List_Lexorder" "HOL-Library.Char_ord"
begin

text \<open>
  One virtual network of the server: NetworkState and NetworkStateProvider
  (official-vnts-source-2.0.0/src/server/network_state_provider.rs).

  \<open>network_state\<close> has the fields of the struct.  The lease table is the state of Lease_State; the
  online side is \<open>sender_map\<close> and \<open>online_endpoints\<close>, one entry per connected address.
  A sender is the number of its channel.  Channels belong to tokio: whether \<open>try_send\<close> succeeds is
  decided by the argument \<open>mp\<close>, which sees the attempts made so far, and the field \<open>sent\<close> is the
  trace of these attempts.  The outcome of a database future is an argument, and so is what other
  tasks do to the state while an operation awaits it (\<open>env\<close>).
\<close>

section \<open>Endpoints and channels\<close>

record wireguard_p2p_endpoint =
  wp_public_key :: bytes
  wp_endpoint :: socket_addr

datatype online_endpoint =
    EpVnt u64 bool u64 bool "wireguard_p2p_endpoint option"
    \<comment> \<open>random id, allow WireGuard, client capabilities, confirmed, p2p endpoint\<close>
  | EpWireGuard string i64
    \<comment> \<open>peer id, connected at\<close>

datatype local_delivery_result = Delivered | NotFound | Rejected | DeliveryFull | DeliveryClosed

record wireguard_bridge_packet =
  bp_network_code :: string
  bp_data :: bytes

datatype network_sender = SenderVnt nat | SenderWireGuard string nat

datatype network_send_error = SendErrFull | SendErrClosed

datatype chan_msg = ChanBytes bytes | ChanBridge wireguard_bridge_packet

datatype try_send_result = SendOk | TrySendFull | TrySendClosed

type_synonym send_event = "nat \<times> chan_msg \<times> try_send_result"

type_synonym mpsc = "send_event list \<Rightarrow> nat \<Rightarrow> chan_msg \<Rightarrow> try_send_result"

record network_state =
  ns_time :: nat
  ns_network_code :: string
  ns_gateway :: ipv4
  ns_net :: ipv4_net
  ns_lease_duration :: nat
  sender_map :: "(ipv4, network_sender) hmap"
  online_endpoints :: "(ipv4, online_endpoint) hmap"
  wireguard_backpressure_drops :: "(ipv4, u64) hmap"
  ns_lease :: lease_state
  traffic_stats_map :: "(ipv4, nat) hmap"
  dashboard_traffic :: traffic_stats
  dashboard_wireguard_drops :: u64
  sent :: "send_event list"

definition sender_channel :: "network_sender \<Rightarrow> nat" where
  "sender_channel s = (case s of SenderVnt c \<Rightarrow> c | SenderWireGuard _ c \<Rightarrow> c)"

definition sender_message :: "network_sender \<Rightarrow> bytes \<Rightarrow> chan_msg" where
  "sender_message s data = (case s of
      SenderVnt _ \<Rightarrow> ChanBytes data
    | SenderWireGuard network_code _ \<Rightarrow>
        ChanBridge \<lparr>bp_network_code = network_code, bp_data = data\<rparr>)"

definition sender_try_send ::
  "mpsc \<Rightarrow> network_sender \<Rightarrow> bytes \<Rightarrow> send_event list \<Rightarrow> (network_send_error + unit) \<times> send_event list" where
  "sender_try_send mp s data tr =
     (let c = sender_channel s; m = sender_message s data; r = mp tr c m
      in (case r of SendOk \<Rightarrow> Inr () | TrySendFull \<Rightarrow> Inl SendErrFull | TrySendClosed \<Rightarrow> Inl SendErrClosed,
          tr @ [(c, m, r)]))"

definition update_time :: "nat \<Rightarrow> network_state \<Rightarrow> network_state" where
  "update_time instant s = s\<lparr>ns_time := instant\<rparr>"

text \<open>\<open>data_version\<close> and \<open>last_wireguard_change_version\<close> after a change of the WireGuard endpoints.\<close>

definition bump_wireguard_version :: "lease_state \<Rightarrow> lease_state" where
  "bump_wireguard_version st =
     (let v = data_version st + 1 in st\<lparr>data_version := v, last_wireguard_change_version := v\<rparr>)"

definition saturating_bump_wireguard_version :: "lease_state \<Rightarrow> lease_state" where
  "saturating_bump_wireguard_version st =
     (let v = saturating_add (data_version st) 1
      in st\<lparr>data_version := v, last_wireguard_change_version := v\<rparr>)"

section \<open>WireGuard endpoints\<close>

definition is_wireguard_endpoint :: "ipv4 \<Rightarrow> network_state \<Rightarrow> bool" where
  "is_wireguard_endpoint ip s =
     (case hm_get (online_endpoints s) ip of Some (EpWireGuard _ _) \<Rightarrow> True | _ \<Rightarrow> False)"

definition update_remote_wireguard_ips ::
  "string \<Rightarrow> ipv4 hset \<Rightarrow> nat \<Rightarrow> network_state \<Rightarrow> bool \<times> network_state" where
  "update_remote_wireguard_ips source ips instant s =
     (let g = ns_lease s; m = remote_wireguard_sources g in
      if (case hm_get m source of Some old \<Rightarrow> set old = set ips | None \<Rightarrow> False)
         \<or> (ips = [] \<and> \<not> hm_contains m source)
      then (False, s)
      else let g = g\<lparr>remote_wireguard_sources :=
                       (if ips = [] then hm_remove source m else hm_insert source ips m)\<rparr>
           in (True, update_time instant (s\<lparr>ns_lease := saturating_bump_wireguard_version g\<rparr>)))"

definition remove_remote_wireguard_source ::
  "string \<Rightarrow> nat \<Rightarrow> network_state \<Rightarrow> bool \<times> network_state" where
  "remove_remote_wireguard_source source instant s =
     (let g = ns_lease s; m = remote_wireguard_sources g in
      if hm_get m source = None then (False, s)
      else let g = g\<lparr>remote_wireguard_sources := hm_remove source m\<rparr>
           in (True, update_time instant (s\<lparr>ns_lease := saturating_bump_wireguard_version g\<rparr>)))"

definition get_wireguard_p2p_endpoint :: "ipv4 \<Rightarrow> network_state \<Rightarrow> wireguard_p2p_endpoint option" where
  "get_wireguard_p2p_endpoint ip s =
     (case hm_get (online_endpoints s) ip of
        Some (EpVnt _ allow_wireguard _ confirmed (Some p2p)) \<Rightarrow>
          if allow_wireguard \<and> confirmed then Some p2p else None
      | _ \<Rightarrow> None)"

definition connect_wireguard_peer ::
  "string \<Rightarrow> ipv4 \<Rightarrow> nat \<Rightarrow> system_time \<Rightarrow> nat \<Rightarrow> network_state \<Rightarrow> bool \<times> network_state" where
  "connect_wireguard_peer peer_id ip sender now instant s =
     (if hm_get (wireguard_peer_ip_map (ns_lease s)) ip \<noteq> Some peer_id
         \<or> hm_contains (sender_map s) ip \<or> hm_contains (online_endpoints s) ip
      then (False, s)
      else (True, update_time instant
             (s\<lparr>sender_map := hm_insert ip (SenderWireGuard (ns_network_code s) sender) (sender_map s),
                online_endpoints :=
                  hm_insert ip (EpWireGuard peer_id (system_time_to_i64 now)) (online_endpoints s),
                wireguard_backpressure_drops := hm_insert ip 0 (wireguard_backpressure_drops s),
                ns_lease := bump_wireguard_version (ns_lease s)\<rparr>)))"

definition disconnect_wireguard_peer ::
  "string \<Rightarrow> ipv4 \<Rightarrow> nat \<Rightarrow> network_state \<Rightarrow> bool \<times> network_state" where
  "disconnect_wireguard_peer peer_id ip instant s =
     (let matches_peer = (case hm_get (online_endpoints s) ip of
                            Some (EpWireGuard active_peer_id _) \<Rightarrow> active_peer_id = peer_id
                          | _ \<Rightarrow> False)
      in if \<not> matches_peer then (False, s)
         else (True, update_time instant
                (s\<lparr>sender_map := hm_remove ip (sender_map s),
                   online_endpoints := hm_remove ip (online_endpoints s),
                   wireguard_backpressure_drops := hm_remove ip (wireguard_backpressure_drops s),
                   ns_lease := bump_wireguard_version (ns_lease s)\<rparr>)))"

section \<open>Delivery\<close>

definition has_capability :: "u64 \<Rightarrow> u64 \<Rightarrow> bool" where
  "has_capability caps c = (caps AND c = c)"

definition delivery_allowed :: "msg_type \<Rightarrow> relay_origin \<Rightarrow> online_endpoint \<Rightarrow> bool" where
  "delivery_allowed message_type origin endpoint =
     (case message_type of
        WireGuardRelay \<Rightarrow>
          (case endpoint of
             EpWireGuard _ _ \<Rightarrow> True
           | EpVnt _ allow_wireguard _ confirmed _ \<Rightarrow>
               origin = FromWireGuard \<and> allow_wireguard \<and> confirmed)
      | WireGuardSubnetRelay \<Rightarrow>
          (case endpoint of
             EpVnt _ allow_wireguard client_capabilities confirmed _ \<Rightarrow>
               origin = FromWireGuard \<and> allow_wireguard \<and> confirmed
               \<and> has_capability client_capabilities CLIENT_CAP_WIREGUARD_SUBNET_RELAY
           | EpWireGuard _ _ \<Rightarrow> origin = FromVnt)
      | WireGuardBroadcastRelay \<Rightarrow>
          (case endpoint of
             EpWireGuard _ _ \<Rightarrow> True
           | EpVnt _ allow_wireguard client_capabilities confirmed _ \<Rightarrow>
               origin = FromWireGuard \<and> allow_wireguard \<and> confirmed
               \<and> has_capability client_capabilities CLIENT_CAP_WIREGUARD_BROADCAST_RELAY)
      | _ \<Rightarrow> (case endpoint of EpVnt _ _ _ _ _ \<Rightarrow> True | EpWireGuard _ _ \<Rightarrow> False))"

definition count_drop :: "ipv4 \<Rightarrow> network_state \<Rightarrow> network_state" where
  "count_drop destination s =
     s\<lparr>wireguard_backpressure_drops :=
         (case hm_get (wireguard_backpressure_drops s) destination of
            Some drops \<Rightarrow> hm_insert destination (drops + 1) (wireguard_backpressure_drops s)
          | None \<Rightarrow> wireguard_backpressure_drops s),
       dashboard_wireguard_drops := dashboard_wireguard_drops s + 1\<rparr>"

definition try_deliver ::
  "mpsc \<Rightarrow> ipv4 \<Rightarrow> bytes \<Rightarrow> relay_origin \<Rightarrow> network_state \<Rightarrow> local_delivery_result \<times> network_state" where
  "try_deliver mp destination data origin s =
     (case hm_get (online_endpoints s) destination of
        None \<Rightarrow> (NotFound, s)
      | Some endpoint \<Rightarrow>
          (case new_packet data of
             Inl _ \<Rightarrow> (Rejected, s)
           | Inr packet \<Rightarrow>
               (case packet_msg_type packet of
                  Inl _ \<Rightarrow> (Rejected, s)
                | Inr message_type \<Rightarrow>
                    if \<not> delivery_allowed message_type origin endpoint then (Rejected, s)
                    else (case hm_get (sender_map s) destination of
                            None \<Rightarrow> (NotFound, s)
                          | Some sender \<Rightarrow>
                              (case sender_try_send mp sender data (sent s) of
                                 (Inr (), tr) \<Rightarrow> (Delivered, s\<lparr>sent := tr\<rparr>)
                               | (Inl SendErrFull, tr) \<Rightarrow>
                                   (DeliveryFull, count_drop destination (s\<lparr>sent := tr\<rparr>))
                               | (Inl SendErrClosed, tr) \<Rightarrow>
                                   (DeliveryClosed, count_drop destination (s\<lparr>sent := tr\<rparr>)))))))"

definition stats_update :: "nat \<Rightarrow> (traffic_stats \<Rightarrow> traffic_stats) \<Rightarrow> lease_state \<Rightarrow> lease_state" where
  "stats_update ref f st = st\<lparr>stats_store := hm_insert ref (f (stats_at st ref)) (stats_store st)\<rparr>"

definition record_tx_traffic :: "ipv4 \<Rightarrow> nat \<Rightarrow> network_state \<Rightarrow> network_state" where
  "record_tx_traffic ip n s =
     (let s = s\<lparr>dashboard_traffic := add_tx (of_nat n) (dashboard_traffic s)\<rparr>
      in case hm_get (traffic_stats_map s) ip of
           Some stats \<Rightarrow> s\<lparr>ns_lease := stats_update stats (add_tx (of_nat n)) (ns_lease s)\<rparr>
         | None \<Rightarrow> s)"

definition record_rx_traffic :: "ipv4 \<Rightarrow> nat \<Rightarrow> network_state \<Rightarrow> network_state" where
  "record_rx_traffic ip n s =
     (let s = s\<lparr>dashboard_traffic := add_rx (of_nat n) (dashboard_traffic s)\<rparr>
      in case hm_get (traffic_stats_map s) ip of
           Some stats \<Rightarrow> s\<lparr>ns_lease := stats_update stats (add_rx (of_nat n)) (ns_lease s)\<rparr>
         | None \<Rightarrow> s)"

definition broadcast_target :: "relay_origin \<Rightarrow> online_endpoint \<Rightarrow> bool" where
  "broadcast_target origin endpoint =
     (case endpoint of
        EpWireGuard _ _ \<Rightarrow> True
      | EpVnt _ allow_wireguard client_capabilities confirmed _ \<Rightarrow>
          origin = FromWireGuard \<and> allow_wireguard \<and> confirmed
          \<and> has_capability client_capabilities CLIENT_CAP_WIREGUARD_BROADCAST_RELAY)"

definition broadcast_targets :: "ipv4 \<Rightarrow> relay_origin \<Rightarrow> network_state \<Rightarrow> ipv4 list" where
  "broadcast_targets source origin s =
     map fst (filter (\<lambda>(target, endpoint). target \<noteq> source \<and> broadcast_target origin endpoint)
                (online_endpoints s))"

text \<open>The loop over the targets; None is the panic of the envelope builder.\<close>

fun broadcast_loop ::
  "mpsc \<Rightarrow> bytes \<Rightarrow> ipv4_route \<Rightarrow> relay_origin \<Rightarrow> ipv4 list \<Rightarrow> nat \<Rightarrow> network_state \<Rightarrow>
   (nat \<times> network_state) option" where
  "broadcast_loop mp inner route origin [] delivered s = Some (delivered, s)"
| "broadcast_loop mp inner route origin (target # targets) delivered s =
     (case build_wireguard_broadcast_relay inner route target of
        None \<Rightarrow> None
      | Some data \<Rightarrow>
          (case try_deliver mp target data origin s of (r, s) \<Rightarrow>
             if r = Delivered
             then broadcast_loop mp inner route origin targets (delivered + 1)
                    (record_rx_traffic target (length data) s)
             else broadcast_loop mp inner route origin targets delivered s))"

definition relay_wireguard_broadcast ::
  "pnet \<Rightarrow> mpsc \<Rightarrow> ipv4 \<Rightarrow> bytes \<Rightarrow> relay_origin \<Rightarrow> network_state \<Rightarrow>
   ((relay_validation_error + nat) \<times> network_state) option" where
  "relay_wireguard_broadcast P mp source inner origin s =
     (case validate_broadcast_inner_ipv4 P inner source (ns_net s) (ns_gateway s) of
        Inl e \<Rightarrow> Some (Inl e, s)
      | Inr route \<Rightarrow>
          map_option (\<lambda>(delivered, s). (Inr delivered, s))
            (broadcast_loop mp inner route origin (broadcast_targets source origin s) 0 s))"

section \<open>Dashboard\<close>

record dashboard_traffic_snapshot =
  tx_bytes_total :: u64
  rx_bytes_total :: u64
  wireguard_drops_total :: u64

record dashboard_endpoint_snapshot =
  vnt_online :: u64
  wireguard_online :: u64

definition network_traffic_snapshot :: "network_state \<Rightarrow> dashboard_traffic_snapshot" where
  "network_traffic_snapshot s =
     \<lparr>tx_bytes_total = tx_total_bytes (dashboard_traffic s),
      rx_bytes_total = rx_total_bytes (dashboard_traffic s),
      wireguard_drops_total = dashboard_wireguard_drops s\<rparr>"

definition network_endpoint_snapshot :: "network_state \<Rightarrow> dashboard_endpoint_snapshot" where
  "network_endpoint_snapshot s =
     fold (\<lambda>(_, endpoint) snapshot.
             case endpoint of
               EpVnt _ _ _ _ _ \<Rightarrow> snapshot\<lparr>vnt_online := vnt_online snapshot + 1\<rparr>
             | EpWireGuard _ _ \<Rightarrow> snapshot\<lparr>wireguard_online := wireguard_online snapshot + 1\<rparr>)
       (online_endpoints s) \<lparr>vnt_online = 0, wireguard_online = 0\<rparr>"

definition network_count :: "network_state \<Rightarrow> u32 \<times> u32" where
  "network_count s =
     (let wireguard_count = of_nat (length (filter (\<lambda>(_, endpoint).
            case endpoint of EpWireGuard _ _ \<Rightarrow> True | _ \<Rightarrow> False) (online_endpoints s)))
      in (of_nat (length (device_map (ns_lease s))) + wireguard_count,
          of_nat (length (sender_map s))))"

section \<open>Sessions of VNT devices\<close>

text \<open>What every operation that ends the session at an address does to the online side.\<close>

definition drop_online :: "ipv4 \<Rightarrow> network_state \<Rightarrow> network_state" where
  "drop_online ip s =
     s\<lparr>sender_map := hm_remove ip (sender_map s),
       online_endpoints := hm_remove ip (online_endpoints s),
       traffic_stats_map := hm_remove ip (traffic_stats_map s)\<rparr>"

definition offline_ip ::
  "string \<Rightarrow> ipv4 \<Rightarrow> u64 \<Rightarrow> system_time \<Rightarrow> network_state \<Rightarrow> device_record option \<times> network_state" where
  "offline_ip device_id ip random_id now s =
     (case inner_offline_ip (ns_network_code s) device_id ip random_id now (ns_lease s) of
        ((success, record), g) \<Rightarrow>
          if success then (record, drop_online ip (s\<lparr>ns_lease := g\<rparr>))
          else (None, s\<lparr>ns_lease := g\<rparr>))"

definition is_device_online :: "string \<Rightarrow> network_state \<Rightarrow> bool" where
  "is_device_online device_id s =
     (case hm_get (device_map (ns_lease s)) device_id of Some e \<Rightarrow> de_is_connected e | None \<Rightarrow> False)"

definition remove_device_from_memory :: "string \<Rightarrow> network_state \<Rightarrow> ipv4 option \<times> network_state" where
  "remove_device_from_memory device_id s =
     (let g = ns_lease s in
      case hm_get (device_map g) device_id of
        None \<Rightarrow> (None, s)
      | Some entry \<Rightarrow>
          let g = g\<lparr>device_map := hm_remove device_id (device_map g)\<rparr>;
              s = (case de_ip entry of
                     Some ip \<Rightarrow> drop_online ip
                                  (s\<lparr>ns_lease := g\<lparr>device_ip_map := hm_remove ip (device_ip_map g)\<rparr>\<rparr>)
                   | None \<Rightarrow> s\<lparr>ns_lease := g\<rparr>);
              g = ns_lease s
          in (de_ip entry, s\<lparr>ns_lease := g\<lparr>data_version := data_version g + 1\<rparr>\<rparr>))"

text \<open>\<open>release_pre_registered_ip\<close> gives the lock of the lease table back before it touches the online
  side: the two halves are separate steps.\<close>

definition release_pre_registered_lease ::
  "string \<Rightarrow> ipv4 \<Rightarrow> u64 \<Rightarrow> network_state \<Rightarrow> bool \<times> network_state" where
  "release_pre_registered_lease device_id ip random_id s =
     (let g = ns_lease s in
      case hm_get (device_map g) device_id of
        Some e \<Rightarrow>
          if de_random_id e = random_id \<and> de_ip e = Some ip
          then (True, s\<lparr>ns_lease := g\<lparr>device_map := hm_remove device_id (device_map g),
                                     device_ip_map := hm_remove ip (device_ip_map g),
                                     data_version := data_version g + 1\<rparr>\<rparr>)
          else (False, s)
      | None \<Rightarrow> (False, s))"

definition release_pre_registered_ip :: "string \<Rightarrow> ipv4 \<Rightarrow> u64 \<Rightarrow> network_state \<Rightarrow> network_state" where
  "release_pre_registered_ip device_id ip random_id s =
     (case release_pre_registered_lease device_id ip random_id s of
        (should_remove, s) \<Rightarrow> if should_remove then drop_online ip s else s)"

definition get_device_entry :: "string \<Rightarrow> network_state \<Rightarrow> device_entry option" where
  "get_device_entry device_id s = hm_get (device_map (ns_lease s)) device_id"

definition get_device_entry_by_ip :: "ipv4 \<Rightarrow> network_state \<Rightarrow> device_entry option" where
  "get_device_entry_by_ip ip s =
     Option.bind (hm_get (device_ip_map (ns_lease s)) ip) (hm_get (device_map (ns_lease s)))"

definition confirm_endpoint :: "ipv4 \<Rightarrow> u64 \<Rightarrow> network_state \<Rightarrow> network_state" where
  "confirm_endpoint ip random_id s =
     (case hm_get (online_endpoints s) ip of
        Some (EpVnt active_random_id allow caps _ p2p) \<Rightarrow>
          if active_random_id = random_id
          then s\<lparr>online_endpoints :=
                  hm_insert ip (EpVnt active_random_id allow caps True p2p) (online_endpoints s)\<rparr>
          else s
      | _ \<Rightarrow> s)"

text \<open>\<open>save\<close> is the outcome of \<open>save_or_update_device\<close>; \<open>env\<close> is what other tasks did meanwhile.\<close>

definition confirm_registration ::
  "string \<Rightarrow> string \<Rightarrow> ipv4 \<Rightarrow> u64 \<Rightarrow> (device_record \<Rightarrow> 'e + unit) \<Rightarrow> (network_state \<Rightarrow> network_state) \<Rightarrow>
   network_state \<Rightarrow> ('e + unit) \<times> network_state" where
  "confirm_registration network_code device_id ip random_id save env s =
     (case get_device_entry device_id s of
        Some entry \<Rightarrow>
          (case save (to_record (ns_lease s) network_code entry) of
             Inl e \<Rightarrow> (Inl e, env s)
           | Inr () \<Rightarrow> (Inr (), confirm_endpoint ip random_id (env s)))
      | None \<Rightarrow> (Inr (), confirm_endpoint ip random_id s))"

definition allocate_ip_and_get_entry ::
  "reg_request_msg \<Rightarrow> u64 \<Rightarrow> nat \<Rightarrow> wireguard_p2p_endpoint option \<Rightarrow> system_time \<Rightarrow> network_state \<Rightarrow>
   (lease_error + ipv4 \<times> ipv4 option \<times> device_entry option) \<times> network_state" where
  "allocate_ip_and_get_entry reg_req random_id sender wireguard_p2p now s =
     (let confirmed = (rq_registration_mode reg_req = Normal) in
      case allocate_ip (ns_net s) (ns_gateway s) reg_req random_id now (ns_lease s) of
        (Inl e, g) \<Rightarrow> (Inl e, s\<lparr>ns_lease := g\<rparr>)
      | (Inr (ip, old_ip), g) \<Rightarrow>
          let s = s\<lparr>ns_lease := g\<rparr>;
              s = (case old_ip of Some old_ip \<Rightarrow> drop_online old_ip s | None \<Rightarrow> s);
              entry = hm_get (device_map g) (rq_device_id reg_req);
              s = s\<lparr>sender_map := hm_insert ip (SenderVnt sender) (sender_map s),
                    online_endpoints :=
                      hm_insert ip (EpVnt random_id (rq_allow_wire_guard reg_req)
                          (rq_client_capabilities reg_req) confirmed wireguard_p2p)
                        (online_endpoints s)\<rparr>;
              s = (case entry of
                     Some e \<Rightarrow> s\<lparr>traffic_stats_map :=
                                   hm_insert ip (de_traffic_stats e) (traffic_stats_map s)\<rparr>
                   | None \<Rightarrow> s)
          in (Inr (ip, old_ip, entry), s))"

definition collect_expired_devices :: "system_time \<Rightarrow> network_state \<Rightarrow> string list" where
  "collect_expired_devices now s = inner_collect_expired_devices (ns_lease_duration s) now (ns_lease s)"

definition remove_devices :: "string list \<Rightarrow> network_state \<Rightarrow> network_state" where
  "remove_devices device_ids s = s\<lparr>ns_lease := inner_remove_devices device_ids (ns_lease s)\<rparr>"

definition get_all_device_simple_info ::
  "network_state \<Rightarrow> (string \<times> ipv4 option \<times> bool \<times> u64) list" where
  "get_all_device_simple_info s =
     map (\<lambda>e. (de_device_id e, de_ip e, de_is_connected e, de_data_version e))
       (hm_values (device_map (ns_lease s)))"

definition network_is_empty :: "network_state \<Rightarrow> bool" where
  "network_is_empty s \<longleftrightarrow> device_map (ns_lease s) = [] \<and> device_ip_map (ns_lease s) = []
     \<and> wireguard_peer_ip_map (ns_lease s) = []"

definition update_client_latency :: "ipv4 \<Rightarrow> u32 \<Rightarrow> network_state \<Rightarrow> network_state" where
  "update_client_latency ip latency_ms s =
     (let g = ns_lease s in
      case hm_get (device_ip_map g) ip of
        None \<Rightarrow> s
      | Some device_id \<Rightarrow>
          (case hm_get (device_map g) device_id of
             None \<Rightarrow> s
           | Some entry \<Rightarrow>
               s\<lparr>ns_lease := g\<lparr>device_map :=
                   hm_insert device_id (entry\<lparr>de_latency_ms := Some latency_ms\<rparr>) (device_map g)\<rparr>\<rparr>))"

definition new_from_db ::
  "nat \<Rightarrow> string \<Rightarrow> ipv4_net \<Rightarrow> nat \<Rightarrow> system_time \<Rightarrow> device_record list option \<Rightarrow>
   (ipv4 \<times> string) list option \<Rightarrow> network_state" where
  "new_from_db instant network_code net lease_duration now records allocations =
     (let gateway = net_network net + 1 in
      \<lparr>ns_time = instant, ns_network_code = network_code, ns_gateway = gateway, ns_net = net,
       ns_lease_duration = lease_duration, sender_map = [], online_endpoints = [],
       wireguard_backpressure_drops = [],
       ns_lease = build_initial_inner_state net gateway now records allocations,
       traffic_stats_map = [], dashboard_traffic = traffic_stats_new,
       dashboard_wireguard_drops = 0, sent = []\<rparr>)"

end
