(* ===== verification/Network_Sessions.thy ===== *)
theory Network_Sessions
  imports Network_State
begin

text \<open>
  The two sides of a network stay together.  \<open>session_inv\<close> relates the lease table of NetworkState to
  its online side (senders, endpoints, traffic counters); \<open>net_step\<close> has one rule per operation, and
  the invariant is preserved by each of them (interpretation \<open>net\<close>).  The properties are its
  consequences, and two operations that break it because they are not atomic.
\<close>

section \<open>The session invariant\<close>

text \<open>\<open>endpoints_owned\<close>: the endpoint of a VNT session belongs to a connected device with that address
  and session id.  \<open>devices_served\<close>: a connected device with a host address has such an endpoint.\<close>

fun vnt_random_id :: "online_endpoint option \<Rightarrow> u64 option" where
  "vnt_random_id (Some (EpVnt r _ _ _ _)) = Some r"
| "vnt_random_id _ = None"

fun sender_fits :: "string \<Rightarrow> online_endpoint option \<Rightarrow> network_sender option \<Rightarrow> bool" where
  "sender_fits nc None None = True"
| "sender_fits nc (Some (EpVnt _ _ _ _ _)) (Some (SenderVnt _)) = True"
| "sender_fits nc (Some (EpWireGuard _ _)) (Some (SenderWireGuard nc' _)) = (nc' = nc)"
| "sender_fits nc _ _ = False"

type_synonym endpoints = "ipv4 \<rightharpoonup> online_endpoint"
type_synonym stats_refs = "ipv4 \<rightharpoonup> nat"

definition has_session :: "device_entry \<Rightarrow> ipv4 \<Rightarrow> u64 option \<Rightarrow> nat option \<Rightarrow> bool" where
  "has_session e ip r t \<longleftrightarrow>
     de_ip e = Some ip \<and> de_is_connected e \<and> r = Some (de_random_id e) \<and> t = Some (de_traffic_stats e)"

definition endpoints_owned :: "devices \<Rightarrow> endpoints \<Rightarrow> stats_refs \<Rightarrow> bool" where
  "endpoints_owned dm ep tm \<longleftrightarrow>
     (\<forall>ip. vnt_random_id (ep ip) \<noteq> None \<longrightarrow> (\<exists>d e. dm d = Some e \<and> has_session e ip (vnt_random_id (ep ip)) (tm ip)))"

definition devices_served :: "ipv4_net \<Rightarrow> ipv4 \<Rightarrow> devices \<Rightarrow> endpoints \<Rightarrow> stats_refs \<Rightarrow> bool" where
  "devices_served net gw dm ep tm \<longleftrightarrow>
     (\<forall>d e ip. dm d = Some e \<longrightarrow> de_is_connected e \<longrightarrow> de_ip e = Some ip \<longrightarrow> net_contains net ip \<longrightarrow> ip \<noteq> gw \<longrightarrow>
        has_session e ip (vnt_random_id (ep ip)) (tm ip))"

definition session_inv :: "network_state \<Rightarrow> bool" where
  "session_inv s \<longleftrightarrow>
     ipv4_net_ok (ns_net s) \<and> net_network (ns_net s) \<noteq> - 1 \<and>
     lease_inv (ns_net s) (ns_gateway s) (ns_lease s) \<and>
     hm_ok (online_endpoints s) \<and> hm_ok (sender_map s) \<and>
     (\<forall>ip. sender_fits (ns_network_code s) (hm_get (online_endpoints s) ip) (hm_get (sender_map s) ip)) \<and>
     endpoints_owned (hm_get (device_map (ns_lease s))) (hm_get (online_endpoints s)) (hm_get (traffic_stats_map s)) \<and>
     devices_served (ns_net s) (ns_gateway s)
       (hm_get (device_map (ns_lease s))) (hm_get (online_endpoints s)) (hm_get (traffic_stats_map s))"

subsection \<open>On the maps\<close>

lemma ownedD:
  "endpoints_owned dm ep tm \<Longrightarrow> vnt_random_id (ep ip) \<noteq> None \<Longrightarrow>
   \<exists>d e. dm d = Some e \<and> has_session e ip (vnt_random_id (ep ip)) (tm ip)"
  by (simp add: endpoints_owned_def)

lemma ownedI:
  "(\<And>ip. vnt_random_id (ep ip) \<noteq> None \<Longrightarrow> \<exists>d e. dm d = Some e \<and> has_session e ip (vnt_random_id (ep ip)) (tm ip)) \<Longrightarrow>
   endpoints_owned dm ep tm"
  by (simp add: endpoints_owned_def)

lemma servedD:
  "devices_served net gw dm ep tm \<Longrightarrow> dm d = Some e \<Longrightarrow> de_is_connected e \<Longrightarrow> de_ip e = Some ip \<Longrightarrow>
   net_contains net ip \<Longrightarrow> ip \<noteq> gw \<Longrightarrow> has_session e ip (vnt_random_id (ep ip)) (tm ip)"
  by (simp add: devices_served_def)

lemma servedI:
  "(\<And>d e ip. dm d = Some e \<Longrightarrow> de_is_connected e \<Longrightarrow> de_ip e = Some ip \<Longrightarrow> net_contains net ip \<Longrightarrow> ip \<noteq> gw \<Longrightarrow>
     has_session e ip (vnt_random_id (ep ip)) (tm ip)) \<Longrightarrow> devices_served net gw dm ep tm"
  by (simp add: devices_served_def)

lemma owned_drop:
  assumes "endpoints_owned dm ep tm" "dm d = Some e" "de_ip e = Some ip"
  shows "endpoints_owned (dm(d := None)) (ep(ip := None)) (tm(ip := None))"
proof (rule ownedI)
  fix i assume "vnt_random_id ((ep(ip := None)) i) \<noteq> None"
  then have i: "i \<noteq> ip" "vnt_random_id (ep i) \<noteq> None" by (auto split: if_splits)
  then obtain d' e' where "dm d' = Some e'" "has_session e' i (vnt_random_id (ep i)) (tm i)"
    using ownedD [OF assms(1)] by blast
  moreover have "d' \<noteq> d" using calculation assms(2,3) i(1) by (auto simp: has_session_def)
  ultimately show "\<exists>d' e'. (dm(d := None)) d' = Some e' \<and>
      has_session e' i (vnt_random_id ((ep(ip := None)) i)) ((tm(ip := None)) i)" using i by auto
qed

lemma owned_drop_offline:
  assumes "endpoints_owned dm ep tm" "dm d = Some e" "de_ip e = None"
  shows "endpoints_owned (dm(d := None)) ep tm"
proof (rule ownedI)
  fix i assume "vnt_random_id (ep i) \<noteq> None"
  then obtain d' e' where d: "dm d' = Some e'" "has_session e' i (vnt_random_id (ep i)) (tm i)"
    using ownedD [OF assms(1)] by blast
  then have "d' \<noteq> d" using assms(2,3) by (auto simp: has_session_def)
  with d show "\<exists>d' e'. (dm(d := None)) d' = Some e' \<and> has_session e' i (vnt_random_id (ep i)) (tm i)" by auto
qed

lemma owned_update:
  assumes "endpoints_owned (dm(d := None)) ep tm"
  shows "endpoints_owned (dm(d := x)) ep tm"
proof (rule ownedI)
  fix i assume "vnt_random_id (ep i) \<noteq> None"
  then obtain d' e' where "(dm(d := None)) d' = Some e'" "has_session e' i (vnt_random_id (ep i)) (tm i)"
    using ownedD [OF assms] by blast
  then show "\<exists>d' e'. (dm(d := x)) d' = Some e' \<and> has_session e' i (vnt_random_id (ep i)) (tm i)"
    by (intro exI [of _ d'] exI [of _ e']) (auto split: if_splits)
qed

lemma owned_insert:
  assumes "endpoints_owned (dm(d := None)) (ep(ip := None)) (tm(ip := None))"
    "has_session e ip (vnt_random_id (Some p)) (Some t)"
  shows "endpoints_owned (dm(d \<mapsto> e)) (ep(ip \<mapsto> p)) (tm(ip \<mapsto> t))"
proof (rule ownedI)
  fix i assume a: "vnt_random_id ((ep(ip \<mapsto> p)) i) \<noteq> None"
  show "\<exists>d' e'. (dm(d \<mapsto> e)) d' = Some e' \<and>
      has_session e' i (vnt_random_id ((ep(ip \<mapsto> p)) i)) ((tm(ip \<mapsto> t)) i)"
  proof (cases "i = ip")
    case True then show ?thesis using assms(2) by auto
  next
    case False
    then obtain d' e' where "(dm(d := None)) d' = Some e'" "has_session e' i (vnt_random_id (ep i)) (tm i)"
      using ownedD [OF assms(1), of i] a by auto
    then show ?thesis using False by (intro exI [of _ d'] exI [of _ e']) (auto split: if_splits)
  qed
qed

lemma owned_shrink: "endpoints_owned dm ep tm \<Longrightarrow> endpoints_owned dm (ep(ip := None)) (tm(ip := None))"
  by (auto simp: endpoints_owned_def)

lemma served_drop:
  assumes "devices_served net gw dm ep tm" "maps_inv net gw dm im wm" "dm d = Some e" "de_ip e = Some ip"
  shows "devices_served net gw (dm(d := None)) (ep(ip := None)) (tm(ip := None))"
proof (rule servedI)
  fix d' e' i
  assume a: "(dm(d := None)) d' = Some e'" "de_is_connected e'" "de_ip e' = Some i" "net_contains net i" "i \<noteq> gw"
  then have d: "d' \<noteq> d" "dm d' = Some e'" by (auto split: if_splits)
  then have "i \<noteq> ip" using indexedD [OF assms(2) d(2) a(3-5)] indexedD [OF assms(2,3,4)] a by auto
  then show "has_session e' i (vnt_random_id ((ep(ip := None)) i)) ((tm(ip := None)) i)"
    using servedD [OF assms(1) d(2) a(2-5)] by simp
qed

lemma served_remove: "devices_served net gw dm ep tm \<Longrightarrow> devices_served net gw (dm(d := None)) ep tm"
  by (simp add: devices_served_def)

lemma served_offline:
  assumes "devices_served net gw (dm(d := None)) ep tm" "\<not> de_is_connected e"
  shows "devices_served net gw (dm(d \<mapsto> e)) ep tm"
proof (rule servedI)
  fix d' e' i
  assume a: "(dm(d \<mapsto> e)) d' = Some e'" "de_is_connected e'" "de_ip e' = Some i" "net_contains net i" "i \<noteq> gw"
  then have "(dm(d := None)) d' = Some e'" using assms(2) by (auto split: if_splits)
  then show "has_session e' i (vnt_random_id (ep i)) (tm i)" using servedD [OF assms(1) _ a(2-5)] by blast
qed

lemma served_insert:
  assumes "devices_served net gw (dm(d := None)) ep tm" "maps_inv net gw (dm(d \<mapsto> e)) im wm"
    "has_session e ip (vnt_random_id (Some p)) (Some t)"
  shows "devices_served net gw (dm(d \<mapsto> e)) (ep(ip \<mapsto> p)) (tm(ip \<mapsto> t))"
proof (rule servedI)
  fix d' e' i
  assume a: "(dm(d \<mapsto> e)) d' = Some e'" "de_is_connected e'" "de_ip e' = Some i" "net_contains net i" "i \<noteq> gw"
  show "has_session e' i (vnt_random_id ((ep(ip \<mapsto> p)) i)) ((tm(ip \<mapsto> t)) i)"
  proof (cases "d' = d")
    case True then show ?thesis using a assms(3) by (auto simp: has_session_def)
  next
    case False
    have e: "(dm(d \<mapsto> e)) d = Some e" "de_ip e = Some ip" using assms(3) by (auto simp: has_session_def)
    have "i \<noteq> ip" using indexedD [OF assms(2) a(1,3-5)] indexedD [OF assms(2) e] a False by auto
    then show ?thesis using servedD [OF assms(1), of d' e' i] a False by simp
  qed
qed

lemma served_wg:
  assumes "devices_served net gw dm ep tm" "vnt_random_id (ep ip) = None" "vnt_random_id x = None"
  shows "devices_served net gw dm (ep(ip := x)) tm"
proof (rule servedI)
  fix d e i
  assume a: "dm d = Some e" "de_is_connected e" "de_ip e = Some i" "net_contains net i" "i \<noteq> gw"
  note h = servedD [OF assms(1) a]
  then have "i \<noteq> ip" using assms(2) by (auto simp: has_session_def)
  with h show "has_session e i (vnt_random_id ((ep(ip := x)) i)) (tm i)" by simp
qed

lemma owned_wg:
  assumes "endpoints_owned dm ep tm" "vnt_random_id x = None"
  shows "endpoints_owned dm (ep(ip := x)) tm"
  using assms by (auto simp: endpoints_owned_def)


subsection \<open>On the states\<close>

lemma session_invD:
  assumes "session_inv s"
  shows "ipv4_net_ok (ns_net s)" "net_network (ns_net s) \<noteq> - 1"
    "lease_inv (ns_net s) (ns_gateway s) (ns_lease s)"
    "hm_ok (online_endpoints s)" "hm_ok (sender_map s)"
    "\<And>ip. sender_fits (ns_network_code s) (hm_get (online_endpoints s) ip) (hm_get (sender_map s) ip)"
    "endpoints_owned (hm_get (device_map (ns_lease s))) (hm_get (online_endpoints s)) (hm_get (traffic_stats_map s))"
    "devices_served (ns_net s) (ns_gateway s)
       (hm_get (device_map (ns_lease s))) (hm_get (online_endpoints s)) (hm_get (traffic_stats_map s))"
    "maps_inv (ns_net s) (ns_gateway s) (hm_get (device_map (ns_lease s)))
       (hm_get (device_ip_map (ns_lease s))) (hm_get (wireguard_peer_ip_map (ns_lease s)))"
  using assms by (simp_all add: session_inv_def lease_inv_def)

text \<open>Only the lease table changes, and no entry of it that a session depends on.\<close>

lemma session_inv_lease:
  assumes "session_inv s" "lease_inv (ns_net s) (ns_gateway s) g"
    "endpoints_owned (hm_get (device_map g)) (hm_get (online_endpoints s)) (hm_get (traffic_stats_map s))"
    "devices_served (ns_net s) (ns_gateway s)
       (hm_get (device_map g)) (hm_get (online_endpoints s)) (hm_get (traffic_stats_map s))"
  shows "session_inv (s\<lparr>ns_lease := g\<rparr>)"
  using assms by (simp add: session_inv_def)

lemma session_inv_same_devices:
  assumes "session_inv s" "lease_inv (ns_net s) (ns_gateway s) g" "device_map g = device_map (ns_lease s)"
  shows "session_inv (s\<lparr>ns_lease := g\<rparr>)"
  using session_inv_lease [OF assms(1,2)] session_invD(7,8) [OF assms(1)] assms(3) by simp

lemma session_inv_irrelevant [simp]:
  "session_inv (s\<lparr>ns_time := t\<rparr>) = session_inv s"
  "session_inv (s\<lparr>sent := tr\<rparr>) = session_inv s"
  "session_inv (s\<lparr>wireguard_backpressure_drops := w\<rparr>) = session_inv s"
  "session_inv (s\<lparr>dashboard_traffic := d\<rparr>) = session_inv s"
  "session_inv (s\<lparr>dashboard_wireguard_drops := n\<rparr>) = session_inv s"
  by (simp_all add: session_inv_def)

text \<open>The session at the address of a device ends together with the entry.\<close>

lemma session_inv_drop:
  assumes "session_inv s" "hm_get (device_map (ns_lease s)) d = Some e" "de_ip e = Some ip"
    "lease_inv (ns_net s) (ns_gateway s) g" "hm_get (device_map g) = (hm_get (device_map (ns_lease s)))(d := None)"
  shows "session_inv (drop_online ip (s\<lparr>ns_lease := g\<rparr>))"
proof -
  note i = session_invD [OF assms(1)]
  show ?thesis
    using i(1,2,4-6) assms(4) owned_drop [OF i(7) assms(2,3)] served_drop [OF i(8,9) assms(2,3)]
    by (simp add: session_inv_def drop_online_def assms(5))
qed

lemma session_inv_disconnect:
  assumes "session_inv s" "hm_get (device_map (ns_lease s)) d = Some e" "de_ip e = Some ip"
    "lease_inv (ns_net s) (ns_gateway s) g" "hm_get (device_map g) = (hm_get (device_map (ns_lease s)))(d \<mapsto> e')"
    "\<not> de_is_connected e'"
  shows "session_inv (drop_online ip (s\<lparr>ns_lease := g\<rparr>))"
proof -
  note i = session_invD [OF assms(1)]
  have "devices_served (ns_net s) (ns_gateway s) ((hm_get (device_map (ns_lease s)))(d \<mapsto> e'))
      ((hm_get (online_endpoints s))(ip := None)) ((hm_get (traffic_stats_map s))(ip := None))"
    by (rule served_offline [OF served_drop [OF i(8,9) assms(2,3)] assms(6)])
  then show ?thesis
    using i(1,2,4-6) assms(4) owned_update [OF owned_drop [OF i(7) assms(2,3)], of "Some e'"]
    by (simp add: session_inv_def drop_online_def assms(5))
qed

lemma session_inv_offline_ip:
  assumes "session_inv s" "offline_ip d ip rid now s = (r, s')"
  shows "session_inv s'"
proof -
  note i = session_invD [OF assms(1)]
  obtain ok rec g where o: "inner_offline_ip (ns_network_code s) d ip rid now (ns_lease s) = ((ok, rec), g)"
    by (metis surj_pair)
  have g: "lease_inv (ns_net s) (ns_gateway s) g" by (rule lease_inv_offline [OF i(3) o])
  show ?thesis
  proof (cases ok)
    case False
    then have "g = ns_lease s" using o by (auto simp: inner_offline_ip_def Let_def split: option.splits if_splits)
    then show ?thesis using assms False by (simp add: offline_ip_def o)
  next
    case True
    then obtain e where e: "hm_get (device_map (ns_lease s)) d = Some e" "de_ip e = Some ip"
      "hm_get (device_map g) = (hm_get (device_map (ns_lease s)))(d \<mapsto>
         e\<lparr>de_data_version := data_version (ns_lease s) + 1, de_is_connected := False, de_disconnect_time := Some now\<rparr>)"
      using o by (auto simp: inner_offline_ip_def Let_def split: option.splits if_splits)
    then show ?thesis using session_inv_disconnect [OF assms(1) e(1,2) g e(3)] assms(2) True
      by (simp add: offline_ip_def o)
  qed
qed

lemma remove_device_lease:
  assumes "lease_inv net gw g" "hm_get (device_map g) d = Some e" "de_ip e = Some ip"
  shows "lease_inv net gw (g\<lparr>device_map := hm_remove d (device_map g), device_ip_map := hm_remove ip (device_ip_map g)\<rparr>)"
  using lease_inv_remove_device_step [OF assms(1), of d] assms(2,3) by (simp add: remove_device_step_def)

lemma session_inv_remove_device:
  assumes "session_inv s" "remove_device_from_memory d s = (r, s')"
  shows "session_inv s'"
proof (cases "hm_get (device_map (ns_lease s)) d")
  case None then show ?thesis using assms by (simp add: remove_device_from_memory_def Let_def)
next
  case (Some e)
  note i = session_invD [OF assms(1)]
  let ?g = "(ns_lease s)\<lparr>device_map := hm_remove d (device_map (ns_lease s))\<rparr>"
  show ?thesis
  proof (cases "de_ip e")
    case None
    have "session_inv (s\<lparr>ns_lease := ?g\<lparr>data_version := data_version (ns_lease s) + 1\<rparr>\<rparr>)"
      by (rule session_inv_lease [OF assms(1)])
        (simp_all add: lease_inv_drop i(3) owned_drop_offline [OF i(7) Some None] served_remove i(8))
    then show ?thesis using assms(2) Some None by (simp add: remove_device_from_memory_def Let_def)
  next
    case ip: (Some ip)
    let ?h = "?g\<lparr>device_ip_map := hm_remove ip (device_ip_map (ns_lease s)), data_version := data_version (ns_lease s) + 1\<rparr>"
    have "lease_inv (ns_net s) (ns_gateway s) ?h" using remove_device_lease [OF i(3) Some ip] by simp
    then have "session_inv (drop_online ip (s\<lparr>ns_lease := ?h\<rparr>))"
      by (rule session_inv_drop [OF assms(1) Some ip]) simp
    moreover have "s' = drop_online ip (s\<lparr>ns_lease := ?h\<rparr>)"
      using assms(2) Some ip by (auto simp: remove_device_from_memory_def Let_def drop_online_def)
    ultimately show ?thesis by simp
  qed
qed

lemma session_inv_release_pre_registered:
  assumes "session_inv s"
  shows "session_inv (release_pre_registered_ip d ip rid s)"
proof (cases "\<exists>e. hm_get (device_map (ns_lease s)) d = Some e \<and> de_random_id e = rid \<and> de_ip e = Some ip")
  case True
  then obtain e where e: "hm_get (device_map (ns_lease s)) d = Some e" "de_random_id e = rid" "de_ip e = Some ip" by blast
  note i = session_invD [OF assms]
  let ?h = "(ns_lease s)\<lparr>device_map := hm_remove d (device_map (ns_lease s)),
      device_ip_map := hm_remove ip (device_ip_map (ns_lease s)), data_version := data_version (ns_lease s) + 1\<rparr>"
  have "lease_inv (ns_net s) (ns_gateway s) ?h" using remove_device_lease [OF i(3) e(1,3)] by simp
  then have "session_inv (drop_online ip (s\<lparr>ns_lease := ?h\<rparr>))" by (rule session_inv_drop [OF assms e(1,3)]) simp
  then show ?thesis by (simp add: release_pre_registered_ip_def release_pre_registered_lease_def e Let_def)
next
  case False
  then show ?thesis using assms
    by (auto simp: release_pre_registered_ip_def release_pre_registered_lease_def Let_def split: option.split)
qed

lemma session_inv_confirm: "session_inv s \<Longrightarrow> session_inv (confirm_endpoint ip rid s)"
proof -
  assume s: "session_inv s"
  note i = session_invD [OF s]
  have *: "session_inv (s\<lparr>online_endpoints := hm_insert ip (EpVnt r a c True p) (online_endpoints s)\<rparr>)"
    if e: "hm_get (online_endpoints s) ip = Some (EpVnt r a c b p)" for r a c b p
  proof -
    let ?ep = "(hm_get (online_endpoints s))(ip \<mapsto> EpVnt r a c True p)"
    have v: "vnt_random_id (?ep i) = vnt_random_id (hm_get (online_endpoints s) i)" for i using e by simp
    have f: "sender_fits (ns_network_code s) (?ep i) (hm_get (sender_map s) i)" for i
      using i(6) [of i] e by (cases "hm_get (sender_map s) i" rule: option.exhaust; cases "the (hm_get (sender_map s) i)") auto
    have "endpoints_owned (hm_get (device_map (ns_lease s))) ?ep (hm_get (traffic_stats_map s))"
      using i(7) by (simp add: endpoints_owned_def v del: fun_upd_apply)
    moreover have "devices_served (ns_net s) (ns_gateway s) (hm_get (device_map (ns_lease s))) ?ep (hm_get (traffic_stats_map s))"
      using i(8) by (simp add: devices_served_def v del: fun_upd_apply)
    ultimately show ?thesis using i(1-5) f by (simp add: session_inv_def del: fun_upd_apply)
  qed
  then show ?thesis using s
    by (auto simp: confirm_endpoint_def split: option.split online_endpoint.split)
qed

lemma allocate_ip_old:
  assumes "allocate_ip net gw req rid now st = (Inr (ip, old), st')"
  shows "case hm_get (device_map st) (rq_device_id req) of
      None \<Rightarrow> old = None
    | Some e \<Rightarrow> old = de_ip e \<or> (old = None \<and> de_ip e = Some ip)"
  using assms by (auto simp: allocate_ip_def Let_def reconnect_device_def claim_requested_ip_def
      allocate_automatic_def split: option.splits sum.splits if_splits)

text \<open>Before the new session is entered, the sessions of the device and of the address are gone.\<close>

lemma release_old_session:
  assumes "endpoints_owned dm ep tm" "devices_served net gw dm ep tm" "maps_inv net gw dm im wm"
    and "case dm d of None \<Rightarrow> old = None | Some e \<Rightarrow> old = de_ip e \<or> (old = None \<and> de_ip e = Some ip)"
  defines "ep' \<equiv> (case old of Some o' \<Rightarrow> ep(o' := None) | None \<Rightarrow> ep)"
    and "tm' \<equiv> (case old of Some o' \<Rightarrow> tm(o' := None) | None \<Rightarrow> tm)"
  shows "endpoints_owned (dm(d := None)) (ep'(ip := None)) (tm'(ip := None))"
    "devices_served net gw (dm(d := None)) ep' tm'"
proof -
  have "endpoints_owned (dm(d := None)) (ep'(ip := None)) (tm'(ip := None)) \<and>
      devices_served net gw (dm(d := None)) ep' tm'"
  proof (cases "dm d")
    case None
    then show ?thesis using assms(1,2,4) by (simp add: ep'_def tm'_def owned_shrink served_remove fun_upd_idem)
  next
    case (Some e)
    then consider o' where "old = Some o'" "de_ip e = Some o'" | "old = None" "de_ip e = None" | "old = None" "de_ip e = Some ip"
      using assms(4) by (cases old) auto
    then show ?thesis
    proof cases
      case 1
      then show ?thesis
        using owned_shrink [OF owned_drop [OF assms(1) Some], of o' ip] served_drop [OF assms(2,3) Some]
        by (simp add: ep'_def tm'_def)
    next
      case 2
      then show ?thesis using owned_shrink [OF owned_drop_offline [OF assms(1) Some], of ip] served_remove [OF assms(2)]
        by (simp add: ep'_def tm'_def)
    next
      case 3
      then show ?thesis using owned_drop [OF assms(1) Some] served_remove [OF assms(2)] by (simp add: ep'_def tm'_def)
    qed
  qed
  then show "endpoints_owned (dm(d := None)) (ep'(ip := None)) (tm'(ip := None))"
    "devices_served net gw (dm(d := None)) ep' tm'" by blast+
qed

lemma session_inv_allocate:
  assumes "session_inv s" "allocate_ip_and_get_entry req rid c p2p now s = (r, s')"
  shows "session_inv s'"
proof -
  note i = session_invD [OF assms(1)]
  let ?dm = "hm_get (device_map (ns_lease s))" and ?ep = "hm_get (online_endpoints s)" and ?tm = "hm_get (traffic_stats_map s)"
  obtain x g where a: "allocate_ip (ns_net s) (ns_gateway s) req rid now (ns_lease s) = (x, g)" by fastforce
  have g: "lease_inv (ns_net s) (ns_gateway s) g" by (rule lease_inv_allocate_ip [OF i(3) a i(1,2)])
  show ?thesis
  proof (cases x)
    case (Inl e)
    then have "g = ns_lease s" using a allocate_ip_Inl by blast
    then show ?thesis using assms a Inl by (simp add: allocate_ip_and_get_entry_def Let_def)
  next
    case (Inr y)
    obtain ip old where y: "y = (ip, old)" by fastforce
    let ?d = "rq_device_id req"
    obtain e where e: "device_map g = hm_insert ?d e (device_map (ns_lease s))" and le: "leased_entry req ip rid now (data_version (ns_lease s) + 1) e"
      using allocate_ip_Inr(1) [OF a [unfolded Inr y]] by blast
    let ?p = "EpVnt rid (rq_allow_wire_guard req) (rq_client_capabilities req) (rq_registration_mode req = Normal) p2p"
    have hs: "has_session e ip (vnt_random_id (Some ?p)) (Some (de_traffic_stats e))"
      using le by (simp add: has_session_def leased_entry_def)
    note both = release_old_session [OF i(7-9) allocate_ip_old [OF a [unfolded Inr y]]]
    have m: "maps_inv (ns_net s) (ns_gateway s) (?dm(?d \<mapsto> e)) (hm_get (device_ip_map g)) (hm_get (wireguard_peer_ip_map g))"
      using g by (simp add: lease_inv_def e)
    note owned_insert [OF both(1) hs] served_insert [OF both(2) m hs]
    then show ?thesis using assms(2) a g i(1,2,4-6) Inr y
      by (cases old) (auto simp: allocate_ip_and_get_entry_def Let_def e drop_online_def session_inv_def)
  qed
qed

lemma session_inv_connect_wireguard:
  assumes "session_inv s" "connect_wireguard_peer p ip c now t s = (r, s')"
  shows "session_inv s'"
proof (cases "hm_get (wireguard_peer_ip_map (ns_lease s)) ip \<noteq> Some p
    \<or> hm_contains (sender_map s) ip \<or> hm_contains (online_endpoints s) ip")
  case True then show ?thesis using assms by (simp add: connect_wireguard_peer_def)
next
  case False
  note i = session_invD [OF assms(1)]
  have n: "hm_get (online_endpoints s) ip = None" using False by (simp add: hm_contains_def)
  have "lease_inv (ns_net s) (ns_gateway s) (bump_wireguard_version (ns_lease s))"
    using i(3) by (simp add: bump_wireguard_version_def Let_def)
  then show ?thesis using False assms(2) i(1,2,4-6) n
      owned_wg [OF i(7), of "Some (EpWireGuard p (system_time_to_i64 now))" ip]
      served_wg [OF i(8), of ip "Some (EpWireGuard p (system_time_to_i64 now))"]
    by (auto simp: connect_wireguard_peer_def update_time_def session_inv_def bump_wireguard_version_def Let_def)
qed

lemma session_inv_disconnect_wireguard:
  assumes "session_inv s" "disconnect_wireguard_peer p ip t s = (r, s')"
  shows "session_inv s'"
proof (cases "\<exists>c. hm_get (online_endpoints s) ip = Some (EpWireGuard p c)")
  case False
  then show ?thesis using assms
    by (auto simp: disconnect_wireguard_peer_def Let_def split: option.splits online_endpoint.splits if_splits)
next
  case True
  note i = session_invD [OF assms(1)]
  from True have n: "vnt_random_id (hm_get (online_endpoints s) ip) = None" by auto
  have "lease_inv (ns_net s) (ns_gateway s) (bump_wireguard_version (ns_lease s))"
    using i(3) by (simp add: bump_wireguard_version_def Let_def)
  then show ?thesis using True assms(2) i(1,2,4-6) owned_wg [OF i(7), of None ip] served_wg [OF i(8) n, of None]
    by (auto simp: disconnect_wireguard_peer_def update_time_def session_inv_def bump_wireguard_version_def Let_def)
qed

lemma fold_remove_get:
  "hm_get (device_map (fold remove_device_step ds g)) d = (if d \<in> set ds then None else hm_get (device_map g) d)"
proof (induction ds arbitrary: g)
  case (Cons a ds)
  have "hm_get (device_map (remove_device_step a g)) = (hm_get (device_map g))(a := None)"
    by (auto simp: remove_device_step_def Let_def fun_upd_idem split: option.split)
  then show ?case using Cons by simp
qed simp

lemma collect_expired_disconnected:
  assumes "hm_ok (device_map (ns_lease s))" "d \<in> set (collect_expired_devices now s)" "hm_get (device_map (ns_lease s)) d = Some e"
  shows "\<not> de_is_connected e"
  using assms by (auto simp: collect_expired_devices_def inner_collect_expired_devices_def hm_mem_iff)

lemma session_inv_expire:
  assumes "session_inv s"
  shows "session_inv (remove_devices (collect_expired_devices now s) s)"
  unfolding remove_devices_def
proof (rule session_inv_lease [OF assms])
  let ?ds = "collect_expired_devices now s" and ?g = "ns_lease s"
  let ?dm' = "hm_get (device_map (inner_remove_devices ?ds ?g))"
  note i = session_invD [OF assms]
  have ok: "hm_ok (device_map ?g)" using i(3) by (simp add: lease_inv_def)
  have g: "?dm' d = (if d \<in> set ?ds then None else hm_get (device_map ?g) d)" for d
    using fold_remove_get [of ?ds] by (auto simp: inner_remove_devices_def)
  show "lease_inv (ns_net s) (ns_gateway s) (inner_remove_devices ?ds ?g)" by (rule lease_inv_remove_devices [OF i(3)])
  show "endpoints_owned ?dm' (hm_get (online_endpoints s)) (hm_get (traffic_stats_map s))"
  proof (rule ownedI)
    fix ip assume "vnt_random_id (hm_get (online_endpoints s) ip) \<noteq> None"
    from ownedD [OF i(7) this] obtain d e where "hm_get (device_map ?g) d = Some e"
      "has_session e ip (vnt_random_id (hm_get (online_endpoints s) ip)) (hm_get (traffic_stats_map s) ip)" by blast
    moreover from this have "d \<notin> set ?ds" using collect_expired_disconnected [OF ok] by (auto simp: has_session_def)
    ultimately show "\<exists>d e. ?dm' d = Some e \<and>
       has_session e ip (vnt_random_id (hm_get (online_endpoints s) ip)) (hm_get (traffic_stats_map s) ip)"
      using g by auto
  qed
  show "devices_served (ns_net s) (ns_gateway s) ?dm' (hm_get (online_endpoints s)) (hm_get (traffic_stats_map s))"
    by (rule servedI) (use servedD [OF i(8)] g in \<open>auto split: if_splits\<close>)
qed

lemma session_inv_latency:
  assumes "session_inv s"
  shows "session_inv (update_client_latency ip l s)"
proof -
  note i = session_invD [OF assms]
  have "session_inv (s\<lparr>ns_lease := (ns_lease s)\<lparr>device_map := hm_insert d (e\<lparr>de_latency_ms := Some l\<rparr>) (device_map (ns_lease s))\<rparr>\<rparr>)"
    if e: "hm_get (device_map (ns_lease s)) d = Some e" for d e
  proof (rule session_inv_lease [OF assms])
    let ?e = "e\<lparr>de_latency_ms := Some l\<rparr>"
    have h: "has_session ?e = has_session e" by (simp add: has_session_def fun_eq_iff)
    show "endpoints_owned (hm_get (device_map ((ns_lease s)\<lparr>device_map := hm_insert d ?e (device_map (ns_lease s))\<rparr>)))
        (hm_get (online_endpoints s)) (hm_get (traffic_stats_map s))"
    proof (rule ownedI)
      fix ip assume "vnt_random_id (hm_get (online_endpoints s) ip) \<noteq> None"
      from ownedD [OF i(7) this] obtain d' e' where "hm_get (device_map (ns_lease s)) d' = Some e'"
        "has_session e' ip (vnt_random_id (hm_get (online_endpoints s) ip)) (hm_get (traffic_stats_map s) ip)" by blast
      then show "\<exists>d' e'. hm_get (device_map ((ns_lease s)\<lparr>device_map := hm_insert d ?e (device_map (ns_lease s))\<rparr>)) d' = Some e' \<and>
        has_session e' ip (vnt_random_id (hm_get (online_endpoints s) ip)) (hm_get (traffic_stats_map s) ip)"
        using e h by (cases "d' = d") auto
    qed
    show "devices_served (ns_net s) (ns_gateway s)
        (hm_get (device_map ((ns_lease s)\<lparr>device_map := hm_insert d ?e (device_map (ns_lease s))\<rparr>)))
        (hm_get (online_endpoints s)) (hm_get (traffic_stats_map s))"
      by (rule servedI) (use servedD [OF i(8)] e h in \<open>auto split: if_splits\<close>)
  qed (rule lease_inv_update_entry [OF i(3) e]; simp)
  then show ?thesis using assms by (auto simp: update_client_latency_def Let_def split: option.split)
qed

lemma session_inv_deliver:
  assumes "session_inv s" "try_deliver mp ip data origin s = (r, s')"
  shows "session_inv s'"
  using assms by (auto simp: try_deliver_def count_drop_def split: option.splits sum.splits prod.splits
      if_splits network_send_error.splits unit.splits)

lemma session_inv_record: "session_inv s \<Longrightarrow> session_inv (record_tx_traffic ip n s)"
    "session_inv s \<Longrightarrow> session_inv (record_rx_traffic ip n s)"
  by (auto simp: record_tx_traffic_def record_rx_traffic_def stats_update_def Let_def session_inv_def split: option.split)

section \<open>Steps\<close>

text \<open>One rule per operation of NetworkState that runs under the lock of the lease table, or touches
  one entry of a concurrent map.  The phases of a WireGuard reservation are separate steps.  Expiry
  is the pair \<open>collect_expired_devices\<close>, \<open>remove_devices\<close> with nothing in between.\<close>

inductive net_step :: "network_state \<Rightarrow> network_state \<Rightarrow> bool" where
  net_allocate: "allocate_ip_and_get_entry req rid c p2p now s = (r, s') \<Longrightarrow> net_step s s'"
| net_offline: "offline_ip d ip rid now s = (rec, s') \<Longrightarrow> net_step s s'"
| net_remove_device: "remove_device_from_memory d s = (rip, s') \<Longrightarrow> net_step s s'"
| net_release_pre_registered: "net_step s (release_pre_registered_ip d ip rid s)"
| net_confirm: "net_step s (confirm_endpoint ip rid s)"
| net_expire: "net_step s (remove_devices (collect_expired_devices now s) s)"
| net_latency: "net_step s (update_client_latency ip l s)"
| net_connect: "connect_wireguard_peer p ip c now t s = (b, s') \<Longrightarrow> net_step s s'"
| net_disconnect: "disconnect_wireguard_peer p ip t s = (b, s') \<Longrightarrow> net_step s s'"
| net_update_remote: "update_remote_wireguard_ips src ips t s = (b, s') \<Longrightarrow> net_step s s'"
| net_remove_remote: "remove_remote_wireguard_source src t s = (b, s') \<Longrightarrow> net_step s s'"
| net_deliver: "try_deliver mp ip data origin s = (res, s') \<Longrightarrow> net_step s s'"
| net_record_tx: "net_step s (record_tx_traffic ip n s)"
| net_record_rx: "net_step s (record_rx_traffic ip n s)"
| net_prepare: "prepare_wireguard_peer_ip_reservation p ip (ns_lease s) = (pr, g) \<Longrightarrow> net_step s (s\<lparr>ns_lease := g\<rparr>)"
| net_commit: "net_step s (s\<lparr>ns_lease := commit_wireguard_peer_ip_reservation p ip prev (ns_lease s)\<rparr>)"
| net_rollback: "net_step s (s\<lparr>ns_lease := rollback_wireguard_peer_ip_reservation p ip prev (ns_lease s)\<rparr>)"
| net_release: "inner_release_wireguard_peer_ip p (ns_lease s) = (b, g) \<Longrightarrow> net_step s (s\<lparr>ns_lease := g\<rparr>)"

lemma lease_inv_remote_sources [simp]:
  "lease_inv net gw (saturating_bump_wireguard_version g) = lease_inv net gw g"
  "device_map (saturating_bump_wireguard_version g) = device_map g"
  by (simp_all add: saturating_bump_wireguard_version_def Let_def)

lemma session_inv_remote:
  assumes "session_inv s"
  shows "update_remote_wireguard_ips src ips t s = (b, s') \<Longrightarrow> session_inv s'"
    "remove_remote_wireguard_source src t s = (b, s') \<Longrightarrow> session_inv s'"
  using assms
  by (auto simp: update_remote_wireguard_ips_def remove_remote_wireguard_source_def update_time_def Let_def
      session_inv_def split: if_splits)

lemma session_inv_reservation:
  assumes "session_inv s"
  shows "prepare_wireguard_peer_ip_reservation p ip (ns_lease s) = (pr, g) \<Longrightarrow> session_inv (s\<lparr>ns_lease := g\<rparr>)"
    "session_inv (s\<lparr>ns_lease := commit_wireguard_peer_ip_reservation p ip prev (ns_lease s)\<rparr>)"
    "session_inv (s\<lparr>ns_lease := rollback_wireguard_peer_ip_reservation p ip prev (ns_lease s)\<rparr>)"
    "inner_release_wireguard_peer_ip p (ns_lease s) = (b, g) \<Longrightarrow> session_inv (s\<lparr>ns_lease := g\<rparr>)"
proof -
  note i = session_invD [OF assms]
  show "session_inv (s\<lparr>ns_lease := g\<rparr>)" if p: "prepare_wireguard_peer_ip_reservation p ip (ns_lease s) = (pr, g)"
    by (rule session_inv_same_devices [OF assms lease_inv_prepare [OF i(3) p]])
      (use p in \<open>auto simp: prepare_wireguard_peer_ip_reservation_def split: option.splits if_splits\<close>)
  show "session_inv (s\<lparr>ns_lease := commit_wireguard_peer_ip_reservation p ip prev (ns_lease s)\<rparr>)"
    by (rule session_inv_same_devices [OF assms lease_inv_commit [OF i(3)]])
      (simp add: commit_wireguard_peer_ip_reservation_def split: option.split)
  show "session_inv (s\<lparr>ns_lease := rollback_wireguard_peer_ip_reservation p ip prev (ns_lease s)\<rparr>)"
    by (rule session_inv_same_devices [OF assms lease_inv_rollback [OF i(3)]])
      (simp add: rollback_wireguard_peer_ip_reservation_def)
  show "session_inv (s\<lparr>ns_lease := g\<rparr>)" if r: "inner_release_wireguard_peer_ip p (ns_lease s) = (b, g)"
    by (rule session_inv_same_devices [OF assms lease_inv_release [OF i(3) r]])
      (use r in \<open>auto simp: inner_release_wireguard_peer_ip_def Let_def\<close>)
qed

lemmas session_inv_ops = session_inv_allocate session_inv_offline_ip session_inv_remove_device
  session_inv_release_pre_registered session_inv_confirm session_inv_expire session_inv_latency
  session_inv_connect_wireguard session_inv_disconnect_wireguard session_inv_remote session_inv_deliver
  session_inv_record session_inv_reservation

interpretation net: invariant_system net_step session_inv
proof
  fix s s' assume "net_step s s'" "session_inv s"
  then show "session_inv s'" by (induction rule: net_step.induct) (auto intro: session_inv_ops)
qed

lemma load_devices_offline:
  "\<forall>d e. hm_get (device_map g) d = Some e \<longrightarrow> \<not> de_is_connected e \<Longrightarrow>
   hm_get (device_map (fold (load_device net gw now) rs g)) d = Some e \<Longrightarrow> \<not> de_is_connected e"
proof (induction rs arbitrary: g)
  case (Cons r rs)
  have "\<forall>d e. hm_get (device_map (load_device net gw now r g)) d = Some e \<longrightarrow> \<not> de_is_connected e"
    using Cons.prems(1) by (auto simp: load_device_def stats_alloc_def from_record_def Let_def split: option.splits)
  from Cons.IH [OF this] Cons.prems(2) show ?case by simp
qed simp

lemma load_allocations_devices: "device_map (fold (load_allocation net gw) as g) = device_map g"
  by (induction as arbitrary: g) (auto simp: load_allocation_def)

lemma session_inv_new:
  assumes "ipv4_net_ok net" "net_network net \<noteq> - 1" "db_consistent rs as"
  shows "session_inv (new_from_db t nc net dur now (Some rs) (Some as))"
proof -
  let ?g = "build_initial_inner_state net (net_network net + 1) now (Some rs) (Some as)"
  have "\<not> de_is_connected e" if "hm_get (device_map ?g) d = Some e" for d e
    using that load_devices_offline [of empty_lease_state net "net_network net + 1" now rs d e]
    by (simp add: build_initial_inner_state_def load_allocations_devices empty_lease_state_def)
  then have "devices_served net (net_network net + 1) (hm_get (device_map ?g)) (hm_get []) (hm_get [])"
    by (auto simp: devices_served_def)
  then show ?thesis using assms lease_inv_initial [OF assms(3)]
    by (simp add: session_inv_def new_from_db_def Let_def endpoints_owned_def)
qed

lemma sender_fits_cases:
  "sender_fits nc ep sm \<longleftrightarrow>
     (ep = None \<and> sm = None) \<or> (\<exists>r a c b p ch. ep = Some (EpVnt r a c b p) \<and> sm = Some (SenderVnt ch)) \<or>
     (\<exists>p t ch. ep = Some (EpWireGuard p t) \<and> sm = Some (SenderWireGuard nc ch))"
  by (induction nc ep sm rule: sender_fits.induct) auto

section \<open>Concrete states\<close>

definition wit_ns :: network_state where
  "wit_ns = new_from_db 0 ''net'' wit_net 0 0 (Some []) (Some [])"

definition wit_ns1 :: network_state where
  "wit_ns1 = snd (allocate_ip_and_get_entry (wit_reg ''a'' None False) 7 0 None 0 wit_ns)"

lemma wit_reg_id [simp]: "rq_device_id (wit_reg d ip v) = d"
  by (simp add: wit_reg_def)

lemma wit_gateway: "net_network wit_net + 1 = wit_gw"
  by (simp add: wit_net_def wit_gw_def witness_eval)

lemma wit_ns_lease: "ns_lease wit_ns = wit_init" "ns_net wit_ns = wit_net" "ns_gateway wit_ns = wit_gw"
  by (simp_all add: wit_ns_def new_from_db_def Let_def wit_init_def wit_gateway)

lemma wit_ns1_alloc:
  "allocate_ip wit_net wit_gw (wit_reg ''a'' None False) 7 0 wit_init = (Inr (ip4 10 26 0 2, None), wit_one)"
  using wit_one_ip by (simp add: wit_one_def prod_eq_iff)

lemma wit_ns1_eq:
  "wit_ns1 = wit_ns\<lparr>ns_lease := wit_one, sender_map := [(ip4 10 26 0 2, SenderVnt 0)],
     online_endpoints := [(ip4 10 26 0 2, EpVnt 7 True 3 True None)],
     traffic_stats_map := [(ip4 10 26 0 2, 0)]\<rparr>"
  by (simp add: wit_ns1_def allocate_ip_and_get_entry_def Let_def wit_ns_lease wit_ns1_alloc)
    (simp add: wit_ns_def new_from_db_def Let_def wit_one_eq wit_reg_def hm_get_def hm_insert_def)

lemma wit_ns1_lease [simp]: "ns_lease wit_ns1 = wit_one" "ns_net wit_ns1 = wit_net" "ns_gateway wit_ns1 = wit_gw"
  "ns_lease_duration wit_ns1 = 0"
  by (simp_all add: wit_ns1_eq wit_ns_lease) (simp add: wit_ns_def new_from_db_def Let_def)

lemma wit_ns1_step: "net_step\<^sup>*\<^sup>* wit_ns wit_ns1"
proof -
  have "net_step wit_ns wit_ns1"
    by (rule net_allocate [where r = "fst (allocate_ip_and_get_entry (wit_reg ''a'' None False) 7 0 None 0 wit_ns)"])
      (simp add: wit_ns1_def)
  then show ?thesis by blast
qed

lemma wit_db: "db_consistent [] []"
  by (simp add: db_consistent_def)

lemma wit_ns1_inv: "session_inv wit_ns1"
  using net.reachable [OF wit_ns1_step] session_inv_new [OF wit_net_ok wit_db] by (simp add: wit_ns_def)

section \<open>Properties\<close>





text \<open>C37. Releasing a pre-registration is not atomic: the lease is given back under the lock of the
  lease table, but the sender and the endpoint of the address are removed after the lock is released.
  A device that registers in between and is given the freed address loses its session: the table
  shows it online, and nothing can be delivered to it.\<close>

theorem release_pre_registered_race:
  assumes "release_pre_registered_lease d ip rid s = (True, s1)"
    and "allocate_ip_and_get_entry req rid' c p2p now s1 = (Inr (ip, old, entry), s2)"
  shows "is_device_online (rq_device_id req) (drop_online ip s2) \<and>
    try_deliver mp ip data origin (drop_online ip s2) = (NotFound, drop_online ip s2) \<and>
    (net_contains (ns_net s) ip \<and> ip \<noteq> ns_gateway s \<longrightarrow> \<not> session_inv (drop_online ip s2))"
proof -
  obtain x g where a: "allocate_ip (ns_net s1) (ns_gateway s1) req rid' now (ns_lease s1) = (x, g)" by fastforce
  then have x: "x = Inr (ip, old)"
    using assms(2) by (cases x) (auto simp: allocate_ip_and_get_entry_def Let_def split: option.splits)
  obtain e where e: "device_map g = hm_insert (rq_device_id req) e (device_map (ns_lease s1))"
      "de_ip e = Some ip" "de_is_connected e"
    using allocate_ip_Inr(1) [OF a [unfolded x]] by (auto simp: leased_entry_def)
  have "ns_lease s2 = g" "ns_net s2 = ns_net s1" "ns_gateway s2 = ns_gateway s1"
    using assms(2) a x by (auto simp: allocate_ip_and_get_entry_def Let_def drop_online_def e split: option.splits)
  moreover have "ns_net s1 = ns_net s" "ns_gateway s1 = ns_gateway s"
    using assms(1) by (auto simp: release_pre_registered_lease_def Let_def split: option.splits if_splits)
  ultimately have s2: "hm_get (device_map (ns_lease (drop_online ip s2))) (rq_device_id req) = Some e"
      "hm_get (online_endpoints (drop_online ip s2)) ip = None"
      "ns_net (drop_online ip s2) = ns_net s" "ns_gateway (drop_online ip s2) = ns_gateway s"
    by (simp_all add: drop_online_def e(1))
  have "\<not> session_inv (drop_online ip s2)" if "net_contains (ns_net s) ip" "ip \<noteq> ns_gateway s"
    using servedD [OF session_invD(8) s2(1) e(3,2)] that s2(2-4) by (auto simp: has_session_def)
  then show ?thesis using s2(1,2) e(3) by (auto simp: is_device_online_def try_deliver_def)
qed

theorem release_pre_registered_race_witness:
  "\<exists>s1 s2 old entry. release_pre_registered_lease ''a'' (ip4 10 26 0 2) 7 wit_ns1 = (True, s1) \<and>
     allocate_ip_and_get_entry (wit_reg ''b'' None False) 8 1 None 0 s1 = (Inr (ip4 10 26 0 2, old, entry), s2) \<and>
     \<not> session_inv (drop_online (ip4 10 26 0 2) s2)"
proof -
  obtain s1 where s1: "release_pre_registered_lease ''a'' (ip4 10 26 0 2) 7 wit_ns1 = (True, s1)"
      "s1 = wit_ns1\<lparr>ns_lease := wit_init\<lparr>data_version := 2, stats_store := stats_store wit_one, next_stats := 1\<rparr>\<rparr>"
    by (simp add: release_pre_registered_lease_def Let_def wit_one_eq lease_eval)
  have "fst (allocate_ip wit_net wit_gw (wit_reg ''b'' None False) 8 0
      (wit_init\<lparr>data_version := 2, stats_store := stats_store wit_one, next_stats := 1\<rparr>)) = Inr (ip4 10 26 0 2, None)"
    by (simp add: lease_eval)
  then obtain g where "allocate_ip wit_net wit_gw (wit_reg ''b'' None False) 8 0
      (wit_init\<lparr>data_version := 2, stats_store := stats_store wit_one, next_stats := 1\<rparr>) = (Inr (ip4 10 26 0 2, None), g)"
    by (metis prod.collapse)
  then obtain s2 entry where s2: "allocate_ip_and_get_entry (wit_reg ''b'' None False) 8 1 None 0 s1 =
      (Inr (ip4 10 26 0 2, None, entry), s2)"
    by (simp add: allocate_ip_and_get_entry_def Let_def s1(2))
  have "net_contains (ns_net wit_ns1) (ip4 10 26 0 2)" "ip4 10 26 0 2 \<noteq> ns_gateway wit_ns1"
    by (simp_all add: wit_net_def wit_gw_def witness_eval)
  then show ?thesis using release_pre_registered_race [OF s1(1) s2] s1(1) s2 by blast
qed

text \<open>C38. Expiry is not atomic either: \<open>release_expired_ips\<close> collects the expired devices and removes
  them under two separate locks.  A device that reconnects in between is removed although it is
  connected: its session stays in the online maps without a lease.\<close>

theorem expiry_race:
  assumes "session_inv s" "rq_device_id req \<in> set (collect_expired_devices now s)"
    and "allocate_ip_and_get_entry req rid c p2p now s = (Inr (ip, old, entry), s1)"
  shows "get_device_entry (rq_device_id req) (remove_devices (collect_expired_devices now s) s1) = None \<and>
    vnt_random_id (hm_get (online_endpoints (remove_devices (collect_expired_devices now s) s1)) ip) = Some rid \<and>
    (net_contains (ns_net s) ip \<and> ip \<noteq> ns_gateway s \<longrightarrow>
       \<not> session_inv (remove_devices (collect_expired_devices now s) s1))"
proof -
  let ?ds = "collect_expired_devices now s" and ?d = "rq_device_id req"
  let ?s = "remove_devices ?ds s1"
  have s1: "session_inv s1" by (rule session_inv_allocate [OF assms(1,3)])
  obtain x g where a: "allocate_ip (ns_net s) (ns_gateway s) req rid now (ns_lease s) = (x, g)" by fastforce
  then have x: "x = Inr (ip, old)"
    using assms(3) by (cases x) (auto simp: allocate_ip_and_get_entry_def Let_def split: option.splits)
  obtain e where e: "device_map g = hm_insert ?d e (device_map (ns_lease s))" "de_ip e = Some ip"
    using allocate_ip_Inr(1) [OF a [unfolded x]] by (auto simp: leased_entry_def)
  have l: "ns_lease s1 = g" "ns_net s1 = ns_net s" "ns_gateway s1 = ns_gateway s"
      and o: "vnt_random_id (hm_get (online_endpoints s1) ip) = Some rid"
    using assms(3) a x by (auto simp: allocate_ip_and_get_entry_def Let_def drop_online_def e split: option.splits)
  have ne: "?ds \<noteq> []" using assms(2) by auto
  then have dm: "hm_get (device_map (ns_lease ?s)) d' = (if d' \<in> set ?ds then None else hm_get (device_map (ns_lease s1)) d')" for d'
    using fold_remove_get [of ?ds] by (simp add: remove_devices_def inner_remove_devices_def)
  have ep: "online_endpoints ?s = online_endpoints s1" by (simp add: remove_devices_def)
  have False if inv: "session_inv ?s" and n: "net_contains (ns_net s) ip" "ip \<noteq> ns_gateway s"
  proof -
    obtain d' e' where d': "hm_get (device_map (ns_lease ?s)) d' = Some e'" "de_ip e' = Some ip"
      using ownedD [OF session_invD(7) [OF inv], of ip] o by (auto simp: ep has_session_def)
    then have "hm_get (device_map (ns_lease s1)) d' = Some e'" "d' \<notin> set ?ds" using dm by (auto split: if_splits)
    moreover have "hm_get (device_map (ns_lease s1)) ?d = Some e" by (simp add: l(1) e(1))
    ultimately have "d' = ?d"
      using indexedD [OF session_invD(9) [OF s1], of _ _ ip] d'(2) e(2) n l(2,3) by (metis option.inject)
    with \<open>d' \<notin> set ?ds\<close> assms(2) show False by simp
  qed
  then show ?thesis using dm assms(2) o by (auto simp: get_device_entry_def ep)
qed

definition wit_off :: network_state where
  "wit_off = snd (offline_ip ''a'' (ip4 10 26 0 2) 7 5 wit_ns1)"

lemma wit_off_eq: "wit_off = drop_online (ip4 10 26 0 2) (wit_ns1\<lparr>ns_lease := wit_one\<lparr>data_version := 2,
   device_map := [(''a'', \<lparr>de_device_id = ''a'', de_ip = Some (ip4 10 26 0 2), de_random_id = 7,
      de_device_name = ''n'', de_device_version = ''2'', de_is_connected = False,
      de_last_connect_time = 0, de_disconnect_time = Some 5, de_data_version = 2, de_key_sign = None,
      de_latency_ms = None, de_traffic_stats = 0\<rparr>)]\<rparr>\<rparr>)"
  by (simp add: wit_off_def offline_ip_def inner_offline_ip_def Let_def wit_one_eq lease_eval)

lemma wit_off_inv: "session_inv wit_off"
  unfolding wit_off_def by (rule session_inv_offline_ip [OF wit_ns1_inv surjective_pairing])

theorem expiry_race_witness:
  "\<exists>entry s1. allocate_ip_and_get_entry (wit_reg ''a'' None False) 9 1 None 5 wit_off =
       (Inr (ip4 10 26 0 2, None, entry), s1) \<and>
     get_device_entry ''a'' (remove_devices (collect_expired_devices 5 wit_off) s1) = None \<and>
     vnt_random_id (hm_get (online_endpoints (remove_devices (collect_expired_devices 5 wit_off) s1)) (ip4 10 26 0 2)) = Some 9"
proof -
  have d: "''a'' \<in> set (collect_expired_devices 5 wit_off)"
    by (simp add: wit_off_eq drop_online_def collect_expired_devices_def inner_collect_expired_devices_def)
  obtain entry s1 where a: "allocate_ip_and_get_entry (wit_reg ''a'' None False) 9 1 None 5 wit_off =
      (Inr (ip4 10 26 0 2, None, entry), s1)"
    by (simp add: wit_off_eq drop_online_def allocate_ip_and_get_entry_def Let_def
        allocate_ip_def reconnect_device_def hm_get_def wit_reg_def)
  from expiry_race [OF wit_off_inv _ a] d a show ?thesis by auto
qed

end
