(* ===== verification/Network_Delivery.thy ===== *)
theory Network_Delivery
  imports Network_Sessions
begin

text \<open>
  What the server hands to a connected endpoint (\<open>try_deliver\<close>, \<open>relay_wireguard_broadcast\<close>), and what
  it counts (\<open>record_tx_traffic\<close>, \<open>record_rx_traffic\<close>).
\<close>

section \<open>Delivery\<close>

lemma has_capability_bit:
  "has_capability caps CLIENT_CAP_WIREGUARD_SUBNET_RELAY \<longleftrightarrow> bit caps 0"
  "has_capability caps CLIENT_CAP_WIREGUARD_BROADCAST_RELAY \<longleftrightarrow> bit caps 1"
proof -
  have "caps AND 1 = 1 \<longleftrightarrow> bit caps 0" by (auto simp: and_one_eq bit_0 mod_2_eq_odd)
  then show "has_capability caps CLIENT_CAP_WIREGUARD_SUBNET_RELAY \<longleftrightarrow> bit caps 0"
    by (simp add: has_capability_def CLIENT_CAP_WIREGUARD_SUBNET_RELAY_def)
  have "caps AND 2 = 2 \<longleftrightarrow> bit caps 1"
  proof
    assume "caps AND 2 = 2"
    then have "bit (caps AND 2) 1 = bit (2 :: u64) 1" by simp
    then show "bit caps 1" by (simp add: bit_simps)
  next
    assume b: "bit caps 1"
    show "caps AND 2 = 2"
    proof (rule bit_word_eqI)
      fix n assume "n < LENGTH(64)"
      show "bit (caps AND 2) n = bit (2 :: u64) n"
        using b bit_exp_iff [of 1 n, where ?'a = "64 word"] by (auto simp: bit_and_iff)
    qed
  qed
  then show "has_capability caps CLIENT_CAP_WIREGUARD_BROADCAST_RELAY \<longleftrightarrow> bit caps 1"
    by (simp add: has_capability_def CLIENT_CAP_WIREGUARD_BROADCAST_RELAY_def)
qed

definition delivery_outcome :: "try_send_result \<Rightarrow> local_delivery_result" where
  "delivery_outcome r = (case r of SendOk \<Rightarrow> Delivered | TrySendFull \<Rightarrow> DeliveryFull | TrySendClosed \<Rightarrow> DeliveryClosed)"

text \<open>The result of \<open>try_deliver\<close> when the packet passes the gate and a sender exists.\<close>

definition delivered_state :: "ipv4 \<Rightarrow> send_event \<Rightarrow> network_state \<Rightarrow> network_state" where
  "delivered_state ip ev s =
     (let s' = s\<lparr>sent := sent s @ [ev]\<rparr> in if snd (snd ev) = SendOk then s' else count_drop ip s')"

lemma try_deliver_send:
  assumes "hm_get (online_endpoints s) ip = Some ep" "new_packet data = Inr p" "packet_msg_type p = Inr t"
    "delivery_allowed t origin ep" "hm_get (sender_map s) ip = Some sd"
    "ev = (sender_channel sd, sender_message sd data, mp (sent s) (sender_channel sd) (sender_message sd data))"
  shows "try_deliver mp ip data origin s = (delivery_outcome (snd (snd ev)), delivered_state ip ev s)"
  by (cases "mp (sent s) (sender_channel sd) (sender_message sd data)")
    (simp_all add: try_deliver_def sender_try_send_def Let_def delivery_outcome_def delivered_state_def assms
        split: unit.split)

lemma try_deliver_cases:
  assumes "try_deliver mp ip data origin s = (r, s')"
  obtains (refused) "r = NotFound \<or> r = Rejected" "s' = s"
  | (attempted) ep t sd ev where "hm_get (online_endpoints s) ip = Some ep"
      "HEAD_LENGTH \<le> length data" "packet_msg_type \<lparr>buffer = data\<rparr> = Inr t" "delivery_allowed t origin ep"
      "hm_get (sender_map s) ip = Some sd"
      "ev = (sender_channel sd, sender_message sd data, mp (sent s) (sender_channel sd) (sender_message sd data))"
      "r = delivery_outcome (snd (snd ev))" "s' = delivered_state ip ev s"
proof (cases "\<exists>ep t sd. hm_get (online_endpoints s) ip = Some ep \<and> HEAD_LENGTH \<le> length data \<and>
    packet_msg_type \<lparr>buffer = data\<rparr> = Inr t \<and> delivery_allowed t origin ep \<and> hm_get (sender_map s) ip = Some sd")
  case True
  then obtain ep t sd where h: "hm_get (online_endpoints s) ip = Some ep" "HEAD_LENGTH \<le> length data"
    "packet_msg_type \<lparr>buffer = data\<rparr> = Inr t" "delivery_allowed t origin ep" "hm_get (sender_map s) ip = Some sd" by blast
  have "new_packet data = Inr \<lparr>buffer = data\<rparr>" using h(2) by (simp add: new_packet_def)
  from attempted [OF h refl] try_deliver_send [where mp = mp, OF h(1) this h(3-5) refl] assms show ?thesis by simp
next
  case False
  then have "(r = NotFound \<or> r = Rejected) \<and> s' = s"
    using assms by (auto simp: try_deliver_def new_packet_def not_less split: option.splits sum.splits if_splits)
  then show ?thesis using refused by blast
qed

lemma delivery_outcome_sent: "delivery_outcome r \<notin> {NotFound, Rejected}"
    "delivery_outcome r = Delivered \<longleftrightarrow> r = SendOk"
  by (simp_all add: delivery_outcome_def split: try_send_result.split)

lemma delivered_state_fields [simp]:
  "sent (delivered_state ip ev s) = sent s @ [ev]"
  "online_endpoints (delivered_state ip ev s) = online_endpoints s"
  "sender_map (delivered_state ip ev s) = sender_map s"
  "traffic_stats_map (delivered_state ip ev s) = traffic_stats_map s"
  "ns_lease (delivered_state ip ev s) = ns_lease s"
  by (simp_all add: delivered_state_def count_drop_def Let_def)

section \<open>Broadcasts\<close>

lemma broadcast_gate: "broadcast_target origin ep = delivery_allowed WireGuardBroadcastRelay origin ep"
  by (simp add: broadcast_target_def delivery_allowed_def)

lemma set_broadcast_targets:
  assumes "hm_ok (online_endpoints s)"
  shows "set (broadcast_targets source origin s) =
      {ip. ip \<noteq> source \<and> (\<exists>ep. hm_get (online_endpoints s) ip = Some ep \<and> broadcast_target origin ep)}"
    "distinct (broadcast_targets source origin s)"
proof -
  show "set (broadcast_targets source origin s) =
      {ip. ip \<noteq> source \<and> (\<exists>ep. hm_get (online_endpoints s) ip = Some ep \<and> broadcast_target origin ep)}"
    by (force simp: broadcast_targets_def hm_mem_iff [OF assms, symmetric])
  show "distinct (broadcast_targets source origin s)"
    using assms unfolding broadcast_targets_def hm_ok_def by (rule distinct_map_filter)
qed

lemma record_rx_fields [simp]:
  "online_endpoints (record_rx_traffic ip n s) = online_endpoints s"
  "sender_map (record_rx_traffic ip n s) = sender_map s"
  "sent (record_rx_traffic ip n s) = sent s"
  by (simp_all add: record_rx_traffic_def Let_def split: option.split)

text \<open>One attempt of a broadcast: the envelope of the inner packet, on the channel of the target.\<close>

definition broadcast_attempt :: "network_state \<Rightarrow> bytes \<Rightarrow> ipv4_route \<Rightarrow> ipv4 \<Rightarrow> send_event \<Rightarrow> bool" where
  "broadcast_attempt s inner route ip ev \<longleftrightarrow>
     (\<exists>sd data. hm_get (sender_map s) ip = Some sd \<and> build_wireguard_broadcast_relay inner route ip = Some data \<and>
        fst ev = sender_channel sd \<and> fst (snd ev) = sender_message sd data)"

lemma broadcast_loop_effect:
  assumes "\<And>ip. ip \<in> set ts \<Longrightarrow> \<exists>ep sd. hm_get (online_endpoints s) ip = Some ep \<and> broadcast_target origin ep \<and>
      hm_get (sender_map s) ip = Some sd"
  shows "\<exists>s' evs. broadcast_loop mp inner route origin ts n s =
      Some (n + length (filter (\<lambda>ev. snd (snd ev) = SendOk) evs), s') \<and>
      sent s' = sent s @ evs \<and> list_all2 (broadcast_attempt s inner route) ts evs"
  using assms
proof (induction ts arbitrary: n s)
  case (Cons ip ts)
  obtain ep sd where h: "hm_get (online_endpoints s) ip = Some ep" "broadcast_target origin ep" "hm_get (sender_map s) ip = Some sd"
    using Cons.prems by force
  obtain data where d: "build_wireguard_broadcast_relay inner route ip = Some data"
      "new_packet data = Inr \<lparr>buffer = data\<rparr>" "packet_msg_type \<lparr>buffer = data\<rparr> = Inr WireGuardBroadcastRelay"
    unfolding build_wireguard_broadcast_relay_def by (rule build_wireguard_envelope_fields)
  define ev where "ev = (sender_channel sd, sender_message sd data, mp (sent s) (sender_channel sd) (sender_message sd data))"
  have t: "try_deliver mp ip data origin s = (delivery_outcome (snd (snd ev)), delivered_state ip ev s)"
    using h(2) by (intro try_deliver_send [where mp = mp, OF h(1) d(2,3) _ h(3) ev_def]) (simp add: broadcast_gate)
  define s1 where "s1 = (if snd (snd ev) = SendOk then record_rx_traffic ip (length data) (delivered_state ip ev s)
      else delivered_state ip ev s)"
  have s1: "online_endpoints s1 = online_endpoints s" "sender_map s1 = sender_map s" "sent s1 = sent s @ [ev]"
    by (simp_all add: s1_def)
  have att: "broadcast_attempt s1 inner route = broadcast_attempt s inner route"
    by (simp add: fun_eq_iff broadcast_attempt_def s1)
  let ?n = "n + (if snd (snd ev) = SendOk then 1 else 0)"
  obtain s' evs where IH: "broadcast_loop mp inner route origin ts ?n s1 =
      Some (?n + length (filter (\<lambda>ev. snd (snd ev) = SendOk) evs), s')"
      "sent s' = sent s1 @ evs" "list_all2 (broadcast_attempt s1 inner route) ts evs"
    using Cons.IH [of s1 ?n] Cons.prems s1 by auto
  have "broadcast_loop mp inner route origin (ip # ts) n s = broadcast_loop mp inner route origin ts ?n s1"
    by (simp add: d(1) t delivery_outcome_sent s1_def)
  moreover have "broadcast_attempt s inner route ip ev"
    using h(3) d(1) by (simp add: broadcast_attempt_def ev_def)
  ultimately show ?case using IH by (intro exI [of _ s'] exI [of _ "ev # evs"]) (simp add: s1 att)
qed simp

section \<open>Traffic counters\<close>

text \<open>The counters are shared objects.  Two devices never share one, and an address without a VNT
  session counts for nobody.\<close>

definition distinct_counters :: "lease_state \<Rightarrow> bool" where
  "distinct_counters g \<longleftrightarrow>
     (\<forall>d e. hm_get (device_map g) d = Some e \<longrightarrow> de_traffic_stats e < next_stats g) \<and>
     (\<forall>d e d' e'. hm_get (device_map g) d = Some e \<longrightarrow> hm_get (device_map g) d' = Some e' \<longrightarrow>
        de_traffic_stats e = de_traffic_stats e' \<longrightarrow> d = d')"

definition stats_inv :: "network_state \<Rightarrow> bool" where
  "stats_inv s \<longleftrightarrow> distinct_counters (ns_lease s) \<and>
     (\<forall>ip. hm_get (traffic_stats_map s) ip \<noteq> None \<longrightarrow> vnt_random_id (hm_get (online_endpoints s) ip) \<noteq> None)"

lemma distinct_countersD:
  assumes "distinct_counters g" "hm_get (device_map g) d = Some e"
  shows "de_traffic_stats e < next_stats g"
    "hm_get (device_map g) d' = Some e' \<Longrightarrow> de_traffic_stats e = de_traffic_stats e' \<Longrightarrow> d = d'"
  using assms unfolding distinct_counters_def by blast+

text \<open>A device gets a counter that is new or the one it has.\<close>

lemma distinct_counters_insert:
  assumes "distinct_counters g" "device_map g' = hm_insert d e (device_map g)"
    and "(next_stats g' = Suc (next_stats g) \<and> de_traffic_stats e = next_stats g) \<or>
     (next_stats g' = next_stats g \<and> (\<exists>e0. hm_get (device_map g) d = Some e0 \<and> de_traffic_stats e = de_traffic_stats e0))"
  shows "distinct_counters g'"
  unfolding distinct_counters_def
proof (intro conjI allI impI)
  fix d1 e1 assume "hm_get (device_map g') d1 = Some e1"
  then show "de_traffic_stats e1 < next_stats g'"
    using assms(3) distinct_countersD(1) [OF assms(1)] by (auto simp: assms(2) less_Suc_eq split: if_splits)
next
  fix d1 e1 d2 e2
  assume a: "hm_get (device_map g') d1 = Some e1" "hm_get (device_map g') d2 = Some e2"
    "de_traffic_stats e1 = de_traffic_stats e2"
  have other: "de_traffic_stats e \<noteq> de_traffic_stats e'" if "hm_get (device_map g) d' = Some e'" "d' \<noteq> d" for d' e'
    using assms(3) distinct_countersD [OF assms(1) that(1)] that(2) by auto
  show "d1 = d2" using a other distinct_countersD(2) [OF assms(1)]
    by (auto simp: assms(2) split: if_splits) (metis)+
qed

text \<open>No entry gets another counter, and no address without a session gets one.\<close>

definition counters_kept :: "network_state \<Rightarrow> network_state \<Rightarrow> bool" where
  "counters_kept s s' \<longleftrightarrow>
     next_stats (ns_lease s') = next_stats (ns_lease s) \<and>
     (\<forall>d e'. hm_get (device_map (ns_lease s')) d = Some e' \<longrightarrow>
        (\<exists>e. hm_get (device_map (ns_lease s)) d = Some e \<and> de_traffic_stats e' = de_traffic_stats e)) \<and>
     (\<forall>ip. hm_get (traffic_stats_map s') ip \<noteq> None \<and> vnt_random_id (hm_get (online_endpoints s') ip) = None \<longrightarrow>
        hm_get (traffic_stats_map s) ip \<noteq> None \<and> vnt_random_id (hm_get (online_endpoints s) ip) = None)"

lemma stats_inv_kept:
  assumes "stats_inv s" "counters_kept s s'"
  shows "stats_inv s'"
proof -
  have k: "\<exists>e. hm_get (device_map (ns_lease s)) d = Some e \<and> de_traffic_stats e' = de_traffic_stats e"
    if "hm_get (device_map (ns_lease s')) d = Some e'" for d e'
    using that assms(2) by (simp add: counters_kept_def)
  have "distinct_counters (ns_lease s')" unfolding distinct_counters_def
  proof (intro conjI allI impI)
    fix d e assume "hm_get (device_map (ns_lease s')) d = Some e"
    from k [OF this] show "de_traffic_stats e < next_stats (ns_lease s')"
      using assms distinct_countersD(1) by (auto simp: stats_inv_def counters_kept_def)
  next
    fix d e d' e' assume "hm_get (device_map (ns_lease s')) d = Some e" "hm_get (device_map (ns_lease s')) d' = Some e'"
      "de_traffic_stats e = de_traffic_stats e'"
    with k [of d e] k [of d' e'] show "d = d'" using assms(1) distinct_countersD(2) unfolding stats_inv_def by metis
  qed
  moreover have "vnt_random_id (hm_get (online_endpoints s') ip) \<noteq> None" if "hm_get (traffic_stats_map s') ip \<noteq> None" for ip
    using that assms unfolding stats_inv_def counters_kept_def by metis
  ultimately show ?thesis by (simp add: stats_inv_def)
qed

lemma stats_invD: "stats_inv s \<Longrightarrow> hm_get (traffic_stats_map s) ip \<noteq> None \<Longrightarrow> vnt_random_id (hm_get (online_endpoints s) ip) \<noteq> None"
  by (simp add: stats_inv_def)

lemma add_new_device_stats:
  "next_stats (add_new_device req ip rid now g) = Suc (next_stats g) \<and>
   (\<exists>e. device_map (add_new_device req ip rid now g) = hm_insert (rq_device_id req) e (device_map g) \<and> de_traffic_stats e = next_stats g)"
proof -
  obtain e where "de_traffic_stats e = next_stats g"
      "device_map (add_new_device req ip rid now g) = hm_insert (rq_device_id req) e (device_map g)"
    by (rule add_new_device_maps)
  moreover have "next_stats (add_new_device req ip rid now g) = Suc (next_stats g)"
    by (simp add: add_new_device_def add_device_def stats_alloc_def Let_def)
  ultimately show ?thesis by blast
qed

lemma allocate_ip_stats:
  assumes "allocate_ip net gw req rid now g = (Inr (ip, old), g')"
  shows "\<exists>e. device_map g' = hm_insert (rq_device_id req) e (device_map g) \<and>
    ((next_stats g' = Suc (next_stats g) \<and> de_traffic_stats e = next_stats g) \<or>
     (next_stats g' = next_stats g \<and> (\<exists>e0. hm_get (device_map g) (rq_device_id req) = Some e0 \<and> de_traffic_stats e = de_traffic_stats e0)))"
proof -
  have new: "\<exists>e. device_map g' = hm_insert (rq_device_id req) e (device_map g) \<and>
      next_stats g' = Suc (next_stats g) \<and> de_traffic_stats e = next_stats g"
    if "g' = add_new_device req ip rid now h" "device_map h = device_map g" "next_stats h = next_stats g" for h
    using that add_new_device_stats [of req ip rid now h] by auto
  from assms consider e0 where "hm_get (device_map g) (rq_device_id req) = Some e0" "reconnect_device net gw req rid now e0 g = (Inr (ip, old), g')"
    | o' a where "claim_requested_ip net gw req rid now o' a g = Some (Inr (ip, old), g')"
    | o' where "allocate_automatic net gw req rid now o' g = (Inr (ip, old), g')"
    unfolding allocate_ip_def Let_def by (auto split: option.splits if_splits)
  then show ?thesis
  proof cases
    case 1
    then show ?thesis by (auto simp: reconnect_device_def Let_def split: option.splits sum.splits)
  next
    case 2
    then obtain h where "g' = add_new_device req ip rid now h" "device_map h = device_map g" "next_stats h = next_stats g"
      by (auto simp: claim_requested_ip_def Let_def split: option.splits if_splits)
    from new [OF this] show ?thesis by blast
  next
    case 3
    then have "g' = add_new_device req ip rid now g" by (auto simp: allocate_automatic_def split: sum.splits)
    from new [OF this] show ?thesis by blast
  qed
qed

lemma stats_inv_allocate:
  assumes "stats_inv s" "allocate_ip_and_get_entry req rid c p2p now s = (r, s')"
  shows "stats_inv s'"
proof -
  obtain x g where a: "allocate_ip (ns_net s) (ns_gateway s) req rid now (ns_lease s) = (x, g)" by fastforce
  show ?thesis
  proof (cases x)
    case (Inl e)
    then have "g = ns_lease s" using a allocate_ip_Inl by blast
    then show ?thesis using assms a Inl by (simp add: allocate_ip_and_get_entry_def Let_def)
  next
    case (Inr y)
    obtain ip old where y: "y = (ip, old)" by fastforce
    obtain e where e: "device_map g = hm_insert (rq_device_id req) e (device_map (ns_lease s))"
      and st: "(next_stats g = Suc (next_stats (ns_lease s)) \<and> de_traffic_stats e = next_stats (ns_lease s)) \<or>
         (next_stats g = next_stats (ns_lease s) \<and> (\<exists>e0. hm_get (device_map (ns_lease s)) (rq_device_id req) = Some e0 \<and> de_traffic_stats e = de_traffic_stats e0))"
      using allocate_ip_stats [OF a [unfolded Inr y]] by blast
    have s': "ns_lease s' = g" "hm_get (traffic_stats_map s') i \<noteq> None \<Longrightarrow> vnt_random_id (hm_get (online_endpoints s') i) \<noteq> None" for i
      using assms(2) a Inr y stats_invD [OF assms(1), of i]
      by (auto simp: allocate_ip_and_get_entry_def Let_def drop_online_def e split: option.splits if_splits)
    have "distinct_counters g"
      by (rule distinct_counters_insert [OF _ e st]) (use assms(1) in \<open>simp add: stats_inv_def\<close>)
    then show ?thesis using s' by (simp add: stats_inv_def)
  qed
qed

lemma inner_remove_get:
  "hm_get (device_map (inner_remove_devices ds g)) d = (if d \<in> set ds then None else hm_get (device_map g) d)"
  "next_stats (inner_remove_devices ds g) = next_stats g"
proof -
  have "next_stats (remove_device_step d g) = next_stats g" for d g
    by (simp add: remove_device_step_def Let_def split: option.split)
  then have "next_stats (fold remove_device_step ds g) = next_stats g" for g
    by (induction ds arbitrary: g) simp_all
  then show "next_stats (inner_remove_devices ds g) = next_stats g" by (simp add: inner_remove_devices_def)
qed (auto simp: inner_remove_devices_def fold_remove_get)

lemma kept_refl [simp]: "counters_kept s s"
  by (simp add: counters_kept_def)

lemma kept_lease_only:
  "device_map g = device_map (ns_lease s) \<Longrightarrow> next_stats g = next_stats (ns_lease s) \<Longrightarrow> counters_kept s (s\<lparr>ns_lease := g\<rparr>)"
  by (simp add: counters_kept_def)

lemma kept_offline: "offline_ip d ip rid now s = (rec, s') \<Longrightarrow> counters_kept s s'"
  by (auto simp: counters_kept_def offline_ip_def inner_offline_ip_def drop_online_def Let_def
      split: option.splits if_splits)

lemma kept_remove_device: "remove_device_from_memory d s = (rip, s') \<Longrightarrow> counters_kept s s'"
  by (auto simp: counters_kept_def remove_device_from_memory_def drop_online_def Let_def split: option.splits if_splits)

lemma kept_release_pre_registered: "counters_kept s (release_pre_registered_ip d ip rid s)"
  by (auto simp: counters_kept_def release_pre_registered_ip_def release_pre_registered_lease_def drop_online_def
      Let_def split: option.splits if_splits)

lemma kept_confirm: "counters_kept s (confirm_endpoint ip rid s)"
  by (auto simp: counters_kept_def confirm_endpoint_def split: option.splits online_endpoint.splits if_splits)

lemma kept_remove_devices: "counters_kept s (remove_devices ds s)"
  by (auto simp: counters_kept_def remove_devices_def inner_remove_get split: if_splits)

lemma kept_latency: "counters_kept s (update_client_latency ip l s)"
  by (auto simp: counters_kept_def update_client_latency_def Let_def split: option.splits if_splits)

lemma kept_wireguard:
  "connect_wireguard_peer p ip c now t s = (b, s') \<Longrightarrow> counters_kept s s'"
  "disconnect_wireguard_peer p ip t s = (b, s') \<Longrightarrow> counters_kept s s'"
  by (auto simp: counters_kept_def connect_wireguard_peer_def disconnect_wireguard_peer_def update_time_def
      bump_wireguard_version_def Let_def hm_contains_def split: if_splits option.splits online_endpoint.splits)

lemma kept_remote:
  "update_remote_wireguard_ips src ips t s = (b, s') \<Longrightarrow> counters_kept s s'"
  "remove_remote_wireguard_source src t s = (b, s') \<Longrightarrow> counters_kept s s'"
  by (auto simp: counters_kept_def update_remote_wireguard_ips_def remove_remote_wireguard_source_def
      update_time_def saturating_bump_wireguard_version_def Let_def split: if_splits)

lemma kept_deliver: "try_deliver mp ip data origin s = (r, s') \<Longrightarrow> counters_kept s s'"
  by (erule try_deliver_cases) (simp_all add: counters_kept_def)

lemma kept_record: "counters_kept s (record_tx_traffic ip n s)" "counters_kept s (record_rx_traffic ip n s)"
  by (auto simp: counters_kept_def record_tx_traffic_def record_rx_traffic_def stats_update_def Let_def
      split: option.splits)

lemma kept_reservation:
  "prepare_wireguard_peer_ip_reservation p ip (ns_lease s) = (pr, g) \<Longrightarrow> counters_kept s (s\<lparr>ns_lease := g\<rparr>)"
  "counters_kept s (s\<lparr>ns_lease := commit_wireguard_peer_ip_reservation p ip prev (ns_lease s)\<rparr>)"
  "counters_kept s (s\<lparr>ns_lease := rollback_wireguard_peer_ip_reservation p ip prev (ns_lease s)\<rparr>)"
  "inner_release_wireguard_peer_ip p (ns_lease s) = (b, g) \<Longrightarrow> counters_kept s (s\<lparr>ns_lease := g\<rparr>)"
  by (auto simp: prepare_wireguard_peer_ip_reservation_def commit_wireguard_peer_ip_reservation_def
      rollback_wireguard_peer_ip_reservation_def inner_release_wireguard_peer_ip_def Let_def
      split: option.splits if_splits intro: kept_lease_only)

lemmas counters_kept_ops = kept_offline kept_remove_device kept_release_pre_registered kept_confirm
  kept_remove_devices kept_latency kept_wireguard kept_remote kept_deliver kept_record kept_reservation

lemma stats_inv_step:
  assumes "net_step s s'" "stats_inv s"
  shows "stats_inv s'"
  using assms by (induction rule: net_step.induct)
    (auto intro: stats_inv_allocate stats_inv_kept counters_kept_ops)

lemma load_devices_stats: "distinct_counters g \<Longrightarrow> distinct_counters (fold (load_device net gw now) rs g)"
proof (induction rs arbitrary: g)
  case (Cons r rs)
  obtain e where e: "device_map (load_device net gw now r g) = hm_insert (dr_device_id r) e (device_map g)"
      "de_traffic_stats e = next_stats g" "next_stats (load_device net gw now r g) = Suc (next_stats g)"
    by (rule that [of "from_record now r (next_stats g)"])
      (simp_all add: load_device_def stats_alloc_def from_record_def Let_def split: option.split)
  show ?case using Cons.IH [OF distinct_counters_insert [OF Cons.prems e(1)]] e(2,3) by simp
qed simp

lemma load_allocations_stats: "next_stats (fold (load_allocation net gw) as g) = next_stats g"
  by (induction as arbitrary: g) (auto simp: load_allocation_def)

lemma stats_inv_new: "stats_inv (new_from_db t nc net dur now (Some rs) (Some as))"
  using load_devices_stats [of empty_lease_state net "net_network net + 1" now rs]
  by (simp add: stats_inv_def distinct_counters_def new_from_db_def Let_def build_initial_inner_state_def load_allocations_devices
      load_allocations_stats empty_lease_state_def)

interpretation counters: invariant_system net_step stats_inv
  by unfold_locales (rule stats_inv_step)

datatype traffic = Tx nat | Rx nat

fun apply_traffic :: "ipv4 \<times> traffic \<Rightarrow> network_state \<Rightarrow> network_state" where
  "apply_traffic (ip, Tx n) s = record_tx_traffic ip n s"
| "apply_traffic (ip, Rx n) s = record_rx_traffic ip n s"

definition tx_bytes :: "ipv4 \<Rightarrow> (ipv4 \<times> traffic) list \<Rightarrow> nat" where
  "tx_bytes ip evs = sum_list (map (\<lambda>(i, t). case t of Tx n \<Rightarrow> if i = ip then n else 0 | Rx _ \<Rightarrow> 0) evs)"

definition rx_bytes :: "ipv4 \<Rightarrow> (ipv4 \<times> traffic) list \<Rightarrow> nat" where
  "rx_bytes ip evs = sum_list (map (\<lambda>(i, t). case t of Rx n \<Rightarrow> if i = ip then n else 0 | Tx _ \<Rightarrow> 0) evs)"

lemma apply_traffic_fields [simp]:
  "device_map (ns_lease (apply_traffic ev s)) = device_map (ns_lease s)"
  "traffic_stats_map (apply_traffic ev s) = traffic_stats_map s"
  by (cases "(ev, s)" rule: apply_traffic.cases;
      simp add: record_tx_traffic_def record_rx_traffic_def stats_update_def Let_def split: option.split)+

lemma apply_traffic_inv: "session_inv s \<Longrightarrow> session_inv (apply_traffic ev s)" "stats_inv s \<Longrightarrow> stats_inv (apply_traffic ev s)"
  by (cases "(ev, s)" rule: apply_traffic.cases; simp add: session_inv_record stats_inv_kept [OF _ kept_record(1)]
      stats_inv_kept [OF _ kept_record(2)])+

lemma stats_at_update: "stats_at (stats_update ref f g) ref' = (if ref' = ref then f (stats_at g ref) else stats_at g ref')"
  by (simp add: stats_at_def stats_update_def)

text \<open>The counters of a session and of another address are different objects.\<close>

lemma counter_isolated:
  assumes "session_inv s" "stats_inv s" "hm_get (device_map (ns_lease s)) d = Some e" "de_ip e = Some ip"
    "hm_get (traffic_stats_map s) i = Some ref" "i \<noteq> ip"
  shows "ref \<noteq> de_traffic_stats e"
proof
  assume ref: "ref = de_traffic_stats e"
  have "vnt_random_id (hm_get (online_endpoints s) i) \<noteq> None" using stats_invD [OF assms(2)] assms(5) by blast
  from ownedD [OF session_invD(7) [OF assms(1)] this] obtain d' e' where
    d': "hm_get (device_map (ns_lease s)) d' = Some e'" "de_ip e' = Some i" "de_traffic_stats e' = ref"
    using assms(5) by (auto simp: has_session_def)
  then have "d' = d" using distinct_countersD(2) [OF _ d'(1) assms(3)] assms(2) ref by (simp add: stats_inv_def)
  then show False using d'(1,2) assms(3,4,6) by simp
qed

lemma stats_at_apply:
  assumes "session_inv s" "stats_inv s" "hm_get (device_map (ns_lease s)) d = Some e" "de_ip e = Some ip"
    "hm_get (traffic_stats_map s) ip = Some (de_traffic_stats e)"
  shows "tx_total_bytes (stats_at (ns_lease (apply_traffic ev s)) (de_traffic_stats e)) =
      tx_total_bytes (stats_at (ns_lease s) (de_traffic_stats e)) + of_nat (tx_bytes ip [ev])"
    "rx_total_bytes (stats_at (ns_lease (apply_traffic ev s)) (de_traffic_stats e)) =
      rx_total_bytes (stats_at (ns_lease s) (de_traffic_stats e)) + of_nat (rx_bytes ip [ev])"
proof -
  have "\<And>i ref. hm_get (traffic_stats_map s) i = Some ref \<Longrightarrow> i \<noteq> ip \<Longrightarrow> ref \<noteq> de_traffic_stats e"
    using counter_isolated [OF assms(1-4)] by blast
  then show "tx_total_bytes (stats_at (ns_lease (apply_traffic ev s)) (de_traffic_stats e)) =
      tx_total_bytes (stats_at (ns_lease s) (de_traffic_stats e)) + of_nat (tx_bytes ip [ev])"
    "rx_total_bytes (stats_at (ns_lease (apply_traffic ev s)) (de_traffic_stats e)) =
      rx_total_bytes (stats_at (ns_lease s) (de_traffic_stats e)) + of_nat (rx_bytes ip [ev])"
    using assms(5) by (cases "(ev, s)" rule: apply_traffic.cases;
      force simp: record_tx_traffic_def record_rx_traffic_def Let_def stats_at_update add_tx_def add_rx_def
        tx_bytes_def rx_bytes_def split: option.split)+
qed

lemma stats_at_fold:
  assumes "session_inv s" "stats_inv s" "hm_get (device_map (ns_lease s)) d = Some e" "de_ip e = Some ip"
    "hm_get (traffic_stats_map s) ip = Some (de_traffic_stats e)"
  shows "tx_total_bytes (stats_at (ns_lease (fold apply_traffic evs s)) (de_traffic_stats e)) =
      tx_total_bytes (stats_at (ns_lease s) (de_traffic_stats e)) + of_nat (tx_bytes ip evs) \<and>
    rx_total_bytes (stats_at (ns_lease (fold apply_traffic evs s)) (de_traffic_stats e)) =
      rx_total_bytes (stats_at (ns_lease s) (de_traffic_stats e)) + of_nat (rx_bytes ip evs) \<and>
    device_map (ns_lease (fold apply_traffic evs s)) = device_map (ns_lease s)"
  using assms
proof (induction evs arbitrary: s)
  case (Cons ev evs)
  have "tx_bytes ip (ev # evs) = tx_bytes ip [ev] + tx_bytes ip evs" "rx_bytes ip (ev # evs) = rx_bytes ip [ev] + rx_bytes ip evs"
    by (simp_all add: tx_bytes_def rx_bytes_def)
  then show ?case
    using Cons.IH [of "apply_traffic ev s"] Cons.prems stats_at_apply [OF Cons.prems, of ev]
    by (simp add: apply_traffic_inv)
qed (simp add: tx_bytes_def rx_bytes_def)

section \<open>Properties\<close>

definition all_ok :: mpsc where
  "all_ok tr c m = SendOk"

text \<open>C3. What can reach an endpoint.  A packet is sent only if it has a complete header with a known
  message type and passes the gate: a WireGuard peer is sent relayed unicast and broadcast packets,
  and relayed subnet packets that come from a VNT client, and nothing else; a VNT client is sent a
  relayed packet only from WireGuard, only if it allowed WireGuard and has confirmed its
  registration, and subnet and broadcast relays only if it announced that capability.  A refused
  packet changes nothing; an attempt is one message on the channel of the endpoint, and a failed
  attempt is counted as a drop.\<close>

theorem delivery_gate:
  assumes "try_deliver mp ip data origin s = (r, s')"
  shows "(r \<in> {NotFound, Rejected} \<longrightarrow> s' = s) \<and>
    (r \<notin> {NotFound, Rejected} \<longrightarrow>
       (\<exists>ep t sd o'. hm_get (online_endpoints s) ip = Some ep \<and> HEAD_LENGTH \<le> length data \<and>
          packet_msg_type \<lparr>buffer = data\<rparr> = Inr t \<and> hm_get (sender_map s) ip = Some sd \<and>
          sent s' = sent s @ [(sender_channel sd, sender_message sd data, o')] \<and>
          (r = Delivered \<longleftrightarrow> o' = SendOk) \<and>
          dashboard_wireguard_drops s' = dashboard_wireguard_drops s + (if r = Delivered then 0 else 1) \<and>
          (case ep of
             EpWireGuard _ _ \<Rightarrow>
               t \<in> {WireGuardRelay, WireGuardBroadcastRelay} \<or> (t = WireGuardSubnetRelay \<and> origin = FromVnt)
           | EpVnt _ allow caps confirmed _ \<Rightarrow>
               t \<notin> {WireGuardRelay, WireGuardSubnetRelay, WireGuardBroadcastRelay} \<or>
               (origin = FromWireGuard \<and> allow \<and> confirmed \<and>
                (t = WireGuardSubnetRelay \<longrightarrow> bit caps 0) \<and> (t = WireGuardBroadcastRelay \<longrightarrow> bit caps 1)))))"
  using assms
proof (cases rule: try_deliver_cases)
  case refused then show ?thesis by auto
next
  case (attempted ep t sd ev)
  let ?o = "mp (sent s) (sender_channel sd) (sender_message sd data)"
  have drops: "dashboard_wireguard_drops s' = dashboard_wireguard_drops s + (if r = Delivered then 0 else 1)"
    using attempted(6-8) delivery_outcome_sent(2) [of ?o] by (simp add: delivered_state_def count_drop_def Let_def)
  have gate: "case ep of
             EpWireGuard _ _ \<Rightarrow>
               t \<in> {WireGuardRelay, WireGuardBroadcastRelay} \<or> (t = WireGuardSubnetRelay \<and> origin = FromVnt)
           | EpVnt _ allow caps confirmed _ \<Rightarrow>
               t \<notin> {WireGuardRelay, WireGuardSubnetRelay, WireGuardBroadcastRelay} \<or>
               (origin = FromWireGuard \<and> allow \<and> confirmed \<and>
                (t = WireGuardSubnetRelay \<longrightarrow> bit caps 0) \<and> (t = WireGuardBroadcastRelay \<longrightarrow> bit caps 1))"
    using attempted(4) unfolding delivery_allowed_def has_capability_bit
    by (cases t; cases ep) simp_all
  have "r \<notin> {NotFound, Rejected}" using attempted(7) delivery_outcome_sent(1) by simp
  moreover have "sent s' = sent s @ [(sender_channel sd, sender_message sd data, ?o)] \<and> (r = Delivered \<longleftrightarrow> ?o = SendOk)"
    using attempted(6-8) delivery_outcome_sent(2) [of ?o] by simp
  ultimately show ?thesis using attempted(1-3,5) drops gate by blast
qed

theorem delivery_gate_witness:
  "\<exists>s' sd o'. try_deliver all_ok (ip4 10 26 0 2) (0x81 # replicate 15 0) FromVnt wit_ns1 = (Delivered, s') \<and>
     hm_get (sender_map wit_ns1) (ip4 10 26 0 2) = Some sd \<and>
     sent s' = sent wit_ns1 @ [(sender_channel sd, sender_message sd (0x81 # replicate 15 0), o')]"
proof -
  have ep: "hm_get (online_endpoints wit_ns1) (ip4 10 26 0 2) = Some (EpVnt 7 True 3 True None)"
      "hm_get (sender_map wit_ns1) (ip4 10 26 0 2) = Some (SenderVnt 0)"
    by (simp_all add: wit_ns1_eq hm_get_def)
  have p: "new_packet (0x81 # replicate 15 0) = Inr \<lparr>buffer = 0x81 # replicate 15 0\<rparr>"
    by (simp add: new_packet_def HEAD_LENGTH_def)
  have t: "packet_msg_type \<lparr>buffer = 0x81 # replicate 15 0\<rparr> = Inr Turn"
    by (simp add: packet_msg_type_def header_def header_of_bytes_def hdr_msg_type_def msg_type_try_from_def)
  have "delivery_allowed Turn FromVnt (EpVnt 7 True 3 True None)" by (simp add: delivery_allowed_def)
  from try_deliver_send [OF ep(1) p t this ep(2) refl, of all_ok] obtain s' where
    "try_deliver all_ok (ip4 10 26 0 2) (0x81 # replicate 15 0) FromVnt wit_ns1 = (Delivered, s')"
    by (simp add: all_ok_def delivery_outcome_def)
  from this delivery_gate [OF this] show ?thesis by (simp add: HEAD_LENGTH_def) blast
qed

text \<open>C14. Relaying a broadcast.  It never panics.  A packet that is not a broadcast of its source is
  refused without effect; otherwise the server makes exactly one attempt per eligible endpoint other
  than the source, each carrying the original packet in an envelope for that target (none of them is
  stopped by the gate of \<open>try_deliver\<close>), and returns the number of attempts that succeeded.\<close>

theorem broadcast_relay_exact:
  assumes "session_inv s"
  shows "case validate_broadcast_inner_ipv4 P inner source (ns_net s) (ns_gateway s) of
      Inl e \<Rightarrow> relay_wireguard_broadcast P mp source inner origin s = Some (Inl e, s)
    | Inr route \<Rightarrow>
        (\<exists>s' evs. relay_wireguard_broadcast P mp source inner origin s =
             Some (Inr (length (filter (\<lambda>ev. snd (snd ev) = SendOk) evs)), s') \<and>
           sent s' = sent s @ evs \<and>
           list_all2 (\<lambda>ip ev. \<exists>sd data. hm_get (sender_map s) ip = Some sd \<and>
               build_wireguard_broadcast_relay inner route ip = Some data \<and>
               fst ev = sender_channel sd \<and> fst (snd ev) = sender_message sd data)
             (broadcast_targets source origin s) evs \<and>
           distinct (broadcast_targets source origin s) \<and>
           set (broadcast_targets source origin s) =
             {ip. ip \<noteq> source \<and> (\<exists>ep. hm_get (online_endpoints s) ip = Some ep \<and>
                (case ep of EpWireGuard _ _ \<Rightarrow> True
                 | EpVnt _ allow caps confirmed _ \<Rightarrow>
                     origin = FromWireGuard \<and> allow \<and> confirmed \<and> bit caps 1))})"
proof (cases "validate_broadcast_inner_ipv4 P inner source (ns_net s) (ns_gateway s)")
  case (Inl e) then show ?thesis by (simp add: relay_wireguard_broadcast_def)
next
  case (Inr route)
  note i = session_invD [OF assms]
  note ts = set_broadcast_targets [OF i(4), of source origin]
  have target: "broadcast_target origin = (\<lambda>ep. case ep of EpWireGuard _ _ \<Rightarrow> True
       | EpVnt _ allow caps confirmed _ \<Rightarrow> origin = FromWireGuard \<and> allow \<and> confirmed \<and> bit caps 1)"
    by (simp add: fun_eq_iff broadcast_target_def has_capability_bit split: online_endpoint.split)
  have "\<exists>ep sd. hm_get (online_endpoints s) ip = Some ep \<and> broadcast_target origin ep \<and> hm_get (sender_map s) ip = Some sd"
    if "ip \<in> set (broadcast_targets source origin s)" for ip
    using that i(6) [of ip] by (auto simp: ts(1) sender_fits_cases)
  from broadcast_loop_effect [where ts = "broadcast_targets source origin s" and mp = mp and inner = inner
      and route = route and n = 0, OF this] Inr ts show ?thesis
    by (force simp: relay_wireguard_broadcast_def broadcast_attempt_def [abs_def] target)
qed

theorem broadcast_relay_exact_witness:
  "\<exists>x. relay_wireguard_broadcast rfc_pnet all_ok (ip4 10 26 0 3) [] FromWireGuard wit_ns1 = Some (Inl x, wit_ns1)"
proof -
  have "validate_broadcast_inner_ipv4 rfc_pnet [] (ip4 10 26 0 3) (ns_net wit_ns1) (ns_gateway wit_ns1) = Inl TooShort"
    by (simp add: validate_broadcast_inner_ipv4_def parse_inner_ipv4_def parse_unbound_inner_ipv4_def)
  with broadcast_relay_exact [OF wit_ns1_inv, where P = rfc_pnet and inner = "[]" and source = "ip4 10 26 0 3"
      and mp = all_ok and origin = FromWireGuard] show ?thesis by auto
qed



text \<open>A device survives a restart: the record written for a device, read back from the database,
  gives an entry with the same identity, address, name and version, the same counters, and the last
  connection time to the second; the session itself is not restored.\<close>

theorem device_record_round_trip:
  assumes "0 \<le> de_last_connect_time e" "de_last_connect_time e < 2 ^ 63"
  shows "let r = to_record st nc e; e' = from_record now r (next_stats g) in
    de_device_id e' = de_device_id e \<and> de_ip e' = de_ip e \<and> de_device_name e' = de_device_name e \<and>
    de_device_version e' = de_device_version e \<and>
    de_last_connect_time e' = de_last_connect_time e - de_last_connect_time e mod 1000000000 \<and>
    \<not> de_is_connected e' \<and> de_random_id e' = 0 \<and>
    hm_get (device_map (load_device net gw now r g)) (de_device_id e) = Some e' \<and>
    stats_at (load_device net gw now r g) (de_traffic_stats e') = stats_at st (de_traffic_stats e)"
proof -
  let ?t = "de_last_connect_time e"
  have "?t div 1000000000 \<le> ?t div 1" using assms(1) by (intro zdiv_mono2) simp_all
  then have "?t div 1000000000 < 2 ^ 64" "0 \<le> ?t div 1000000000" using assms by (simp_all add: pos_imp_zdiv_nonneg_iff)
  then have "uint (of_int (?t div 1000000000) :: i64) = ?t div 1000000000"
    by (simp add: unsigned_of_int take_bit_int_eq_self)
  then have t: "i64_to_system_time (system_time_to_i64 ?t) = ?t - ?t mod 1000000000"
    using assms(1) by (simp add: i64_to_system_time_def system_time_to_i64_def minus_mod_eq_div_mult)
  have ip: "Option.bind (map_option ipv4_to_string (de_ip e)) ipv4_parse = de_ip e"
    by (cases "de_ip e") (simp_all add: ipv4_parse_to_string)
  show ?thesis
    by (simp add: Let_def from_record_def to_record_def t ip load_device_def stats_alloc_def stats_at_def
        split: option.split)
qed

theorem device_record_round_trip_witness:
  "de_ip (from_record 0 (to_record wit_one ''net'' (the (hm_get (device_map wit_one) ''a''))) 1) = Some (ip4 10 26 0 2)"
proof -
  obtain e where e: "hm_get (device_map wit_one) ''a'' = Some e" "de_ip e = Some (ip4 10 26 0 2)" "de_last_connect_time e = 0"
    by (simp add: wit_one_eq hm_get_def)
  have "next_stats wit_one = 1" by (simp add: wit_one_eq)
  then show ?thesis using device_record_round_trip [of e wit_one "''net''" 0 wit_one wit_net wit_gw] e
    by (simp add: Let_def)
qed

end
