(* ===== verification/Network_Views.thy ===== *)
theory Network_Views
  imports Network_Delivery
begin

text \<open>
  What NetworkState reports about its members: the client lists pushed to VNT clients
  (\<open>changed_client_simple_list\<close>), the rows of the remote procedure call and of the console, and the
  totals of NetworkStateProvider
  (official-vnts-source-2.0.0/src/server/network_state_provider.rs).  The receiving side of the client
  lists is \<open>update_client_simple_list\<close> of the client
  (VntcApp1.0/vendor/vnt-core-2.0.0/src/context/mod.rs), so that the protocol between the two can be
  stated.
\<close>

section \<open>Client lists\<close>

definition vnt_client_info :: "device_entry \<Rightarrow> client_simple_info list" where
  "vnt_client_info v = (case de_ip v of
      Some ip \<Rightarrow> [\<lparr>ci_ip = ip, ci_online = de_is_connected v, ci_node_type = NodeVnt\<rparr>]
    | None \<Rightarrow> [])"

definition wireguard_client_info :: "ipv4 \<Rightarrow> client_simple_info" where
  "wireguard_client_info ip = \<lparr>ci_ip = ip, ci_online = True, ci_node_type = NodeWireguard\<rparr>"

definition all_clients :: "ipv4 \<Rightarrow> bool \<Rightarrow> network_state \<Rightarrow> client_simple_info list" where
  "all_clients exclude_ip include_wireguard s =
     (let g = ns_lease s;
          list = concat (map vnt_client_info
                   (filter (\<lambda>v. de_ip v \<noteq> None \<and> de_ip v \<noteq> Some exclude_ip) (hm_values (device_map g))))
      in if \<not> include_wireguard then list
         else let list = list @ map (\<lambda>(ip, _). wireguard_client_info ip)
                    (filter (\<lambda>(_, ep). case ep of EpWireGuard _ _ \<Rightarrow> True | _ \<Rightarrow> False) (online_endpoints s));
                  local_ips = map ci_ip list;
                  remote_ips = remdups (concat (hm_values (remote_wireguard_sources g)))
              in list @ map wireguard_client_info
                   (filter (\<lambda>ip. ip \<noteq> exclude_ip \<and> ip \<notin> set local_ips) remote_ips))"

definition changed_client_simple_list ::
  "ipv4 \<Rightarrow> u64 \<Rightarrow> bool \<Rightarrow> network_state \<Rightarrow> client_simple_info_list option" where
  "changed_client_simple_list exclude_ip version include_wireguard s =
     (let g = ns_lease s in
      if version = data_version g then None
      else if version > data_version g
              \<or> (include_wireguard \<and> version < last_wireguard_change_version g)
      then Some \<lparr>cl_data_version = data_version g, cl_list = all_clients exclude_ip include_wireguard s,
                 cl_is_all = True, cl_time = 0\<rparr>
      else Some \<lparr>cl_data_version = data_version g,
                 cl_list = concat (map vnt_client_info
                   (filter (\<lambda>v. de_data_version v > version \<and> de_ip v \<noteq> None \<and> de_ip v \<noteq> Some exclude_ip)
                      (hm_values (device_map g)))),
                 cl_is_all = False, cl_time = 0\<rparr>)"

section \<open>Rows for the RPC and the console\<close>

record client_info =
  cf_name :: string
  cf_version :: string
  cf_ip :: u32
  cf_key_sign :: "string option"
  cf_online :: bool
  cf_last_connected_time :: i64
  cf_id :: string
  cf_node_type :: u32

text \<open>\<open>unix_timestamp\<close> stands for the conversion of a SystemTime by the time crate.\<close>

definition client_info_list ::
  "(system_time \<Rightarrow> i64) \<Rightarrow> ipv4 \<Rightarrow> bool \<Rightarrow> network_state \<Rightarrow> client_info list" where
  "client_info_list unix_timestamp exclude_ip include_wireguard s =
     concat (map (\<lambda>entry.
         case de_ip entry of
           None \<Rightarrow> []
         | Some ip \<Rightarrow>
             if ip = exclude_ip then []
             else [\<lparr>cf_name = de_device_name entry, cf_version = de_device_version entry, cf_ip = ip,
                    cf_key_sign = de_key_sign entry, cf_online = de_is_connected entry,
                    cf_last_connected_time = unix_timestamp (de_last_connect_time entry),
                    cf_id = de_device_id entry, cf_node_type = node_type_i32 NodeVnt\<rparr>])
       (hm_values (device_map (ns_lease s)))) @
     (if include_wireguard
      then concat (map (\<lambda>(ip, endpoint).
             case endpoint of
               EpWireGuard peer_id connected_at \<Rightarrow>
                 [\<lparr>cf_name = peer_id, cf_version = ''WireGuard'', cf_ip = ip, cf_key_sign = None,
                   cf_online = True, cf_last_connected_time = connected_at, cf_id = peer_id,
                   cf_node_type = node_type_i32 NodeWireguard\<rparr>]
             | _ \<Rightarrow> []) (online_endpoints s))
      else [])"

record device_info_vo =
  vo_device_id :: string
  vo_device_name :: string
  vo_device_version :: string
  vo_ip :: "ipv4 option"
  vo_status :: string
  vo_last_connect_time :: string
  vo_disconnect_time :: "string option"
  vo_latency_ms :: "u32 option"
  vo_server_addr :: "string option"
  vo_tx_bytes :: u64
  vo_rx_bytes :: u64

text \<open>\<open>format\<close> stands for the formatting of the time crate; a failure gives the empty string.\<close>

definition get_device_infos :: "(system_time \<Rightarrow> string option) \<Rightarrow> network_state \<Rightarrow> device_info_vo list" where
  "get_device_infos format s =
     map (\<lambda>entry.
       \<lparr>vo_device_id = de_device_id entry, vo_device_name = de_device_name entry,
        vo_device_version = de_device_version entry, vo_ip = de_ip entry,
        vo_status = (if de_is_connected entry then ''Online'' else ''Offline''),
        vo_last_connect_time = (case format (de_last_connect_time entry) of Some t \<Rightarrow> t | None \<Rightarrow> []),
        vo_disconnect_time = map_option (\<lambda>d. case format d of Some t \<Rightarrow> t | None \<Rightarrow> [])
          (de_disconnect_time entry),
        vo_latency_ms = de_latency_ms entry, vo_server_addr = None,
        vo_tx_bytes = tx_total_bytes (stats_at (ns_lease s) (de_traffic_stats entry)),
        vo_rx_bytes = rx_total_bytes (stats_at (ns_lease s) (de_traffic_stats entry))\<rparr>)
     (hm_values (device_map (ns_lease s)))"

section \<open>NetworkStateProvider\<close>

type_synonym network_states = "(string, network_state) hmap"

definition get_network_codes :: "network_states \<Rightarrow> string list" where
  "get_network_codes ns = hm_keys ns"

definition get_network_state :: "string \<Rightarrow> network_states \<Rightarrow> network_state option" where
  "get_network_state network_code ns = hm_get ns network_code"

definition provider_update_client_latency ::
  "string \<Rightarrow> ipv4 \<Rightarrow> u32 \<Rightarrow> network_states \<Rightarrow> network_states" where
  "provider_update_client_latency network_code ip latency_ms ns =
     (case get_network_state network_code ns of
        Some s \<Rightarrow> hm_insert network_code (update_client_latency ip latency_ms s) ns
      | None \<Rightarrow> ns)"

definition provider_traffic_snapshot :: "network_states \<Rightarrow> dashboard_traffic_snapshot" where
  "provider_traffic_snapshot ns =
     fold (\<lambda>(_, network) total.
        let snapshot = network_traffic_snapshot network in
        \<lparr>tx_bytes_total = saturating_add (tx_bytes_total total) (tx_bytes_total snapshot),
         rx_bytes_total = saturating_add (rx_bytes_total total) (rx_bytes_total snapshot),
         wireguard_drops_total = saturating_add (wireguard_drops_total total) (wireguard_drops_total snapshot)\<rparr>)
       ns \<lparr>tx_bytes_total = 0, rx_bytes_total = 0, wireguard_drops_total = 0\<rparr>"

definition provider_endpoint_snapshot :: "network_states \<Rightarrow> dashboard_endpoint_snapshot" where
  "provider_endpoint_snapshot ns =
     fold (\<lambda>(_, network) total.
        let snapshot = network_endpoint_snapshot network in
        \<lparr>vnt_online = saturating_add (vnt_online total) (vnt_online snapshot),
         wireguard_online = saturating_add (wireguard_online total) (wireguard_online snapshot)\<rparr>)
       ns \<lparr>vnt_online = 0, wireguard_online = 0\<rparr>"

section \<open>The receiving client\<close>

record client_node =
  cn_ip :: ipv4
  cn_name :: string
  cn_online :: bool
  cn_node_type :: node_type

record server_node_info =
  sn_rtt :: "u32 option"
  sn_data_version :: u64
  sn_client_map :: "(ipv4, client_node) hmap"

text \<open>The client's own copy of \<open>ClientSimpleInfo::from\<close> leaves the name empty.\<close>

definition client_node_from :: "client_simple_info \<Rightarrow> client_node" where
  "client_node_from i = \<lparr>cn_ip = ci_ip i, cn_name = [], cn_online = ci_online i, cn_node_type = ci_node_type i\<rparr>"

definition node_entries :: "ipv4 \<Rightarrow> (ipv4, client_node) hmap \<Rightarrow> client_node list \<Rightarrow> (ipv4 \<times> client_node) list" where
  "node_entries self_ip known list =
     map (\<lambda>info. (cn_ip info,
            if cn_name info = [] then
              (case hm_get known (cn_ip info) of
                 Some existing \<Rightarrow> info\<lparr>cn_name := cn_name existing\<rparr>
               | None \<Rightarrow> info)
            else info))
       (filter (\<lambda>v. cn_ip v \<noteq> self_ip) list)"

definition extend_map :: "('k \<times> 'v) list \<Rightarrow> ('k, 'v) hmap \<Rightarrow> ('k, 'v) hmap" where
  "extend_map kvs m = fold (\<lambda>(k, v). hm_insert k v) kvs m"

definition update_client_simple_list ::
  "ipv4 \<Rightarrow> client_simple_info_list \<Rightarrow> i64 \<Rightarrow> server_node_info \<Rightarrow> server_node_info" where
  "update_client_simple_list self_ip l now node =
     (let rtt = (if cl_time l <s now then Some (ucast (now - cl_time l)) else sn_rtt node);
          entries = node_entries self_ip (sn_client_map node) (map client_node_from (cl_list l))
      in \<lparr>sn_rtt = rtt, sn_data_version = cl_data_version l,
          sn_client_map = (if cl_is_all l then extend_map entries [] else extend_map entries (sn_client_map node))\<rparr>)"

section \<open>Versions\<close>

text \<open>Every step advances the version by at most one, and an entry that changes in a way clients see
  carries the new version.\<close>

definition same_for_clients :: "device_entry \<Rightarrow> device_entry \<Rightarrow> bool" where
  "same_for_clients e e' \<longleftrightarrow> de_ip e' = de_ip e \<and> de_is_connected e' = de_is_connected e \<and>
     de_data_version e' = de_data_version e"

lemma same_for_clients_refl [simp]: "same_for_clients e e"
  by (simp add: same_for_clients_def)

definition versions_step :: "lease_state \<Rightarrow> lease_state \<Rightarrow> bool" where
  "versions_step g g' \<longleftrightarrow>
     data_version g' \<in> {data_version g, data_version g + 1, saturating_add (data_version g) 1} \<and>
     (\<forall>d e'. hm_get (device_map g') d = Some e' \<longrightarrow>
        (\<exists>e. hm_get (device_map g) d = Some e \<and> same_for_clients e e') \<or>
        (data_version g' = data_version g + 1 \<and> de_data_version e' = data_version g'))"

lemma versions_step_same:
  assumes "data_version g' \<in> {data_version g, data_version g + 1, saturating_add (data_version g) 1}"
    "\<And>d e'. hm_get (device_map g') d = Some e' \<Longrightarrow> \<exists>e. hm_get (device_map g) d = Some e \<and> same_for_clients e e'"
  shows "versions_step g g'"
  using assms by (simp add: versions_step_def)

lemma versions_allocate:
  assumes "allocate_ip_and_get_entry req rid c p2p now s = (r, s')"
  shows "versions_step (ns_lease s) (ns_lease s')"
proof -
  obtain x g where a: "allocate_ip (ns_net s) (ns_gateway s) req rid now (ns_lease s) = (x, g)" by fastforce
  then have s': "ns_lease s' = g"
    using assms by (auto simp: allocate_ip_and_get_entry_def Let_def drop_online_def split: sum.splits option.splits)
  show ?thesis
  proof (cases x)
    case (Inl e)
    then have "g = ns_lease s" using a allocate_ip_Inl by blast
    then show ?thesis by (simp add: s' versions_step_def)
  next
    case (Inr y)
    then obtain ip old where y: "x = Inr (ip, old)" by (cases y) simp
    obtain e where "device_map g = hm_insert (rq_device_id req) e (device_map (ns_lease s))"
        "de_data_version e = data_version (ns_lease s) + 1" "data_version g = data_version (ns_lease s) + 1"
      using allocate_ip_Inr [OF a [unfolded y]] by (auto simp: leased_entry_def)
    then show ?thesis by (auto simp: s' versions_step_def)
  qed
qed

lemma versions_offline: "offline_ip d ip rid now s = (rec, s') \<Longrightarrow> versions_step (ns_lease s) (ns_lease s')"
  by (auto simp: versions_step_def offline_ip_def inner_offline_ip_def drop_online_def Let_def
      split: option.splits if_splits)

lemma versions_remove_device: "remove_device_from_memory d s = (rip, s') \<Longrightarrow> versions_step (ns_lease s) (ns_lease s')"
  by (auto simp: versions_step_def remove_device_from_memory_def drop_online_def Let_def split: option.splits if_splits)

lemma versions_release_pre_registered: "versions_step (ns_lease s) (ns_lease (release_pre_registered_ip d ip rid s))"
  by (auto simp: versions_step_def release_pre_registered_ip_def release_pre_registered_lease_def drop_online_def
      Let_def split: option.splits if_splits)

lemma inner_remove_version: "data_version (inner_remove_devices ds g) = (if ds = [] then data_version g else data_version g + 1)"
proof -
  have "data_version (remove_device_step d g) = data_version g" for d g
    by (simp add: remove_device_step_def Let_def split: option.split)
  then have "data_version (fold remove_device_step ds g) = data_version g" for g
    by (induction ds arbitrary: g) simp_all
  then show ?thesis by (simp add: inner_remove_devices_def)
qed

lemma versions_remove_devices: "versions_step (ns_lease s) (ns_lease (remove_devices ds s))"
  by (rule versions_step_same) (auto simp: remove_devices_def inner_remove_get inner_remove_version split: if_splits)

lemma versions_confirm: "versions_step (ns_lease s) (ns_lease (confirm_endpoint ip rid s))"
  by (rule versions_step_same) (auto simp: confirm_endpoint_def split: option.splits online_endpoint.splits if_splits)

lemma versions_latency: "versions_step (ns_lease s) (ns_lease (update_client_latency ip l s))"
  by (rule versions_step_same)
    (auto simp: update_client_latency_def Let_def same_for_clients_def split: option.splits if_splits)

lemma versions_wireguard:
  "connect_wireguard_peer p ip c now t s = (b, s') \<Longrightarrow> versions_step (ns_lease s) (ns_lease s')"
  "disconnect_wireguard_peer p ip t s = (b, s') \<Longrightarrow> versions_step (ns_lease s) (ns_lease s')"
  "update_remote_wireguard_ips src ips t s = (b, s') \<Longrightarrow> versions_step (ns_lease s) (ns_lease s')"
  "remove_remote_wireguard_source src t s = (b, s') \<Longrightarrow> versions_step (ns_lease s) (ns_lease s')"
  by (auto simp: versions_step_def connect_wireguard_peer_def disconnect_wireguard_peer_def
      update_remote_wireguard_ips_def remove_remote_wireguard_source_def update_time_def
      bump_wireguard_version_def saturating_bump_wireguard_version_def Let_def split: if_splits)

lemma versions_deliver: "try_deliver mp ip data origin s = (r, s') \<Longrightarrow> versions_step (ns_lease s) (ns_lease s')"
  by (erule try_deliver_cases) (auto intro: versions_step_same)

lemma versions_record:
  "versions_step (ns_lease s) (ns_lease (record_tx_traffic ip n s))"
  "versions_step (ns_lease s) (ns_lease (record_rx_traffic ip n s))"
  by (auto simp: versions_step_def record_tx_traffic_def record_rx_traffic_def stats_update_def Let_def
      split: option.splits)

lemma versions_reservation:
  "prepare_wireguard_peer_ip_reservation p ip g = (pr, g') \<Longrightarrow> versions_step g g'"
  "versions_step g (commit_wireguard_peer_ip_reservation p ip prev g)"
  "versions_step g (rollback_wireguard_peer_ip_reservation p ip prev g)"
  "inner_release_wireguard_peer_ip p g = (b, g') \<Longrightarrow> versions_step g g'"
  by (auto simp: versions_step_def prepare_wireguard_peer_ip_reservation_def commit_wireguard_peer_ip_reservation_def
      rollback_wireguard_peer_ip_reservation_def inner_release_wireguard_peer_ip_def Let_def
      split: option.splits if_splits)

lemmas versions_ops = versions_allocate versions_offline versions_remove_device versions_release_pre_registered
  versions_remove_devices versions_confirm versions_latency versions_wireguard versions_deliver versions_record
  versions_reservation

lemma versions_net_step: "net_step s s' \<Longrightarrow> versions_step (ns_lease s) (ns_lease s')"
  by (induction rule: net_step.induct) (auto intro: versions_ops)

lemma unat_add_one: "unat (v :: u64) + 1 < 2 ^ 64 \<Longrightarrow> unat (v + 1) = unat v + 1"
  by (simp add: unat_word_ariths)

lemma saturating_add_one: "unat (v :: u64) + 1 < 2 ^ 64 \<Longrightarrow> saturating_add v 1 = v + 1"
  using unat_saturating_add [of v 1] unat_add_one [of v] by (auto simp: word_unat_eq_iff)

text \<open>After any number of steps that does not exhaust the 64 bit version, an entry is either what it
  was or newer than the version at the start.\<close>

lemma versions_reachable:
  assumes "(net_step ^^ n) s0 s" "unat (data_version (ns_lease s0)) + n < 2 ^ 64"
  shows "unat (data_version (ns_lease s0)) \<le> unat (data_version (ns_lease s)) \<and>
    unat (data_version (ns_lease s)) \<le> unat (data_version (ns_lease s0)) + n \<and>
    (\<forall>d e. hm_get (device_map (ns_lease s)) d = Some e \<longrightarrow>
       (\<exists>e0. hm_get (device_map (ns_lease s0)) d = Some e0 \<and> same_for_clients e0 e) \<or>
       (data_version (ns_lease s0) < de_data_version e \<and> de_data_version e \<le> data_version (ns_lease s)))"
  using assms
proof (induction n arbitrary: s)
  case (Suc n)
  then obtain m where m: "(net_step ^^ n) s0 m" "net_step m s" by auto
  note IH = Suc.IH [OF m(1)]
  let ?a = "data_version (ns_lease s0)" and ?b = "data_version (ns_lease m)" and ?v = "data_version (ns_lease s)"
  have b: "unat ?a \<le> unat ?b" "unat ?b \<le> unat ?a + n" using IH Suc.prems(2) by auto
  then have nw: "unat ?b + 1 < 2 ^ 64" using Suc.prems(2) by simp
  have step: "versions_step (ns_lease m) (ns_lease s)" by (rule versions_net_step [OF m(2)])
  then have "?v = ?b \<or> ?v = ?b + 1" using saturating_add_one [OF nw] by (auto simp: versions_step_def)
  then have v: "unat ?b \<le> unat ?v" "unat ?a \<le> unat ?v" "unat ?v \<le> unat ?a + Suc n" using b unat_add_one [OF nw] by auto
  have "(\<exists>e0. hm_get (device_map (ns_lease s0)) d = Some e0 \<and> same_for_clients e0 e) \<or>
      (?a < de_data_version e \<and> de_data_version e \<le> ?v)"
    if "hm_get (device_map (ns_lease s)) d = Some e" for d e
  proof -
    have "(\<exists>em. hm_get (device_map (ns_lease m)) d = Some em \<and> same_for_clients em e) \<or>
        (?v = ?b + 1 \<and> de_data_version e = ?v)"
      using that step by (simp add: versions_step_def)
    then show ?thesis
    proof
      assume "\<exists>em. hm_get (device_map (ns_lease m)) d = Some em \<and> same_for_clients em e"
      then obtain em where em: "hm_get (device_map (ns_lease m)) d = Some em" "same_for_clients em e" by blast
      then have "(\<exists>e0. hm_get (device_map (ns_lease s0)) d = Some e0 \<and> same_for_clients e0 em) \<or>
          (?a < de_data_version em \<and> de_data_version em \<le> ?b)" using IH Suc.prems(2) by simp
      then show ?thesis using em(2) v(1) by (fastforce simp: same_for_clients_def word_le_nat_alt)
    next
      assume "?v = ?b + 1 \<and> de_data_version e = ?v"
      then show ?thesis using b(1) unat_add_one [OF nw] by (simp add: word_less_nat_alt)
    qed
  qed
  with v show ?case by blast
qed auto

lemma net_step_network: "net_step s s' \<Longrightarrow> ns_net s' = ns_net s \<and> ns_gateway s' = ns_gateway s"
  by (induction rule: net_step.induct)
    (auto simp: allocate_ip_and_get_entry_def offline_ip_def remove_device_from_memory_def
      release_pre_registered_ip_def release_pre_registered_lease_def confirm_endpoint_def remove_devices_def
      update_client_latency_def connect_wireguard_peer_def disconnect_wireguard_peer_def update_time_def
      update_remote_wireguard_ips_def remove_remote_wireguard_source_def record_tx_traffic_def
      record_rx_traffic_def drop_online_def Let_def delivered_state_def count_drop_def elim!: try_deliver_cases
      split: option.splits sum.splits prod.splits if_splits online_endpoint.splits)

lemma net_steps_network: "(net_step ^^ n) s0 s \<Longrightarrow> ns_net s = ns_net s0 \<and> ns_gateway s = ns_gateway s0"
  by (induction n arbitrary: s) (auto dest!: net_step_network)

section \<open>The client map\<close>

lemma extend_map_get:
  "hm_get (extend_map kvs m) k = (case map_of (rev kvs) k of Some v \<Rightarrow> Some v | None \<Rightarrow> hm_get m k)"
  unfolding extend_map_def
  by (induction kvs arbitrary: m) (auto simp: map_add_def split: option.split)

lemma extend_map_hit:
  assumes "(k, v) \<in> set kvs" "\<And>w. (k, w) \<in> set kvs \<Longrightarrow> Q w"
  shows "\<exists>w. hm_get (extend_map kvs m) k = Some w \<and> Q w"
proof -
  obtain w where w: "map_of (rev kvs) k = Some w"
    using assms(1) by (metis map_of_eq_None_iff not_None_eq set_rev image_eqI fst_conv)
  then have "Q w" using assms(2) map_of_SomeD [OF w] by simp
  with w show ?thesis by (simp add: extend_map_get)
qed

lemma extend_map_miss: "k \<notin> fst ` set kvs \<Longrightarrow> hm_get (extend_map kvs m) k = hm_get m k"
  by (simp add: extend_map_get map_of_eq_None_iff [THEN iffD2] split: option.split)

lemma node_entriesD:
  "(k, c) \<in> set (node_entries self known (map client_node_from l)) \<Longrightarrow>
     \<exists>i \<in> set l. ci_ip i = k \<and> k \<noteq> self \<and> cn_online c = ci_online i \<and> cn_node_type c = ci_node_type i"
  by (auto simp: node_entries_def client_node_from_def split: option.splits)

lemma node_entries_keys:
  "fst ` set (node_entries self known (map client_node_from l)) = ci_ip ` set l - {self}"
  by (force simp: node_entries_def client_node_from_def)

lemma vnt_infos_iff:
  "hm_ok m \<Longrightarrow> i \<in> set (concat (map vnt_client_info (filter Q (hm_values m)))) \<longleftrightarrow>
     (\<exists>d e. hm_get m d = Some e \<and> Q e \<and> de_ip e = Some (ci_ip i) \<and> ci_online i = de_is_connected e \<and>
        ci_node_type i = NodeVnt)"
  by (cases i) (auto simp: hm_get_cong_values vnt_client_info_def split: option.splits, force+)

definition host_address :: "network_state \<Rightarrow> ipv4 \<Rightarrow> bool" where
  "host_address s ip \<longleftrightarrow> net_contains (ns_net s) ip \<and> ip \<noteq> ns_gateway s"

text \<open>The client's map is right about the devices of the network, as far as other host addresses go.\<close>

definition view_ok :: "ipv4 \<Rightarrow> network_state \<Rightarrow> (ipv4, client_node) hmap \<Rightarrow> bool" where
  "view_ok self s m \<longleftrightarrow>
     (\<forall>d e ip. hm_get (device_map (ns_lease s)) d = Some e \<longrightarrow> de_ip e = Some ip \<longrightarrow> host_address s ip \<longrightarrow> ip \<noteq> self \<longrightarrow>
        (\<exists>c. hm_get m ip = Some c \<and> cn_online c = de_is_connected e \<and> cn_node_type c = NodeVnt))"

lemma device_at_unique:
  assumes "session_inv s" "hm_get (device_map (ns_lease s)) d = Some e" "de_ip e = Some ip"
    "hm_get (device_map (ns_lease s)) d' = Some e'" "de_ip e' = Some ip" "host_address s ip"
  shows "d' = d" "e' = e"
proof -
  show "d' = d" using holds_unique [OF session_invD(3) [OF assms(1)], of ip "VntDevice d'" "VntDevice d"] assms(2-6)
    by (simp add: host_address_def)
  then show "e' = e" using assms(2,4) by simp
qed

lemma delta_correct:
  assumes "session_inv s" "hm_get (device_map (ns_lease s)) d = Some e" "de_ip e = Some ip" "host_address s ip" "ip \<noteq> self"
    and "Q e \<or> (\<exists>c. hm_get m ip = Some c \<and> cn_online c = de_is_connected e \<and> cn_node_type c = NodeVnt)"
  shows "\<exists>c. hm_get (extend_map (node_entries self known (map client_node_from
      (concat (map vnt_client_info (filter Q (hm_values (device_map (ns_lease s)))))))) m) ip = Some c \<and>
    cn_online c = de_is_connected e \<and> cn_node_type c = NodeVnt"
proof -
  let ?l = "concat (map vnt_client_info (filter Q (hm_values (device_map (ns_lease s)))))"
  let ?E = "node_entries self known (map client_node_from ?l)"
  have ok: "hm_ok (device_map (ns_lease s))" using session_invD(3) [OF assms(1)] by (simp add: lease_inv_def)
  have all: "cn_online c = de_is_connected e \<and> cn_node_type c = NodeVnt" if m: "(ip, c) \<in> set ?E" for c
  proof -
    obtain i where i: "i \<in> set ?l" "ci_ip i = ip" "cn_online c = ci_online i" "cn_node_type c = ci_node_type i"
      using node_entriesD [OF m] by blast
    then obtain d' e' where "hm_get (device_map (ns_lease s)) d' = Some e'" "de_ip e' = Some ip"
        "ci_online i = de_is_connected e'" "ci_node_type i = NodeVnt"
      using vnt_infos_iff [OF ok] by metis
    then show ?thesis using device_at_unique(2) [OF assms(1-3) _ _ assms(4)] i by auto
  qed
  show ?thesis
  proof (cases "ip \<in> fst ` set ?E")
    case True
    then obtain c where "(ip, c) \<in> set ?E" by force
    from extend_map_hit [OF this, of "\<lambda>c. cn_online c = de_is_connected e \<and> cn_node_type c = NodeVnt"] all
    show ?thesis by blast
  next
    case False
    have "ip \<in> fst ` set ?E" if "Q e"
    proof -
      have "\<lparr>ci_ip = ip, ci_online = de_is_connected e, ci_node_type = NodeVnt\<rparr> \<in> set ?l"
        unfolding vnt_infos_iff [OF ok] using assms(2,3) that by auto
      then show ?thesis using assms(5) unfolding node_entries_keys by force
    qed
    then have "\<not> Q e" using False by blast
    then show ?thesis using assms(6) extend_map_miss [OF False] by auto
  qed
qed

section \<open>Properties\<close>


definition wit_node :: server_node_info where
  "wit_node = \<lparr>sn_rtt = None, sn_data_version = 0, sn_client_map = []\<rparr>"

lemma wit_ns_inv: "session_inv wit_ns"
  using session_inv_new [OF wit_net_ok wit_db] by (simp add: wit_ns_def)

lemma wit_ns_empty: "device_map (ns_lease wit_ns) = []" "data_version (ns_lease wit_ns) = 0"
  by (simp_all add: wit_ns_lease wit_init_def build_initial_inner_state_def empty_lease_state_def)


text \<open>C39. Removals are not reported.  When a device is removed, a client that was up to date gets an
  incremental list that does not mention its address, and the client merges it into its map: the
  removed device stays in the client's map as it was.\<close>

theorem removed_device_not_reported:
  assumes "session_inv s" "remove_device_from_memory d s = (Some ip, s')" "host_address s ip"
    and "unat (data_version (ns_lease s)) + 1 < 2 ^ 64" "sn_data_version node = data_version (ns_lease s)"
  shows "\<exists>l. changed_client_simple_list self (sn_data_version node) False s' = Some l \<and> \<not> cl_is_all l \<and>
    ip \<notin> ci_ip ` set (cl_list l) \<and>
    hm_get (sn_client_map (update_client_simple_list self (l\<lparr>cl_time := t\<rparr>) now node)) ip = hm_get (sn_client_map node) ip"
proof -
  let ?a = "data_version (ns_lease s)"
  obtain e where e: "hm_get (device_map (ns_lease s)) d = Some e" "de_ip e = Some ip"
    and s': "device_map (ns_lease s') = hm_remove d (device_map (ns_lease s))" "data_version (ns_lease s') = ?a + 1"
    using assms(2) by (auto simp: remove_device_from_memory_def drop_online_def Let_def split: option.splits)
  have ok: "hm_ok (device_map (ns_lease s'))" using session_invD(3) [OF assms(1)] by (simp add: lease_inv_def s')
  have lt: "?a < ?a + 1" using unat_add_one [OF assms(4)] by (simp add: word_less_nat_alt)
  define l where "l = \<lparr>cl_data_version = ?a + 1, cl_list = concat (map vnt_client_info
      (filter (\<lambda>v. de_data_version v > ?a \<and> de_ip v \<noteq> None \<and> de_ip v \<noteq> Some self) (hm_values (device_map (ns_lease s'))))),
      cl_is_all = False, cl_time = 0\<rparr>"
  have c: "changed_client_simple_list self (sn_data_version node) False s' = Some l"
    using lt by (auto simp: changed_client_simple_list_def Let_def assms(5) s'(2) l_def)
  have no: "ip \<notin> ci_ip ` set (cl_list l)"
  proof
    assume "ip \<in> ci_ip ` set (cl_list l)"
    then obtain i where "i \<in> set (cl_list l)" "ci_ip i = ip" by blast
    then obtain d' e' where d': "hm_get (device_map (ns_lease s')) d' = Some e'" "de_ip e' = Some ip"
      unfolding l_def client_simple_info_list.simps vnt_infos_iff [OF ok] by auto
    then have "d' \<noteq> d" "hm_get (device_map (ns_lease s)) d' = Some e'" by (auto simp: s'(1) split: if_splits)
    then show False using device_at_unique(1) [OF assms(1) e _ d'(2) assms(3)] by blast
  qed
  have "hm_get (sn_client_map (update_client_simple_list self (l\<lparr>cl_time := t\<rparr>) now node)) ip = hm_get (sn_client_map node) ip"
    using no extend_map_miss [of ip "node_entries self (sn_client_map node) (map client_node_from (cl_list l))"]
    by (simp add: update_client_simple_list_def Let_def l_def node_entries_keys)
  with c no show ?thesis by (intro exI [of _ l]) (simp add: l_def)
qed

theorem removed_device_not_reported_witness:
  "\<exists>s' l. remove_device_from_memory ''a'' wit_ns1 = (Some (ip4 10 26 0 2), s') \<and>
     changed_client_simple_list (ip4 10 26 0 9) 1 False s' = Some l \<and> \<not> cl_is_all l \<and> ip4 10 26 0 2 \<notin> ci_ip ` set (cl_list l)"
proof -
  obtain s' where s': "remove_device_from_memory ''a'' wit_ns1 = (Some (ip4 10 26 0 2), s')"
    by (simp add: remove_device_from_memory_def Let_def wit_one_eq hm_get_def)
  have "host_address wit_ns1 (ip4 10 26 0 2)" by (simp add: host_address_def wit_net_def wit_gw_def witness_eval)
  from removed_device_not_reported [OF wit_ns1_inv s' this, of "wit_node\<lparr>sn_data_version := 1\<rparr>" "ip4 10 26 0 9" 0 0] s'
  show ?thesis by (auto simp: wit_one_eq)
qed

end
