(* ===== verification/Network_Peers.thy ===== *)
theory Network_Peers
  imports Network_Views
begin

text \<open>
  The WireGuard peers of a network and their addresses
  (official-vnts-source-2.0.0/src/server/network_state_provider.rs).

  These operations hold \<open>wireguard_ip_update_lock\<close> from the first to the last access, so two of them
  never overlap; the lock of the lease table is taken only for the single accesses, and VNT devices
  come and go while the database is awaited.  \<open>persist\<close> and \<open>revoke\<close> are the outcomes of the database
  write and of the session revocation, and \<open>env\<close> is what the other tasks do to the state during the
  await.
\<close>

record wireguard_peer_record =
  pe_network_code :: string
  pe_peer_id :: string
  pe_public_key :: bytes
  pe_enabled :: bool
  pe_created_at :: i64
  pe_updated_at :: i64

record wireguard_peer_delete_result =
  peer_removed :: bool
  ip_released :: bool

datatype peer_error =
    PeerLease lease_error | PeerDb string | PeerRevoke string | PeerIdBlank
  | PeerMissingAfterUpdate | PeerIpOutsideNetwork | PeerIpIsGateway

definition on_lease :: "(lease_state \<Rightarrow> lease_state) \<Rightarrow> network_state \<Rightarrow> network_state" where
  "on_lease f s = s\<lparr>ns_lease := f (ns_lease s)\<rparr>"

definition list_wireguard_peer_ips :: "network_state \<Rightarrow> (string \<times> ipv4) list" where
  "list_wireguard_peer_ips s =
     sort_key fst (map (\<lambda>(ip, peer_id). (peer_id, ip)) (wireguard_peer_ip_map (ns_lease s)))"

definition create_wireguard_peer ::
  "wireguard_peer_record \<Rightarrow> string + unit \<Rightarrow> (network_state \<Rightarrow> network_state) \<Rightarrow> network_state \<Rightarrow>
   (peer_error + ipv4 option) \<times> network_state" where
  "create_wireguard_peer rec persist env s =
     (let s = env s in
      case persist of
        Inl e \<Rightarrow> (Inl (PeerDb e), s)
      | Inr _ \<Rightarrow> (Inr (wireguard_peer_ip (ns_lease s) (pe_peer_id rec)), s))"

text \<open>The part the three reserving operations share: the database write between \<open>prepare\<close> and
  \<open>commit\<close> or \<open>rollback\<close>.\<close>

definition finish_reservation ::
  "string \<Rightarrow> ipv4 \<Rightarrow> ipv4 option \<Rightarrow> string + unit \<Rightarrow> (network_state \<Rightarrow> network_state) \<Rightarrow> nat \<Rightarrow>
   network_state \<Rightarrow> (peer_error + unit) \<times> network_state" where
  "finish_reservation peer_id ip previous_ip persist env instant s =
     (let s = env s in
      case persist of
        Inl e \<Rightarrow> (Inl (PeerDb e), on_lease (rollback_wireguard_peer_ip_reservation peer_id ip previous_ip) s)
      | Inr _ \<Rightarrow>
          (Inr (), update_time instant
             (on_lease (commit_wireguard_peer_ip_reservation peer_id ip previous_ip) s)))"

definition create_wireguard_peer_with_automatic_ip ::
  "wireguard_peer_record \<Rightarrow> string + unit \<Rightarrow> (network_state \<Rightarrow> network_state) \<Rightarrow> nat \<Rightarrow> network_state \<Rightarrow>
   (peer_error + ipv4) \<times> network_state" where
  "create_wireguard_peer_with_automatic_ip rec persist env instant s =
     (case find_available_ip (ns_net s) (ns_gateway s) (ns_lease s) of
        Inl e \<Rightarrow> (Inl (PeerLease e), s)
      | Inr ip \<Rightarrow>
          (case prepare_wireguard_peer_ip_reservation (pe_peer_id rec) ip (ns_lease s) of
             (Inl e, g) \<Rightarrow> (Inl (PeerLease e), s\<lparr>ns_lease := g\<rparr>)
           | (Inr _, g) \<Rightarrow>
               (case finish_reservation (pe_peer_id rec) ip None persist env instant (s\<lparr>ns_lease := g\<rparr>) of
                  (Inl e, s) \<Rightarrow> (Inl e, s)
                | (Inr _, s) \<Rightarrow> (Inr ip, s))))"

definition create_wireguard_peer_with_ip ::
  "wireguard_peer_record \<Rightarrow> ipv4 \<Rightarrow> string + unit \<Rightarrow> (network_state \<Rightarrow> network_state) \<Rightarrow> nat \<Rightarrow>
   network_state \<Rightarrow> (peer_error + ipv4) \<times> network_state" where
  "create_wireguard_peer_with_ip rec ip persist env instant s =
     (case prepare_wireguard_peer_ip_reservation (pe_peer_id rec) ip (ns_lease s) of
        (Inl e, g) \<Rightarrow> (Inl (PeerLease e), s\<lparr>ns_lease := g\<rparr>)
      | (Inr previous_ip, g) \<Rightarrow>
          (case finish_reservation (pe_peer_id rec) ip previous_ip persist env instant (s\<lparr>ns_lease := g\<rparr>) of
             (Inl e, s) \<Rightarrow> (Inl e, s)
           | (Inr _, s) \<Rightarrow> (Inr ip, s)))"

definition list_wireguard_peers ::
  "string + wireguard_peer_record list \<Rightarrow> network_state \<Rightarrow>
   peer_error + (wireguard_peer_record \<times> ipv4 option) list" where
  "list_wireguard_peers peers s =
     (case peers of
        Inl e \<Rightarrow> Inl (PeerDb e)
      | Inr ps \<Rightarrow> Inr (map (\<lambda>peer. (peer, wireguard_peer_ip (ns_lease s) (pe_peer_id peer))) ps))"

definition set_wireguard_peer_enabled ::
  "string \<Rightarrow> bool \<Rightarrow> string + bool \<Rightarrow> string + wireguard_peer_record option \<Rightarrow> string + unit \<Rightarrow> network_state \<Rightarrow>
   peer_error + (wireguard_peer_record \<times> ipv4 option) option" where
  "set_wireguard_peer_enabled peer_id enabled updated loaded revoke s =
     (case updated of
        Inl e \<Rightarrow> Inl (PeerDb e)
      | Inr False \<Rightarrow> Inr None
      | Inr True \<Rightarrow>
          (case loaded of
             Inl e \<Rightarrow> Inl (PeerDb e)
           | Inr None \<Rightarrow> Inl PeerMissingAfterUpdate
           | Inr (Some peer) \<Rightarrow>
               let ip = wireguard_peer_ip (ns_lease s) peer_id in
               if \<not> enabled then
                 (case revoke of Inl e \<Rightarrow> Inl (PeerRevoke e) | Inr _ \<Rightarrow> Inr (Some (peer, ip)))
               else Inr (Some (peer, ip))))"

definition delete_wireguard_peer_with ::
  "string \<Rightarrow> string + wireguard_peer_delete_result \<Rightarrow> string + unit \<Rightarrow> (network_state \<Rightarrow> network_state) \<Rightarrow> nat \<Rightarrow>
   network_state \<Rightarrow> (peer_error + wireguard_peer_delete_result) \<times> network_state" where
  "delete_wireguard_peer_with peer_id persist revoke env instant s =
     (if str_blank peer_id then (Inl PeerIdBlank, s)
      else let s = env s in
      case persist of
        Inl e \<Rightarrow> (Inl (PeerDb e), s)
      | Inr result \<Rightarrow>
          (case inner_release_wireguard_peer_ip peer_id (ns_lease s) of (memory_removed, g) \<Rightarrow>
             let result = result\<lparr>ip_released := ip_released result \<or> memory_removed\<rparr>;
                 s = s\<lparr>ns_lease := g\<rparr>;
                 s = (if memory_removed then update_time instant s else s)
             in case revoke of Inl e \<Rightarrow> (Inl (PeerRevoke e), s) | Inr _ \<Rightarrow> (Inr result, s)))"

definition reserve_wireguard_peer_ip_with ::
  "string \<Rightarrow> ipv4 \<Rightarrow> string + unit \<Rightarrow> (network_state \<Rightarrow> network_state) \<Rightarrow> nat \<Rightarrow> network_state \<Rightarrow>
   (peer_error + bool) \<times> network_state" where
  "reserve_wireguard_peer_ip_with peer_id ip persist env instant s =
     (if str_blank peer_id then (Inl PeerIdBlank, s)
      else if \<not> net_contains (ns_net s) ip then (Inl PeerIpOutsideNetwork, s)
      else if ip = ns_gateway s then (Inl PeerIpIsGateway, s)
      else case prepare_wireguard_peer_ip_reservation peer_id ip (ns_lease s) of
             (Inl e, g) \<Rightarrow> (Inl (PeerLease e), s\<lparr>ns_lease := g\<rparr>)
           | (Inr previous_ip, g) \<Rightarrow>
               (case finish_reservation peer_id ip previous_ip persist env instant (s\<lparr>ns_lease := g\<rparr>) of
                  (Inl e, s) \<Rightarrow> (Inl e, s)
                | (Inr _, s) \<Rightarrow>
                    (Inr (case previous_ip of Some previous_ip \<Rightarrow> previous_ip \<noteq> ip | None \<Rightarrow> False), s)))"

definition reserve_wireguard_peer_ip ::
  "string \<Rightarrow> ipv4 \<Rightarrow> string + unit \<Rightarrow> string + unit \<Rightarrow> (network_state \<Rightarrow> network_state) \<Rightarrow> nat \<Rightarrow> network_state \<Rightarrow>
   (peer_error + unit) \<times> network_state" where
  "reserve_wireguard_peer_ip peer_id ip persist revoke env instant s =
     (case reserve_wireguard_peer_ip_with peer_id ip persist env instant s of
        (Inl e, s) \<Rightarrow> (Inl e, s)
      | (Inr changed, s) \<Rightarrow>
          if changed then (case revoke of Inl e \<Rightarrow> (Inl (PeerRevoke e), s) | Inr _ \<Rightarrow> (Inr (), s))
          else (Inr (), s))"

definition release_wireguard_peer_ip_with ::
  "string \<Rightarrow> string + bool \<Rightarrow> (network_state \<Rightarrow> network_state) \<Rightarrow> nat \<Rightarrow> network_state \<Rightarrow>
   (peer_error + bool) \<times> network_state" where
  "release_wireguard_peer_ip_with peer_id persist env instant s =
     (if str_blank peer_id then (Inl PeerIdBlank, s)
      else let s = env s in
      case persist of
        Inl e \<Rightarrow> (Inl (PeerDb e), s)
      | Inr database_removed \<Rightarrow>
          (case inner_release_wireguard_peer_ip peer_id (ns_lease s) of (memory_removed, g) \<Rightarrow>
             let s = s\<lparr>ns_lease := g\<rparr>;
                 s = (if memory_removed then update_time instant s else s)
             in (Inr (database_removed \<or> memory_removed), s)))"

definition release_wireguard_peer_ip ::
  "string \<Rightarrow> string + bool \<Rightarrow> string + unit \<Rightarrow> (network_state \<Rightarrow> network_state) \<Rightarrow> nat \<Rightarrow> network_state \<Rightarrow>
   (peer_error + bool) \<times> network_state" where
  "release_wireguard_peer_ip peer_id persist revoke env instant s =
     (case release_wireguard_peer_ip_with peer_id persist env instant s of
        (Inl e, s) \<Rightarrow> (Inl e, s)
      | (Inr removed, s) \<Rightarrow>
          if removed then (case revoke of Inl e \<Rightarrow> (Inl (PeerRevoke e), s) | Inr _ \<Rightarrow> (Inr removed, s))
          else (Inr removed, s))"

section \<open>What other tasks do meanwhile\<close>

text \<open>While the update lock is held, the operations of VNT devices, of WireGuard sessions and of the
  delivery paths may run, but no operation on the reservations.\<close>

definition reservations :: "network_state \<Rightarrow> ipv4 \<rightharpoonup> string" where
  "reservations s = hm_get (wireguard_peer_ip_map (ns_lease s))"

lemma reservations_upd [simp]:
  "reservations (s\<lparr>ns_lease := g\<rparr>) = hm_get (wireguard_peer_ip_map g)"
  "reservations (update_time t s) = reservations s"
  by (simp_all add: reservations_def update_time_def)

definition respects_lock :: "(network_state \<Rightarrow> network_state) \<Rightarrow> bool" where
  "respects_lock env \<longleftrightarrow> (\<forall>s. wireguard_peer_ip_map (ns_lease (env s)) = wireguard_peer_ip_map (ns_lease s))"

lemma respects_lockD: "respects_lock env \<Longrightarrow> wireguard_peer_ip_map (ns_lease (env s)) = wireguard_peer_ip_map (ns_lease s)"
  by (simp add: respects_lock_def)

text \<open>Operations that may run during the await.\<close>

lemma respects_lock_allocate: "respects_lock (\<lambda>s. snd (allocate_ip_and_get_entry req rid c p2p now s))"
  unfolding respects_lock_def
proof
  fix s :: network_state
  obtain x g where a: "allocate_ip (ns_net s) (ns_gateway s) req rid now (ns_lease s) = (x, g)" by fastforce
  from allocate_ip_keeps_reservations [OF a]
  show "wireguard_peer_ip_map (ns_lease (snd (allocate_ip_and_get_entry req rid c p2p now s))) =
      wireguard_peer_ip_map (ns_lease s)"
    by (auto simp: allocate_ip_and_get_entry_def Let_def a drop_online_def split: sum.split option.split prod.split)
qed

lemma respects_lock_offline: "respects_lock (\<lambda>s. snd (offline_ip d ip rid now s))"
  by (auto simp: respects_lock_def offline_ip_def inner_offline_ip_def drop_online_def Let_def split: option.split)

lemma respects_lock_comp: "respects_lock f \<Longrightarrow> respects_lock g \<Longrightarrow> respects_lock (f \<circ> g)"
  by (simp add: respects_lock_def)

section \<open>Outcomes\<close>

definition peer_unique :: "(ipv4 \<rightharpoonup> string) \<Rightarrow> bool" where
  "peer_unique wm \<longleftrightarrow> one_each wm {}"

text \<open>\<open>prepare\<close> returns the address the peer has, if any.\<close>

lemma prepare_previous:
  assumes "hm_ok (wireguard_peer_ip_map (ns_lease s))" "peer_unique (reservations s)"
    and "prepare_wireguard_peer_ip_reservation p ip (ns_lease s) = (Inr prev, g)"
  shows "prev = Some i \<longleftrightarrow> reservations s i = Some p"
proof -
  note pr = prepare_Inr(1) [OF assms(3)]
  have found: "reservations s j = Some p" if "prev = Some j" for j
    using wireguard_peer_ip_Some [OF assms(1)] pr that by (simp add: reservations_def)
  have "prev = Some i" if i: "reservations s i = Some p"
  proof (cases prev)
    case None then show ?thesis using wireguard_peer_ip_None [OF assms(1), of p] pr i by (simp add: reservations_def)
  next
    case (Some j)
    then show ?thesis using found i assms(2) unfolding peer_unique_def one_each_def by blast
  qed
  then show ?thesis using found by blast
qed

lemma finish_reservation_outcome:
  assumes "respects_lock env" "hm_ok (wireguard_peer_ip_map (ns_lease s))" "peer_unique (reservations s)"
    and "prepare_wireguard_peer_ip_reservation p ip (ns_lease s) = (Inr prev, g)"
    and "finish_reservation p ip prev persist env t (s\<lparr>ns_lease := g\<rparr>) = (r, s')"
  shows "case persist of
      Inl e \<Rightarrow> r = Inl (PeerDb e) \<and> reservations s' = reservations s
    | Inr _ \<Rightarrow> r = Inr () \<and> reservations s' ip = Some p \<and>
        (\<forall>i. i \<noteq> ip \<longrightarrow> reservations s' i = (if reservations s i = Some p then None else reservations s i))"
proof -
  let ?wm = "reservations s"
  note pr = prepare_Inr [OF assms(4)]
  let ?e = "env (s\<lparr>ns_lease := g\<rparr>)"
  have e: "hm_get (wireguard_peer_ip_map (ns_lease ?e)) = ?wm(ip \<mapsto> p)"
    using respects_lockD [OF assms(1)] pr(4) by (simp add: reservations_def)
  have prev: "prev = Some i \<longleftrightarrow> ?wm i = Some p" for i by (rule prepare_previous [OF assms(2-4)])
  show ?thesis
  proof (cases persist)
    case (Inl err)
    then have s': "r = Inl (PeerDb err)" "reservations s' = (if prev \<noteq> Some ip then (?wm(ip \<mapsto> p))(ip := None) else ?wm(ip \<mapsto> p))"
      using assms(5) e by (auto simp: finish_reservation_def on_lease_def rollback_wireguard_peer_ip_reservation_def
          reservations_def Let_def)
    have "?wm ip = None" if "prev \<noteq> Some ip" using prev [of ip] that pr(3) by (auto simp: reservations_def)
    moreover have "?wm ip = Some p" if "prev = Some ip" using prev [of ip] that by simp
    ultimately have "reservations s' = ?wm" using s'(2) by (auto simp: fun_eq_iff)
    then show ?thesis using Inl s'(1) by simp
  next
    case (Inr u)
    have r: "r = Inr ()" and s': "reservations s' =
        hm_get (wireguard_peer_ip_map (commit_wireguard_peer_ip_reservation p ip prev (ns_lease ?e)))"
      using assms(5) Inr by (auto simp: finish_reservation_def on_lease_def Let_def)
    have "reservations s' ip = Some p \<and>
        (\<forall>i. i \<noteq> ip \<longrightarrow> reservations s' i = (if ?wm i = Some p then None else ?wm i))"
    proof (cases prev)
      case None
      then have "reservations s' = ?wm(ip \<mapsto> p)" using s' e by (simp add: commit_wireguard_peer_ip_reservation_def)
      then show ?thesis using prev None by auto
    next
      case (Some q)
      have q: "?wm i = Some p \<longleftrightarrow> i = q" for i using prev [of i] Some by auto
      then have "reservations s' = (if q \<noteq> ip then (?wm(ip \<mapsto> p))(q := None) else ?wm(ip \<mapsto> p))"
        using s' e Some by (simp add: commit_wireguard_peer_ip_reservation_def)
      then show ?thesis using q by auto
    qed
    then show ?thesis using Inr r by simp
  qed
qed

lemma length_filter_all: "length (filter Q xs) = length xs \<longleftrightarrow> (\<forall>x \<in> set xs. Q x)"
  by (metis filter_True length_filter_less less_not_refl)

lemma prepare_Inl: "prepare_wireguard_peer_ip_reservation p ip g = (Inl e, g') \<Longrightarrow> g' = g"
  by (auto simp: prepare_wireguard_peer_ip_reservation_def split: option.splits if_splits)

text \<open>The reservations after the peer \<open>p\<close> has moved to the address \<open>ip\<close>.\<close>

definition moved :: "string \<Rightarrow> ipv4 \<Rightarrow> (ipv4 \<rightharpoonup> string) \<Rightarrow> ipv4 \<rightharpoonup> string" where
  "moved p ip wm i = (if i = ip then Some p else if wm i = Some p then None else wm i)"

lemma moved_unique: "peer_unique wm \<Longrightarrow> peer_unique (moved p ip wm)"
  unfolding peer_unique_def one_each_def moved_def by (metis option.distinct(1) option.inject)

section \<open>Properties\<close>

text \<open>C15. Moving a WireGuard peer to an address.  Whatever VNT devices do while the database is written,
  the operation either fails and leaves every reservation as it was, or succeeds and the requested
  host address becomes the only address of the peer while no other peer's address changes; it
  reports a change exactly when the peer had another address before, which is when its session is
  revoked.\<close>

theorem peer_move_outcome:
  assumes "respects_lock env" "hm_ok (wireguard_peer_ip_map (ns_lease s))" "peer_unique (reservations s)"
    and "reserve_wireguard_peer_ip_with p ip persist env t s = (r, s')"
  shows "(\<forall>e. r = Inl e \<longrightarrow> reservations s' = reservations s) \<and>
    (\<forall>changed. r = Inr changed \<longrightarrow>
       persist = Inr () \<and> \<not> str_blank p \<and> net_contains (ns_net s) ip \<and> ip \<noteq> ns_gateway s \<and>
       hm_get (device_ip_map (ns_lease s)) ip = None \<and>
       reservations s' = (\<lambda>i. if i = ip then Some p else if reservations s i = Some p then None else reservations s i) \<and>
       peer_unique (reservations s') \<and>
       (changed \<longleftrightarrow> (\<exists>i. i \<noteq> ip \<and> reservations s i = Some p)))"
proof (cases "str_blank p \<or> \<not> net_contains (ns_net s) ip \<or> ip = ns_gateway s")
  case True
  then have "\<exists>e. r = Inl e" "s' = s" using assms(4) by (auto simp: reserve_wireguard_peer_ip_with_def split: if_splits)
  then show ?thesis by auto
next
  case False
  obtain x g where pr: "prepare_wireguard_peer_ip_reservation p ip (ns_lease s) = (x, g)" by fastforce
  show ?thesis
  proof (cases x)
    case (Inl e)
    then show ?thesis using assms(4) False pr prepare_Inl [of p ip "ns_lease s" e g]
      by (auto simp: reserve_wireguard_peer_ip_with_def)
  next
    case (Inr prev)
    note pr = pr [unfolded Inr]
    obtain y s2 where f: "finish_reservation p ip prev persist env t (s\<lparr>ns_lease := g\<rparr>) = (y, s2)" by fastforce
    note out = finish_reservation_outcome [OF assms(1-3) pr f]
    have s': "s' = s2" and r: "r = (case y of Inl e \<Rightarrow> Inl e | Inr _ \<Rightarrow> Inr (case prev of Some q \<Rightarrow> q \<noteq> ip | None \<Rightarrow> False))"
      using assms(4) False pr f by (auto simp: reserve_wireguard_peer_ip_with_def split: sum.splits)
    have prev: "(case prev of Some q \<Rightarrow> q \<noteq> ip | None \<Rightarrow> False) \<longleftrightarrow> (\<exists>i. i \<noteq> ip \<and> reservations s i = Some p)"
      unfolding prepare_previous [OF assms(2,3) pr, symmetric] by (auto split: option.split)
    show ?thesis
    proof (cases persist)
      case (Inl e) then show ?thesis using out s' r by simp
    next
      case (Inr u)
      then have "reservations s2 = moved p ip (reservations s)" and y: "y = Inr ()"
        using out by (auto simp: fun_eq_iff moved_def)
      moreover have "hm_get (device_ip_map (ns_lease s)) ip = None" by (rule prepare_Inr(2) [OF pr])
      ultimately show ?thesis using s' r prev Inr False moved_unique [OF assms(3), of p ip]
        by (auto simp: moved_def [abs_def])
    qed
  qed
qed

lemma wit_ns1_reservations: "wireguard_peer_ip_map wit_one = []"
  by (simp add: wit_one_eq)

lemma wit_ns1_unique: "hm_ok (wireguard_peer_ip_map (ns_lease wit_ns1))" "peer_unique (reservations wit_ns1)"
  by (simp_all add: reservations_def wit_ns1_reservations peer_unique_def one_each_def)

theorem peer_move_outcome_witness:
  "\<exists>s'. reserve_wireguard_peer_ip_with ''p'' (ip4 10 26 0 9) (Inr ())
       (\<lambda>s. snd (allocate_ip_and_get_entry (wit_reg ''b'' None False) 8 1 None 0 s)) 0 wit_ns1 = (Inr False, s') \<and>
     reservations s' (ip4 10 26 0 9) = Some ''p''"
proof -
  let ?env = "\<lambda>s. snd (allocate_ip_and_get_entry (wit_reg ''b'' None False) 8 1 None 0 s)"
  have "\<not> str_blank ''p''" by (simp add: str_blank.simps strip_ws_def)
  moreover have "net_contains (ns_net wit_ns1) (ip4 10 26 0 9)" "ip4 10 26 0 9 \<noteq> ns_gateway wit_ns1"
    by (simp_all add: wit_net_def wit_gw_def witness_eval)
  ultimately obtain s' where e: "reserve_wireguard_peer_ip_with ''p'' (ip4 10 26 0 9) (Inr ()) ?env 0 wit_ns1 = (Inr False, s')"
    by (simp add: reserve_wireguard_peer_ip_with_def wit_prepare finish_reservation_def Let_def)
  from peer_move_outcome [OF respects_lock_allocate wit_ns1_unique e] e show ?thesis by auto
qed

text \<open>C31. Creating a WireGuard peer with an automatic address.  For a peer without an address, success
  means that the least free host address at the time of the call is now its only address; failure
  (an exhausted network, or a database error) leaves every reservation as it was.\<close>

theorem peer_create_outcome:
  assumes "respects_lock env" "hm_ok (wireguard_peer_ip_map (ns_lease s))" "peer_unique (reservations s)"
    and "net_network (ns_net s) \<noteq> - 1" "\<And>i. reservations s i \<noteq> Some (pe_peer_id rec)"
    and "create_wireguard_peer_with_automatic_ip rec persist env t s = (r, s')"
  shows "(\<forall>e. r = Inl e \<longrightarrow> reservations s' = reservations s \<and>
      (e = PeerLease IpExhaustion \<or> (\<exists>m. persist = Inl m \<and> e = PeerDb m))) \<and>
    (\<forall>ip. r = Inr ip \<longrightarrow>
       reservations s' = (reservations s)(ip \<mapsto> pe_peer_id rec) \<and>
       \<not> ip_taken (ns_gateway s) (ns_lease s) ip \<and>
       net_network (ns_net s) < ip \<and> ip < net_broadcast (ns_net s) \<and>
       (\<forall>a. net_network (ns_net s) < a \<and> a < ip \<longrightarrow> ip_taken (ns_gateway s) (ns_lease s) a))"
proof (cases "find_available_ip (ns_net s) (ns_gateway s) (ns_lease s)")
  case (Inl e)
  then have "e = IpExhaustion" by (rule pool.error_is_exhausted)
  then show ?thesis using assms(6) Inl by (auto simp: create_wireguard_peer_with_automatic_ip_def)
next
  case (Inr ip)
  let ?p = "pe_peer_id rec"
  note free = pool.found_iff [OF assms(4), THEN iffD1, OF Inr]
  then have nt: "\<not> ip_taken (ns_gateway s) (ns_lease s) ip" by simp
  then have un: "hm_get (device_ip_map (ns_lease s)) ip = None" "reservations s ip = None"
    by (simp_all add: ip_taken_def hm_contains_def reservations_def)
  have none: "wireguard_peer_ip (ns_lease s) ?p = None"
    using wireguard_peer_ip_None [OF assms(2)] assms(5) by (simp add: reservations_def)
  then obtain g where pr: "prepare_wireguard_peer_ip_reservation ?p ip (ns_lease s) = (Inr None, g)"
    using un by (simp add: prepare_wireguard_peer_ip_reservation_def reservations_def)
  obtain y s2 where f: "finish_reservation ?p ip None persist env t (s\<lparr>ns_lease := g\<rparr>) = (y, s2)" by fastforce
  note out = finish_reservation_outcome [OF assms(1-3) pr f]
  have s': "s' = s2" and r: "r = (case y of Inl e \<Rightarrow> Inl e | Inr _ \<Rightarrow> Inr ip)"
    using assms(6) Inr pr f by (auto simp: create_wireguard_peer_with_automatic_ip_def split: sum.splits)
  show ?thesis
  proof (cases persist)
    case (Inl e) then show ?thesis using out s' r by simp
  next
    case (Inr u)
    then have "reservations s2 = (reservations s)(ip \<mapsto> ?p)" "y = Inr ()"
      using out assms(5) by (auto simp: fun_eq_iff)
    then show ?thesis using s' r nt free by auto
  qed
qed

definition wit_peer :: wireguard_peer_record where
  "wit_peer = \<lparr>pe_network_code = ''net'', pe_peer_id = ''p'', pe_public_key = replicate 32 0, pe_enabled = True,
     pe_created_at = 0, pe_updated_at = 0\<rparr>"

theorem peer_create_outcome_witness:
  "\<exists>s'. create_wireguard_peer_with_automatic_ip wit_peer (Inr ()) id 0 wit_ns1 = (Inr (ip4 10 26 0 3), s') \<and>
     reservations s' = (reservations wit_ns1)(ip4 10 26 0 3 \<mapsto> ''p'')"
proof -
  have l: "respects_lock id" by (simp add: respects_lock_def)
  have n: "net_network (ns_net wit_ns1) \<noteq> - 1" using wit_net_ok(2) by simp
  have u: "\<And>i. reservations wit_ns1 i \<noteq> Some (pe_peer_id wit_peer)" by (simp add: reservations_def wit_ns1_reservations)
  have "prepare_wireguard_peer_ip_reservation ''p'' (ip4 10 26 0 3) wit_one =
      (Inr None, wit_one\<lparr>wireguard_peer_ip_map := [(ip4 10 26 0 3, ''p'')]\<rparr>)"
    by (simp add: prepare_wireguard_peer_ip_reservation_def wit_one_eq wireguard_peer_ip_def lease_eval)
  then obtain s' where e: "create_wireguard_peer_with_automatic_ip wit_peer (Inr ()) id 0 wit_ns1 = (Inr (ip4 10 26 0 3), s')"
    by (simp add: create_wireguard_peer_with_automatic_ip_def wit_one_free wit_peer_def finish_reservation_def Let_def)
  from peer_create_outcome [OF l wit_ns1_unique n u e] e show ?thesis by (simp add: wit_peer_def)
qed

text \<open>Taking an address away.  When a release or a deletion goes through, the peer has no address
  left and nobody else's changes; what is reported covers the table in memory.  When the database
  refuses, the reservations stay.  When only the revocation of the session fails, the address is
  gone all the same.\<close>

theorem peer_release_outcome:
  assumes "respects_lock env" "hm_ok (wireguard_peer_ip_map (ns_lease s))" "\<not> str_blank p"
    and "release_wireguard_peer_ip p dbr revoke env t s = (r, s')"
    and "delete_wireguard_peer_with p dbd revoke env t s = (rd, sd)"
  shows "reservations s' = (case dbr of Inl _ \<Rightarrow> reservations s
      | Inr _ \<Rightarrow> (\<lambda>i. if reservations s i = Some p then None else reservations s i)) \<and>
    reservations sd = (case dbd of Inl _ \<Rightarrow> reservations s
      | Inr _ \<Rightarrow> (\<lambda>i. if reservations s i = Some p then None else reservations s i)) \<and>
    (r = Inr False \<longleftrightarrow> dbr = Inr False \<and> (\<forall>i. reservations s i \<noteq> Some p)) \<and>
    (\<forall>res. rd = Inr res \<and> \<not> ip_released res \<longrightarrow> (\<forall>i. reservations s i \<noteq> Some p))"
proof -
  let ?m = "wireguard_peer_ip_map (ns_lease s)" and ?e = "env s"
  let ?m' = "hm_retain (\<lambda>_ q. q \<noteq> p) ?m"
  have e: "wireguard_peer_ip_map (ns_lease ?e) = ?m" by (rule respects_lockD [OF assms(1)])
  have rel: "inner_release_wireguard_peer_ip p (ns_lease ?e) = (length ?m' \<noteq> length ?m, (ns_lease ?e)\<lparr>wireguard_peer_ip_map := ?m'\<rparr>)"
    by (simp add: inner_release_wireguard_peer_ip_def e Let_def)
  have get: "hm_get ?m' = (\<lambda>i. if reservations s i = Some p then None else reservations s i)"
    by (auto simp: fun_eq_iff hm.get_retain [OF assms(2)] reservations_def split: option.split)
  have "length ?m' = length ?m \<longleftrightarrow> (\<forall>(i, q) \<in> set ?m. q \<noteq> p)"
    unfolding hm_retain_def by (rule length_filter_all)
  also have "\<dots> \<longleftrightarrow> (\<forall>i. reservations s i \<noteq> Some p)" using hm_mem_iff [OF assms(2)] by (fastforce simp: reservations_def)
  finally have len: "length ?m' = length ?m \<longleftrightarrow> (\<forall>i. reservations s i \<noteq> Some p)" .
  have envr: "reservations ?e = reservations s" by (simp add: reservations_def e)
  have 1: "reservations s' = (case dbr of Inl _ \<Rightarrow> reservations s
      | Inr _ \<Rightarrow> (\<lambda>i. if reservations s i = Some p then None else reservations s i)) \<and>
      (r = Inr False \<longleftrightarrow> dbr = Inr False \<and> (\<forall>i. reservations s i \<noteq> Some p))"
  proof (cases dbr)
    case (Inl e) then show ?thesis using assms(3,4) envr
      by (auto simp: release_wireguard_peer_ip_def release_wireguard_peer_ip_with_def Let_def)
  next
    case (Inr b)
    then have w: "release_wireguard_peer_ip_with p dbr env t s =
        (Inr (b \<or> length ?m' \<noteq> length ?m), (if length ?m' \<noteq> length ?m then update_time t else id)
           (?e\<lparr>ns_lease := (ns_lease ?e)\<lparr>wireguard_peer_ip_map := ?m'\<rparr>\<rparr>))"
      using assms(3) by (simp add: release_wireguard_peer_ip_with_def rel Let_def)
    have "reservations s' = hm_get ?m'" "r = Inr False \<longleftrightarrow> \<not> (b \<or> length ?m' \<noteq> length ?m)"
      using assms(4) by (auto simp: release_wireguard_peer_ip_def w split: if_splits sum.splits)
    then show ?thesis using Inr get len by simp
  qed
  have 2: "reservations sd = (case dbd of Inl _ \<Rightarrow> reservations s
      | Inr _ \<Rightarrow> (\<lambda>i. if reservations s i = Some p then None else reservations s i)) \<and>
      (\<forall>res. rd = Inr res \<and> \<not> ip_released res \<longrightarrow> (\<forall>i. reservations s i \<noteq> Some p))"
  proof (cases dbd)
    case (Inl e) then show ?thesis using assms(3,5) envr by (auto simp: delete_wireguard_peer_with_def Let_def)
  next
    case (Inr res)
    have "reservations sd = hm_get ?m'" "\<forall>res. rd = Inr res \<and> \<not> ip_released res \<longrightarrow> length ?m' = length ?m"
      using assms(3,5) Inr by (auto simp: delete_wireguard_peer_with_def rel Let_def split: if_splits sum.splits)
    then show ?thesis using Inr get len by simp
  qed
  from 1 2 show ?thesis by blast
qed

theorem peer_release_outcome_witness:
  "\<exists>r s'. release_wireguard_peer_ip ''p'' (Inr False) (Inr ()) id 0 wit_ns1 = (r, s') \<and> r = Inr False \<and>
     reservations s' = (\<lambda>i. if reservations wit_ns1 i = Some ''p'' then None else reservations wit_ns1 i)"
proof -
  have l: "respects_lock id" by (simp add: respects_lock_def)
  have b: "\<not> str_blank ''p''" by (simp add: str_blank.simps strip_ws_def)
  obtain r s' where r: "release_wireguard_peer_ip ''p'' (Inr False) (Inr ()) id 0 wit_ns1 = (r, s')" by fastforce
  obtain rd sd where rd: "delete_wireguard_peer_with ''p'' (Inl ''e'') (Inr ()) id 0 wit_ns1 = (rd, sd)" by fastforce
  note o = peer_release_outcome [OF l wit_ns1_unique(1) b r rd]
  have "reservations wit_ns1 = (\<lambda>i. None)" by (simp add: reservations_def wit_ns1_reservations fun_eq_iff)
  with o r show ?thesis by simp
qed

end
