(* ===== verification/Web_Security.thy ===== *)
theory Web_Security
  imports Socket_Text
begin

text \<open>
  Access to the web console: the login limiter, the token and CSRF check of every request
  (official-vnts-source-2.0.0/src/http/web_security.rs) and the login handler
  (official-vnts-source-2.0.0/src/http/web_server.rs).

  An Instant is a number of nanoseconds.  A header map is the list of its entries, the value of an
  entry being what \<open>HeaderValue::to_str\<close> returns (None for a value that is not visible ASCII).
  The JSON web token functions are arguments.
\<close>

section \<open>The login limiter\<close>

definition secs :: "nat \<Rightarrow> nat" where
  "secs n = n * 1000000000"

definition LOGIN_WINDOW :: nat where
  "LOGIN_WINDOW = secs (5 * 60)"

definition LOGIN_BLOCK :: nat where
  "LOGIN_BLOCK = secs (15 * 60)"

definition MAX_LOGIN_FAILURES :: u8 where
  "MAX_LOGIN_FAILURES = 5"

definition MAX_TRACKED_SOURCES :: nat where
  "MAX_TRACKED_SOURCES = 4096"

record login_attempt =
  la_failures :: u8
  la_window_started :: nat
  la_last_seen :: nat
  la_blocked_until :: "nat option"

type_synonym login_limiter = "(ip_addr, login_attempt) hmap"

definition retry_after :: "nat \<Rightarrow> ip_addr \<Rightarrow> login_limiter \<Rightarrow> nat option \<times> login_limiter" where
  "retry_after now source attempts =
     (case hm_get attempts source of
        None \<Rightarrow> (None, attempts)
      | Some attempt \<Rightarrow>
          (case la_blocked_until attempt of
             Some blocked_until \<Rightarrow>
               if blocked_until > now
               then (Some (max ((blocked_until - now) div secs 1) 1), attempts)
               else if now - la_window_started attempt \<ge> LOGIN_WINDOW then (None, hm_remove source attempts)
               else (None, attempts)
           | None \<Rightarrow>
               if now - la_window_started attempt \<ge> LOGIN_WINDOW then (None, hm_remove source attempts)
               else (None, attempts)))"

text \<open>\<open>min_by_key\<close>: the first entry with the least key.\<close>

fun oldest_source :: "login_limiter \<Rightarrow> (ip_addr \<times> nat) option" where
  "oldest_source [] = None"
| "oldest_source ((source, attempt) # rest) =
     (case oldest_source rest of
        None \<Rightarrow> Some (source, la_last_seen attempt)
      | Some (s, t) \<Rightarrow> if t < la_last_seen attempt then Some (s, t) else Some (source, la_last_seen attempt))"

definition record_failure :: "nat \<Rightarrow> ip_addr \<Rightarrow> login_limiter \<Rightarrow> login_limiter" where
  "record_failure now source attempts =
     (let attempts = (if \<not> hm_contains attempts source \<and> length attempts \<ge> MAX_TRACKED_SOURCES
                      then (case oldest_source attempts of
                              Some (oldest, _) \<Rightarrow> hm_remove oldest attempts
                            | None \<Rightarrow> attempts)
                      else attempts);
          attempt = (case hm_get attempts source of
                       Some a \<Rightarrow> a
                     | None \<Rightarrow> \<lparr>la_failures = 0, la_window_started = now, la_last_seen = now,
                                la_blocked_until = None\<rparr>);
          attempt = (if now - la_window_started attempt \<ge> LOGIN_WINDOW
                     then attempt\<lparr>la_failures := 0, la_window_started := now, la_blocked_until := None\<rparr>
                     else attempt);
          attempt = attempt\<lparr>la_last_seen := now, la_failures := saturating_add (la_failures attempt) 1\<rparr>;
          attempt = (if la_failures attempt \<ge> MAX_LOGIN_FAILURES
                     then attempt\<lparr>la_blocked_until := Some (now + LOGIN_BLOCK)\<rparr> else attempt)
      in hm_insert source attempt attempts)"

definition limiter_clear :: "ip_addr \<Rightarrow> login_limiter \<Rightarrow> login_limiter" where
  "limiter_clear source attempts = hm_remove source attempts"

section \<open>Comparing secrets\<close>

definition str_bytes :: "string \<Rightarrow> bytes" where
  "str_bytes s = map (\<lambda>c. of_nat (of_char c)) s"

definition byte_at :: "bytes \<Rightarrow> nat \<Rightarrow> u8" where
  "byte_at b i = (if i < length b then b ! i else 0)"

definition constant_time_eq :: "string \<Rightarrow> string \<Rightarrow> bool" where
  "constant_time_eq left right =
     (let left = str_bytes left; right = str_bytes right;
          difference = (of_nat (length left) :: u64) XOR of_nat (length right);
          difference = fold (\<lambda>index d. d OR ucast (byte_at left index XOR byte_at right index))
                         [0 ..< max (length left) (length right)] difference
      in difference = 0)"

section \<open>Requests\<close>

record claims =
  cl_sub :: string
  cl_exp :: i64
  cl_csrf :: "string option"

datatype auth_error = AuthMissing | AuthInvalid | AuthCsrf

datatype http_method = GET | HEAD | OPTIONS | POST | PUT | DELETE | PATCH | OtherMethod string

type_synonym header_map = "(string \<times> string option) list"

definition SESSION_COOKIE :: string where
  "SESSION_COOKIE = ''vnts_session''"

definition CSRF_HEADER :: string where
  "CSRF_HEADER = ''x-csrf-token''"

definition header_get :: "header_map \<Rightarrow> string \<Rightarrow> string option" where
  "header_get hs name = Option.bind (map_of hs name) id"

definition header_get_all :: "header_map \<Rightarrow> string \<Rightarrow> string list" where
  "header_get_all hs name = concat (map (\<lambda>(n, v). if n = name then (case v of Some s \<Rightarrow> [s] | None \<Rightarrow> []) else []) hs)"

definition strip_prefix :: "string \<Rightarrow> string \<Rightarrow> string option" where
  "strip_prefix p s = (if take (length p) s = p then Some (drop (length p) s) else None)"

fun split_on :: "char \<Rightarrow> string \<Rightarrow> string list" where
  "split_on c [] = [[]]"
| "split_on c (x # xs) =
     (if x = c then [] # split_on c xs
      else case split_on c xs of [] \<Rightarrow> [[x]] | y # ys \<Rightarrow> (x # y) # ys)"

fun split_once :: "char \<Rightarrow> string \<Rightarrow> (string \<times> string) option" where
  "split_once c [] = None"
| "split_once c (x # xs) = (if x = c then Some ([], xs) else map_option (\<lambda>(a, b). (x # a, b)) (split_once c xs))"

text \<open>\<open>str::trim\<close> on the ASCII strings that \<open>to_str\<close> returns.\<close>

definition is_ascii_space :: "char \<Rightarrow> bool" where
  "is_ascii_space c = (of_char c \<in> {9, 10, 11, 12, 13, 32 :: nat})"

definition trim_ascii :: "string \<Rightarrow> string" where
  "trim_ascii s = rev (dropWhile is_ascii_space (rev (dropWhile is_ascii_space s)))"

fun find_cookie :: "string \<Rightarrow> string list \<Rightarrow> string option" where
  "find_cookie name [] = None"
| "find_cookie name (cookie # rest) =
     (case split_once (CHR ''='') (trim_ascii cookie) of
        Some (cookie_name, value) \<Rightarrow> if cookie_name = name then Some value else find_cookie name rest
      | None \<Rightarrow> find_cookie name rest)"

definition cookie_value :: "header_map \<Rightarrow> string \<Rightarrow> string option" where
  "cookie_value headers name =
     find_cookie name (concat (map (split_on (CHR '';'')) (header_get_all headers ''cookie'')))"

definition is_unsafe :: "http_method \<Rightarrow> bool" where
  "is_unsafe m = (m \<notin> {GET, HEAD, OPTIONS})"

text \<open>\<open>decode token secret\<close> is \<open>jsonwebtoken::decode\<close> with HS256.\<close>

definition authorize ::
  "(string \<Rightarrow> string \<Rightarrow> claims option) \<Rightarrow> header_map \<Rightarrow> http_method \<Rightarrow> string \<Rightarrow> auth_error + claims" where
  "authorize decode headers method jwt_secret =
     (let bearer = Option.bind (header_get headers ''authorization'') (strip_prefix ''Bearer '');
          cookie = (if bearer = None then cookie_value headers SESSION_COOKIE else None);
          token = (case bearer of Some b \<Rightarrow> Some b | None \<Rightarrow> cookie)
      in case token of
           None \<Rightarrow> Inl AuthMissing
         | Some token \<Rightarrow>
             (case decode token jwt_secret of
                None \<Rightarrow> Inl AuthInvalid
              | Some claims \<Rightarrow>
                  if bearer = None \<and> is_unsafe method then
                    (case cl_csrf claims of
                       None \<Rightarrow> Inl AuthCsrf
                     | Some expected \<Rightarrow>
                         (case header_get headers CSRF_HEADER of
                            None \<Rightarrow> Inl AuthCsrf
                          | Some provided \<Rightarrow>
                              if \<not> constant_time_eq expected provided then Inl AuthCsrf else Inr claims))
                  else Inr claims))"

definition session_cookie :: "string \<Rightarrow> string" where
  "session_cookie token =
     SESSION_COOKIE @ ''='' @ token @ ''; Path=/; HttpOnly; SameSite=Strict; Max-Age=86400''"

section \<open>Login\<close>

record auth_config =
  ac_username :: string
  ac_password :: string
  ac_jwt_secret :: string

datatype login_response =
    TooManyRequests nat
  | LoginOk string string string
    \<comment> \<open>token, CSRF token, Set-Cookie header\<close>
  | SessionError
  | Unauthorized

text \<open>\<open>exp\<close> is the expiry time, \<open>csrf_token\<close> the random string, \<open>encode\<close> is \<open>jsonwebtoken::encode\<close>.\<close>

definition login ::
  "(claims \<Rightarrow> string \<Rightarrow> string option) \<Rightarrow> auth_config \<Rightarrow> nat \<Rightarrow> i64 \<Rightarrow> string \<Rightarrow> ip_addr \<Rightarrow> string \<Rightarrow> string \<Rightarrow>
   login_limiter \<Rightarrow> login_response \<times> login_limiter" where
  "login encode cfg now exp csrf_token source username password limiter =
     (case retry_after now source limiter of
        (Some retry, limiter) \<Rightarrow> (TooManyRequests retry, limiter)
      | (None, limiter) \<Rightarrow>
          let username_matches = constant_time_eq username (ac_username cfg);
              password_matches = constant_time_eq password (ac_password cfg)
          in if username_matches \<and> password_matches then
               (let limiter = limiter_clear source limiter;
                    c = \<lparr>cl_sub = username, cl_exp = exp, cl_csrf = Some csrf_token\<rparr>
                in case encode c (ac_jwt_secret cfg) of
                     None \<Rightarrow> (SessionError, limiter)
                   | Some token \<Rightarrow> (LoginOk token csrf_token (session_cookie token), limiter))
             else (Unauthorized, record_failure now source limiter))"

section \<open>Comparing secrets: correctness\<close>

lemma fold_or_zero:
  "fold (\<lambda>i d. d OR f i) xs (d :: 'a::len word) = 0 \<longleftrightarrow> d = 0 \<and> (\<forall>i \<in> set xs. f i = 0)"
  by (induction xs arbitrary: d) (auto simp: or_eq_0_iff)

lemma word_xor_zero: "(a XOR b = 0) = (a = (b :: 'a::len word))"
proof
  assume h: "a XOR b = 0"
  show "a = b"
  proof (rule bit_word_eqI)
    fix n
    have "bit (a XOR b) n = bit (0 :: 'a word) n" using h by simp
    then show "bit a n = bit b n" by (simp add: bit_xor_iff)
  qed
qed simp

lemma ucast_xor_zero: "(ucast (a XOR b :: u8) :: u64) = 0 \<longleftrightarrow> a = b"
proof -
  have "c = 0" if "(ucast c :: u64) = 0" for c :: u8
  proof (rule bit_word_eqI)
    fix n assume n: "n < LENGTH(8)"
    have "bit (ucast c :: u64) n = bit (0 :: u64) n" using that by simp
    then show "bit c n = bit 0 n" using n by (simp add: bit_simps)
  qed
  then show ?thesis by (metis word_xor_zero ucast_0)
qed

lemma str_bytes_inject: "str_bytes a = str_bytes b \<longleftrightarrow> a = b"
proof -
  have "inj (\<lambda>c. of_nat (of_char c) :: u8)"
  proof (rule injI)
    fix c d assume "of_nat (of_char c) = (of_nat (of_char d) :: u8)"
    then have "unat (of_nat (of_char c) :: u8) = unat (of_nat (of_char d) :: u8)" by simp
    then have "(of_char c :: nat) = of_char d"
      using nat_of_char_less_256 [of c] nat_of_char_less_256 [of d] by (simp add: unat_of_nat)
    then show "c = d" by simp
  qed
  then show ?thesis by (simp add: str_bytes_def inj_map_eq_map)
qed

lemma constant_time_eq_iff:
  assumes "length a < 2 ^ 64" "length b < 2 ^ 64"
  shows "constant_time_eq a b \<longleftrightarrow> a = b"
proof -
  let ?a = "str_bytes a" and ?b = "str_bytes b"
  have len: "length ?a = length a" "length ?b = length b" by (simp_all add: str_bytes_def)
  have l: "((of_nat (length ?a) :: u64) XOR of_nat (length ?b) = 0) = (length ?a = length ?b)"
  proof -
    have "unat (of_nat n :: u64) = n" if "n < 2 ^ 64" for n using that by (simp add: unat_of_nat)
    then show ?thesis unfolding word_xor_zero len using assms by metis
  qed
  have "constant_time_eq a b \<longleftrightarrow> length ?a = length ?b \<and> (\<forall>i < max (length ?a) (length ?b). byte_at ?a i = byte_at ?b i)"
    unfolding constant_time_eq_def Let_def fold_or_zero l ucast_xor_zero by auto
  also have "\<dots> \<longleftrightarrow> ?a = ?b" by (auto simp: byte_at_def list_eq_iff_nth_eq)
  finally show ?thesis by (simp add: str_bytes_inject)
qed

section \<open>The limiter\<close>

lemma record_failure_other:
  assumes "hm_contains m a \<or> length m < MAX_TRACKED_SOURCES" "b \<noteq> a"
  shows "hm_get (record_failure t a m) b = hm_get m b"
  using assms by (auto simp: record_failure_def Let_def)

lemma retry_after_other: "b \<noteq> a \<Longrightarrow> hm_get (snd (retry_after t a m)) b = hm_get m b"
  by (auto simp: retry_after_def split: option.split)

lemma length_hm_insert: "length (hm_insert k v m) \<le> Suc (length m)"
  unfolding hm_insert_def by (induction m) auto

lemma length_hm_remove: "length (hm_remove k m) \<le> length m"
  by (simp add: hm_remove_def AList.length_delete_le)

lemma retry_after_length: "retry_after t a m = (r, m') \<Longrightarrow> length m' \<le> length m"
  using length_hm_remove [of a m] by (auto simp: retry_after_def split: option.splits if_splits)

record login_event =
  le_time :: nat
  le_source :: ip_addr
  le_username :: string
  le_password :: string
  le_exp :: i64
  le_csrf :: string

definition login_event_step ::
  "(claims \<Rightarrow> string \<Rightarrow> string option) \<Rightarrow> auth_config \<Rightarrow> login_event \<Rightarrow> login_limiter \<Rightarrow> login_limiter" where
  "login_event_step encode cfg ev m =
     snd (login encode cfg (le_time ev) (le_exp ev) (le_csrf ev) (le_source ev) (le_username ev) (le_password ev) m)"

definition wrong_credentials :: "auth_config \<Rightarrow> login_event \<Rightarrow> bool" where
  "wrong_credentials cfg ev \<longleftrightarrow>
     \<not> (constant_time_eq (le_username ev) (ac_username cfg) \<and> constant_time_eq (le_password ev) (ac_password cfg))"

lemma login_step_other:
  assumes "length m < MAX_TRACKED_SOURCES" "le_source ev \<noteq> src"
  shows "hm_get (login_event_step encode cfg ev m) src = hm_get m src"
proof -
  obtain r m' where r: "retry_after (le_time ev) (le_source ev) m = (r, m')" by fastforce
  have g: "hm_get m' src = hm_get m src" using retry_after_other [of src "le_source ev" "le_time ev" m] assms(2) r by auto
  have "length m' \<le> length m"
    using retry_after_length [OF r] .
  then have "hm_get (record_failure (le_time ev) (le_source ev) m') src = hm_get m' src"
    using assms by (intro record_failure_other) auto
  then show ?thesis using g assms(2) r
    by (auto simp: login_event_step_def login_def limiter_clear_def Let_def split: option.split)
qed

lemma login_step_length:
  assumes "length m < MAX_TRACKED_SOURCES"
  shows "length (login_event_step encode cfg ev m) \<le> Suc (length m)"
proof -
  obtain r m' where r: "retry_after (le_time ev) (le_source ev) m = (r, m')" by fastforce
  have l: "length m' \<le> length m"
    using retry_after_length [OF r] .
  have "length (record_failure (le_time ev) (le_source ev) m') \<le> Suc (length m')"
    using l assms by (auto simp: record_failure_def Let_def intro: length_hm_insert)
  then show ?thesis using l r length_hm_remove [of "le_source ev" m']
    by (auto simp: login_event_step_def login_def limiter_clear_def Let_def split: option.split)
qed

text \<open>The entry of a source after its \<open>k\<close>-th failure in a window.\<close>

definition attempt_after :: "nat \<Rightarrow> nat \<Rightarrow> nat \<Rightarrow> login_attempt" where
  "attempt_after k start now =
     \<lparr>la_failures = of_nat k, la_window_started = start, la_last_seen = now,
      la_blocked_until = (if 5 \<le> k then Some (now + LOGIN_BLOCK) else None)\<rparr>"

lemma small_failures:
  assumes "k < 5"
  shows "saturating_add (of_nat k :: u8) 1 = of_nat (Suc k)" "(MAX_LOGIN_FAILURES \<le> (of_nat (Suc k) :: u8)) = (5 \<le> Suc k)"
proof -
  have "k \<in> {0, 1, 2, 3, 4}" using assms by auto
  then show "saturating_add (of_nat k :: u8) 1 = of_nat (Suc k)" "(MAX_LOGIN_FAILURES \<le> (of_nat (Suc k) :: u8)) = (5 \<le> Suc k)"
    by (auto simp: saturating_add_def MAX_LOGIN_FAILURES_def word_le_nat_alt)
qed

lemma login_step_failure:
  assumes "wrong_credentials cfg ev" "length m < MAX_TRACKED_SOURCES" "k < 5"
    and "if k = 0 then hm_get m (le_source ev) = None \<and> start = le_time ev
         else hm_get m (le_source ev) = Some (attempt_after k start last_seen) \<and> le_time ev - start < LOGIN_WINDOW"
  shows "hm_get (login_event_step encode cfg ev m) (le_source ev) = Some (attempt_after (Suc k) start (le_time ev))"
proof -
  have w: "LOGIN_WINDOW \<noteq> 0" by (simp add: LOGIN_WINDOW_def secs_def)
  have "retry_after (le_time ev) (le_source ev) m = (None, m)"
    using assms(3,4) by (auto simp: retry_after_def attempt_after_def split: if_splits)
  moreover have "hm_get (record_failure (le_time ev) (le_source ev) m) (le_source ev) =
      Some (attempt_after (Suc k) start (le_time ev))"
    using assms(2-4) small_failures [OF assms(3)] w
    by (auto simp: record_failure_def Let_def attempt_after_def split: if_splits)
  ultimately show ?thesis using assms(1)
    by (auto simp: login_event_step_def login_def wrong_credentials_def Let_def)
qed

definition source_state :: "ip_addr \<Rightarrow> nat list \<Rightarrow> login_limiter \<Rightarrow> bool" where
  "source_state src ts m \<longleftrightarrow>
     hm_get m src = (if ts = [] then None else Some (attempt_after (length ts) (hd ts) (last ts)))"

definition source_times :: "ip_addr \<Rightarrow> login_event list \<Rightarrow> nat list" where
  "source_times src evs = map le_time (filter (\<lambda>ev. le_source ev = src) evs)"

lemma run_logins:
  assumes "length m + length evs \<le> MAX_TRACKED_SOURCES" "hm_get m src = None"
    and "\<forall>ev \<in> set evs. le_source ev = src \<longrightarrow> wrong_credentials cfg ev" "length (source_times src evs) \<le> 5"
    and "\<forall>t \<in> set (source_times src evs). t - hd (source_times src evs) < LOGIN_WINDOW"
  shows "source_state src (source_times src evs) (fold (login_event_step encode cfg) evs m) \<and>
    length (fold (login_event_step encode cfg) evs m) \<le> length m + length evs"
  using assms
proof (induction evs rule: rev_induct)
  case Nil then show ?case by (simp add: source_state_def source_times_def)
next
  case (snoc ev evs)
  let ?m = "fold (login_event_step encode cfg) evs m" and ?ts = "source_times src evs"
  have app: "source_times src (evs @ [ev]) = ?ts @ (if le_source ev = src then [le_time ev] else [])"
    by (simp add: source_times_def)
  have hd: "?ts \<noteq> [] \<Longrightarrow> hd (source_times src (evs @ [ev])) = hd ?ts" by (simp add: app)
  have pre: "\<forall>t \<in> set ?ts. t - hd ?ts < LOGIN_WINDOW"
    using snoc.prems(5) hd by (cases "?ts = []") (auto simp: app)
  have IH: "source_state src ?ts ?m" "length ?m \<le> length m + length evs"
    using snoc.IH snoc.prems pre by (auto simp: app)
  have len: "length ?m < MAX_TRACKED_SOURCES" using IH(2) snoc.prems(1) by simp
  have "source_state src (source_times src (evs @ [ev])) (login_event_step encode cfg ev ?m)"
  proof (cases "le_source ev = src")
    case False
    then show ?thesis using IH(1) login_step_other [OF len False] by (simp add: app source_state_def)
  next
    case True
    then have w: "wrong_credentials cfg ev" and k: "length ?ts < 5" using snoc.prems(3,4) by (auto simp: app)
    define start where "start = (if ?ts = [] then le_time ev else hd ?ts)"
    have "le_time ev - start < LOGIN_WINDOW" if "?ts \<noteq> []"
      using snoc.prems(5) that True by (auto simp: app start_def)
    then have "if length ?ts = 0 then hm_get ?m (le_source ev) = None \<and> start = le_time ev
         else hm_get ?m (le_source ev) = Some (attempt_after (length ?ts) start (last ?ts)) \<and> le_time ev - start < LOGIN_WINDOW"
      using IH(1) True by (simp add: source_state_def start_def)
    from login_step_failure [OF w len k this, of encode] True show ?thesis
      by (simp add: app source_state_def start_def)
  qed
  then show ?case using login_step_length [OF len, of encode cfg ev] IH(2) by simp
qed

lemma oldest_source_mem: "oldest_source m = Some (k, t) \<Longrightarrow> k \<in> fst ` set m"
  by (induction m arbitrary: k t rule: oldest_source.induct) (force split: option.splits if_splits)+

lemma oldest_source_None: "oldest_source m = None \<longleftrightarrow> m = []"
  by (cases m) (auto split: option.splits if_splits)

lemma length_hm_insert_eq: "length (hm_insert k v m) = (if hm_contains m k then length m else Suc (length m))"
  unfolding hm_insert_def hm_contains_def hm_get_def by (induction m) auto

lemma length_remove_mem: "k \<in> fst ` set m \<Longrightarrow> length (hm_remove k m) < length m"
  unfolding hm_remove_def by (induction m) (auto simp: AList.length_delete_le le_imp_less_Suc)

lemma record_failure_bounded:
  assumes "length m \<le> MAX_TRACKED_SOURCES"
  shows "length (record_failure t a m) \<le> MAX_TRACKED_SOURCES"
proof -
  have pos: "0 < MAX_TRACKED_SOURCES" by (simp add: MAX_TRACKED_SOURCES_def)
  define m' where "m' = (if \<not> hm_contains m a \<and> length m \<ge> MAX_TRACKED_SOURCES
      then (case oldest_source m of Some (oldest, _) \<Rightarrow> hm_remove oldest m | None \<Rightarrow> m) else m)"
  obtain v where v: "record_failure t a m = hm_insert a v m'" unfolding record_failure_def Let_def m'_def by blast
  have "hm_contains m' a \<or> length m' < MAX_TRACKED_SOURCES"
  proof (cases "\<not> hm_contains m a \<and> length m \<ge> MAX_TRACKED_SOURCES")
    case True
    then obtain k u where k: "oldest_source m = Some (k, u)" using pos oldest_source_None [of m] by fastforce
    have "length (hm_remove k m) < length m" by (rule length_remove_mem [OF oldest_source_mem [OF k]])
    then show ?thesis using True k assms by (simp add: m'_def)
  qed (auto simp: m'_def)
  moreover have "length m' \<le> length m" by (auto simp: m'_def length_hm_remove split: option.split prod.split)
  ultimately show ?thesis using v assms by (auto simp: length_hm_insert_eq)
qed

section \<open>Properties\<close>

text \<open>C22. Brute force is locked out.  Let a source that the limiter does not know make five failed logins
  within five minutes, with logins of any other sources, successful or not, in between (few enough
  that the table of 4096 sources is not exceeded).  Then for the fifteen minutes after the fifth
  failure every login from that source is refused, with the right password too, and the answer names
  a waiting time of one second up to fifteen minutes.\<close>

theorem login_lockout:
  assumes "length m + length evs \<le> MAX_TRACKED_SOURCES" "hm_get m src = None"
    and "\<forall>ev \<in> set evs. le_source ev = src \<longrightarrow>
       length (le_username ev) < 2 ^ 64 \<and> length (le_password ev) < 2 ^ 64 \<and>
       (le_username ev \<noteq> ac_username cfg \<or> le_password ev \<noteq> ac_password cfg)"
    and "length (ac_username cfg) < 2 ^ 64" "length (ac_password cfg) < 2 ^ 64"
    and "map le_time (filter (\<lambda>ev. le_source ev = src) evs) = [t1, t2, t3, t4, t5]"
    and "t2 < t1 + LOGIN_WINDOW" "t3 < t1 + LOGIN_WINDOW" "t4 < t1 + LOGIN_WINDOW" "t5 < t1 + LOGIN_WINDOW"
    and "t5 \<le> t" "t < t5 + LOGIN_BLOCK"
  shows "\<exists>r. 1 \<le> r \<and> r \<le> 900 \<and>
     login encode cfg t exp csrf src username password (fold (login_event_step encode cfg) evs m) =
       (TooManyRequests r, fold (login_event_step encode cfg) evs m)"
proof -
  let ?m = "fold (login_event_step encode cfg) evs m"
  have ts: "source_times src evs = [t1, t2, t3, t4, t5]" using assms(6) by (simp add: source_times_def)
  have w: "\<forall>ev \<in> set evs. le_source ev = src \<longrightarrow> wrong_credentials cfg ev"
    using assms(3-5) by (auto simp: wrong_credentials_def constant_time_eq_iff)
  have pos: "0 < LOGIN_WINDOW" by (simp add: LOGIN_WINDOW_def secs_def)
  have "t2 - t1 < LOGIN_WINDOW" "t3 - t1 < LOGIN_WINDOW" "t4 - t1 < LOGIN_WINDOW" "t5 - t1 < LOGIN_WINDOW"
    using assms(7-10) pos by linarith+
  then have "source_state src (source_times src evs) ?m"
    using run_logins [OF assms(1,2) w, of encode] pos by (simp add: ts)
  then have e: "hm_get ?m src = Some (attempt_after 5 t1 t5)" by (simp add: source_state_def ts eval_nat_numeral)
  let ?r = "max ((t5 + LOGIN_BLOCK - t) div secs 1) 1"
  have "t5 + LOGIN_BLOCK - t \<le> secs 1 * 900" using assms(11) by (simp add: LOGIN_BLOCK_def secs_def)
  then have "(t5 + LOGIN_BLOCK - t) div secs 1 \<le> 900" by (metis div_le_mono nonzero_mult_div_cancel_left mult_zero_left secs_def zero_neq_one mult_eq_0_iff zero_neq_numeral)
  moreover have "retry_after t src ?m = (Some ?r, ?m)"
    using e assms(12) by (simp add: retry_after_def attempt_after_def)
  ultimately show ?thesis by (intro exI [of _ ?r]) (simp add: login_def)
qed

text \<open>C35. The limiter's memory is bounded: whatever sources log in, it never tracks more than 4096.\<close>

theorem limiter_bounded:
  "length (fold (login_event_step encode cfg) evs []) \<le> MAX_TRACKED_SOURCES"
proof -
  have "length (login_event_step encode cfg ev m) \<le> MAX_TRACKED_SOURCES" if l: "length m \<le> MAX_TRACKED_SOURCES" for ev m
  proof -
    obtain r m' where r: "retry_after (le_time ev) (le_source ev) m = (r, m')" by fastforce
    have "length m' \<le> length m"
      using retry_after_length [OF r] .
    then have m': "length m' \<le> MAX_TRACKED_SOURCES" using l by simp
    show ?thesis using record_failure_bounded [OF m', of "le_time ev" "le_source ev"] m' length_hm_remove [of "le_source ev" m'] r
      by (auto simp: login_event_step_def login_def limiter_clear_def Let_def split: option.split)
  qed
  then have "length m \<le> MAX_TRACKED_SOURCES \<Longrightarrow> length (fold (login_event_step encode cfg) evs m) \<le> MAX_TRACKED_SOURCES" for m
    by (induction evs arbitrary: m) simp_all
  then show ?thesis by simp
qed

definition wit_cfg :: auth_config where
  "wit_cfg = \<lparr>ac_username = ''admin'', ac_password = ''secret'', ac_jwt_secret = ''k''\<rparr>"

definition wit_event :: "nat \<Rightarrow> ip_addr \<Rightarrow> login_event" where
  "wit_event t src = \<lparr>le_time = t, le_source = src, le_username = ''admin'', le_password = ''guess'',
     le_exp = 0, le_csrf = []\<rparr>"

definition wit_events :: "login_event list" where
  "wit_events = [wit_event 0 (IpV4 1), wit_event 5 (IpV4 2), wit_event 10 (IpV4 1), wit_event 20 (IpV4 1),
     wit_event 30 (IpV4 1), wit_event 40 (IpV4 1)]"

theorem login_lockout_witness:
  "\<exists>r. login (\<lambda>_ _. None) wit_cfg 50 0 [] (IpV4 1) ''admin'' ''secret''
       (fold (login_event_step (\<lambda>_ _. None) wit_cfg) wit_events []) =
     (TooManyRequests r, fold (login_event_step (\<lambda>_ _. None) wit_cfg) wit_events [])"
proof -
  have w: "LOGIN_WINDOW = 300000000000" "LOGIN_BLOCK = 900000000000"
    by (simp_all add: LOGIN_WINDOW_def LOGIN_BLOCK_def secs_def)
  have "length ([] :: login_limiter) + length wit_events \<le> MAX_TRACKED_SOURCES"
    by (simp add: wit_events_def MAX_TRACKED_SOURCES_def)
  moreover have "map le_time (filter (\<lambda>ev. le_source ev = IpV4 1) wit_events) = [0, 10, 20, 30, 40]"
    by (simp add: wit_events_def wit_event_def)
  moreover have "\<forall>ev \<in> set wit_events. le_source ev = IpV4 1 \<longrightarrow>
       length (le_username ev) < 2 ^ 64 \<and> length (le_password ev) < 2 ^ 64 \<and>
       (le_username ev \<noteq> ac_username wit_cfg \<or> le_password ev \<noteq> ac_password wit_cfg)"
    by (simp add: wit_events_def wit_event_def wit_cfg_def)
  ultimately show ?thesis
    using login_lockout [of "[]" wit_events "IpV4 1" wit_cfg 0 10 20 30 40 50 "\<lambda>_ _. None" 0 "[]" "''admin''" "''secret''"]
    by (auto simp: w wit_cfg_def)
qed

lemma split_on_absent: "c \<notin> set s \<Longrightarrow> split_on c s = [s]"
  by (induction s) auto

lemma split_once_append: "c \<notin> set a \<Longrightarrow> split_once c (a @ c # b) = Some (a, b)"
  by (induction a) auto

lemma trim_ascii_id: "\<forall>c \<in> set s. \<not> is_ascii_space c \<Longrightarrow> trim_ascii s = s"
proof -
  assume h: "\<forall>c \<in> set s. \<not> is_ascii_space c"
  then have "dropWhile is_ascii_space s = s" "dropWhile is_ascii_space (rev s) = rev s"
    unfolding dropWhile_eq_self_iff by (auto simp: hd_rev)
  then show ?thesis by (simp add: trim_ascii_def)
qed

text \<open>The browser sends the session cookie back.\<close>

lemma cookie_value_session:
  assumes "\<forall>c \<in> set token. c \<noteq> CHR '';'' \<and> \<not> is_ascii_space c"
  shows "cookie_value ((''cookie'', Some (SESSION_COOKIE @ ''='' @ token)) # map (Pair CSRF_HEADER) vs) SESSION_COOKIE = Some token"
proof -
  let ?c = "SESSION_COOKIE @ ''='' @ token"
  have g: "header_get_all ((''cookie'', Some ?c) # map (Pair CSRF_HEADER) vs) ''cookie'' = [?c]"
    by (simp add: header_get_all_def CSRF_HEADER_def)
  have n: "\<forall>c \<in> set SESSION_COOKIE. c \<noteq> CHR '';'' \<and> \<not> is_ascii_space c" "CHR ''='' \<notin> set SESSION_COOKIE"
    by (simp_all add: SESSION_COOKIE_def is_ascii_space_def)
  have "split_on (CHR '';'') ?c = [?c]" using n assms by (intro split_on_absent) auto
  moreover have "trim_ascii ?c = ?c" using n assms by (intro trim_ascii_id) (auto simp: is_ascii_space_def)
  moreover have "split_once (CHR ''='') ?c = Some (SESSION_COOKIE, token)" using split_once_append [OF n(2)] by simp
  ultimately show ?thesis unfolding cookie_value_def g by simp
qed

text \<open>C29. Who is let in.  A request is authorised exactly when it carries a token that the token library
  accepts under the server's secret (the bearer token if there is one, else the session cookie), and,
  if it came by cookie and may change something, also the CSRF value bound into that token.\<close>

theorem authorize_exact:
  assumes "\<And>token c e. decode token secret = Some c \<Longrightarrow> cl_csrf c = Some e \<Longrightarrow> length e < 2 ^ 64"
    and "\<And>v. header_get hs CSRF_HEADER = Some v \<Longrightarrow> length v < 2 ^ 64"
  shows "authorize decode hs method secret = Inr c \<longleftrightarrow>
    (case Option.bind (header_get hs ''authorization'') (strip_prefix ''Bearer '') of
       Some token \<Rightarrow> decode token secret = Some c
     | None \<Rightarrow> (\<exists>token. cookie_value hs ''vnts_session'' = Some token \<and> decode token secret = Some c \<and>
         (method \<in> {GET, HEAD, OPTIONS} \<or>
          (\<exists>v. cl_csrf c = Some v \<and> header_get hs ''x-csrf-token'' = Some v))))"
proof (cases "Option.bind (header_get hs ''authorization'') (strip_prefix ''Bearer '')")
  case (Some token)
  then show ?thesis by (auto simp: authorize_def Let_def split: option.split)
next
  case None
  have eq: "constant_time_eq e v \<longleftrightarrow> e = v" if "decode token secret = Some c'" "cl_csrf c' = Some e"
      "header_get hs CSRF_HEADER = Some v" for token c' e v
    using constant_time_eq_iff assms that by blast
  have m: "is_unsafe method \<longleftrightarrow> method \<notin> {GET, HEAD, OPTIONS}" by (simp add: is_unsafe_def)
  show ?thesis using None eq
    by (auto simp: authorize_def Let_def m SESSION_COOKIE_def [symmetric] CSRF_HEADER_def [symmetric] split: option.splits)
qed

theorem authorize_exact_witness:
  "authorize (\<lambda>t k. if t = ''tok'' \<and> k = ''k'' then Some \<lparr>cl_sub = ''admin'', cl_exp = 0, cl_csrf = None\<rparr> else None)
     [(''authorization'', Some ''Bearer tok'')] POST ''k'' = Inr \<lparr>cl_sub = ''admin'', cl_exp = 0, cl_csrf = None\<rparr>"
proof -
  let ?d = "\<lambda>t k. if t = ''tok'' \<and> k = ''k'' then Some \<lparr>cl_sub = ''admin'', cl_exp = 0, cl_csrf = None\<rparr> else None"
  have "\<And>token c e. ?d token ''k'' = Some c \<Longrightarrow> cl_csrf c = Some e \<Longrightarrow> length e < 2 ^ 64"
    by (auto split: if_splits)
  moreover have "\<And>v. header_get [(''authorization'', Some ''Bearer tok'')] CSRF_HEADER = Some v \<Longrightarrow> length v < 2 ^ 64"
    by (simp add: header_get_def CSRF_HEADER_def)
  ultimately show ?thesis
    using authorize_exact [of ?d "''k''" "[(''authorization'', Some ''Bearer tok'')]" POST "\<lparr>cl_sub = ''admin'', cl_exp = 0, cl_csrf = None\<rparr>"]
    by (simp add: header_get_def strip_prefix_def)
qed


definition wit_encode :: "claims \<Rightarrow> string \<Rightarrow> string option" where
  "wit_encode c k = (if cl_exp c = 0 \<and> cl_csrf c = Some ''x'' then Some (cl_sub c) else None)"

definition wit_decode :: "string \<Rightarrow> string \<Rightarrow> claims option" where
  "wit_decode t k = Some \<lparr>cl_sub = t, cl_exp = 0, cl_csrf = Some ''x''\<rparr>"


end
