(* ===== verification/Peer_Server.thy ===== *)
theory Peer_Server
  imports Network_Views
begin

text \<open>
  Links between servers (src/server/peer_server.rs): the peers a server is connected to, the routes
  to the clients of other servers, and the relaying of broadcasts.

  A \<open>PeerServerInfo\<close> is shared by reference: \<open>pm_infos\<close> is the store of these objects, and an object is
  named by its index (\<open>Arc::ptr_eq\<close> compares the indices).  The route maps of a network are reached
  through one reference that is never replaced, so they are kept in place.  What a QUIC connection or a
  send queue does with a message is the argument \<open>io\<close>; every attempt is recorded in \<open>pm_out\<close>.  The
  protobuf codec that the build generates from proto/server_message.proto is the argument \<open>cd\<close>.
  \<open>pm_acquire_answers\<close> and \<open>pm_release_answers\<close> hold what the oneshot channels of pending lease requests
  have carried.
\<close>

section \<open>Messages\<close>

record server_auth_request =
  aq_token_hash :: string
  aq_server_id :: string
  aq_protocol_version :: u32
  aq_capabilities :: u64
  aq_network_config_digest :: string
  aq_lease_authority :: string

record server_auth_response =
  as_success :: bool
  as_message :: string
  as_server_id :: string
  as_protocol_version :: u32
  as_capabilities :: u64
  as_network_config_digest :: string
  as_lease_authority :: string

record server_forward_data =
  fw_network_code :: string
  fw_data :: bytes
  fw_source_is_wireguard :: bool

record server_broadcast_data =
  bc_network_code :: string
  bc_data :: bytes
  bc_source_ip :: u32
  bc_broadcast_id :: string
  bc_origin_server_id :: string
  bc_hops_remaining :: u32
  bc_source_is_wireguard :: bool

record client_latency_info =
  cli_ip :: u32
  cli_latency_ms :: u32
  cli_is_wireguard :: bool

record network_info =
  ni_network_code :: string
  ni_clients :: "client_latency_info list"

record server_lease_acquire_request =
  sq_request_id :: string
  sq_network_code :: string
  sq_owner_type :: string
  sq_owner_id :: string
  sq_requested_ip :: u32
  sq_has_requested_ip :: bool
  sq_network_base :: u32
  sq_prefix_len :: u32
  sq_gateway :: u32
  sq_lease_duration_secs :: u64
  sq_static_reservation :: bool
  sq_origin_server_id :: string

record server_lease_acquire_response =
  sr_request_id :: string
  sr_success :: bool
  sr_message :: string
  sr_ip :: u32
  sr_revision :: u64
  sr_expires_at :: int

record server_lease_release_request =
  rl_request_id :: string
  rl_network_code :: string
  rl_owner_type :: string
  rl_owner_id :: string

record server_lease_release_response =
  rr_request_id :: string
  rr_success :: bool
  rr_message :: string
  rr_revision :: u64

datatype server_message =
    NoPayload
  | AuthReq server_auth_request
  | AuthRes server_auth_response
  | PingReq u64
  | PingRes u64 u64
  | ForwardData server_forward_data
  | ClientInfoReq "string list"
  | ClientInfoRes "network_info list"
  | LeaseAcquireReq server_lease_acquire_request
  | LeaseAcquireRes server_lease_acquire_response
  | LeaseReleaseReq server_lease_release_request
  | LeaseReleaseRes server_lease_release_response
  | BroadcastData server_broadcast_data

record server_codec =
  sc_encode :: "server_message \<Rightarrow> bytes"
  sc_decode :: "bytes \<Rightarrow> server_message option"

section \<open>Constants\<close>

definition DEFAULT_CLIENT_LATENCY_MS :: u32 where
  "DEFAULT_CLIENT_LATENCY_MS = 10"

definition DEFAULT_SERVER_LATENCY_MS :: u32 where
  "DEFAULT_SERVER_LATENCY_MS = 10"

definition MAX_ROUTES_PER_IP :: nat where
  "MAX_ROUTES_PER_IP = 5"

definition PEER_PROTOCOL_VERSION :: u32 where
  "PEER_PROTOCOL_VERSION = 2"

definition CAPABILITY_PEER_IDENTITY_V1 :: u64 where
  "CAPABILITY_PEER_IDENTITY_V1 = 1"

definition CAPABILITY_CLUSTER_LEASE_V1 :: u64 where
  "CAPABILITY_CLUSTER_LEASE_V1 = push_bit 1 1"

definition CAPABILITY_WIREGUARD_BROADCAST_V1 :: u64 where
  "CAPABILITY_WIREGUARD_BROADCAST_V1 = push_bit 2 1"

definition CAPABILITY_WIREGUARD_ENDPOINT_SYNC_V1 :: u64 where
  "CAPABILITY_WIREGUARD_ENDPOINT_SYNC_V1 = push_bit 3 1"

definition BROADCAST_HOP_LIMIT :: u32 where
  "BROADCAST_HOP_LIMIT = 8"

definition BROADCAST_SEEN_TTL :: nat where
  "BROADCAST_SEEN_TTL = 120 * 1000000000"

definition MAX_BROADCAST_SEEN :: nat where
  "MAX_BROADCAST_SEEN = 4096"

section \<open>Peers\<close>

record peer_server_info =
  pi_addr :: string
  pi_resolved_addr :: "socket_addr option"
  pi_last_resolved_at :: "u64 option"
  pi_last_error :: "string option"
  pi_remote_server_id :: "string option"
  pi_remote_protocol_version :: u32
  pi_remote_capabilities :: u64
  pi_cluster_compatible :: bool
  pi_route_only :: bool
  pi_latency_ms :: u32
  pi_sender :: "nat option"
  pi_connection :: "nat option"
  pi_connected :: bool
  pi_is_outbound :: bool

definition peer_info_new :: "string \<Rightarrow> bool \<Rightarrow> peer_server_info" where
  "peer_info_new addr is_outbound =
     \<lparr>pi_addr = addr, pi_resolved_addr = None, pi_last_resolved_at = None, pi_last_error = None,
      pi_remote_server_id = None, pi_remote_protocol_version = 0, pi_remote_capabilities = 0,
      pi_cluster_compatible = False, pi_route_only = True, pi_latency_ms = DEFAULT_SERVER_LATENCY_MS,
      pi_sender = None, pi_connection = None, pi_connected = False, pi_is_outbound = is_outbound\<rparr>"

definition set_connected :: "nat \<Rightarrow> nat \<Rightarrow> peer_server_info \<Rightarrow> peer_server_info" where
  "set_connected sender connection p =
     p\<lparr>pi_sender := Some sender, pi_connection := Some connection, pi_connected := True, pi_last_error := None\<rparr>"

definition set_disconnected :: "peer_server_info \<Rightarrow> peer_server_info" where
  "set_disconnected p = p\<lparr>pi_sender := None, pi_connection := None, pi_connected := False\<rparr>"

definition set_resolution :: "socket_addr \<Rightarrow> u64 \<Rightarrow> peer_server_info \<Rightarrow> peer_server_info" where
  "set_resolution address now p =
     p\<lparr>pi_resolved_addr := Some address, pi_last_resolved_at := Some now, pi_last_error := None\<rparr>"

definition set_last_error :: "string \<Rightarrow> peer_server_info \<Rightarrow> peer_server_info" where
  "set_last_error e p = p\<lparr>pi_last_error := Some e\<rparr>"

definition set_remote_metadata ::
  "string \<Rightarrow> u32 \<Rightarrow> u64 \<Rightarrow> bool \<Rightarrow> peer_server_info \<Rightarrow> peer_server_info" where
  "set_remote_metadata server_id version capabilities cluster_compatible p =
     p\<lparr>pi_remote_server_id := (if server_id \<noteq> [] then Some server_id else None),
       pi_remote_protocol_version := version, pi_remote_capabilities := capabilities,
       pi_cluster_compatible := cluster_compatible,
       pi_route_only := (version < PEER_PROTOCOL_VERSION \<or> capabilities AND CAPABILITY_PEER_IDENTITY_V1 = 0)\<rparr>"

definition update_latency :: "u32 \<Rightarrow> peer_server_info \<Rightarrow> peer_server_info" where
  "update_latency latency p = p\<lparr>pi_latency_ms := latency\<rparr>"

record ip_route_info =
  ri_peer :: nat
  ri_client_latency_ms :: u32

datatype peer_event = SentDatagram nat bytes bool | SentStream nat bytes bool

record peer_io =
  io_datagram :: "peer_event list \<Rightarrow> nat \<Rightarrow> bytes \<Rightarrow> bool"
  io_stream :: "peer_event list \<Rightarrow> nat \<Rightarrow> bytes \<Rightarrow> bool"

type_synonym route_map = "(ipv4, ip_route_info list) hmap"

record peer_manager =
  pm_token_hash :: string
  pm_server_id :: string
  pm_lease_authority :: string
  pm_network_config_digest :: string
  pm_capabilities :: u64
  pm_networks :: network_states
  pm_infos :: "nat \<Rightarrow> peer_server_info"
  pm_peer_servers :: "nat list"
  ip_to_routes :: "(string, route_map) hmap"
  pm_last_resolved_addresses :: "(string, socket_addr) hmap"
  pm_pending_lease_acquires :: "string hset"
  pm_pending_lease_releases :: "string hset"
  pm_acquire_answers :: "server_lease_acquire_response list"
  pm_release_answers :: "server_lease_release_response list"
  pm_broadcast_seen :: "(string, nat) hmap"
  pm_cluster_ready :: bool
  pm_cluster_conflicts :: u64
  pm_cluster_revision :: u64
  pm_out :: "peer_event list"

definition upd_info :: "nat \<Rightarrow> (peer_server_info \<Rightarrow> peer_server_info) \<Rightarrow> peer_manager \<Rightarrow> peer_manager" where
  "upd_info p f m = m\<lparr>pm_infos := (pm_infos m)(p := f (pm_infos m p))\<rparr>"

definition peer_send :: "peer_io \<Rightarrow> nat \<Rightarrow> bytes \<Rightarrow> peer_manager \<Rightarrow> bool \<times> peer_manager" where
  "peer_send io p data m =
     (case pi_sender (pm_infos m p) of
        Some sender \<Rightarrow>
          (let ok = io_stream io (pm_out m) sender data
           in (ok, m\<lparr>pm_out := pm_out m @ [SentStream sender data ok]\<rparr>))
      | None \<Rightarrow> (False, m))"

definition send_datagram :: "peer_io \<Rightarrow> nat \<Rightarrow> bytes \<Rightarrow> peer_manager \<Rightarrow> bool \<times> peer_manager" where
  "send_datagram io p data m =
     (case pi_connection (pm_infos m p) of
        Some conn \<Rightarrow>
          (let ok = io_datagram io (pm_out m) conn data
           in (ok, m\<lparr>pm_out := pm_out m @ [SentDatagram conn data ok]\<rparr>))
      | None \<Rightarrow> (False, m))"

section \<open>Identity of a server\<close>

text \<open>\<open>token_hash\<close> is the hexadecimal SHA-256 of the token, computed by the crates sha2 and hex.\<close>

definition new_with_identity ::
  "string \<Rightarrow> network_states \<Rightarrow> string option \<Rightarrow> string option \<Rightarrow> string \<Rightarrow> peer_manager" where
  "new_with_identity token_hash networks server_id lease_authority network_config_digest =
     (let server_id = (case server_id of Some x \<Rightarrow> x | None \<Rightarrow> []);
          lease_authority = (case lease_authority of Some x \<Rightarrow> x | None \<Rightarrow> []);
          cluster_enabled = (server_id \<noteq> [] \<and> lease_authority \<noteq> []);
          capabilities = CAPABILITY_PEER_IDENTITY_V1 OR CAPABILITY_WIREGUARD_BROADCAST_V1
            OR CAPABILITY_WIREGUARD_ENDPOINT_SYNC_V1
            OR (if cluster_enabled then CAPABILITY_CLUSTER_LEASE_V1 else 0)
      in \<lparr>pm_token_hash = token_hash, pm_server_id = server_id, pm_lease_authority = lease_authority,
          pm_network_config_digest = network_config_digest, pm_capabilities = capabilities,
          pm_networks = networks, pm_infos = (\<lambda>_. peer_info_new [] False), pm_peer_servers = [],
          ip_to_routes = [], pm_last_resolved_addresses = [], pm_pending_lease_acquires = [],
          pm_pending_lease_releases = [], pm_acquire_answers = [], pm_release_answers = [],
          pm_broadcast_seen = [],
          pm_cluster_ready = (\<not> cluster_enabled \<or> server_id = lease_authority),
          pm_cluster_conflicts = 0, pm_cluster_revision = 0, pm_out = []\<rparr>)"

definition auth_request :: "peer_manager \<Rightarrow> server_auth_request" where
  "auth_request m =
     \<lparr>aq_token_hash = pm_token_hash m, aq_server_id = pm_server_id m,
      aq_protocol_version = PEER_PROTOCOL_VERSION, aq_capabilities = pm_capabilities m,
      aq_network_config_digest = pm_network_config_digest m, aq_lease_authority = pm_lease_authority m\<rparr>"

definition auth_response :: "bool \<Rightarrow> string \<Rightarrow> peer_manager \<Rightarrow> server_auth_response" where
  "auth_response success message m =
     \<lparr>as_success = success, as_message = message, as_server_id = pm_server_id m,
      as_protocol_version = PEER_PROTOCOL_VERSION, as_capabilities = pm_capabilities m,
      as_network_config_digest = pm_network_config_digest m, as_lease_authority = pm_lease_authority m\<rparr>"

definition peer_cluster_compatible :: "string \<Rightarrow> u64 \<Rightarrow> string \<Rightarrow> string \<Rightarrow> peer_manager \<Rightarrow> bool" where
  "peer_cluster_compatible remote_server_id remote_capabilities remote_digest remote_authority m =
     (pm_server_id m \<noteq> [] \<and> remote_server_id \<noteq> [] \<and> remote_server_id \<noteq> pm_server_id m
      \<and> remote_capabilities AND CAPABILITY_CLUSTER_LEASE_V1 \<noteq> 0
      \<and> remote_authority = pm_lease_authority m \<and> remote_digest = pm_network_config_digest m)"

definition cluster_enabled :: "peer_manager \<Rightarrow> bool" where
  "cluster_enabled m = (pm_server_id m \<noteq> [] \<and> pm_lease_authority m \<noteq> [])"

definition is_lease_authority :: "peer_manager \<Rightarrow> bool" where
  "is_lease_authority m = (cluster_enabled m \<and> pm_server_id m = pm_lease_authority m)"

definition authority_peer :: "peer_manager \<Rightarrow> nat option" where
  "authority_peer m = find (\<lambda>p. let i = pm_infos m p in
     pi_connected i \<and> pi_cluster_compatible i \<and> pi_remote_server_id i = Some (pm_lease_authority m))
     (pm_peer_servers m)"

section \<open>Connections\<close>

text \<open>The server side of the handshake, from the first message of the connection: the answer written
  to the connection (if any), whether the peer was accepted, and the new state.  \<open>p\<close> is the new
  \<open>PeerServerInfo\<close>, \<open>written\<close> says whether the final answer could be written.\<close>

datatype auth_outcome = AuthDecodeError | AuthUnexpected | AuthBadToken | AuthDuplicateId | AuthWriteError | AuthAccepted

definition handle_peer_connection ::
  "server_codec \<Rightarrow> bytes \<Rightarrow> nat \<Rightarrow> nat \<Rightarrow> nat \<Rightarrow> socket_addr \<Rightarrow> string \<Rightarrow> u64 \<Rightarrow> bool \<Rightarrow> peer_manager \<Rightarrow>
   auth_outcome \<times> bytes option \<times> peer_manager" where
  "handle_peer_connection cd buf p tx connection addr addr_text now written m =
     (case sc_decode cd buf of
        None \<Rightarrow> (AuthDecodeError, None, m)
      | Some (AuthReq auth_req) \<Rightarrow>
          if aq_token_hash auth_req \<noteq> pm_token_hash m
          then (AuthBadToken, Some (sc_encode cd (AuthRes (auth_response False ''Invalid token'' m))), m)
          else if pm_server_id m \<noteq> [] \<and> aq_server_id auth_req = pm_server_id m
          then (AuthDuplicateId, Some (sc_encode cd (AuthRes (auth_response False ''Duplicate server_id'' m))), m)
          else if \<not> written
          then (AuthWriteError, Some (sc_encode cd (AuthRes (auth_response True ''OK'' m))), m)
          else
            (let cluster_compatible = peer_cluster_compatible (aq_server_id auth_req) (aq_capabilities auth_req)
                   (aq_network_config_digest auth_req) (aq_lease_authority auth_req) m;
                 info = set_connected tx connection (set_remote_metadata (aq_server_id auth_req)
                   (aq_protocol_version auth_req) (aq_capabilities auth_req) cluster_compatible
                   (set_resolution addr now (peer_info_new addr_text False)))
             in (AuthAccepted, Some (sc_encode cd (AuthRes (auth_response True ''OK'' m))),
                 m\<lparr>pm_infos := (pm_infos m)(p := info), pm_peer_servers := pm_peer_servers m @ [p]\<rparr>))
      | Some _ \<Rightarrow> (AuthUnexpected, None, m))"

text \<open>The client side, from the answer of the server on: \<open>connect_to_peer\<close> has made the object \<open>p\<close> and
  listed it.  The flag says whether the local allocations are to be reconciled with the authority.\<close>

definition connect_to_peer :: "nat \<Rightarrow> string \<Rightarrow> peer_manager \<Rightarrow> peer_manager" where
  "connect_to_peer p peer_addr m =
     m\<lparr>pm_infos := (pm_infos m)(p := peer_info_new peer_addr True), pm_peer_servers := pm_peer_servers m @ [p]\<rparr>"

datatype connect_error = ConnectDecodeError | ConnectUnexpected | ConnectAuthFailed string

definition connect_authenticated ::
  "server_codec \<Rightarrow> bytes \<Rightarrow> nat \<Rightarrow> nat \<Rightarrow> nat \<Rightarrow> socket_addr \<Rightarrow> u64 \<Rightarrow> peer_manager \<Rightarrow>
   (connect_error + bool) \<times> peer_manager" where
  "connect_authenticated cd buf p tx connection resolved_addr now m =
     (case sc_decode cd buf of
        None \<Rightarrow> (Inl ConnectDecodeError, m)
      | Some (AuthRes auth_res) \<Rightarrow>
          if \<not> as_success auth_res then (Inl (ConnectAuthFailed (as_message auth_res)), m)
          else
            (let cluster_compatible = peer_cluster_compatible (as_server_id auth_res) (as_capabilities auth_res)
                   (as_network_config_digest auth_res) (as_lease_authority auth_res) m;
                 m = upd_info p (\<lambda>i. set_connected tx connection (set_remote_metadata (as_server_id auth_res)
                   (as_protocol_version auth_res) (as_capabilities auth_res) cluster_compatible
                   (set_resolution resolved_addr now i))) m;
                 i = pm_infos m p
             in if pi_cluster_compatible i \<and> pi_remote_server_id i = Some (pm_lease_authority m)
                then (Inr True, m\<lparr>pm_cluster_ready := False\<rparr>)
                else (Inr False, m))
      | Some _ \<Rightarrow> (Inl ConnectUnexpected, m))"

section \<open>Routes\<close>

definition total_latency :: "(nat \<Rightarrow> peer_server_info) \<Rightarrow> ip_route_info \<Rightarrow> u32" where
  "total_latency infos r = pi_latency_ms (infos (ri_peer r)) + ri_client_latency_ms r + 2"

fun set_route_latency :: "nat \<Rightarrow> u32 \<Rightarrow> ip_route_info list \<Rightarrow> ip_route_info list" where
  "set_route_latency p l [] = []"
| "set_route_latency p l (r # rs) =
     (if ri_peer r = p then r\<lparr>ri_client_latency_ms := l\<rparr> # rs else r # set_route_latency p l rs)"

definition update_routes ::
  "(nat \<Rightarrow> peer_server_info) \<Rightarrow> nat \<Rightarrow> u32 \<Rightarrow> ip_route_info list option \<Rightarrow> ip_route_info list" where
  "update_routes infos p l routes =
     (case routes of
        None \<Rightarrow> [\<lparr>ri_peer = p, ri_client_latency_ms = l\<rparr>]
      | Some routes \<Rightarrow>
          (let routes = (if list_ex (\<lambda>r. ri_peer r = p) routes then set_route_latency p l routes
                         else routes @ [\<lparr>ri_peer = p, ri_client_latency_ms = l\<rparr>])
           in take MAX_ROUTES_PER_IP (sort_key (total_latency infos) routes)))"

text \<open>The loop over the clients of one network: the route map, the listed addresses and the WireGuard
  addresses among them.\<close>

definition sync_client ::
  "(nat \<Rightarrow> peer_server_info) \<Rightarrow> nat \<Rightarrow> bool \<Rightarrow> client_latency_info \<Rightarrow> route_map \<times> ipv4 hset \<times> ipv4 hset \<Rightarrow>
   route_map \<times> ipv4 hset \<times> ipv4 hset" where
  "sync_client infos p accepts_endpoint_type client acc =
     (case acc of (ip_map, synced_ips, remote_wireguard_ips) \<Rightarrow>
        (let ip = cli_ip client
         in (hm_insert ip (update_routes infos p (cli_latency_ms client) (hm_get ip_map ip)) ip_map,
             List.insert ip synced_ips,
             if accepts_endpoint_type \<and> cli_is_wireguard client then List.insert ip remote_wireguard_ips
             else remote_wireguard_ips)))"

definition drop_peer_routes :: "(ipv4 \<Rightarrow> bool) \<Rightarrow> nat \<Rightarrow> route_map \<Rightarrow> route_map" where
  "drop_peer_routes keep p ip_map =
     filter (\<lambda>(ip, routes). routes \<noteq> [])
       (map (\<lambda>(ip, routes). (ip, if keep ip then routes else filter (\<lambda>r. ri_peer r \<noteq> p) routes)) ip_map)"

definition sync_network ::
  "nat \<Rightarrow> nat \<Rightarrow> network_info \<Rightarrow> string hset \<times> peer_manager \<Rightarrow> string hset \<times> peer_manager" where
  "sync_network instant p net_info acc =
     (case acc of (network_codes, m) \<Rightarrow>
        (let accepts_endpoint_type = (pi_remote_capabilities (pm_infos m p) AND CAPABILITY_WIREGUARD_ENDPOINT_SYNC_V1 \<noteq> 0);
             network_code = ni_network_code net_info;
             ip_map = (case hm_get (ip_to_routes m) network_code of Some x \<Rightarrow> x | None \<Rightarrow> []);
             (ip_map, synced_ips, remote_wireguard_ips) =
               fold (sync_client (pm_infos m) p accepts_endpoint_type) (ni_clients net_info) (ip_map, [], []);
             ip_map = drop_peer_routes (\<lambda>ip. ip \<in> set synced_ips) p ip_map;
             m = m\<lparr>ip_to_routes := hm_insert network_code ip_map (ip_to_routes m)\<rparr>
         in (List.insert network_code network_codes,
             case get_network_state network_code (pm_networks m) of
               Some state \<Rightarrow>
                 m\<lparr>pm_networks := hm_insert network_code
                     (snd (update_remote_wireguard_ips (pi_addr (pm_infos m p)) remote_wireguard_ips instant state))
                     (pm_networks m)\<rparr>
             | None \<Rightarrow> m)))"

definition handle_client_info_response ::
  "nat \<Rightarrow> nat \<Rightarrow> string hset \<Rightarrow> network_info list \<Rightarrow> peer_manager \<Rightarrow> string hset \<times> peer_manager" where
  "handle_client_info_response instant p network_codes networks m =
     fold (sync_network instant p) networks (network_codes, m)"

definition cleanup_network :: "nat \<Rightarrow> nat \<Rightarrow> string \<Rightarrow> peer_manager \<Rightarrow> peer_manager" where
  "cleanup_network instant p network_code m =
     (let m = (case hm_get (ip_to_routes m) network_code of
                 Some ip_map \<Rightarrow>
                   m\<lparr>ip_to_routes := hm_insert network_code (drop_peer_routes (\<lambda>_. False) p ip_map) (ip_to_routes m)\<rparr>
               | None \<Rightarrow> m)
      in case get_network_state network_code (pm_networks m) of
           Some state \<Rightarrow>
             m\<lparr>pm_networks := hm_insert network_code
                 (snd (remove_remote_wireguard_source (pi_addr (pm_infos m p)) instant state)) (pm_networks m)\<rparr>
         | None \<Rightarrow> m)"

definition cleanup_routes :: "nat \<Rightarrow> nat \<Rightarrow> string hset \<Rightarrow> peer_manager \<Rightarrow> peer_manager" where
  "cleanup_routes instant p network_codes m = fold (cleanup_network instant p) network_codes m"

text \<open>What \<open>run_peer_communication_loop\<close> does when the connection ends.\<close>

definition connection_closed :: "nat \<Rightarrow> nat \<Rightarrow> string hset \<Rightarrow> peer_manager \<Rightarrow> peer_manager" where
  "connection_closed instant p network_codes m =
     (let m = upd_info p set_disconnected m;
          m = (if cluster_enabled m \<and> \<not> is_lease_authority m
                  \<and> pi_remote_server_id (pm_infos m p) = Some (pm_lease_authority m)
               then m\<lparr>pm_cluster_ready := False\<rparr> else m);
          m = cleanup_routes instant p network_codes m
      in if \<not> pi_is_outbound (pm_infos m p)
         then m\<lparr>pm_peer_servers := filter (\<lambda>q. q \<noteq> p) (pm_peer_servers m)\<rparr> else m)"

section \<open>Client lists and latencies\<close>

definition client_infos :: "network_state \<Rightarrow> client_latency_info list" where
  "client_infos state = map (\<lambda>(ip, _).
     \<lparr>cli_ip = ip,
      cli_latency_ms = (case Option.bind (get_device_entry_by_ip ip state) de_latency_ms of
                          Some l \<Rightarrow> l | None \<Rightarrow> DEFAULT_CLIENT_LATENCY_MS),
      cli_is_wireguard = is_wireguard_endpoint ip state\<rparr>) (sender_map state)"

definition handle_client_info_request :: "string list \<Rightarrow> peer_manager \<Rightarrow> network_info list" where
  "handle_client_info_request network_codes m =
     map (\<lambda>network_code.
       \<lparr>ni_network_code = network_code,
        ni_clients = (case get_network_state network_code (pm_networks m) of
                        Some state \<Rightarrow> client_infos state | None \<Rightarrow> [])\<rparr>) network_codes"

definition pull_client_info_from_peer :: "server_codec \<Rightarrow> peer_io \<Rightarrow> nat \<Rightarrow> peer_manager \<Rightarrow> bool \<times> peer_manager" where
  "pull_client_info_from_peer cd io p m =
     (let network_codes = get_network_codes (pm_networks m) in
      if network_codes = [] then (True, m)
      else peer_send io p (sc_encode cd (ClientInfoReq network_codes)) m)"

text \<open>Times are the milliseconds since the epoch as u64.\<close>

definition ping_peer :: "server_codec \<Rightarrow> peer_io \<Rightarrow> nat \<Rightarrow> u64 \<Rightarrow> peer_manager \<Rightarrow> bool \<times> peer_manager" where
  "ping_peer cd io p timestamp m = peer_send io p (sc_encode cd (PingReq timestamp)) m"

definition handle_ping_request ::
  "server_codec \<Rightarrow> peer_io \<Rightarrow> nat \<Rightarrow> u64 \<Rightarrow> u64 \<Rightarrow> peer_manager \<Rightarrow> bool \<times> peer_manager" where
  "handle_ping_request cd io p timestamp now m = peer_send io p (sc_encode cd (PingRes timestamp now)) m"

definition handle_ping_response :: "nat \<Rightarrow> u64 \<Rightarrow> u64 \<Rightarrow> peer_manager \<Rightarrow> peer_manager" where
  "handle_ping_response p request_timestamp now m =
     (let rtt = saturating_sub now request_timestamp; latency = ucast (rtt div 2)
      in upd_info p (update_latency latency) m)"

section \<open>Choosing a route\<close>

fun best_route :: "(nat \<Rightarrow> peer_server_info) \<Rightarrow> ip_route_info list \<Rightarrow> (nat \<times> u32) option \<Rightarrow> (nat \<times> u32) option" where
  "best_route infos [] best = best"
| "best_route infos (route # routes) best =
     (if \<not> pi_connected (infos (ri_peer route)) then best_route infos routes best
      else let lat = total_latency infos route
           in case best of
                None \<Rightarrow> best_route infos routes (Some (ri_peer route, lat))
              | Some (_, current_best) \<Rightarrow>
                  if lat < current_best then best_route infos routes (Some (ri_peer route, lat))
                  else best_route infos routes best)"

definition find_best_route :: "string \<Rightarrow> ipv4 \<Rightarrow> peer_manager \<Rightarrow> (nat \<times> u32 \<times> u32 option) option" where
  "find_best_route network_code target_ip m =
     (let local_latency = Option.bind (get_network_state network_code (pm_networks m))
            (\<lambda>state. Option.bind (get_device_entry_by_ip target_ip state) de_latency_ms)
      in case hm_get (ip_to_routes m) network_code of
           None \<Rightarrow> None
         | Some ip_map \<Rightarrow>
             (case hm_get ip_map target_ip of
                None \<Rightarrow> None
              | Some routes \<Rightarrow>
                  (case best_route (pm_infos m) routes None of
                     None \<Rightarrow> None
                   | Some (p, lat) \<Rightarrow> Some (p, lat, local_latency))))"

definition get_remote_devices :: "string \<Rightarrow> peer_manager \<Rightarrow> (ipv4 \<times> string \<times> u32) list" where
  "get_remote_devices network_code m =
     (case hm_get (ip_to_routes m) network_code of
        None \<Rightarrow> []
      | Some ip_map \<Rightarrow>
          concat (map (\<lambda>(ip, routes). map (\<lambda>r.
            (ip, pi_addr (pm_infos m (ri_peer r)), total_latency (pm_infos m) r)) routes) ip_map))"

definition forward_to_peer ::
  "server_codec \<Rightarrow> peer_io \<Rightarrow> nat \<Rightarrow> string \<Rightarrow> bytes \<Rightarrow> relay_origin \<Rightarrow> peer_manager \<Rightarrow> bool \<times> peer_manager" where
  "forward_to_peer cd io p network_code data origin m =
     send_datagram io p (sc_encode cd (ForwardData
       \<lparr>fw_network_code = network_code, fw_data = data, fw_source_is_wireguard = (origin = FromWireGuard)\<rparr>)) m"

definition should_forward :: "u32 option \<Rightarrow> bool \<Rightarrow> u32 \<Rightarrow> bool" where
  "should_forward local_latency local_has_client remote_latency =
     (case local_latency of
        Some local_lat \<Rightarrow> remote_latency < local_lat
      | None \<Rightarrow> if local_has_client then remote_latency < DEFAULT_CLIENT_LATENCY_MS else True)"

definition forward_with_best_route ::
  "server_codec \<Rightarrow> peer_io \<Rightarrow> string \<Rightarrow> ipv4 \<Rightarrow> bytes \<Rightarrow> relay_origin \<Rightarrow> peer_manager \<Rightarrow> bool \<times> peer_manager" where
  "forward_with_best_route cd io network_code target_ip data origin m =
     (let local_has_client = (case get_network_state network_code (pm_networks m) of
            Some state \<Rightarrow> hm_contains (sender_map state) target_ip | None \<Rightarrow> False)
      in case find_best_route network_code target_ip m of
           None \<Rightarrow> (False, m)
         | Some (p, remote_latency, local_latency) \<Rightarrow>
             if should_forward local_latency local_has_client remote_latency
             then forward_to_peer cd io p network_code data origin m
             else (False, m))"

section \<open>Data from other servers\<close>

definition wire_origin :: "bool \<Rightarrow> relay_origin" where
  "wire_origin source_is_wireguard = (if source_is_wireguard then FromWireGuard else FromVnt)"

definition handle_forward_data :: "mpsc \<Rightarrow> server_forward_data \<Rightarrow> peer_manager \<Rightarrow> peer_manager" where
  "handle_forward_data mp forward m =
     (case get_network_state (fw_network_code forward) (pm_networks m) of
        None \<Rightarrow> m
      | Some state \<Rightarrow>
          (case new_packet (fw_data forward) of
             Inl _ \<Rightarrow> m
           | Inr packet \<Rightarrow>
               (let dest = dest_id packet; origin = wire_origin (fw_source_is_wireguard forward);
                    data = buffer packet
                in case try_deliver mp dest data origin state of (r, state) \<Rightarrow>
                     m\<lparr>pm_networks := hm_insert (fw_network_code forward)
                         (if r = Delivered then record_rx_traffic dest (length data) state else state)
                         (pm_networks m)\<rparr>)))"

section \<open>Broadcasts\<close>

definition seen_recently :: "nat \<Rightarrow> nat \<Rightarrow> bool" where
  "seen_recently now seen = (now - seen < BROADCAST_SEEN_TTL)"

definition mark_broadcast_seen :: "nat \<Rightarrow> string \<Rightarrow> (string, nat) hmap \<Rightarrow> bool \<times> (string, nat) hmap" where
  "mark_broadcast_seen now broadcast_id seen =
     (let seen = (if length seen \<ge> MAX_BROADCAST_SEEN then hm_retain (\<lambda>_ t. seen_recently now t) seen else seen)
      in case hm_get seen broadcast_id of
           Some t \<Rightarrow> if seen_recently now t then (False, seen) else (True, hm_insert broadcast_id now seen)
         | None \<Rightarrow> (True, hm_insert broadcast_id now seen))"

fun forward_broadcast_loop ::
  "peer_io \<Rightarrow> bytes \<Rightarrow> nat option \<Rightarrow> nat list \<Rightarrow> string hset \<Rightarrow> nat \<Rightarrow> peer_manager \<Rightarrow> nat \<times> peer_manager" where
  "forward_broadcast_loop io message incoming [] remote_ids n m = (n, m)"
| "forward_broadcast_loop io message incoming (p # peers) remote_ids n m =
     (let i = pm_infos m p in
      if \<not> pi_connected i \<or> pi_remote_capabilities i AND CAPABILITY_WIREGUARD_BROADCAST_V1 = 0 \<or> incoming = Some p
      then forward_broadcast_loop io message incoming peers remote_ids n m
      else let remote_id = (case pi_remote_server_id i of Some x \<Rightarrow> x | None \<Rightarrow> pi_addr i) in
        if remote_id \<in> set remote_ids then forward_broadcast_loop io message incoming peers remote_ids n m
        else (case send_datagram io p message m of (ok, m) \<Rightarrow>
          forward_broadcast_loop io message incoming peers (remote_id # remote_ids)
            (if ok then n + 1 else n) m))"

definition forward_broadcast_message ::
  "server_codec \<Rightarrow> peer_io \<Rightarrow> server_broadcast_data \<Rightarrow> nat option \<Rightarrow> peer_manager \<Rightarrow> nat \<times> peer_manager" where
  "forward_broadcast_message cd io broadcast incoming m =
     forward_broadcast_loop io (sc_encode cd (BroadcastData broadcast)) incoming (pm_peer_servers m) [] 0 m"

definition broadcast_refused :: "peer_server_info \<Rightarrow> server_broadcast_data \<Rightarrow> bool" where
  "broadcast_refused incoming broadcast =
     (pi_remote_capabilities incoming AND CAPABILITY_WIREGUARD_BROADCAST_V1 = 0
      \<or> bc_network_code broadcast = [] \<or> bc_broadcast_id broadcast = []
      \<or> length (bc_broadcast_id broadcast) > 128
      \<or> length (bc_data broadcast) > MAX_INNER_IPV4_PACKET_SIZE
      \<or> bc_hops_remaining broadcast = 0 \<or> bc_hops_remaining broadcast > BROADCAST_HOP_LIMIT)"

text \<open>None is a panic of the relay.\<close>

definition handle_broadcast_data ::
  "pnet \<Rightarrow> mpsc \<Rightarrow> server_codec \<Rightarrow> peer_io \<Rightarrow> nat \<Rightarrow> nat \<Rightarrow> server_broadcast_data \<Rightarrow> peer_manager \<Rightarrow> peer_manager option" where
  "handle_broadcast_data P mp cd io now incoming broadcast m =
     (if broadcast_refused (pm_infos m incoming) broadcast then Some m
      else (case mark_broadcast_seen now (bc_broadcast_id broadcast) (pm_broadcast_seen m) of (fresh, seen) \<Rightarrow>
        let m = m\<lparr>pm_broadcast_seen := seen\<rparr> in
        if \<not> fresh then Some m
        else
          (case (case get_network_state (bc_network_code broadcast) (pm_networks m) of
                   None \<Rightarrow> Some m
                 | Some state \<Rightarrow>
                     map_option (\<lambda>(_, state). m\<lparr>pm_networks := hm_insert (bc_network_code broadcast) state (pm_networks m)\<rparr>)
                       (relay_wireguard_broadcast P mp (bc_source_ip broadcast) (bc_data broadcast)
                          (wire_origin (bc_source_is_wireguard broadcast)) state)) of
             None \<Rightarrow> None
           | Some m \<Rightarrow>
               (let broadcast = broadcast\<lparr>bc_hops_remaining := bc_hops_remaining broadcast - 1\<rparr>
                in Some (if bc_hops_remaining broadcast > 0
                         then snd (forward_broadcast_message cd io broadcast (Some incoming) m) else m)))))"

text \<open>\<open>request_id\<close> is the random number of \<open>new_request_id\<close> in hexadecimal.\<close>

definition broadcast_wireguard ::
  "server_codec \<Rightarrow> peer_io \<Rightarrow> nat \<Rightarrow> string \<Rightarrow> string \<Rightarrow> ipv4 \<Rightarrow> bytes \<Rightarrow> relay_origin \<Rightarrow> peer_manager \<Rightarrow> nat \<times> peer_manager" where
  "broadcast_wireguard cd io now request_id network_code source data origin m =
     (if length data > MAX_INNER_IPV4_PACKET_SIZE then (0, m)
      else
        (let broadcast_id = pm_server_id m @ '':'' @ request_id;
             m = m\<lparr>pm_broadcast_seen := snd (mark_broadcast_seen now broadcast_id (pm_broadcast_seen m))\<rparr>
         in forward_broadcast_message cd io
              \<lparr>bc_network_code = network_code, bc_data = data, bc_source_ip = source,
               bc_broadcast_id = broadcast_id, bc_origin_server_id = pm_server_id m,
               bc_hops_remaining = BROADCAST_HOP_LIMIT, bc_source_is_wireguard = (origin = FromWireGuard)\<rparr>
              None m))"

end
