(* ===== verification/Cluster_Lease.thy ===== *)
theory Cluster_Lease
  imports Std_Text Address_Scan
begin

text \<open>
  Cluster leases (src/server/control_server/db.rs, \<open>acquire_cluster_lease\<close> to
  \<open>release_cluster_lease\<close>, over the tables of db/migrations.rs).  The lease authority of a cluster
  keeps one table of leases for all servers.

  The tables are lists of rows.  Each SQL statement is translated to the list operation it denotes,
  with the CHECK, PRIMARY KEY and UNIQUE clauses of the schema as conditions under which an INSERT
  fails.  A transaction is one step: SQLite lets one writer through at a time, and a transaction that
  fails leaves the tables as they were.  \<open>dbf\<close> says whether the database fails for a reason of its own
  (I/O, locking) during the transaction.  INTEGER columns are integers; a revision would leave the
  range of i64 after \<open>2 ^ 63\<close> changes.
\<close>

section \<open>Tables\<close>

record lease_row =
  lr_network_code :: string
  lr_owner_type :: string
  lr_owner_id :: string
  lr_ip :: string
  lr_authority_id :: string
  lr_origin_server_id :: string
  lr_revision :: int
  lr_expires_at :: int
  lr_static_reservation :: bool
  lr_updated_at :: int

record allocation_row =
  ar_network_code :: string
  ar_ip :: string
  ar_owner_type :: string
  ar_owner_id :: string

record cluster_db =
  cluster_leases :: "lease_row list"
  ip_allocations :: "allocation_row list"
  cs_authority_id :: string
  cs_revision :: int
  cs_updated_at :: int

record cluster_lease_request =
  lq_network_code :: string
  lq_owner_type :: string
  lq_owner_id :: string
  lq_requested_ip :: "ipv4 option"
  lq_network :: ipv4_net
  lq_gateway :: ipv4
  lq_lease_duration_secs :: u64
  lq_static_reservation :: bool
  lq_authority_id :: string
  lq_origin_server_id :: string

record cluster_lease_grant =
  lg_ip :: ipv4
  lg_revision :: u64
  lg_expires_at :: int

datatype cluster_error =
    BadOwnerType | EmptyOwner | BadGateway | InvalidStoredIp | NotInNetwork | ReservedIp
  | IpOccupied ipv4 | ClusterExhausted | ConstraintFailed | SqlFailed string

section \<open>SQL statements\<close>

text \<open>\<open>length(text)\<close> of SQLite counts the characters before the first NUL.\<close>

definition sql_nonempty :: "string \<Rightarrow> bool" where
  "sql_nonempty s = (s \<noteq> [] \<and> hd s \<noteq> CHR 0x00)"

definition owner_of :: "lease_row \<Rightarrow> string \<times> string \<times> string" where
  "owner_of r = (lr_network_code r, lr_owner_type r, lr_owner_id r)"

definition expired_lease :: "int \<Rightarrow> lease_row \<Rightarrow> bool" where
  "expired_lease now r = (\<not> lr_static_reservation r \<and> lr_expires_at r > 0 \<and> lr_expires_at r \<le> now)"

definition expire_leases :: "int \<Rightarrow> cluster_db \<Rightarrow> cluster_db" where
  "expire_leases now db = db\<lparr>cluster_leases := filter (\<lambda>r. \<not> expired_lease now r) (cluster_leases db)\<rparr>"

definition request_owner :: "cluster_lease_request \<Rightarrow> string \<times> string \<times> string" where
  "request_owner q = (lq_network_code q, lq_owner_type q, lq_owner_id q)"

definition select_lease_ip :: "cluster_lease_request \<Rightarrow> cluster_db \<Rightarrow> string option" where
  "select_lease_ip q db = map_option lr_ip (find (\<lambda>r. owner_of r = request_owner q) (cluster_leases db))"

definition select_allocation_ip :: "cluster_lease_request \<Rightarrow> cluster_db \<Rightarrow> string option" where
  "select_allocation_ip q db = map_option ar_ip
     (find (\<lambda>r. (ar_network_code r, ar_owner_type r, ar_owner_id r) = request_owner q) (ip_allocations db))"

definition stored_ip :: "string option \<Rightarrow> cluster_error + ipv4 option" where
  "stored_ip v = (case v of
      None \<Rightarrow> Inr None
    | Some s \<Rightarrow> (case ipv4_parse s of None \<Rightarrow> Inl InvalidStoredIp | Some ip \<Rightarrow> Inr (Some ip)))"

definition ip_occupied :: "cluster_lease_request \<Rightarrow> cluster_db \<Rightarrow> ipv4 \<Rightarrow> bool" where
  "ip_occupied q db ip =
     (list_ex (\<lambda>r. lr_network_code r = lq_network_code q \<and> lr_ip r = ipv4_to_string ip
          \<and> \<not> (lr_owner_type r = lq_owner_type q \<and> lr_owner_id r = lq_owner_id q)) (cluster_leases db)
      \<or> list_ex (\<lambda>r. ar_network_code r = lq_network_code q \<and> ar_ip r = ipv4_to_string ip
          \<and> \<not> (ar_owner_type r = lq_owner_type q \<and> ar_owner_id r = lq_owner_id q)) (ip_allocations db))"

definition ensure_cluster_ip_available :: "cluster_lease_request \<Rightarrow> cluster_db \<Rightarrow> ipv4 \<Rightarrow> cluster_error + unit" where
  "ensure_cluster_ip_available q db ip = (if ip_occupied q db ip then Inl (IpOccupied ip) else Inr ())"

definition validate_cluster_candidate :: "ipv4_net \<Rightarrow> ipv4 \<Rightarrow> ipv4 \<Rightarrow> cluster_error + unit" where
  "validate_cluster_candidate network gateway ip =
     (if \<not> net_contains network ip then Inl NotInNetwork
      else if ip = net_network network \<or> ip = net_broadcast network \<or> ip = gateway then Inl ReservedIp
      else Inr ())"

text \<open>The search for a free address, and the choice between it and the preferred address.\<close>

definition lease_taken :: "cluster_lease_request \<Rightarrow> cluster_db \<Rightarrow> ipv4 \<Rightarrow> bool" where
  "lease_taken q db ip = (ip = lq_gateway q \<or> ensure_cluster_ip_available q db ip \<noteq> Inr ())"

definition select_free_ip :: "cluster_lease_request \<Rightarrow> cluster_db \<Rightarrow> cluster_error + ipv4" where
  "select_free_ip q db =
     (let start = net_network (lq_network q) + 1; end = net_broadcast (lq_network q)
      in case scan_ip (lease_taken q db) start end of
           Some ip \<Rightarrow> Inr ip
         | None \<Rightarrow> Inl ClusterExhausted)"

definition choose_candidate :: "cluster_lease_request \<Rightarrow> cluster_db \<Rightarrow> cluster_error + ipv4" where
  "choose_candidate q db =
     (case stored_ip (select_lease_ip q db) of
        Inl e \<Rightarrow> Inl e
      | Inr existing_ip \<Rightarrow>
          (case (if existing_ip = None then stored_ip (select_allocation_ip q db) else Inr None) of
             Inl e \<Rightarrow> Inl e
           | Inr local_owner_ip \<Rightarrow>
               (case (case lq_requested_ip q of
                        Some ip \<Rightarrow> Some ip
                      | None \<Rightarrow> (case existing_ip of Some ip \<Rightarrow> Some ip | None \<Rightarrow> local_owner_ip)) of
                  Some ip \<Rightarrow>
                    (case validate_cluster_candidate (lq_network q) (lq_gateway q) ip of
                       Inl e \<Rightarrow> Inl e
                     | Inr _ \<Rightarrow>
                         (case ensure_cluster_ip_available q db ip of
                            Inl e \<Rightarrow> Inl e
                          | Inr _ \<Rightarrow> Inr ip))
                | None \<Rightarrow> select_free_ip q db)))"

text \<open>\<open>INSERT ... ON CONFLICT(network_code, owner_type, owner_id) DO UPDATE\<close>: the row of the owner is
  replaced, and the statement fails if the new row breaks a CHECK clause or if another owner's row
  has the same network and address.\<close>

definition lease_checks :: "lease_row \<Rightarrow> bool" where
  "lease_checks r = (lr_owner_type r \<in> {''vnt_device'', ''wireguard_peer''} \<and> sql_nonempty (lr_owner_id r)
     \<and> 0 \<le> lr_revision r)"

definition upsert_lease :: "lease_row \<Rightarrow> lease_row list \<Rightarrow> lease_row list option" where
  "upsert_lease row rows =
     (if \<not> lease_checks row
         \<or> list_ex (\<lambda>r. owner_of r \<noteq> owner_of row \<and> lr_network_code r = lr_network_code row
                         \<and> lr_ip r = lr_ip row) rows
      then None
      else if list_ex (\<lambda>r. owner_of r = owner_of row) rows
      then Some (map (\<lambda>r. if owner_of r = owner_of row then row else r) rows)
      else Some (rows @ [row]))"

definition lease_expiry :: "cluster_lease_request \<Rightarrow> int \<Rightarrow> int" where
  "lease_expiry q now =
     (if lq_static_reservation q then 0
      else min (2 ^ 63 - 1) (now + min (max (uint (lq_lease_duration_secs q)) 10) (2 ^ 63 - 1)))"

definition acquire_transaction ::
  "cluster_lease_request \<Rightarrow> int \<Rightarrow> cluster_db \<Rightarrow> cluster_error + cluster_lease_grant \<times> cluster_db" where
  "acquire_transaction q now db =
     (let db = expire_leases now db in
      case choose_candidate q db of
        Inl e \<Rightarrow> Inl e
      | Inr candidate \<Rightarrow>
          (let revision = cs_revision db + 1;
               db = db\<lparr>cs_authority_id := lq_authority_id q, cs_revision := revision, cs_updated_at := now\<rparr>;
               expires_at = lease_expiry q now
           in case upsert_lease
                     \<lparr>lr_network_code = lq_network_code q, lr_owner_type = lq_owner_type q,
                      lr_owner_id = lq_owner_id q, lr_ip = ipv4_to_string candidate,
                      lr_authority_id = lq_authority_id q, lr_origin_server_id = lq_origin_server_id q,
                      lr_revision = revision, lr_expires_at = expires_at,
                      lr_static_reservation = lq_static_reservation q, lr_updated_at = now\<rparr>
                     (cluster_leases db) of
                None \<Rightarrow> Inl ConstraintFailed
              | Some rows \<Rightarrow>
                  Inr (\<lparr>lg_ip = candidate, lg_revision = word_of_int revision, lg_expires_at = expires_at\<rparr>,
                       db\<lparr>cluster_leases := rows\<rparr>)))"

definition acquire_cluster_lease ::
  "cluster_lease_request \<Rightarrow> int \<Rightarrow> string option \<Rightarrow> cluster_db \<Rightarrow>
   (cluster_error + cluster_lease_grant) \<times> cluster_db" where
  "acquire_cluster_lease q now dbf db =
     (if lq_owner_type q \<notin> {''vnt_device'', ''wireguard_peer''} then (Inl BadOwnerType, db)
      else if str_blank (lq_owner_id q) then (Inl EmptyOwner, db)
      else if \<not> (net_contains (lq_network q) (lq_gateway q)
                 \<and> lq_gateway q \<noteq> net_network (lq_network q) \<and> lq_gateway q \<noteq> net_broadcast (lq_network q))
      then (Inl BadGateway, db)
      else (case dbf of
              Some e \<Rightarrow> (Inl (SqlFailed e), db)
            | None \<Rightarrow>
                (case acquire_transaction q now db of
                   Inl e \<Rightarrow> (Inl e, db)
                 | Inr (grant, db') \<Rightarrow> (Inr grant, db'))))"

definition release_cluster_lease ::
  "string \<Rightarrow> string \<Rightarrow> string \<Rightarrow> string \<Rightarrow> int \<Rightarrow> string option \<Rightarrow> cluster_db \<Rightarrow>
   (cluster_error + u64) \<times> cluster_db" where
  "release_cluster_lease network_code owner_type owner_id authority_id now dbf db =
     (case dbf of
        Some e \<Rightarrow> (Inl (SqlFailed e), db)
      | None \<Rightarrow>
          (let rows = filter (\<lambda>r. owner_of r \<noteq> (network_code, owner_type, owner_id)) (cluster_leases db);
               affected = length (cluster_leases db) - length rows;
               db = db\<lparr>cluster_leases := rows\<rparr>
           in if affected = 0 then (Inr (word_of_int (cs_revision db)), db)
              else let revision = cs_revision db + 1
                   in (Inr (word_of_int revision),
                       db\<lparr>cs_authority_id := authority_id, cs_revision := revision, cs_updated_at := now\<rparr>)))"

section \<open>The lease table as a map\<close>

definition lease_at :: "cluster_db \<Rightarrow> string \<times> string \<times> string \<Rightarrow> lease_row option" where
  "lease_at db owner = map_of (map (\<lambda>r. (owner_of r, r)) (cluster_leases db)) owner"

definition cluster_inv :: "cluster_db \<Rightarrow> bool" where
  "cluster_inv db =
     (distinct (map owner_of (cluster_leases db)) \<and>
      distinct (map (\<lambda>r. (lr_network_code r, lr_ip r)) (cluster_leases db)) \<and>
      0 \<le> cs_revision db \<and>
      (\<forall>r \<in> set (cluster_leases db). lease_checks r \<and> lr_revision r \<le> cs_revision db \<and>
         (\<exists>ip. lr_ip r = ipv4_to_string ip)))"

lemma find_unique: "x \<in> set xs \<Longrightarrow> P x \<Longrightarrow> (\<And>y. y \<in> set xs \<Longrightarrow> P y \<Longrightarrow> y = x) \<Longrightarrow> find P xs = Some x"
proof (induction xs)
  case (Cons a xs)
  show ?case
  proof (cases "P a")
    case True
    then have "a = x" using Cons.prems(3) [of a] by simp
    then show ?thesis using True by simp
  next
    case False
    then have "x \<in> set xs" using Cons.prems(1,2) by auto
    then have "find P xs = Some x"
    proof (rule Cons.IH)
      show "P x" by (rule Cons.prems(2))
      show "y = x" if "y \<in> set xs" "P y" for y by (rule Cons.prems(3)) (use that in simp_all)
    qed
    then show ?thesis using False by simp
  qed
qed simp

lemma ipv4_to_string_inject [simp]: "ipv4_to_string a = ipv4_to_string b \<longleftrightarrow> a = b"
  by (metis ipv4_parse_to_string option.inject)

lemma lease_at_in: "lease_at db o' = Some r \<Longrightarrow> r \<in> set (cluster_leases db) \<and> owner_of r = o'"
  by (auto simp: lease_at_def dest!: map_of_SomeD)

lemma lease_at_iff:
  "cluster_inv db \<Longrightarrow> lease_at db o' = Some r \<longleftrightarrow> r \<in> set (cluster_leases db) \<and> owner_of r = o'"
  unfolding lease_at_def by (subst map_of_eq_Some_iff) (auto simp: cluster_inv_def comp_def)

lemma cluster_inv_owner_eq:
  "cluster_inv db \<Longrightarrow> r \<in> set (cluster_leases db) \<Longrightarrow> r' \<in> set (cluster_leases db) \<Longrightarrow>
   owner_of r = owner_of r' \<Longrightarrow> r = r'"
  by (auto simp: cluster_inv_def distinct_map inj_on_def)

lemma cluster_inv_ip_eq:
  "cluster_inv db \<Longrightarrow> r \<in> set (cluster_leases db) \<Longrightarrow> r' \<in> set (cluster_leases db) \<Longrightarrow>
   lr_network_code r = lr_network_code r' \<Longrightarrow> lr_ip r = lr_ip r' \<Longrightarrow> r = r'"
  by (auto simp: cluster_inv_def distinct_map inj_on_def)

lemma distinct_map_filter_rows: "distinct (map f xs) \<Longrightarrow> distinct (map f (filter P xs))"
  by (auto simp: distinct_map inj_on_def)

lemma cluster_inv_filter:
  assumes "cluster_inv db" "cs_revision db \<le> n"
  shows "cluster_inv (db\<lparr>cluster_leases := filter P (cluster_leases db), cs_authority_id := a,
           cs_revision := n, cs_updated_at := t\<rparr>)"
    and "cluster_inv (db\<lparr>cluster_leases := filter P (cluster_leases db)\<rparr>)"
  using assms by (auto simp: cluster_inv_def distinct_map_filter_rows intro: order_trans)

lemma cluster_inv_expire: "cluster_inv db \<Longrightarrow> cluster_inv (expire_leases now db)"
  unfolding expire_leases_def by (rule cluster_inv_filter(2) [OF _ order_refl])

lemma lease_at_filter:
  assumes "cluster_inv db"
  shows "lease_at (db\<lparr>cluster_leases := filter P (cluster_leases db)\<rparr>) o' =
    (case lease_at db o' of Some r \<Rightarrow> if P r then Some r else None | None \<Rightarrow> None)"
proof -
  have "lease_at (db\<lparr>cluster_leases := filter P (cluster_leases db)\<rparr>) o' = Some r \<longleftrightarrow>
      lease_at db o' = Some r \<and> P r" for r
    using lease_at_iff [OF cluster_inv_filter(2) [OF assms order_refl]] lease_at_iff [OF assms] by auto
  then show ?thesis by (cases "lease_at db o'") (auto split: option.splits simp flip: not_Some_eq)
qed

lemma lease_at_expire:
  "cluster_inv db \<Longrightarrow> lease_at (expire_leases now db) o' =
    (case lease_at db o' of Some r \<Rightarrow> if expired_lease now r then None else Some r | None \<Rightarrow> None)"
  by (auto simp: expire_leases_def lease_at_filter split: option.splits)

section \<open>Writing a lease\<close>

lemma upsert_lease_set:
  assumes "upsert_lease row rows = Some rows'"
  shows "set rows' = insert row {r \<in> set rows. owner_of r \<noteq> owner_of row}"
  using assms by (auto simp: upsert_lease_def list_ex_iff split: if_splits)

lemma upsert_lease_distinct:
  assumes "upsert_lease row rows = Some rows'" "distinct (map owner_of rows)"
    and "distinct (map (\<lambda>r. (lr_network_code r, lr_ip r)) rows)"
  shows "distinct (map owner_of rows') \<and> distinct (map (\<lambda>r. (lr_network_code r, lr_ip r)) rows')"
proof (cases "list_ex (\<lambda>r. owner_of r = owner_of row) rows")
  case False
  then have "rows' = rows @ [row]" "owner_of row \<notin> owner_of ` set rows"
      "(lr_network_code row, lr_ip row) \<notin> (\<lambda>r. (lr_network_code r, lr_ip r)) ` set rows"
    using assms(1) by (auto simp: upsert_lease_def list_ex_iff image_iff split: if_splits)
  then show ?thesis using assms(2,3) by simp
next
  case True
  let ?f = "\<lambda>r. if owner_of r = owner_of row then row else r"
  have rows': "rows' = map ?f rows" and
    other: "\<forall>r \<in> set rows. owner_of r \<noteq> owner_of row \<longrightarrow> (lr_network_code r, lr_ip r) \<noteq> (lr_network_code row, lr_ip row)"
    using assms(1) True by (auto simp: upsert_lease_def list_ex_iff split: if_splits)
  have d: "distinct rows" using assms(2) by (simp add: distinct_map)
  have "map owner_of rows' = map owner_of rows" by (simp add: rows')
  moreover have "inj_on (\<lambda>r. (lr_network_code (?f r), lr_ip (?f r))) (set rows)"
    using assms(2,3) other by (auto simp: inj_on_def distinct_map)
  then have "distinct (map (\<lambda>r. (lr_network_code r, lr_ip r)) rows')"
    using d by (simp add: rows' distinct_map comp_def)
  ultimately show ?thesis using assms(2) by simp
qed

lemma upsert_lease_inv:
  assumes "cluster_inv db" "upsert_lease row (cluster_leases db) = Some rows"
    and "lr_revision row = n" "cs_revision db \<le> n" "lr_ip row = ipv4_to_string ip"
    and db'_def: "db' = db\<lparr>cs_authority_id := a, cs_revision := n, cs_updated_at := t, cluster_leases := rows\<rparr>"
  shows "cluster_inv db'" "lease_at db' o' = (if o' = owner_of row then Some row else lease_at db o')"
proof -
  note d = upsert_lease_distinct [OF assms(2)]
  have checks: "lease_checks row" using assms(2) by (auto simp: upsert_lease_def split: if_splits)
  show inv: "cluster_inv db'"
    using assms(1,3,4,5) d checks upsert_lease_set [OF assms(2)]
    by (auto simp: db'_def cluster_inv_def intro: order_trans)
  have "lease_at db' o' = Some r \<longleftrightarrow> (if o' = owner_of row then r = row else lease_at db o' = Some r)" for r
    using lease_at_iff [OF inv] lease_at_iff [OF assms(1)] upsert_lease_set [OF assms(2)]
    by (auto simp: db'_def)
  then show "lease_at db' o' = (if o' = owner_of row then Some row else lease_at db o')"
    by (metis not_Some_eq)
qed

lemma upsert_lease_works:
  assumes "lease_checks row" "\<not> ip_occupied q db ip" "owner_of row = request_owner q"
    and "lr_ip row = ipv4_to_string ip"
  shows "\<exists>rows. upsert_lease row (cluster_leases db) = Some rows"
  using assms by (auto simp: upsert_lease_def ip_occupied_def list_ex_iff owner_of_def request_owner_def)

section \<open>Choosing the address\<close>

interpretation authority: ip_allocator "select_free_ip q" "lease_taken q" "net_network (lq_network q)"
    "net_broadcast (lq_network q)" ClusterExhausted for q
  by unfold_locales (auto simp: select_free_ip_def split: option.splits)

lemma choose_candidate_free: "choose_candidate q db = Inr ip \<Longrightarrow> \<not> ip_occupied q db ip"
  by (auto simp: choose_candidate_def select_free_ip_def lease_taken_def ensure_cluster_ip_available_def
      split: sum.splits option.splits if_splits dest!: scan_ip_Some)

lemma choose_candidate_error: "choose_candidate q db = Inl e \<Longrightarrow> e \<noteq> ConstraintFailed"
  by (auto simp: choose_candidate_def select_free_ip_def ensure_cluster_ip_available_def stored_ip_def
      validate_cluster_candidate_def split: sum.splits option.splits if_splits)

definition lease_address :: "cluster_lease_request \<Rightarrow> ipv4 \<Rightarrow> bool" where
  "lease_address q ip = (net_contains (lq_network q) ip \<and> ip \<noteq> net_network (lq_network q) \<and>
     ip \<noteq> net_broadcast (lq_network q) \<and> ip \<noteq> lq_gateway q)"

lemma choose_candidate_host:
  assumes "choose_candidate q db = Inr ip" "ipv4_net_ok (lq_network q)" "net_network (lq_network q) \<noteq> - 1"
  shows "lease_address q ip"
proof (cases "select_free_ip q db = Inr ip")
  case True
  then show ?thesis using authority.found_iff [OF assms(3), of db ip] assms(2)
    by (auto simp: lease_address_def ipv4_net_ok_def lease_taken_def)
next
  case False
  then show ?thesis using assms(1)
    by (auto simp: choose_candidate_def lease_address_def validate_cluster_candidate_def
        split: sum.splits option.splits if_splits)
qed

lemma choose_candidate_preferred:
  assumes "lease_at db (request_owner q) = Some row" "cluster_inv db" "lr_ip row = ipv4_to_string ip"
    and "lq_requested_ip q \<in> {None, Some ip}" "lease_address q ip" "\<not> ip_occupied q db ip"
  shows "choose_candidate q db = Inr ip"
proof -
  have "find (\<lambda>r. owner_of r = request_owner q) (cluster_leases db) = Some row"
    using lease_at_in [OF assms(1)] cluster_inv_owner_eq [OF assms(2)] by (intro find_unique) auto
  then have "stored_ip (select_lease_ip q db) = Inr (Some ip)"
    by (simp add: stored_ip_def select_lease_ip_def assms(3) ipv4_parse_to_string)
  then show ?thesis using assms(4-6)
    by (auto simp: choose_candidate_def validate_cluster_candidate_def lease_address_def
        ensure_cluster_ip_available_def split: option.splits)
qed

section \<open>The transactions\<close>

definition request_valid :: "cluster_lease_request \<Rightarrow> bool" where
  "request_valid q =
     (lq_owner_type q \<in> {''vnt_device'', ''wireguard_peer''} \<and> \<not> str_blank (lq_owner_id q) \<and>
      net_contains (lq_network q) (lq_gateway q) \<and> lq_gateway q \<noteq> net_network (lq_network q) \<and>
      lq_gateway q \<noteq> net_broadcast (lq_network q))"

lemma acquire_invalid:
  "\<not> (request_valid q \<and> dbf = None) \<Longrightarrow> \<exists>e. acquire_cluster_lease q now dbf db = (Inl e, db) \<and> e \<noteq> ConstraintFailed"
  by (cases dbf) (auto simp: acquire_cluster_lease_def request_valid_def)

lemma acquire_valid:
  "request_valid q \<Longrightarrow> acquire_cluster_lease q now None db =
    (case acquire_transaction q now db of Inl e \<Rightarrow> (Inl e, db) | Inr (grant, db') \<Rightarrow> (Inr grant, db'))"
  by (auto simp: acquire_cluster_lease_def request_valid_def)

definition new_lease :: "cluster_lease_request \<Rightarrow> ipv4 \<Rightarrow> int \<Rightarrow> cluster_db \<Rightarrow> lease_row" where
  "new_lease q ip now db =
     \<lparr>lr_network_code = lq_network_code q, lr_owner_type = lq_owner_type q,
      lr_owner_id = lq_owner_id q, lr_ip = ipv4_to_string ip,
      lr_authority_id = lq_authority_id q, lr_origin_server_id = lq_origin_server_id q,
      lr_revision = cs_revision db + 1, lr_expires_at = lease_expiry q now,
      lr_static_reservation = lq_static_reservation q, lr_updated_at = now\<rparr>"

lemma new_lease_simps [simp]:
  "owner_of (new_lease q ip now db) = request_owner q" "lr_ip (new_lease q ip now db) = ipv4_to_string ip"
  "lr_revision (new_lease q ip now db) = cs_revision db + 1"
  "lr_expires_at (new_lease q ip now db) = lease_expiry q now"
  "lr_static_reservation (new_lease q ip now db) = lq_static_reservation q"
  by (simp_all add: new_lease_def owner_of_def request_owner_def)

lemma expire_leases_simps [simp]:
  "cs_revision (expire_leases now db) = cs_revision db" "ip_allocations (expire_leases now db) = ip_allocations db"
  by (simp_all add: expire_leases_def)

lemma acquire_transaction_alt:
  "acquire_transaction q now db =
    (case choose_candidate q (expire_leases now db) of
       Inl e \<Rightarrow> Inl e
     | Inr ip \<Rightarrow> (case upsert_lease (new_lease q ip now db) (cluster_leases (expire_leases now db)) of
         None \<Rightarrow> Inl ConstraintFailed
       | Some rows \<Rightarrow> Inr (\<lparr>lg_ip = ip, lg_revision = word_of_int (cs_revision db + 1), lg_expires_at = lease_expiry q now\<rparr>,
           (expire_leases now db)\<lparr>cs_authority_id := lq_authority_id q, cs_revision := cs_revision db + 1,
              cs_updated_at := now, cluster_leases := rows\<rparr>)))"
  by (simp add: acquire_transaction_def Let_def new_lease_def cong: option.case_cong sum.case_cong)

lemma acquire_transaction_granted:
  assumes "cluster_inv db" "acquire_transaction q now db = Inr (g, db')"
  obtains ip where "choose_candidate q (expire_leases now db) = Inr ip" "cluster_inv db'"
    "g = \<lparr>lg_ip = ip, lg_revision = word_of_int (cs_revision db + 1), lg_expires_at = lease_expiry q now\<rparr>"
    "\<And>o'. lease_at db' o' =
       (if o' = request_owner q then Some (new_lease q ip now db) else lease_at (expire_leases now db) o')"
    "cs_revision db' = cs_revision db + 1" "ip_allocations db' = ip_allocations db"
proof -
  obtain ip rows where c: "choose_candidate q (expire_leases now db) = Inr ip"
    and u: "upsert_lease (new_lease q ip now db) (cluster_leases (expire_leases now db)) = Some rows"
    and g: "g = \<lparr>lg_ip = ip, lg_revision = word_of_int (cs_revision db + 1), lg_expires_at = lease_expiry q now\<rparr>"
    and db': "db' = (expire_leases now db)\<lparr>cs_authority_id := lq_authority_id q, cs_revision := cs_revision db + 1,
        cs_updated_at := now, cluster_leases := rows\<rparr>"
    using assms(2) by (auto simp: acquire_transaction_alt split: sum.splits option.splits)
  note up = upsert_lease_inv [OF cluster_inv_expire [OF assms(1)] u _ _ _ db', of ip, simplified]
  show thesis by (rule that [OF c up(1) g up(2)]) (simp_all add: db')
qed

lemma acquire_transaction_constraint:
  assumes "cluster_inv db" "request_valid q" "sql_nonempty (lq_owner_id q)"
  shows "acquire_transaction q now db \<noteq> Inl ConstraintFailed"
proof
  assume "acquire_transaction q now db = Inl ConstraintFailed"
  then obtain ip where c: "choose_candidate q (expire_leases now db) = Inr ip"
    and "upsert_lease (new_lease q ip now db) (cluster_leases (expire_leases now db)) = None"
    by (auto simp: acquire_transaction_alt dest: choose_candidate_error split: sum.splits option.splits)
  then have "\<not> lease_checks (new_lease q ip now db)"
    using upsert_lease_works [OF _ choose_candidate_free [OF c], of "new_lease q ip now db"] by auto
  then show False using assms
    by (auto simp: lease_checks_def new_lease_def request_valid_def cluster_inv_def)
qed

lemma acquire_cases [consumes 2, case_names refused granted]:
  assumes "acquire_cluster_lease q now dbf db = (r, db')" "cluster_inv db"
  obtains e where "r = Inl e" "db' = db" "sql_nonempty (lq_owner_id q) \<Longrightarrow> e \<noteq> ConstraintFailed"
  | ip where "choose_candidate q (expire_leases now db) = Inr ip" "cluster_inv db'" "request_valid q"
    "r = Inr \<lparr>lg_ip = ip, lg_revision = word_of_int (cs_revision db + 1), lg_expires_at = lease_expiry q now\<rparr>"
    "\<And>o'. lease_at db' o' =
       (if o' = request_owner q then Some (new_lease q ip now db) else lease_at (expire_leases now db) o')"
    "cs_revision db' = cs_revision db + 1" "ip_allocations db' = ip_allocations db"
proof (cases "request_valid q \<and> dbf = None")
  case False
  then show thesis using acquire_invalid [OF False, of now db] assms(1) that(1) by auto
next
  case valid: True
  show thesis
  proof (cases "acquire_transaction q now db")
    case (Inl e)
    then show thesis using that(1) [of e] assms valid acquire_transaction_constraint [OF assms(2), of q now]
      by (auto simp: acquire_valid)
  next
    case (Inr p)
    then have "acquire_transaction q now db = Inr (fst p, db')" "r = Inr (fst p)"
      using assms(1) valid by (auto simp: acquire_valid split: prod.splits)
    then show thesis using that(2) valid by (elim acquire_transaction_granted [OF assms(2)]) auto
  qed
qed

section \<open>Granting a lease\<close>

text \<open>C16. What a lease is worth.  A refused request changes nothing, and the only constraint of the schema
  that can refuse one is the non-empty owner (an owner that starts with NUL).  A granted lease is a
  host address of the network other than the gateway; it is the owner's lease from now on, no other
  lease and no local allocation of another owner has that address, the leases of all other owners stay
  unless they have expired, and the revision grows by one.\<close>

theorem cluster_lease_grant:
  assumes "cluster_inv db" "ipv4_net_ok (lq_network q)" "net_network (lq_network q) \<noteq> - 1"
    and "acquire_cluster_lease q now dbf db = (r, db')"
  shows "cluster_inv db' \<and>
    (\<forall>e. r = Inl e \<longrightarrow> db' = db \<and> (sql_nonempty (lq_owner_id q) \<longrightarrow> e \<noteq> ConstraintFailed)) \<and>
    (\<forall>g. r = Inr g \<longrightarrow>
       net_contains (lq_network q) (lg_ip g) \<and> lg_ip g \<noteq> net_network (lq_network q) \<and>
       lg_ip g \<noteq> net_broadcast (lq_network q) \<and> lg_ip g \<noteq> lq_gateway q \<and>
       (\<forall>ip. lq_requested_ip q = Some ip \<longrightarrow> lg_ip g = ip) \<and>
       (\<exists>row. lease_at db' (request_owner q) = Some row \<and> lr_ip row = ipv4_to_string (lg_ip g) \<and>
          lr_expires_at row = lg_expires_at g \<and> lr_static_reservation row = lq_static_reservation q) \<and>
       (\<forall>o'. o' \<noteq> request_owner q \<longrightarrow> lease_at db' o' = (case lease_at db o' of
          Some row \<Rightarrow> if expired_lease now row then None else Some row | None \<Rightarrow> None)) \<and>
       (\<forall>o' row. lease_at db' o' = Some row \<and> lr_network_code row = lq_network_code q \<and>
          lr_ip row = ipv4_to_string (lg_ip g) \<longrightarrow> o' = request_owner q) \<and>
       (\<forall>a. a \<in> set (ip_allocations db') \<and> ar_network_code a = lq_network_code q \<and>
          ar_ip a = ipv4_to_string (lg_ip g) \<longrightarrow> ar_owner_type a = lq_owner_type q \<and> ar_owner_id a = lq_owner_id q) \<and>
       cs_revision db' = cs_revision db + 1 \<and> lg_revision g = word_of_int (cs_revision db'))"
  using assms(4,1)
proof (cases rule: acquire_cases)
  case (refused e)
  then show ?thesis using assms(1) by simp
next
  case (granted ip)
  note free = choose_candidate_free [OF granted(1)] and host = choose_candidate_host [OF granted(1) assms(2,3)]
  have mine: "lease_at db' (request_owner q) = Some (new_lease q ip now db)" using granted(5) by simp
  have only: "o' = request_owner q"
    if "lease_at db' o' = Some row" "lr_network_code row = lq_network_code q" "lr_ip row = ipv4_to_string ip" for o' row
  proof -
    have "row = new_lease q ip now db"
      by (rule cluster_inv_ip_eq [OF granted(2)])
        (use lease_at_in [OF that(1)] lease_at_in [OF mine] that in \<open>simp_all add: new_lease_def\<close>)
    then show ?thesis using lease_at_in [OF that(1)] by simp
  qed
  have "lq_requested_ip q = Some a \<Longrightarrow> ip = a" for a
    using granted(1) by (auto simp: choose_candidate_def split: sum.splits option.splits if_splits)
  moreover have "\<forall>a. a \<in> set (ip_allocations db') \<and> ar_network_code a = lq_network_code q \<and>
      ar_ip a = ipv4_to_string ip \<longrightarrow> ar_owner_type a = lq_owner_type q \<and> ar_owner_id a = lq_owner_id q"
    using free granted(7) by (auto simp: ip_occupied_def list_ex_iff)
  moreover have "lease_at db' o' = (case lease_at db o' of
      Some row \<Rightarrow> if expired_lease now row then None else Some row | None \<Rightarrow> None)" if "o' \<noteq> request_owner q" for o'
    using that granted(5) by (simp add: lease_at_expire [OF assms(1)])
  ultimately show ?thesis
    using host mine granted(2,6) by (auto simp: granted(4) lease_address_def dest: only)
qed

definition wit_lease_request :: "string \<Rightarrow> string \<Rightarrow> cluster_lease_request" where
  "wit_lease_request origin owner =
     \<lparr>lq_network_code = ''n'', lq_owner_type = ''vnt_device'', lq_owner_id = owner, lq_requested_ip = None,
      lq_network = cidr (ip4 10 0 0 0) 24, lq_gateway = ip4 10 0 0 1, lq_lease_duration_secs = 60,
      lq_static_reservation = False, lq_authority_id = ''s'', lq_origin_server_id = origin\<rparr>"

definition wit_cluster_db :: cluster_db where
  "wit_cluster_db = \<lparr>cluster_leases = [], ip_allocations = [], cs_authority_id = ''s'', cs_revision = 0, cs_updated_at = 0\<rparr>"

section \<open>Runs of the authority\<close>

datatype cluster_op =
    OpAcquire cluster_lease_request int "string option"
  | OpRelease string string string string int "string option"
  | OpAllocations "allocation_row list"

fun apply_cluster_op :: "cluster_op \<Rightarrow> cluster_db \<Rightarrow> cluster_db" where
  "apply_cluster_op (OpAcquire q now dbf) db = snd (acquire_cluster_lease q now dbf db)"
| "apply_cluster_op (OpRelease nc ot oid auth now dbf) db = snd (release_cluster_lease nc ot oid auth now dbf db)"
| "apply_cluster_op (OpAllocations rows) db = db\<lparr>ip_allocations := rows\<rparr>"

fun spares :: "lease_row \<Rightarrow> cluster_op \<Rightarrow> bool" where
  "spares row (OpAcquire q now _) = (request_owner q \<noteq> owner_of row \<and> \<not> expired_lease now row)"
| "spares row (OpRelease nc ot oid _ _ _) = ((nc, ot, oid) \<noteq> owner_of row)"
| "spares row (OpAllocations _) = True"

lemma lease_at_more [simp]:
  "lease_at (db\<lparr>ip_allocations := x\<rparr>) o' = lease_at db o'"
  "lease_at (db\<lparr>cluster_leases := ls, cs_authority_id := a, cs_revision := n, cs_updated_at := t\<rparr>) o' =
   lease_at (db\<lparr>cluster_leases := ls\<rparr>) o'"
  by (simp_all add: lease_at_def)

lemma release_leases:
  "cluster_leases (snd (release_cluster_lease nc ot oid auth now None db)) =
   filter (\<lambda>r. owner_of r \<noteq> (nc, ot, oid)) (cluster_leases db)"
  by (simp add: release_cluster_lease_def Let_def)

lemma release_step:
  assumes "cluster_inv db" "db' = snd (release_cluster_lease nc ot oid auth now dbf db)"
  shows "cluster_inv db'" "cs_revision db \<le> cs_revision db'"
    "o' \<noteq> (nc, ot, oid) \<Longrightarrow> lease_at db' o' = lease_at db o'"
    "dbf = None \<Longrightarrow> lease_at db' (nc, ot, oid) = None"
proof -
  have "cluster_inv db' \<and> cs_revision db \<le> cs_revision db' \<and>
      (dbf = None \<longrightarrow> lease_at db' = lease_at (db\<lparr>cluster_leases := filter (\<lambda>r. owner_of r \<noteq> (nc, ot, oid)) (cluster_leases db)\<rparr>)) \<and>
      (dbf \<noteq> None \<longrightarrow> db' = db)"
    using assms cluster_inv_filter [OF assms(1), of "cs_revision db + 1"]
    by (cases dbf) (auto simp: release_cluster_lease_def Let_def intro: cluster_inv_filter(2) [OF _ order_refl])
  then show "cluster_inv db'" "cs_revision db \<le> cs_revision db'"
    "o' \<noteq> (nc, ot, oid) \<Longrightarrow> lease_at db' o' = lease_at db o'" "dbf = None \<Longrightarrow> lease_at db' (nc, ot, oid) = None"
    by (cases dbf; auto simp: lease_at_filter [OF assms(1)] dest: lease_at_in split: option.splits)+
qed

lemma cluster_op_step:
  assumes "cluster_inv db"
  shows "cluster_inv (apply_cluster_op op db)" "cs_revision db \<le> cs_revision (apply_cluster_op op db)"
    "lease_at db (owner_of row) = Some row \<Longrightarrow> spares row op \<Longrightarrow>
     lease_at (apply_cluster_op op db) (owner_of row) = Some row"
proof (induction op)
  case (OpAcquire q now dbf)
  obtain r db' where r: "acquire_cluster_lease q now dbf db = (r, db')" by fastforce
  case 1 show ?case using r assms by (cases rule: acquire_cases) (simp_all add: r assms)
  case 2 show ?case using r assms by (cases rule: acquire_cases) (simp_all add: r)
  case 3 show ?case using r assms by (cases rule: acquire_cases) (use 3 in \<open>auto simp: r lease_at_expire [OF assms]\<close>)
next
  case (OpRelease nc ot oid auth now dbf)
  case 1 show ?case by (simp add: release_step [OF assms refl])
  case 2 show ?case by (simp add: release_step [OF assms refl])
  case 3 then show ?case by (simp add: release_step [OF assms refl])
next
  case (OpAllocations rows)
  case 1 show ?case using assms by (simp add: cluster_inv_def)
  case 2 show ?case by simp
  case 3 then show ?case by simp
qed

lemma cluster_ops_keep:
  assumes "cluster_inv db"
  shows "cluster_inv (fold apply_cluster_op ops db)" "cs_revision db \<le> cs_revision (fold apply_cluster_op ops db)"
    "lease_at db (owner_of row) = Some row \<Longrightarrow> \<forall>op \<in> set ops. spares row op \<Longrightarrow>
     lease_at (fold apply_cluster_op ops db) (owner_of row) = Some row"
proof -
  have "cluster_inv (fold apply_cluster_op ops db) \<and> cs_revision db \<le> cs_revision (fold apply_cluster_op ops db) \<and>
      (lease_at db (owner_of row) = Some row \<longrightarrow> (\<forall>op \<in> set ops. spares row op) \<longrightarrow>
       lease_at (fold apply_cluster_op ops db) (owner_of row) = Some row)"
    using assms
  proof (induction ops arbitrary: db)
    case (Cons op ops)
    note step = cluster_op_step(1,2) [OF Cons.prems, of op] cluster_op_step(3) [OF Cons.prems, of row op]
    show ?case using Cons.IH [OF step(1)] step by fastforce
  qed simp
  then show "cluster_inv (fold apply_cluster_op ops db)" "cs_revision db \<le> cs_revision (fold apply_cluster_op ops db)"
    "lease_at db (owner_of row) = Some row \<Longrightarrow> \<forall>op \<in> set ops. spares row op \<Longrightarrow>
     lease_at (fold apply_cluster_op ops db) (owner_of row) = Some row" by blast+
qed

lemma renew_not_occupied:
  assumes "cluster_inv db" "lease_at db (request_owner q) = Some row" "lr_ip row = ipv4_to_string ip"
    and "\<forall>a \<in> set (ip_allocations db). ar_network_code a = lq_network_code q \<and> ar_ip a = ipv4_to_string ip \<longrightarrow>
      ar_owner_type a = lq_owner_type q \<and> ar_owner_id a = lq_owner_id q"
  shows "\<not> ip_occupied q db ip"
proof -
  have row: "row \<in> set (cluster_leases db)" "owner_of row = request_owner q" using lease_at_in [OF assms(2)] by auto
  have "r = row" if "r \<in> set (cluster_leases db)" "lr_network_code r = lq_network_code q" "lr_ip r = ipv4_to_string ip" for r
    by (rule cluster_inv_ip_eq [OF assms(1)]) (use that row assms(3) in \<open>auto simp: owner_of_def request_owner_def\<close>)
  then show ?thesis using assms(4) row(2) by (auto simp: ip_occupied_def list_ex_iff owner_of_def request_owner_def)
qed

lemma renew_granted:
  assumes "cluster_inv db" "lease_at db (request_owner q) = Some row" "lr_ip row = ipv4_to_string ip"
    and "\<not> expired_lease now row" "request_valid q" "sql_nonempty (lq_owner_id q)" "lease_address q ip"
    and "lq_requested_ip q \<in> {None, Some ip}"
    and "\<forall>a \<in> set (ip_allocations db). ar_network_code a = lq_network_code q \<and> ar_ip a = ipv4_to_string ip \<longrightarrow>
      ar_owner_type a = lq_owner_type q \<and> ar_owner_id a = lq_owner_id q"
  shows "\<exists>g db'. acquire_cluster_lease q now None db = (Inr g, db') \<and> lg_ip g = ip \<and> cs_revision db' = cs_revision db + 1"
proof -
  let ?db = "expire_leases now db"
  have at: "lease_at ?db (request_owner q) = Some row" using assms(1,2,4) by (simp add: lease_at_expire)
  note inv = cluster_inv_expire [OF assms(1), of now]
  have c: "choose_candidate q ?db = Inr ip"
    by (rule choose_candidate_preferred [OF at inv assms(3,8,7)])
      (use renew_not_occupied [OF inv at assms(3)] assms(9) in simp)
  obtain g db' where "acquire_transaction q now db = Inr (g, db')"
    using acquire_transaction_constraint [OF assms(1,5,6), of now] c
    by (auto simp: acquire_transaction_alt split: option.splits)
  with c show ?thesis using assms(5) by (auto simp: acquire_valid elim!: acquire_transaction_granted [OF assms(1)])
qed

text \<open>C20. A lease can be renewed.  Whatever other owners acquire or release and however the local
  allocations change in the meantime, an owner that asks again before its lease has expired gets the
  same address, unless a local allocation has given it to another owner; the revisions of the cluster
  only grow.\<close>

theorem cluster_lease_renewal:
  assumes "cluster_inv db" "ipv4_net_ok (lq_network q)" "net_network (lq_network q) \<noteq> - 1"
    and "acquire_cluster_lease q now None db = (Inr g, db1)"
    and "\<forall>op \<in> set ops. case op of
        OpAcquire p t _ \<Rightarrow> request_owner p \<noteq> request_owner q \<and> (lq_static_reservation q \<or> t < lg_expires_at g)
      | OpRelease nc ot oid _ _ _ \<Rightarrow> (nc, ot, oid) \<noteq> request_owner q
      | OpAllocations _ \<Rightarrow> True"
    and "\<forall>a \<in> set (ip_allocations (fold apply_cluster_op ops db1)).
        ar_network_code a = lq_network_code q \<and> ar_ip a = ipv4_to_string (lg_ip g) \<longrightarrow>
        ar_owner_type a = lq_owner_type q \<and> ar_owner_id a = lq_owner_id q"
    and "lq_static_reservation q \<or> t < lg_expires_at g" "req \<in> {None, Some (lg_ip g)}"
  shows "\<exists>g' db2. acquire_cluster_lease (q\<lparr>lq_requested_ip := req\<rparr>) t None (fold apply_cluster_op ops db1) = (Inr g', db2) \<and>
    lg_ip g' = lg_ip g \<and> cs_revision db1 < cs_revision db2"
  using assms(4,1)
proof (cases rule: acquire_cases)
  case (granted ip)
  let ?row = "new_lease q ip now db" and ?db = "fold apply_cluster_op ops db1" and ?q = "q\<lparr>lq_requested_ip := req\<rparr>"
  have g: "lg_ip g = ip" "lg_expires_at g = lease_expiry q now" using granted(4) by auto
  have at: "lease_at db1 (owner_of ?row) = Some ?row" using granted(5) by simp
  have fresh: "\<not> expired_lease u ?row" if "lq_static_reservation q \<or> u < lg_expires_at g" for u
    using that g by (auto simp: expired_lease_def)
  have "spares ?row op" if "op \<in> set ops" for op
    using assms(5) [rule_format, OF that] fresh by (cases op) auto
  then have at': "lease_at ?db (request_owner ?q) = Some ?row"
    using cluster_ops_keep(3) [OF granted(2) at] by (simp add: request_owner_def)
  have "sql_nonempty (lq_owner_id q)"
    using granted(2) lease_at_in [OF at] by (auto simp: cluster_inv_def lease_checks_def new_lease_def)
  then have "\<exists>g' db2. acquire_cluster_lease ?q t None ?db = (Inr g', db2) \<and> lg_ip g' = ip \<and>
      cs_revision db2 = cs_revision ?db + 1"
    using cluster_ops_keep(1) [OF granted(2)] fresh [OF assms(7)] granted(3) assms(6,8) g
      choose_candidate_host [OF granted(1) assms(2,3)]
    by (intro renew_granted [OF _ at']) (auto simp: request_valid_def lease_address_def)
  then show ?thesis using cluster_ops_keep(2) [OF granted(2), of ops] g by fastforce
qed simp

section \<open>Witnesses\<close>

lemma wit_request_valid: "request_valid (wit_lease_request origin ''a'')"
  by (simp add: request_valid_def wit_lease_request_def witness_eval str_blank.simps strip_ws_def)

lemma wit_candidate:
  "choose_candidate (wit_lease_request origin ''a'') (expire_leases now wit_cluster_db) = Inr (ip4 10 0 0 2)"
  by (simp add: choose_candidate_def select_lease_ip_def select_allocation_ip_def stored_ip_def select_free_ip_def
      lease_taken_def ensure_cluster_ip_available_def ip_occupied_def expire_leases_def wit_cluster_db_def
      wit_lease_request_def scan_ip.simps witness_eval)

lemma wit_acquire:
  "acquire_cluster_lease (wit_lease_request origin ''a'') 100 None wit_cluster_db =
    (Inr \<lparr>lg_ip = ip4 10 0 0 2, lg_revision = 1, lg_expires_at = 160\<rparr>,
     wit_cluster_db\<lparr>cs_revision := 1, cs_updated_at := 100, cluster_leases := [new_lease (wit_lease_request origin ''a'') (ip4 10 0 0 2) 100 wit_cluster_db]\<rparr>)"
  unfolding acquire_valid [OF wit_request_valid] acquire_transaction_alt wit_candidate
  by (simp add: upsert_lease_def expire_leases_def lease_checks_def new_lease_def wit_cluster_db_def wit_lease_request_def sql_nonempty_def lease_expiry_def)

lemma wit_cluster_inv: "cluster_inv wit_cluster_db"
  by (simp add: cluster_inv_def wit_cluster_db_def)

lemma wit_lease_net:
  "ipv4_net_ok (lq_network (wit_lease_request origin a))" "net_network (lq_network (wit_lease_request origin a)) \<noteq> - 1"
  by (simp_all add: wit_lease_request_def ipv4_net_ok_def witness_eval)

theorem cluster_lease_grant_witness:
  "fst (acquire_cluster_lease (wit_lease_request ''s'' ''a'') 100 None wit_cluster_db) =
     Inr \<lparr>lg_ip = ip4 10 0 0 2, lg_revision = 1, lg_expires_at = 160\<rparr> \<and>
   cluster_inv (snd (acquire_cluster_lease (wit_lease_request ''s'' ''a'') 100 None wit_cluster_db)) \<and>
   (\<exists>row. lease_at (snd (acquire_cluster_lease (wit_lease_request ''s'' ''a'') 100 None wit_cluster_db)) (''n'', ''vnt_device'', ''a'') = Some row \<and>
      lr_ip row = ipv4_to_string (ip4 10 0 0 2) \<and> lr_expires_at row = 160)"
proof -
  have o: "request_owner (wit_lease_request ''s'' ''a'') = (''n'', ''vnt_device'', ''a'')"
    by (simp add: request_owner_def wit_lease_request_def)
  note grant = cluster_lease_grant [OF wit_cluster_inv wit_lease_net wit_acquire, of "''s''"]
  note row = grant [THEN conjunct2, THEN conjunct2, rule_format, OF refl, THEN conjunct2, THEN conjunct2,
      THEN conjunct2, THEN conjunct2, THEN conjunct2, THEN conjunct1]
  show ?thesis using grant [THEN conjunct1] row by (simp add: wit_acquire o) blast
qed

lemma allocations_kept [simp]:
  "ip_allocations (snd (acquire_cluster_lease q now dbf db)) = ip_allocations db"
  "ip_allocations (snd (release_cluster_lease nc ot oid auth now dbf db)) = ip_allocations db"
  by (auto simp: acquire_cluster_lease_def acquire_transaction_alt release_cluster_lease_def Let_def
      split: option.splits sum.splits)

definition wit_cluster_ops :: "cluster_op list" where
  "wit_cluster_ops = [OpAcquire (wit_lease_request ''s'' ''b'') 110 None, OpRelease ''n'' ''vnt_device'' ''b'' ''s'' 120 None]"

theorem cluster_lease_renewal_witness:
  "\<exists>g' db2. acquire_cluster_lease (wit_lease_request ''s'' ''a''\<lparr>lq_requested_ip := None\<rparr>) 130 None
      (fold apply_cluster_op wit_cluster_ops (snd (acquire_cluster_lease (wit_lease_request ''s'' ''a'') 100 None wit_cluster_db))) = (Inr g', db2) \<and>
    lg_ip g' = ip4 10 0 0 2"
proof -
  let ?db = "snd (acquire_cluster_lease (wit_lease_request ''s'' ''a'') 100 None wit_cluster_db)"
  let ?g = "\<lparr>lg_ip = ip4 10 0 0 2, lg_revision = 1, lg_expires_at = 160\<rparr> :: cluster_lease_grant"
  have al: "ip_allocations (fold apply_cluster_op wit_cluster_ops ?db) = []"
    by (simp add: wit_cluster_ops_def) (simp add: wit_cluster_db_def)
  have ops: "\<forall>op \<in> set wit_cluster_ops. case op of
        OpAcquire p t _ \<Rightarrow> request_owner p \<noteq> request_owner (wit_lease_request ''s'' ''a'') \<and>
          (lq_static_reservation (wit_lease_request ''s'' ''a'') \<or> t < lg_expires_at ?g)
      | OpRelease nc ot oid _ _ _ \<Rightarrow> (nc, ot, oid) \<noteq> request_owner (wit_lease_request ''s'' ''a'')
      | OpAllocations _ \<Rightarrow> True"
    by (simp add: wit_cluster_ops_def wit_lease_request_def request_owner_def)
  show ?thesis
    using cluster_lease_renewal [OF wit_cluster_inv wit_lease_net wit_acquire [of "''s''"] ops, of 130 None] al
    unfolding wit_acquire snd_conv by fastforce
qed

end
