(* ===== verification/Peer_Routes.thy ===== *)
theory Peer_Routes
  imports Peer_Server Cluster_Lease
begin

text \<open>
  The route table of a server: which routes it holds after a client list of a peer, that routes of a
  closed connection do not survive, and that packets take the fastest route.
\<close>

section \<open>Keeping the best\<close>

lemma take_sort_best:
  assumes "x \<in> set xs" "x \<notin> set (take n (sort_key f xs))" "y \<in> set (take n (sort_key f xs))"
  shows "f y \<le> f x" "n < length xs"
proof -
  let ?s = "sort_key f xs"
  obtain j where j: "j < length ?s" "?s ! j = x" using assms(1) by (metis in_set_conv_nth set_sort)
  obtain i where i: "i < n" "i < length ?s" "?s ! i = y" using assms(3) by (auto simp: in_set_conv_nth)
  have nj: "n \<le> j"
  proof (rule ccontr)
    assume "\<not> n \<le> j"
    then have "take n ?s ! j = x" "j < length (take n ?s)" using j by simp_all
    then show False using assms(2) nth_mem by metis
  qed
  have "sorted (map f ?s)" by simp
  then show "f y \<le> f x" using i j nj by (auto simp: sorted_iff_nth_mono)
  show "n < length xs" using j nj by simp
qed

text \<open>\<open>rs\<close> are the (at most five) routes of least latency among the candidates \<open>cand\<close>.\<close>

definition best_routes :: "(nat \<Rightarrow> peer_server_info) \<Rightarrow> ip_route_info set \<Rightarrow> ip_route_info list \<Rightarrow> bool" where
  "best_routes infos cand rs =
     (distinct rs \<and> set rs \<subseteq> cand \<and> length rs = min MAX_ROUTES_PER_IP (card cand) \<and>
      (\<forall>r \<in> cand - set rs. \<forall>r' \<in> set rs. total_latency infos r' \<le> total_latency infos r))"

definition route_list_ok :: "ip_route_info list \<Rightarrow> bool" where
  "route_list_ok rs = (length rs \<le> MAX_ROUTES_PER_IP \<and> distinct (map ri_peer rs))"

definition candidates :: "nat \<Rightarrow> u32 \<Rightarrow> ip_route_info list \<Rightarrow> ip_route_info set" where
  "candidates p l rs = insert \<lparr>ri_peer = p, ri_client_latency_ms = l\<rparr> {r \<in> set rs. ri_peer r \<noteq> p}"

lemma set_route_latency_peers [simp]: "map ri_peer (set_route_latency p l rs) = map ri_peer rs"
  by (induction rs) auto

lemma set_route_latency_set:
  "distinct (map ri_peer rs) \<Longrightarrow> p \<in> ri_peer ` set rs \<Longrightarrow> set (set_route_latency p l rs) = candidates p l rs"
  by (induction rs) (auto simp: candidates_def image_iff)

lemma distinct_peers_inj: "distinct (map ri_peer rs) \<Longrightarrow> distinct rs"
  by (simp add: distinct_map)

lemma distinct_map_sort_take:
  "distinct (map g xs) \<Longrightarrow> distinct (map g (take n (sort_key f xs)))"
proof -
  assume "distinct (map g xs)"
  then have "distinct (map g (sort_key f xs))" by (simp add: distinct_map)
  then show ?thesis by (metis distinct_take take_map)
qed

lemma best_routes_take:
  assumes "distinct (map ri_peer rs)"
    and kept_def: "kept = take MAX_ROUTES_PER_IP (sort_key (total_latency infos) rs)"
  shows "best_routes infos (set rs) kept" "route_list_ok kept" "rs \<noteq> [] \<Longrightarrow> kept \<noteq> []"
proof -
  have "distinct (map ri_peer kept)" unfolding kept_def by (rule distinct_map_sort_take [OF assms(1)])
  moreover have "length kept = min MAX_ROUTES_PER_IP (card (set rs))"
    using distinct_card [OF distinct_peers_inj [OF assms(1)]] by (simp add: kept_def min.commute)
  moreover have "set kept \<subseteq> set rs" unfolding kept_def using set_take_subset [of _ "sort_key (total_latency infos) rs"] by simp
  ultimately show "best_routes infos (set rs) kept" "route_list_ok kept"
    by (auto simp: best_routes_def route_list_ok_def kept_def dest: distinct_peers_inj intro: take_sort_best(1))
  show "rs \<noteq> [] \<Longrightarrow> kept \<noteq> []" by (metis MAX_ROUTES_PER_IP_def kept_def length_0_conv length_sort take_eq_Nil zero_neq_numeral)
qed

lemma update_routes_best:
  assumes "case old of None \<Rightarrow> rs = [] | Some x \<Rightarrow> rs = x" "distinct (map ri_peer rs)"
  shows "best_routes infos (candidates p l rs) (update_routes infos p l old)"
    "route_list_ok (update_routes infos p l old)" "update_routes infos p l old \<noteq> []"
proof -
  have "best_routes infos (candidates p l rs) (update_routes infos p l old) \<and>
    route_list_ok (update_routes infos p l old) \<and> update_routes infos p l old \<noteq> []"
  proof (cases old)
    case None
    then show ?thesis using assms(1)
      by (simp add: update_routes_def best_routes_def candidates_def route_list_ok_def MAX_ROUTES_PER_IP_def)
  next
    case (Some x)
    then have x: "x = rs" using assms(1) by simp
    define base where "base = (if list_ex (\<lambda>r. ri_peer r = p) rs then set_route_latency p l rs
        else rs @ [\<lparr>ri_peer = p, ri_client_latency_ms = l\<rparr>])"
    have "distinct (map ri_peer base)" "set base = candidates p l rs" "base \<noteq> []"
      using assms(2) set_route_latency_set [OF assms(2), of p l] set_route_latency_peers [of p l rs]
      by (auto simp: base_def list_ex_iff candidates_def image_iff simp del: set_route_latency_peers)
    then show ?thesis using best_routes_take [of base, OF _ refl, of infos] Some x
      by (simp add: update_routes_def base_def Let_def)
  qed
  then show "best_routes infos (candidates p l rs) (update_routes infos p l old)"
    "route_list_ok (update_routes infos p l old)" "update_routes infos p l old \<noteq> []" by auto
qed

lemma best_routes_via:
  assumes "best_routes infos (candidates p l rs) rs'" "r \<in> set rs'"
  shows "ri_peer r = p \<Longrightarrow> ri_client_latency_ms r = l" "ri_peer r \<noteq> p \<Longrightarrow> r \<in> set rs"
proof -
  have "r \<in> candidates p l rs" using assms by (auto simp: best_routes_def)
  then show "ri_peer r = p \<Longrightarrow> ri_client_latency_ms r = l" "ri_peer r \<noteq> p \<Longrightarrow> r \<in> set rs"
    by (auto simp: candidates_def)
qed

section \<open>The table\<close>

definition route_map_ok :: "route_map \<Rightarrow> bool" where
  "route_map_ok rm = (hm_ok rm \<and> (\<forall>ip rs. hm_get rm ip = Some rs \<longrightarrow> rs \<noteq> [] \<and> route_list_ok rs))"

definition routes_inv :: "peer_manager \<Rightarrow> bool" where
  "routes_inv m = (\<forall>nc rm. hm_get (ip_to_routes m) nc = Some rm \<longrightarrow> route_map_ok rm)"

definition routes_in :: "route_map \<Rightarrow> ipv4 \<Rightarrow> ip_route_info list" where
  "routes_in rm ip = (case hm_get rm ip of Some rs \<Rightarrow> rs | None \<Rightarrow> [])"

definition routes_at :: "peer_manager \<Rightarrow> string \<Rightarrow> ipv4 \<Rightarrow> ip_route_info list" where
  "routes_at m nc ip = (case hm_get (ip_to_routes m) nc of Some rm \<Rightarrow> routes_in rm ip | None \<Rightarrow> [])"

lemma route_map_ok_Nil [simp]: "route_map_ok []"
  by (simp add: route_map_ok_def)

lemma routes_in_ok: "route_map_ok rm \<Longrightarrow> route_list_ok (routes_in rm ip)"
  by (auto simp: routes_in_def route_map_ok_def route_list_ok_def split: option.splits)

lemma routes_at_ok: "routes_inv m \<Longrightarrow> route_list_ok (routes_at m nc ip)"
  by (cases "hm_get (ip_to_routes m) nc")
    (auto simp: routes_at_def routes_inv_def routes_in_ok, simp add: route_list_ok_def)

lemma drop_peer_routes_alt:
  "drop_peer_routes keep p rm = hm_retain (\<lambda>_ rs. rs \<noteq> [])
     (map (\<lambda>(ip, rs). (ip, if keep ip then rs else filter (\<lambda>r. ri_peer r \<noteq> p) rs)) rm)"
  by (simp add: drop_peer_routes_def hm_retain_def)

lemma routes_in_drop:
  assumes "route_map_ok rm"
  shows "routes_in (drop_peer_routes keep p rm) ip =
      (if keep ip then routes_in rm ip else filter (\<lambda>r. ri_peer r \<noteq> p) (routes_in rm ip))"
    and "route_map_ok (drop_peer_routes keep p rm)"
proof -
  let ?f = "\<lambda>ip rs. if keep ip then rs else filter (\<lambda>r. ri_peer r \<noteq> p) rs"
  have ok: "hm_ok (map (\<lambda>(ip, rs). (ip, ?f ip rs)) rm)"
    using assms by (simp add: route_map_ok_def)
  have get: "hm_get (drop_peer_routes keep p rm) a = (case hm_get rm a of None \<Rightarrow> None
      | Some rs \<Rightarrow> if ?f a rs \<noteq> [] then Some (?f a rs) else None)" for a
    by (simp add: drop_peer_routes_alt hm.get_retain [OF ok] hm_get_map_values split: option.splits)
  show "routes_in (drop_peer_routes keep p rm) ip =
      (if keep ip then routes_in rm ip else filter (\<lambda>r. ri_peer r \<noteq> p) (routes_in rm ip))"
    using assms by (auto simp: routes_in_def get route_map_ok_def split: option.splits)
  show "route_map_ok (drop_peer_routes keep p rm)"
  proof -
    have "hm_ok (drop_peer_routes keep p rm)" using ok by (simp add: drop_peer_routes_alt)
    moreover have "rs \<noteq> [] \<and> route_list_ok rs" if "hm_get (drop_peer_routes keep p rm) a = Some rs" for a rs
      using that assms unfolding get
      by (auto simp: route_map_ok_def route_list_ok_def distinct_map_filter
          intro: order_trans [OF length_filter_le] split: option.splits if_splits)
    ultimately show ?thesis by (simp add: route_map_ok_def)
  qed
qed

section \<open>A client list arrives\<close>

lemma sync_client_map:
  assumes "route_map_ok rm"
  shows "route_map_ok (hm_insert ip (update_routes infos p l (hm_get rm ip)) rm)"
    "routes_in (hm_insert ip (update_routes infos p l (hm_get rm ip)) rm) a =
      (if a = ip then update_routes infos p l (hm_get rm ip) else routes_in rm a)"
    "best_routes infos (candidates p l (routes_in rm ip)) (update_routes infos p l (hm_get rm ip))"
proof -
  have c: "case hm_get rm ip of None \<Rightarrow> routes_in rm ip = [] | Some x \<Rightarrow> routes_in rm ip = x"
    and d: "distinct (map ri_peer (routes_in rm ip))"
    using routes_in_ok [OF assms, of ip] by (auto simp: routes_in_def route_list_ok_def split: option.splits)
  note best = update_routes_best [OF c d]
  show "route_map_ok (hm_insert ip (update_routes infos p l (hm_get rm ip)) rm)"
    using assms best by (auto simp: route_map_ok_def)
  show "routes_in (hm_insert ip (update_routes infos p l (hm_get rm ip)) rm) a =
      (if a = ip then update_routes infos p l (hm_get rm ip) else routes_in rm a)"
    by (simp add: routes_in_def)
  show "best_routes infos (candidates p l (routes_in rm ip)) (update_routes infos p l (hm_get rm ip))"
    by (rule best)
qed

definition client_for :: "client_latency_info list \<Rightarrow> ipv4 \<Rightarrow> client_latency_info option" where
  "client_for cs ip = find (\<lambda>c. cli_ip c = ip) cs"

lemma client_for_None: "client_for cs ip = None \<longleftrightarrow> ip \<notin> cli_ip ` set cs"
  by (auto simp: client_for_def find_None_iff)

definition synced_routes ::
  "(nat \<Rightarrow> peer_server_info) \<Rightarrow> nat \<Rightarrow> client_latency_info list \<Rightarrow> ipv4 \<Rightarrow> ip_route_info list \<Rightarrow> ip_route_info list \<Rightarrow> bool" where
  "synced_routes infos p cs ip old new =
     (case client_for cs ip of
        Some c \<Rightarrow> best_routes infos (candidates p (cli_latency_ms c) old) new
      | None \<Rightarrow> new = old)"

lemma sync_client_eq:
  "sync_client infos p acc c (rm, syn, wg) =
    (hm_insert (cli_ip c) (update_routes infos p (cli_latency_ms c) (hm_get rm (cli_ip c))) rm,
     List.insert (cli_ip c) syn, if acc \<and> cli_is_wireguard c then List.insert (cli_ip c) wg else wg)"
  by (simp add: sync_client_def Let_def)

lemma sync_clients:
  assumes "route_map_ok rm" "distinct (map cli_ip cs)"
    and "fold (sync_client infos p acc) cs (rm, syn, wg) = (rm', syn', wg')"
  shows "route_map_ok rm'" "set syn' = set syn \<union> cli_ip ` set cs"
    "synced_routes infos p cs ip (routes_in rm ip) (routes_in rm' ip)"
proof -
  have "route_map_ok rm' \<and> set syn' = set syn \<union> cli_ip ` set cs \<and>
      synced_routes infos p cs ip (routes_in rm ip) (routes_in rm' ip)"
    using assms
  proof (induction cs arbitrary: rm syn wg)
    case Nil
    then show ?case by (simp add: synced_routes_def client_for_def)
  next
    case (Cons c cs)
    let ?rm = "hm_insert (cli_ip c) (update_routes infos p (cli_latency_ms c) (hm_get rm (cli_ip c))) rm"
    have one: "route_map_ok ?rm" "\<And>a. routes_in ?rm a = (if a = cli_ip c
          then update_routes infos p (cli_latency_ms c) (hm_get rm (cli_ip c)) else routes_in rm a)"
        "best_routes infos (candidates p (cli_latency_ms c) (routes_in rm (cli_ip c)))
          (update_routes infos p (cli_latency_ms c) (hm_get rm (cli_ip c)))"
      by (rule sync_client_map [OF Cons.prems(1)])+
    obtain wg1 where f: "fold (sync_client infos p acc) cs (?rm, List.insert (cli_ip c) syn, wg1) = (rm', syn', wg')"
      using Cons.prems(3) by (auto simp: sync_client_eq)
    have IH: "route_map_ok rm'" "set syn' = set (List.insert (cli_ip c) syn) \<union> cli_ip ` set cs"
      "synced_routes infos p cs ip (routes_in ?rm ip) (routes_in rm' ip)"
      using Cons.IH [OF one(1) _ f] Cons.prems(2) by auto
    moreover have "client_for cs (cli_ip c) = None"
      using Cons.prems(2) by (simp add: client_for_None)
    ultimately show ?case using one(2,3)
      by (cases "cli_ip c = ip") (auto simp: synced_routes_def client_for_def)
  qed
  then show "route_map_ok rm'" "set syn' = set syn \<union> cli_ip ` set cs"
    "synced_routes infos p cs ip (routes_in rm ip) (routes_in rm' ip)" by auto
qed

lemma routes_at_insert:
  "ip_to_routes m' = hm_insert nc rm (ip_to_routes m) \<Longrightarrow>
   routes_at m' nc' ip = (if nc' = nc then routes_in rm ip else routes_at m nc' ip)"
  by (simp add: routes_at_def)

lemma sync_network_cases:
  assumes "sync_network t p ni (codes, m) = (codes', m')" "routes_inv m" "distinct (map cli_ip (ni_clients ni))"
  obtains rm where "ip_to_routes m' = hm_insert (ni_network_code ni) rm (ip_to_routes m)" "route_map_ok rm"
    "\<And>ip c. client_for (ni_clients ni) ip = Some c \<Longrightarrow>
       best_routes (pm_infos m) (candidates p (cli_latency_ms c) (routes_at m (ni_network_code ni) ip)) (routes_in rm ip)"
    "\<And>ip. client_for (ni_clients ni) ip = None \<Longrightarrow>
       routes_in rm ip = filter (\<lambda>r. ri_peer r \<noteq> p) (routes_at m (ni_network_code ni) ip)"
    "pm_infos m' = pm_infos m" "codes' = List.insert (ni_network_code ni) codes"
proof -
  let ?nc = "ni_network_code ni" and ?cs = "ni_clients ni"
  let ?rm = "case hm_get (ip_to_routes m) ?nc of Some x \<Rightarrow> x | None \<Rightarrow> []"
  let ?acc = "pi_remote_capabilities (pm_infos m p) AND CAPABILITY_WIREGUARD_ENDPOINT_SYNC_V1 \<noteq> 0"
  obtain rm syn wg where f: "fold (sync_client (pm_infos m) p ?acc) ?cs (?rm, [], []) = (rm, syn, wg)" by (metis prod_cases3)
  have ok: "route_map_ok ?rm" using assms(2) by (auto simp: routes_inv_def split: option.splits)
  have at: "routes_in ?rm ip = routes_at m ?nc ip" for ip
    by (simp add: routes_at_def routes_in_def split: option.splits)
  note syn = sync_clients [OF ok assms(3) f]
  let ?rm' = "drop_peer_routes (\<lambda>ip. ip \<in> set syn) p rm"
  have "ip_to_routes m' = hm_insert ?nc ?rm' (ip_to_routes m)" "pm_infos m' = pm_infos m" "codes' = List.insert ?nc codes"
    using assms(1) f by (auto simp: sync_network_def Let_def split: option.splits)
  moreover have in': "routes_in ?rm' ip = (if ip \<in> cli_ip ` set ?cs then routes_in rm ip
      else filter (\<lambda>r. ri_peer r \<noteq> p) (routes_in rm ip))" for ip
    using routes_in_drop(1) [OF syn(1)] syn(2) by auto
  moreover have "best_routes (pm_infos m) (candidates p (cli_latency_ms c) (routes_at m ?nc ip)) (routes_in ?rm' ip)"
    if "client_for ?cs ip = Some c" for ip c
  proof -
    have "ip \<in> cli_ip ` set ?cs" using that client_for_None [of ?cs ip] by fastforce
    then show ?thesis using syn(3) [of ip] that by (simp add: in' synced_routes_def at)
  qed
  moreover have "routes_in ?rm' ip = filter (\<lambda>r. ri_peer r \<noteq> p) (routes_at m ?nc ip)"
    if "client_for ?cs ip = None" for ip
    using syn(3) [of ip] that client_for_None [of ?cs ip] by (simp add: in' synced_routes_def at)
  ultimately show thesis using that routes_in_drop(2) [OF syn(1)] by blast
qed

text \<open>C21. What a client list does to the route table.  The routes of other networks stay.  In the listed
  network, an address that the peer does not list loses its route through the peer and nothing else;
  an address it lists gets the five fastest among its other routes and the route through the peer with
  the reported latency, whatever it had before.  Every address keeps at most five routes, through
  different peers.\<close>

theorem route_sync_exact:
  assumes "routes_inv m" "distinct (map cli_ip (ni_clients ni))" "sync_network t p ni (codes, m) = (codes', m')"
  shows "routes_inv m' \<and>
    (\<forall>nc ip. nc \<noteq> ni_network_code ni \<longrightarrow> routes_at m' nc ip = routes_at m nc ip) \<and>
    (\<forall>ip. ip \<notin> cli_ip ` set (ni_clients ni) \<longrightarrow>
       routes_at m' (ni_network_code ni) ip = filter (\<lambda>r. ri_peer r \<noteq> p) (routes_at m (ni_network_code ni) ip)) \<and>
    (\<forall>c. c \<in> set (ni_clients ni) \<longrightarrow>
       (let old = routes_at m (ni_network_code ni) (cli_ip c);
            new = routes_at m' (ni_network_code ni) (cli_ip c);
            cand = insert \<lparr>ri_peer = p, ri_client_latency_ms = cli_latency_ms c\<rparr> {r \<in> set old. ri_peer r \<noteq> p}
        in set new \<subseteq> cand \<and> length new = min 5 (card cand) \<and> distinct (map ri_peer new) \<and>
           (\<forall>r r'. r \<in> cand - set new \<and> r' \<in> set new \<longrightarrow> total_latency (pm_infos m) r' \<le> total_latency (pm_infos m) r)))"
  using assms(3,1,2)
proof (cases rule: sync_network_cases)
  case (1 rm)
  let ?nc = "ni_network_code ni"
  note at = routes_at_insert [OF 1(1)]
  have inv: "routes_inv m'" using assms(1) 1(1,2) by (auto simp: routes_inv_def)
  have "best_routes (pm_infos m) (candidates p (cli_latency_ms c) (routes_at m ?nc (cli_ip c))) (routes_at m' ?nc (cli_ip c))"
    if "c \<in> set (ni_clients ni)" for c
  proof -
    have "client_for (ni_clients ni) (cli_ip c) = Some c"
      unfolding client_for_def using that assms(2) by (intro find_unique) (auto simp: distinct_map inj_on_def)
    from 1(3) [OF this] show ?thesis by (simp add: at)
  qed
  moreover have "distinct (map ri_peer (routes_in rm ip))" for ip
    using routes_in_ok [OF 1(2)] by (simp add: route_list_ok_def)
  ultimately show ?thesis using inv 1(4)
    by (auto simp: at client_for_None best_routes_def candidates_def Let_def MAX_ROUTES_PER_IP_def)
qed

section \<open>Connections come and go\<close>

definition uses_peer :: "peer_manager \<Rightarrow> nat \<Rightarrow> string \<Rightarrow> bool" where
  "uses_peer m p nc = (\<exists>ip. p \<in> ri_peer ` set (routes_at m nc ip))"

text \<open>The server side of a set of links: every connection keeps the set of networks its peer has
  reported (\<open>network_codes\<close> of the communication loop).  Client lists arrive on any connection, any
  connection may close, and everything else the server does leaves the routes alone.\<close>

inductive link_step :: "peer_manager \<times> (nat \<Rightarrow> string hset) \<Rightarrow> peer_manager \<times> (nat \<Rightarrow> string hset) \<Rightarrow> bool" where
  client_list: "handle_client_info_response t p (codes p) nets m = (cs, m') \<Longrightarrow>
     \<forall>ni \<in> set nets. distinct (map cli_ip (ni_clients ni)) \<Longrightarrow> link_step (m, codes) (m', codes(p := cs))"
| closed: "link_step (m, codes) (connection_closed t p (codes p) m, codes(p := []))"
| other: "ip_to_routes m' = ip_to_routes m \<Longrightarrow> link_step (m, codes) (m', codes)"

definition link_inv :: "peer_manager \<times> (nat \<Rightarrow> string hset) \<Rightarrow> bool" where
  "link_inv s = (case s of (m, codes) \<Rightarrow> routes_inv m \<and> (\<forall>p nc. uses_peer m p nc \<longrightarrow> nc \<in> set (codes p)))"

lemma sync_network_uses:
  assumes "sync_network t p ni (codes, m) = (codes', m')" "routes_inv m" "distinct (map cli_ip (ni_clients ni))"
  shows "routes_inv m'" "set codes' = insert (ni_network_code ni) (set codes)"
    "uses_peer m' q nc \<Longrightarrow> uses_peer m q nc \<or> (q = p \<and> nc = ni_network_code ni)"
proof -
  obtain rm where
    rm: "ip_to_routes m' = hm_insert (ni_network_code ni) rm (ip_to_routes m)" "route_map_ok rm"
      "\<And>ip c. client_for (ni_clients ni) ip = Some c \<Longrightarrow>
         best_routes (pm_infos m) (candidates p (cli_latency_ms c) (routes_at m (ni_network_code ni) ip)) (routes_in rm ip)"
      "\<And>ip. client_for (ni_clients ni) ip = None \<Longrightarrow>
         routes_in rm ip = filter (\<lambda>r. ri_peer r \<noteq> p) (routes_at m (ni_network_code ni) ip)"
      "codes' = List.insert (ni_network_code ni) codes"
    by (rule sync_network_cases [OF assms]) blast
  show "routes_inv m'" using assms(2) rm(1,2) by (auto simp: routes_inv_def)
  show "set codes' = insert (ni_network_code ni) (set codes)" by (simp add: rm(5))
  have old: "r \<in> set (routes_at m (ni_network_code ni) ip)" if "r \<in> set (routes_in rm ip)" "ri_peer r \<noteq> p" for r ip
    using that rm(3,4) [of ip] best_routes_via(2) [OF rm(3) that(1)] by (cases "client_for (ni_clients ni) ip") auto
  show "uses_peer m' q nc \<Longrightarrow> uses_peer m q nc \<or> (q = p \<and> nc = ni_network_code ni)"
    using old by (fastforce simp: uses_peer_def routes_at_insert [OF rm(1)] split: if_splits)
qed

lemma handle_client_info_response_uses:
  assumes "handle_client_info_response t p codes nets m = (codes', m')" "routes_inv m"
    and "\<forall>ni \<in> set nets. distinct (map cli_ip (ni_clients ni))"
  shows "routes_inv m' \<and> set codes \<subseteq> set codes' \<and>
    (\<forall>q nc. uses_peer m' q nc \<longrightarrow> uses_peer m q nc \<or> (q = p \<and> nc \<in> set codes'))"
  using assms
proof (induction nets arbitrary: codes m)
  case (Cons ni nets)
  obtain c1 m1 where one: "sync_network t p ni (codes, m) = (c1, m1)" by fastforce
  note step = sync_network_uses [OF one Cons.prems(2)]
  have "handle_client_info_response t p c1 nets m1 = (codes', m')"
    using Cons.prems(1) one by (simp add: handle_client_info_response_def)
  then have "routes_inv m' \<and> set c1 \<subseteq> set codes' \<and>
      (\<forall>q nc. uses_peer m' q nc \<longrightarrow> uses_peer m1 q nc \<or> (q = p \<and> nc \<in> set codes'))"
    by (rule Cons.IH) (use Cons.prems(3) step(1) in auto)
  then show ?case using step(2,3) Cons.prems(3) by (metis insert_iff insert_subset list.set_intros(1))
qed (simp add: handle_client_info_response_def)

lemma cleanup_network_routes:
  assumes "routes_inv m"
  shows "routes_inv (cleanup_network t p nc m)"
    "routes_at (cleanup_network t p nc m) nc' ip =
      (if nc' = nc then filter (\<lambda>r. ri_peer r \<noteq> p) (routes_at m nc' ip) else routes_at m nc' ip)"
proof -
  have ir: "ip_to_routes (cleanup_network t p nc m) = (case hm_get (ip_to_routes m) nc of
      Some rm \<Rightarrow> hm_insert nc (drop_peer_routes (\<lambda>_. False) p rm) (ip_to_routes m) | None \<Rightarrow> ip_to_routes m)"
    by (simp add: cleanup_network_def Let_def split: option.splits)
  show "routes_inv (cleanup_network t p nc m)"
    using assms routes_in_drop(2) by (auto simp: routes_inv_def ir split: option.splits if_splits)
  show "routes_at (cleanup_network t p nc m) nc' ip =
      (if nc' = nc then filter (\<lambda>r. ri_peer r \<noteq> p) (routes_at m nc' ip) else routes_at m nc' ip)"
    using assms by (auto simp: routes_at_def ir routes_inv_def routes_in_drop(1) split: option.splits)
qed

lemma cleanup_routes_routes:
  assumes "routes_inv m"
  shows "routes_inv (cleanup_routes t p codes m) \<and> (\<forall>nc ip. routes_at (cleanup_routes t p codes m) nc ip =
      (if nc \<in> set codes then filter (\<lambda>r. ri_peer r \<noteq> p) (routes_at m nc ip) else routes_at m nc ip))"
  using assms
proof (induction codes arbitrary: m)
  case (Cons c codes)
  then show ?case using Cons.IH [OF cleanup_network_routes(1) [OF Cons.prems, of t p c]]
    by (auto simp: cleanup_routes_def cleanup_network_routes(2) [OF Cons.prems])
qed (simp add: cleanup_routes_def)

lemma connection_closed_routes:
  assumes "routes_inv m"
  shows "routes_inv (connection_closed t p codes m)"
    "routes_at (connection_closed t p codes m) nc ip =
      (if nc \<in> set codes then filter (\<lambda>r. ri_peer r \<noteq> p) (routes_at m nc ip) else routes_at m nc ip)"
proof -
  let ?a = "upd_info p set_disconnected m"
  let ?m1 = "if cluster_enabled ?a \<and> \<not> is_lease_authority ?a \<and>
      pi_remote_server_id (pm_infos ?a p) = Some (pm_lease_authority ?a) then ?a\<lparr>pm_cluster_ready := False\<rparr> else ?a"
  have m1: "ip_to_routes ?m1 = ip_to_routes m"
    "ip_to_routes (connection_closed t p codes m) = ip_to_routes (cleanup_routes t p codes ?m1)"
    by (simp_all add: upd_info_def connection_closed_def Let_def)
  have same: "routes_inv a = routes_inv b" "routes_at a = routes_at b" if "ip_to_routes a = ip_to_routes b" for a b
    using that by (simp_all add: routes_inv_def routes_at_def fun_eq_iff)
  show "routes_inv (connection_closed t p codes m)" "routes_at (connection_closed t p codes m) nc ip =
      (if nc \<in> set codes then filter (\<lambda>r. ri_peer r \<noteq> p) (routes_at m nc ip) else routes_at m nc ip)"
    using cleanup_routes_routes [of ?m1 t p codes] assms same [OF m1(1)] same [OF m1(2)] by auto
qed

interpretation links: invariant_system link_step link_inv
proof
  fix s s' assume "link_step s s'" "link_inv s"
  then show "link_inv s'"
  proof (induction rule: link_step.induct)
    case (client_list t p codes nets m cs m')
    then show ?case using handle_client_info_response_uses [OF client_list(1)]
      by (auto simp: link_inv_def) blast+
  next
    case (closed m codes t p)
    then show ?case using connection_closed_routes [of m t p "codes p"]
      by (fastforce simp: link_inv_def uses_peer_def split: if_splits)
  next
    case (other m' m codes)
    then show ?case by (simp add: link_inv_def routes_inv_def uses_peer_def routes_at_def)
  qed
qed


section \<open>The fastest route\<close>

lemma best_route_None:
  "best_route infos rs best = None \<longleftrightarrow> best = None \<and> (\<forall>r \<in> set rs. \<not> pi_connected (infos (ri_peer r)))"
  by (induction infos rs best rule: best_route.induct) (auto simp: Let_def split: option.splits)

lemma best_route_Some:
  assumes "best_route infos rs best = Some (p, l)"
  shows "(best = Some (p, l) \<or> (\<exists>r \<in> set rs. pi_connected (infos (ri_peer r)) \<and> ri_peer r = p \<and> total_latency infos r = l)) \<and>
    (\<forall>r \<in> set rs. pi_connected (infos (ri_peer r)) \<longrightarrow> l \<le> total_latency infos r) \<and>
    (\<forall>q k. best = Some (q, k) \<longrightarrow> l \<le> k)"
  using assms
proof (induction infos rs best rule: best_route.induct)
  case (2 infos route routes best)
  show ?case
  proof (cases "pi_connected (infos (ri_peer route))")
    case False
    then show ?thesis using 2 by auto
  next
    case conn: True
    show ?thesis
    proof (cases best)
      case None
      then show ?thesis using 2(2) [OF _ refl None] 2(5) conn by auto
    next
      case (Some b)
      obtain q k where b: "b = (q, k)" by fastforce
      show ?thesis
      proof (cases "total_latency infos route < k")
        case True
        then show ?thesis using 2(3) [OF _ refl Some b [symmetric] True] 2(5) conn Some b by (auto simp: less_imp_le)
      next
        case False
        then show ?thesis using 2(4) [OF _ refl Some b [symmetric] False] 2(5) conn Some b by auto
      qed
    qed
  qed
qed simp

lemma find_best_route_alt:
  "find_best_route nc ip m = map_option (\<lambda>(p, l). (p, l,
      Option.bind (get_network_state nc (pm_networks m)) (\<lambda>s. Option.bind (get_device_entry_by_ip ip s) de_latency_ms)))
     (best_route (pm_infos m) (routes_at m nc ip) None)"
  by (auto simp: find_best_route_def routes_at_def routes_in_def Let_def split: option.splits)

text \<open>C25. Packets take the fastest route.  A packet for an address without a connected route is not
  forwarded.  Otherwise the peer with the least total latency among the connected routes is chosen, and
  the packet is forwarded to it exactly if that latency is below the one measured for the local client,
  or below 10 ms if the client is here but has not been measured, or if the client is not here.\<close>

theorem fastest_route:
  "case find_best_route nc ip m of
     None \<Rightarrow> (\<forall>r \<in> set (routes_at m nc ip). \<not> pi_connected (pm_infos m (ri_peer r))) \<and>
       forward_with_best_route cd io nc ip data origin m = (False, m)
   | Some (p, remote, local_lat) \<Rightarrow>
       (\<exists>r \<in> set (routes_at m nc ip). ri_peer r = p \<and> pi_connected (pm_infos m p) \<and> total_latency (pm_infos m) r = remote) \<and>
       (\<forall>r \<in> set (routes_at m nc ip). pi_connected (pm_infos m (ri_peer r)) \<longrightarrow> remote \<le> total_latency (pm_infos m) r) \<and>
       forward_with_best_route cd io nc ip data origin m =
         (if (case local_lat of Some l \<Rightarrow> remote < l
              | None \<Rightarrow> remote < 10 \<or> \<not> (\<exists>s. hm_get (pm_networks m) nc = Some s \<and> hm_get (sender_map s) ip \<noteq> None))
          then send_datagram io p (sc_encode cd (ForwardData
            \<lparr>fw_network_code = nc, fw_data = data, fw_source_is_wireguard = (origin = FromWireGuard)\<rparr>)) m
          else (False, m))"
proof (cases "best_route (pm_infos m) (routes_at m nc ip) None")
  case None
  then have "\<forall>r \<in> set (routes_at m nc ip). \<not> pi_connected (pm_infos m (ri_peer r))" by (simp add: best_route_None)
  then show ?thesis by (simp add: find_best_route_alt None forward_with_best_route_def)
next
  case (Some b)
  obtain p l where b: "b = (p, l)" by fastforce
  have "(\<exists>r \<in> set (routes_at m nc ip). ri_peer r = p \<and> pi_connected (pm_infos m p) \<and> total_latency (pm_infos m) r = l)"
    "(\<forall>r \<in> set (routes_at m nc ip). pi_connected (pm_infos m (ri_peer r)) \<longrightarrow> l \<le> total_latency (pm_infos m) r)"
    using best_route_Some [OF Some [unfolded b]] by auto
  then show ?thesis
    by (auto simp: find_best_route_alt Some b forward_with_best_route_def should_forward_def forward_to_peer_def
        DEFAULT_CLIENT_LATENCY_MS_def get_network_state_def hm_contains_def split: option.splits)
qed

text \<open>The sum of latencies is taken modulo \<open>2 ^ 32\<close>: a peer that reports a huge latency for a client gets
  the total latency 0 and with it all packets for that address, also those of a client that is
  connected here with any measured latency above 0.\<close>

lemma reported_latency_wraps:
  assumes "r \<in> set (routes_at m nc ip)" "pi_connected (pm_infos m (ri_peer r))"
    and "unat (pi_latency_ms (pm_infos m (ri_peer r))) + unat (ri_client_latency_ms r) + 2 = 2 ^ 32"
  shows "\<exists>p loc. find_best_route nc ip m = Some (p, 0, loc) \<and> (loc \<noteq> Some 0 \<longrightarrow>
    forward_with_best_route cd io nc ip data origin m = forward_to_peer cd io p nc data origin m)"
proof -
  have "unat (total_latency (pm_infos m) r) = 0"
    using assms(3) by (simp add: total_latency_def unat_word_ariths mod_simps)
  then have zero: "total_latency (pm_infos m) r = 0" by (simp add: unat_eq_0)
  obtain p l where b: "best_route (pm_infos m) (routes_at m nc ip) None = Some (p, l)"
    using assms(1,2) best_route_None [of "pm_infos m" "routes_at m nc ip" None] by fastforce
  have "l \<le> total_latency (pm_infos m) r" using best_route_Some [OF b] assms(1,2) by blast
  with zero have l: "l = 0" by simp
  show ?thesis using b l
    by (auto simp: find_best_route_alt forward_with_best_route_def should_forward_def DEFAULT_CLIENT_LATENCY_MS_def
        word_gt_0 split: option.splits)
qed

section \<open>Witnesses\<close>

definition wit_pm :: peer_manager where
  "wit_pm = new_with_identity ''h'' [] (Some ''a'') None []"

definition wit_net_info :: network_info where
  "wit_net_info = \<lparr>ni_network_code = ''n'',
     ni_clients = [\<lparr>cli_ip = 5, cli_latency_ms = 7, cli_is_wireguard = False\<rparr>]\<rparr>"

definition wit_linked :: peer_manager where
  "wit_linked = wit_pm\<lparr>pm_infos := (pm_infos wit_pm)(3 := set_connected 0 1 (peer_info_new ''x'' True))\<rparr>"

lemmas wit_route_defs = wit_net_info_def wit_linked_def wit_pm_def new_with_identity_def sync_network_def sync_client_eq
  update_routes_def drop_peer_routes_def get_network_state_def hm_insert_def hm_get_def peer_info_new_def set_connected_def
  handle_client_info_response_def

lemma wit_linked_inv: "routes_inv wit_linked" "routes_at wit_linked nc ip = []"
  by (simp_all add: routes_inv_def routes_at_def wit_linked_def wit_pm_def new_with_identity_def Let_def)

lemma wit_sync: "sync_network 0 3 wit_net_info ([], wit_linked) =
    ([''n''], wit_linked\<lparr>ip_to_routes := [(''n'', [(5, [\<lparr>ri_peer = 3, ri_client_latency_ms = 7\<rparr>])])]\<rparr>)"
  by (simp add: wit_route_defs Let_def)

theorem route_sync_exact_witness:
  "routes_at (snd (sync_network 0 3 wit_net_info ([], wit_linked))) ''n'' 5 = [\<lparr>ri_peer = 3, ri_client_latency_ms = 7\<rparr>] \<and>
   routes_inv (snd (sync_network 0 3 wit_net_info ([], wit_linked)))"
proof -
  have d: "distinct (map cli_ip (ni_clients wit_net_info))" by (simp add: wit_net_info_def)
  show ?thesis using route_sync_exact [OF wit_linked_inv(1) d wit_sync]
    unfolding wit_sync by (simp add: routes_at_def routes_in_def hm_get_def)
qed


definition wit_codec :: server_codec where
  "wit_codec = \<lparr>sc_encode = (\<lambda>_. []), sc_decode = (\<lambda>_. None)\<rparr>"

definition wit_io :: peer_io where
  "wit_io = \<lparr>io_datagram = (\<lambda>_ _ _. True), io_stream = (\<lambda>_ _ _. True)\<rparr>"

theorem fastest_route_witness:
  "\<exists>m. m = snd (sync_network 0 3 wit_net_info ([], wit_linked)) \<and> find_best_route ''n'' 5 m = Some (3, 19, None) \<and>
    forward_with_best_route wit_codec wit_io ''n'' 5 [] FromVnt m = (True, m\<lparr>pm_out := [SentDatagram 1 [] True]\<rparr>)"
proof -
  let ?m = "snd (sync_network 0 3 wit_net_info ([], wit_linked))"
  have f: "find_best_route ''n'' 5 ?m = Some (3, 19, None)"
    unfolding wit_sync snd_conv
    by (simp add: find_best_route_def hm_get_def total_latency_def wit_linked_def wit_pm_def
        new_with_identity_def Let_def set_connected_def peer_info_new_def DEFAULT_SERVER_LATENCY_MS_def get_network_state_def)
  moreover have "hm_get (pm_networks ?m) ''n'' = None" "pm_out ?m = []" "pi_connection (pm_infos ?m 3) = Some 1"
    unfolding wit_sync snd_conv by (simp_all add: wit_linked_def wit_pm_def new_with_identity_def Let_def set_connected_def)
  ultimately show ?thesis
    using fastest_route [where nc = "''n''" and ip = 5 and m = ?m and cd = wit_codec and io = wit_io and data = "[]" and origin = FromVnt]
    by (simp add: send_datagram_def wit_codec_def wit_io_def)
qed

end
