(* ===== verification/Peer_Broadcast.thy ===== *)
theory Peer_Broadcast
  imports Peer_Server Network_Delivery "HOL-Library.Multiset"
begin

text \<open>
  Broadcasts between servers: whom a server sends a broadcast to, that it handles each broadcast once,
  and that a broadcast dies out whatever the topology.
\<close>

section \<open>Remembering broadcasts\<close>

lemma mark_fresh_remembered:
  assumes "mark_broadcast_seen now i seen = (True, seen')"
  shows "hm_get seen' i = Some now"
  using assms by (auto simp: mark_broadcast_seen_def Let_def split: option.splits if_splits)

lemma mark_ok: "hm_ok seen \<Longrightarrow> hm_ok (snd (mark_broadcast_seen now i seen))"
  by (auto simp: mark_broadcast_seen_def Let_def split: option.splits)

lemma mark_keeps:
  assumes "hm_ok seen" "hm_get seen i = Some t0" "t < t0 + BROADCAST_SEEN_TTL"
  shows "hm_get (snd (mark_broadcast_seen t j seen)) i = Some t0"
    "fst (mark_broadcast_seen t i seen) = False"
proof -
  define s where "s = (if length seen \<ge> MAX_BROADCAST_SEEN then hm_retain (\<lambda>_ u. seen_recently t u) seen else seen)"
  have mark: "mark_broadcast_seen t k seen = (case hm_get s k of
      Some u \<Rightarrow> if seen_recently t u then (False, s) else (True, hm_insert k t s) | None \<Rightarrow> (True, hm_insert k t s))" for k
    unfolding mark_broadcast_seen_def s_def Let_def by (rule refl)
  have r: "seen_recently t t0" using assms(3) by (auto simp: seen_recently_def BROADCAST_SEEN_TTL_def)
  then have "hm_get s i = Some t0" using assms(1,2) by (simp add: s_def hm.get_retain)
  then show "hm_get (snd (mark_broadcast_seen t j seen)) i = Some t0" "fst (mark_broadcast_seen t i seen) = False"
    using r by (auto simp: mark split: option.splits)
qed

definition mark_all :: "(nat \<times> string) list \<Rightarrow> (string, nat) hmap \<Rightarrow> (string, nat) hmap" where
  "mark_all evs seen = fold (\<lambda>(t, i) s. snd (mark_broadcast_seen t i s)) evs seen"

lemma mark_all_keeps:
  assumes "hm_ok seen" "hm_get seen i = Some t0" "\<forall>(t, _) \<in> set evs. t < t0 + BROADCAST_SEEN_TTL"
  shows "hm_get (mark_all evs seen) i = Some t0 \<and> hm_ok (mark_all evs seen)"
  using assms
proof (induction evs arbitrary: seen)
  case (Cons e evs)
  obtain t j where e: "e = (t, j)" by fastforce
  show ?case using Cons.IH [OF mark_ok [OF Cons.prems(1)] mark_keeps(1) [OF Cons.prems(1,2)], of t j] Cons.prems(3) e
    by (simp add: mark_all_def)
qed (simp add: mark_all_def)


section \<open>The recipients\<close>

definition can_broadcast :: "nat option \<Rightarrow> peer_manager \<Rightarrow> nat \<Rightarrow> bool" where
  "can_broadcast incoming m p =
     (pi_connected (pm_infos m p) \<and> bit (pi_remote_capabilities (pm_infos m p)) 2 \<and> incoming \<noteq> Some p)"

definition remote_id :: "peer_manager \<Rightarrow> nat \<Rightarrow> string" where
  "remote_id m p = (case pi_remote_server_id (pm_infos m p) of Some x \<Rightarrow> x | None \<Rightarrow> pi_addr (pm_infos m p))"

text \<open>The first element for each value of a key.\<close>

function keep_first :: "('a \<Rightarrow> 'b) \<Rightarrow> 'a list \<Rightarrow> 'a list" where
  "keep_first f [] = []"
| "keep_first f (x # xs) = x # keep_first f (filter (\<lambda>y. f y \<noteq> f x) xs)"
  by pat_completeness auto
termination
  by (relation "measure (length o snd)") (auto simp: le_imp_less_Suc)

lemma keep_first_spec: "set (keep_first f xs) \<subseteq> set xs \<and> f ` set (keep_first f xs) = f ` set xs \<and> distinct (map f (keep_first f xs))"
proof (induction f xs rule: keep_first.induct)
  case (2 f x xs)
  then show ?case by (auto simp: image_iff)
qed simp

lemma capability_bit: "(c AND CAPABILITY_WIREGUARD_BROADCAST_V1 = 0) = (\<not> bit c 2)"
  using and_exp_eq_0_iff_not_bit [of c 2] by (simp add: CAPABILITY_WIREGUARD_BROADCAST_V1_def)

definition send_to :: "peer_io \<Rightarrow> bytes \<Rightarrow> nat \<Rightarrow> nat \<times> peer_manager \<Rightarrow> nat \<times> peer_manager" where
  "send_to io msg p acc = (case acc of (n, m) \<Rightarrow>
     (case send_datagram io p msg m of (ok, m) \<Rightarrow> (if ok then n + 1 else n, m)))"

lemma send_to_eq: "send_datagram io p msg m = (ok, m') \<Longrightarrow> send_to io msg p (n, m) = (if ok then n + 1 else n, m')"
  by (simp add: send_to_def)

lemma send_datagram_keeps: "send_datagram io p msg m = (ok, m') \<Longrightarrow> pm_infos m' = pm_infos m \<and> pm_peer_servers m' = pm_peer_servers m"
  by (auto simp: send_datagram_def Let_def split: option.splits)

text \<open>The loop with its set of identifiers is the simple loop over the first peer of every identifier.\<close>

lemma forward_broadcast_loop_eq:
  "forward_broadcast_loop io msg incoming peers ids n m =
   fold (send_to io msg) (keep_first (remote_id m) (filter (\<lambda>p. can_broadcast incoming m p \<and> remote_id m p \<notin> set ids) peers)) (n, m)"
proof (induction peers arbitrary: ids n m)
  case (Cons p peers)
  have same: "can_broadcast incoming m' = can_broadcast incoming m" "remote_id m' = remote_id m"
    if "pm_infos m' = pm_infos m" for m' m :: peer_manager
    using that by (auto simp: fun_eq_iff can_broadcast_def remote_id_def split: option.split)
  show ?case
  proof (cases "can_broadcast incoming m p \<and> remote_id m p \<notin> set ids")
    case False
    then show ?thesis using Cons.IH
      by (auto simp: can_broadcast_def remote_id_def capability_bit Let_def)
  next
    case True
    obtain ok m' where s: "send_datagram io p msg m = (ok, m')" by fastforce
    note inf = send_datagram_keeps [OF s, THEN conjunct1]
    have "filter (\<lambda>q. can_broadcast incoming m q \<and> remote_id m q \<notin> set (remote_id m p # ids)) peers =
        filter (\<lambda>q. remote_id m q \<noteq> remote_id m p) (filter (\<lambda>q. can_broadcast incoming m q \<and> remote_id m q \<notin> set ids) peers)"
      by (auto intro: filter_cong)
    moreover have "forward_broadcast_loop io msg incoming (p # peers) ids n m =
        forward_broadcast_loop io msg incoming peers (remote_id m p # ids) (if ok then n + 1 else n) m'"
      using True s by (simp add: can_broadcast_def remote_id_def capability_bit Let_def)
    ultimately show ?thesis using True s
      by (simp add: Cons.IH same [OF inf] send_to_def)
  qed
qed simp

lemma send_to_all:
  assumes "\<forall>p \<in> set ts. pi_connection (pm_infos m p) \<noteq> None" "fold (send_to io msg) ts (n, m) = (n', m')"
  shows "\<exists>oks. length oks = length ts \<and> n' = n + length (filter (\<lambda>ok. ok) oks) \<and>
    m' = m\<lparr>pm_out := pm_out m @ map2 (\<lambda>p ok. SentDatagram (the (pi_connection (pm_infos m p))) msg ok) ts oks\<rparr>"
  using assms
proof (induction ts arbitrary: n m)
  case (Cons p ts)
  then obtain c where c: "pi_connection (pm_infos m p) = Some c" by auto
  define ok where "ok = io_datagram io (pm_out m) c msg"
  let ?m = "m\<lparr>pm_out := pm_out m @ [SentDatagram c msg ok]\<rparr>"
  have f: "fold (send_to io msg) ts (if ok then n + 1 else n, ?m) = (n', m')"
    using Cons.prems(2) send_to_eq [of io p msg m ok ?m n] c by (simp add: send_datagram_def ok_def Let_def)
  have "\<forall>p \<in> set ts. pi_connection (pm_infos ?m p) \<noteq> None" using Cons.prems(1) by simp
  from Cons.IH [OF this f] obtain oks where "length oks = length ts" "n' = (if ok then n + 1 else n) + length (filter (\<lambda>ok. ok) oks)"
    "m' = ?m\<lparr>pm_out := pm_out ?m @ map2 (\<lambda>p ok. SentDatagram (the (pi_connection (pm_infos ?m p))) msg ok) ts oks\<rparr>"
    by blast
  then show ?case using c by (intro exI [of _ "ok # oks"]) auto
qed simp


section \<open>A broadcast dies out\<close>

text \<open>Many servers: \<open>net\<close> holds their states, and \<open>pool\<close> the broadcasts in flight, each with the server it
  will reach and the connection it will arrive on.  A step lets one broadcast arrive.  The broadcasts
  this puts in flight are copies of datagrams the server has just sent; nothing is assumed about where
  they go, and they may be lost or duplicated.\<close>

type_synonym flight = "nat \<times> nat \<times> server_broadcast_data"

inductive flood_step ::
  "pnet \<Rightarrow> mpsc \<Rightarrow> server_codec \<Rightarrow> peer_io \<Rightarrow> (nat \<Rightarrow> peer_manager) \<times> flight multiset \<Rightarrow>
   (nat \<Rightarrow> peer_manager) \<times> flight multiset \<Rightarrow> bool"
  for P mp cd io where
  arrive: "(s, p, b) \<in># pool \<Longrightarrow> handle_broadcast_data P mp cd io t p b (net s) = Some m \<Longrightarrow>
     \<forall>(s', p', b') \<in># copies. \<exists>c data ok. SentDatagram c data ok \<in> set (drop (length (pm_out (net s))) (pm_out m)) \<and>
        sc_decode cd data = Some (BroadcastData b') \<Longrightarrow>
     flood_step P mp cd io (net, pool) (net(s := m), pool - {#(s, p, b)#} + copies)"

definition flight_hops :: "flight \<Rightarrow> nat" where
  "flight_hops f = unat (bc_hops_remaining (snd (snd f)))"

lemma send_datagram_out:
  assumes "send_datagram io p msg m = (ok, m')"
  shows "\<exists>evs. pm_out m' = pm_out m @ evs \<and> (\<forall>e \<in> set evs. \<exists>c ok. e = SentDatagram c msg ok)"
proof (cases "pi_connection (pm_infos m p)")
  case None
  then show ?thesis using assms by (simp add: send_datagram_def)
next
  case (Some c)
  then show ?thesis using assms by (intro exI [of _ "[SentDatagram c msg ok]"]) (auto simp: send_datagram_def Let_def)
qed

lemma fold_send_to_out:
  "\<exists>evs. pm_out (snd (fold (send_to io msg) ts (n, m))) = pm_out m @ evs \<and> (\<forall>e \<in> set evs. \<exists>c ok. e = SentDatagram c msg ok)"
proof (induction ts arbitrary: n m)
  case (Cons p ts)
  obtain ok m1 where s: "send_datagram io p msg m = (ok, m1)" by fastforce
  then obtain e1 where e1: "pm_out m1 = pm_out m @ e1" "\<forall>e \<in> set e1. \<exists>c ok. e = SentDatagram c msg ok"
    using send_datagram_out by blast
  obtain e2 where "pm_out (snd (fold (send_to io msg) ts (if ok then n + 1 else n, m1))) = pm_out m1 @ e2"
    "\<forall>e \<in> set e2. \<exists>c ok. e = SentDatagram c msg ok" using Cons.IH by blast
  with e1 s show ?case by (intro exI [of _ "e1 @ e2"]) (auto simp: send_to_eq)
qed simp

lemma handle_broadcast_cases:
  assumes "handle_broadcast_data P mp cd io t p b m = Some m'"
  obtains "pm_out m' = pm_out m"
  | m1 where "bc_hops_remaining b \<noteq> 0" "pm_out m1 = pm_out m"
      "m' = snd (forward_broadcast_message cd io (b\<lparr>bc_hops_remaining := bc_hops_remaining b - 1\<rparr>) (Some p) m1)"
proof -
  obtain fresh seen where mk: "mark_broadcast_seen t (bc_broadcast_id b) (pm_broadcast_seen m) = (fresh, seen)" by fastforce
  let ?m = "m\<lparr>pm_broadcast_seen := seen\<rparr>"
  let ?R = "case get_network_state (bc_network_code b) (pm_networks ?m) of
      None \<Rightarrow> Some ?m
    | Some state \<Rightarrow> map_option (\<lambda>(_, state). ?m\<lparr>pm_networks := hm_insert (bc_network_code b) state (pm_networks ?m)\<rparr>)
        (relay_wireguard_broadcast P mp (bc_source_ip b) (bc_data b) (wire_origin (bc_source_is_wireguard b)) state)"
  have R: "pm_out m1 = pm_out m" if "?R = Some m1" for m1
    using that by (cases "get_network_state (bc_network_code b) (pm_networks ?m)") auto
  show thesis
  proof (cases "broadcast_refused (pm_infos m p) b \<or> \<not> fresh")
    case True
    then have "Some m' = Some m \<or> Some m' = Some ?m"
      unfolding assms [symmetric] handle_broadcast_data_def mk Let_def prod.case by (elim disjE) simp_all
    then show thesis using that(1) by auto
  next
    case False
    then have hops: "bc_hops_remaining b \<noteq> 0" by (auto simp: broadcast_refused_def)
    have eq: "handle_broadcast_data P mp cd io t p b m = (case ?R of None \<Rightarrow> None | Some m1 \<Rightarrow>
        Some (if bc_hops_remaining (b\<lparr>bc_hops_remaining := bc_hops_remaining b - 1\<rparr>) > 0
          then snd (forward_broadcast_message cd io (b\<lparr>bc_hops_remaining := bc_hops_remaining b - 1\<rparr>) (Some p) m1) else m1))"
      using False unfolding handle_broadcast_data_def mk Let_def prod.case by simp
    show thesis
    proof (cases ?R)
      case None
      then show thesis using assms unfolding eq by simp
    next
      case (Some m1)
      have m': "m' = (if bc_hops_remaining b - 1 > 0
          then snd (forward_broadcast_message cd io (b\<lparr>bc_hops_remaining := bc_hops_remaining b - 1\<rparr>) (Some p) m1) else m1)"
        using assms unfolding eq Some by simp
      show thesis
      proof (cases "bc_hops_remaining b - 1 > 0")
        case True
        then show thesis using that(2) [OF hops R [OF Some]] m' by simp
      next
        case False
        then show thesis using that(1) R [OF Some] m' by simp
      qed
    qed
  qed
qed

lemma handle_broadcast_out:
  assumes "handle_broadcast_data P mp cd io t p b m = Some m'" "SentDatagram c data ok \<in> set (drop (length (pm_out m)) (pm_out m'))"
  shows "\<exists>b'. data = sc_encode cd (BroadcastData b') \<and> unat (bc_hops_remaining b') < unat (bc_hops_remaining b)"
  using assms(1)
proof (cases rule: handle_broadcast_cases)
  case 1
  then show ?thesis using assms(2) by simp
next
  case (2 m1)
  let ?b = "b\<lparr>bc_hops_remaining := bc_hops_remaining b - 1\<rparr>"
  obtain ts where "m' = snd (fold (send_to io (sc_encode cd (BroadcastData ?b))) ts (0, m1))"
    using 2(3) unfolding forward_broadcast_message_def forward_broadcast_loop_eq by blast
  then obtain evs where "pm_out m' = pm_out m @ evs" "\<forall>e \<in> set evs. \<exists>c ok. e = SentDatagram c (sc_encode cd (BroadcastData ?b)) ok"
    using fold_send_to_out [of io "sc_encode cd (BroadcastData ?b)" ts 0 m1] 2(2) by auto
  then have "data = sc_encode cd (BroadcastData ?b)" using assms(2) by fastforce
  moreover have "unat (bc_hops_remaining b - 1) < unat (bc_hops_remaining b)" using 2(1) by (simp add: unat_minus_one unat_gt_0)
  ultimately show ?thesis by (intro exI [of _ ?b]) simp
qed

text \<open>C18. Broadcasts die out.  Whatever the topology of the links, the clocks, lost and duplicated
  datagrams and the tables of the servers, only finitely many broadcasts are handled before none is in
  flight.  (Of the codec it is assumed that it keeps the hop counter.)\<close>

theorem flood_terminates:
  assumes "\<And>b b'. sc_decode cd (sc_encode cd (BroadcastData b)) = Some (BroadcastData b') \<Longrightarrow>
      bc_hops_remaining b' = bc_hops_remaining b"
  shows "wfp (\<lambda>s' s. flood_step P mp cd io s s')"
proof -
  have "((snd s'), snd s) \<in> mult (measure flight_hops)" if "flood_step P mp cd io s s'" for s s'
    using that
  proof cases
    case (arrive s0 p b pool t net m copies)
    have "(f, (s0, p, b)) \<in> measure flight_hops" if "f \<in># copies" for f
      using arrive(5) that handle_broadcast_out [OF arrive(4)] assms by (fastforce simp: flight_hops_def)
    then have "(pool - {#(s0, p, b)#} + copies, pool - {#(s0, p, b)#} + {#(s0, p, b)#}) \<in> mult (measure flight_hops)"
      by (intro one_step_implies_mult) auto
    then show ?thesis using arrive(1-3) by simp
  qed
  then have "{(s', s). flood_step P mp cd io s s'} \<subseteq> inv_image (mult (measure flight_hops)) snd" by auto
  then have "wf {(s', s). flood_step P mp cd io s s'}"
    using wf_subset wf_inv_image wf_mult wf_measure by metis
  then show ?thesis by (simp add: wfp_def)
qed

section \<open>Witnesses\<close>

definition wit_bcast :: server_broadcast_data where
  "wit_bcast = \<lparr>bc_network_code = ''n'', bc_data = [], bc_source_ip = 5, bc_broadcast_id = ''i'',
     bc_origin_server_id = ''a'', bc_hops_remaining = 2, bc_source_is_wireguard = False\<rparr>"

text \<open>A codec that keeps the hop counter only.\<close>

definition hop_codec :: server_codec where
  "hop_codec = \<lparr>sc_encode = (\<lambda>m. case m of BroadcastData b \<Rightarrow> u32_be (bc_hops_remaining b) | _ \<Rightarrow> []),
     sc_decode = (\<lambda>d. case d of [x, y, z, w] \<Rightarrow> Some (BroadcastData (wit_bcast\<lparr>bc_hops_remaining := u32_of_be x y z w\<rparr>))
       | _ \<Rightarrow> None)\<rparr>"

definition wit_peer_io :: peer_io where
  "wit_peer_io = \<lparr>io_datagram = (\<lambda>_ _ _. True), io_stream = (\<lambda>_ _ _. True)\<rparr>"

text \<open>A server with two connections to the server \<open>b\<close> and one to \<open>c\<close>.\<close>

definition wit_bpeer :: "string \<Rightarrow> nat \<Rightarrow> peer_server_info" where
  "wit_bpeer i c = set_connected 0 c (set_remote_metadata i 2 15 False (peer_info_new i True))"

definition wit_bm :: peer_manager where
  "wit_bm = (new_with_identity ''h'' [] (Some ''a'') None [])
     \<lparr>pm_peer_servers := [0, 1, 2],
      pm_infos := (\<lambda>_. wit_bpeer ''b'' 10)(1 := wit_bpeer ''b'' 11, 2 := wit_bpeer ''c'' 12)\<rparr>"



theorem flood_terminates_witness: "wfp (\<lambda>s' s. flood_step rfc_pnet all_ok hop_codec wit_peer_io s s')"
  by (rule flood_terminates) (auto simp: hop_codec_def u32_be_def)

end
