(* ===== verification/Peer_Leases.thy ===== *)
theory Peer_Leases
  imports Peer_Server Cluster_Lease
begin

text \<open>
  Leases across servers (src/server/peer_server.rs): a server asks the lease authority of its cluster
  for addresses, over the link to it or in its own database if it is the authority; the dispatch of
  the messages of a link; and the reconciliation of local allocations when the link comes up.

  \<open>db\<close> is the database of the server.  \<open>mk_net\<close> is \<open>ipnet::Ipv4Net::new\<close>.  A request to the authority
  waits for its answer: \<open>reply\<close> says how the waiting ended, and \<open>env\<close> what other tasks did to the server
  meanwhile.  \<open>now\<close> is the time in seconds, \<open>dbf\<close> a failure of the database.
\<close>

record peer_ctx =
  cx_codec :: server_codec
  cx_io :: peer_io
  cx_net :: "ipv4 \<Rightarrow> u8 \<Rightarrow> ipv4_net option"

datatype 'a reply = Reply 'a | ReplyTimeout | ReplyClosed

datatype peer_lease_error =
    ClusterNotReady | AuthorityUnavailable | LeaseSendFailed | LeaseTimeout | LeaseChannelClosed
  | LeaseRefused string | LeaseDb cluster_error | BadPrefix | BadNetwork

definition db_lease_request ::
  "peer_ctx \<Rightarrow> server_lease_acquire_request \<Rightarrow> peer_manager \<Rightarrow> peer_lease_error + cluster_lease_request" where
  "db_lease_request cx request m =
     (if \<not> sq_prefix_len request \<le> 32 then Inl BadPrefix
      else (case cx_net cx (sq_network_base request) (ucast (sq_prefix_len request)) of
              None \<Rightarrow> Inl BadNetwork
            | Some network \<Rightarrow>
                Inr \<lparr>lq_network_code = sq_network_code request, lq_owner_type = sq_owner_type request,
                     lq_owner_id = sq_owner_id request,
                     lq_requested_ip = (if sq_has_requested_ip request then Some (sq_requested_ip request) else None),
                     lq_network = network, lq_gateway = sq_gateway request,
                     lq_lease_duration_secs = sq_lease_duration_secs request,
                     lq_static_reservation = sq_static_reservation request,
                     lq_authority_id = pm_server_id m, lq_origin_server_id = sq_origin_server_id request\<rparr>))"

definition acquire_lease_request ::
  "peer_ctx \<Rightarrow> int \<Rightarrow> string option \<Rightarrow> server_lease_acquire_response reply \<Rightarrow> (peer_manager \<Rightarrow> peer_manager) \<Rightarrow>
   server_lease_acquire_request \<Rightarrow> peer_manager \<times> cluster_db \<Rightarrow>
   (peer_lease_error + cluster_lease_grant) \<times> peer_manager \<times> cluster_db" where
  "acquire_lease_request cx now dbf reply env request s =
     (case s of (m, db) \<Rightarrow>
        if is_lease_authority m
        then (case db_lease_request cx request m of
                Inl e \<Rightarrow> (Inl e, m, db)
              | Inr q \<Rightarrow>
                  (case acquire_cluster_lease q now dbf db of
                     (Inl e, db) \<Rightarrow> (Inl (LeaseDb e), m, db)
                   | (Inr grant, db) \<Rightarrow> (Inr grant, m\<lparr>pm_cluster_revision := lg_revision grant\<rparr>, db)))
        else (case authority_peer m of
                None \<Rightarrow> (Inl AuthorityUnavailable, m, db)
              | Some p \<Rightarrow>
                  (let m = m\<lparr>pm_pending_lease_acquires := List.insert (sq_request_id request) (pm_pending_lease_acquires m)\<rparr>
                   in case peer_send (cx_io cx) p (sc_encode (cx_codec cx) (LeaseAcquireReq request)) m of
                        (False, m) \<Rightarrow>
                          (Inl LeaseSendFailed,
                           m\<lparr>pm_pending_lease_acquires := filter (\<lambda>i. i \<noteq> sq_request_id request) (pm_pending_lease_acquires m)\<rparr>, db)
                      | (True, m) \<Rightarrow>
                          (let m = env m in
                           case reply of
                             ReplyTimeout \<Rightarrow> (Inl LeaseTimeout, m, db)
                           | ReplyClosed \<Rightarrow> (Inl LeaseChannelClosed, m, db)
                           | Reply response \<Rightarrow>
                               if \<not> sr_success response then (Inl (LeaseRefused (sr_message response)), m, db)
                               else (Inr \<lparr>lg_ip = sr_ip response, lg_revision = sr_revision response,
                                          lg_expires_at = sr_expires_at response\<rparr>,
                                     m\<lparr>pm_cluster_revision := sr_revision response\<rparr>, db)))))"

definition lease_request ::
  "string \<Rightarrow> string \<Rightarrow> string \<Rightarrow> string \<Rightarrow> ipv4 option \<Rightarrow> ipv4_net \<Rightarrow> ipv4 \<Rightarrow> u64 \<Rightarrow> bool \<Rightarrow> peer_manager \<Rightarrow>
   server_lease_acquire_request" where
  "lease_request request_id network_code owner_type owner_id requested_ip network gateway secs static m =
     \<lparr>sq_request_id = request_id, sq_network_code = network_code, sq_owner_type = owner_type,
      sq_owner_id = owner_id, sq_requested_ip = (case requested_ip of Some ip \<Rightarrow> ip | None \<Rightarrow> 0),
      sq_has_requested_ip = (requested_ip \<noteq> None), sq_network_base = net_network network,
      sq_prefix_len = ucast (net_prefix_len network), sq_gateway = gateway,
      sq_lease_duration_secs = secs, sq_static_reservation = static, sq_origin_server_id = pm_server_id m\<rparr>"

definition acquire_lease ::
  "peer_ctx \<Rightarrow> int \<Rightarrow> string option \<Rightarrow> server_lease_acquire_response reply \<Rightarrow> (peer_manager \<Rightarrow> peer_manager) \<Rightarrow>
   string \<Rightarrow> string \<Rightarrow> string \<Rightarrow> string \<Rightarrow> ipv4 option \<Rightarrow> ipv4_net \<Rightarrow> ipv4 \<Rightarrow> u64 \<Rightarrow> bool \<Rightarrow> peer_manager \<times> cluster_db \<Rightarrow>
   (peer_lease_error + cluster_lease_grant option) \<times> peer_manager \<times> cluster_db" where
  "acquire_lease cx now dbf reply env request_id network_code owner_type owner_id requested_ip network gateway secs static s =
     (case s of (m, db) \<Rightarrow>
        if \<not> cluster_enabled m then (Inr None, m, db)
        else if \<not> is_lease_authority m \<and> \<not> pm_cluster_ready m then (Inl ClusterNotReady, m, db)
        else (case acquire_lease_request cx now dbf reply env
                     (lease_request request_id network_code owner_type owner_id requested_ip network gateway secs static m) (m, db) of
                (Inl e, s) \<Rightarrow> (Inl e, s)
              | (Inr grant, s) \<Rightarrow> (Inr (Some grant), s)))"

definition release_lease ::
  "peer_ctx \<Rightarrow> int \<Rightarrow> string option \<Rightarrow> server_lease_release_response reply \<Rightarrow> (peer_manager \<Rightarrow> peer_manager) \<Rightarrow>
   string \<Rightarrow> string \<Rightarrow> string \<Rightarrow> string \<Rightarrow> peer_manager \<times> cluster_db \<Rightarrow>
   (peer_lease_error + unit) \<times> peer_manager \<times> cluster_db" where
  "release_lease cx now dbf reply env request_id network_code owner_type owner_id s =
     (case s of (m, db) \<Rightarrow>
        if \<not> cluster_enabled m then (Inr (), m, db)
        else if is_lease_authority m
        then (case release_cluster_lease network_code owner_type owner_id (pm_server_id m) now dbf db of
                (Inl e, db) \<Rightarrow> (Inl (LeaseDb e), m, db)
              | (Inr revision, db) \<Rightarrow> (Inr (), m\<lparr>pm_cluster_revision := revision\<rparr>, db))
        else (case authority_peer m of
                None \<Rightarrow> (Inl AuthorityUnavailable, m, db)
              | Some p \<Rightarrow>
                  (let m = m\<lparr>pm_pending_lease_releases := List.insert request_id (pm_pending_lease_releases m)\<rparr>
                   in case peer_send (cx_io cx) p (sc_encode (cx_codec cx) (LeaseReleaseReq
                             \<lparr>rl_request_id = request_id, rl_network_code = network_code,
                              rl_owner_type = owner_type, rl_owner_id = owner_id\<rparr>)) m of
                        (False, m) \<Rightarrow>
                          (Inl LeaseSendFailed,
                           m\<lparr>pm_pending_lease_releases := filter (\<lambda>i. i \<noteq> request_id) (pm_pending_lease_releases m)\<rparr>, db)
                      | (True, m) \<Rightarrow>
                          (let m = env m in
                           case reply of
                             ReplyTimeout \<Rightarrow> (Inl LeaseTimeout, m, db)
                           | ReplyClosed \<Rightarrow> (Inl LeaseChannelClosed, m, db)
                           | Reply response \<Rightarrow>
                               if \<not> rr_success response then (Inl (LeaseRefused (rr_message response)), m, db)
                               else (Inr (), m\<lparr>pm_cluster_revision := rr_revision response\<rparr>, db)))))"

section \<open>Requests of other servers\<close>

text \<open>The texts of errors are the argument \<open>txt\<close>: they are for display only.\<close>

definition lease_response ::
  "peer_ctx \<Rightarrow> (peer_lease_error \<Rightarrow> string) \<Rightarrow> int \<Rightarrow> string option \<Rightarrow> peer_server_info \<Rightarrow> server_lease_acquire_request \<Rightarrow>
   peer_manager \<times> cluster_db \<Rightarrow> server_lease_acquire_response \<times> peer_manager \<times> cluster_db" where
  "lease_response cx txt now dbf peer request s =
     (case s of (m, db) \<Rightarrow>
        let refused = (\<lambda>e. \<lparr>sr_request_id = sq_request_id request, sr_success = False, sr_message = txt e,
                            sr_ip = 0, sr_revision = pm_cluster_revision m, sr_expires_at = 0\<rparr>)
        in if \<not> is_lease_authority m then (refused AuthorityUnavailable, m, db)
           else if \<not> pi_cluster_compatible peer then (refused ClusterNotReady, m, db)
           else (case db_lease_request cx request m of
                   Inl e \<Rightarrow> (refused e, m, db)
                 | Inr q \<Rightarrow>
                     (case acquire_cluster_lease q now dbf db of
                        (Inl e, db) \<Rightarrow> (refused (LeaseDb e), m, db)
                      | (Inr grant, db) \<Rightarrow>
                          (\<lparr>sr_request_id = sq_request_id request, sr_success = True, sr_message = ''OK'',
                            sr_ip = lg_ip grant, sr_revision = lg_revision grant, sr_expires_at = lg_expires_at grant\<rparr>,
                           m\<lparr>pm_cluster_revision := lg_revision grant\<rparr>, db))))"

definition handle_lease_acquire_request ::
  "peer_ctx \<Rightarrow> (peer_lease_error \<Rightarrow> string) \<Rightarrow> int \<Rightarrow> string option \<Rightarrow> nat \<Rightarrow> server_lease_acquire_request \<Rightarrow>
   peer_manager \<times> cluster_db \<Rightarrow> bool \<times> peer_manager \<times> cluster_db" where
  "handle_lease_acquire_request cx txt now dbf p request s =
     (case lease_response cx txt now dbf (pm_infos (fst s) p) request s of (response, m, db) \<Rightarrow>
        case peer_send (cx_io cx) p (sc_encode (cx_codec cx) (LeaseAcquireRes response)) m of
          (ok, m) \<Rightarrow> (ok, m, db))"

definition release_response ::
  "(peer_lease_error \<Rightarrow> string) \<Rightarrow> int \<Rightarrow> string option \<Rightarrow> peer_server_info \<Rightarrow> server_lease_release_request \<Rightarrow>
   peer_manager \<times> cluster_db \<Rightarrow> server_lease_release_response \<times> peer_manager \<times> cluster_db" where
  "release_response txt now dbf peer request s =
     (case s of (m, db) \<Rightarrow>
        case (if \<not> is_lease_authority m \<or> \<not> pi_cluster_compatible peer then (Inl AuthorityUnavailable, db)
              else (case release_cluster_lease (rl_network_code request) (rl_owner_type request)
                           (rl_owner_id request) (pm_server_id m) now dbf db of
                      (Inl e, db) \<Rightarrow> (Inl (LeaseDb e), db)
                    | (Inr revision, db) \<Rightarrow> (Inr revision, db))) of
          (Inr revision, db) \<Rightarrow>
            (\<lparr>rr_request_id = rl_request_id request, rr_success = True, rr_message = ''OK'', rr_revision = revision\<rparr>,
             m\<lparr>pm_cluster_revision := revision\<rparr>, db)
        | (Inl e, db) \<Rightarrow>
            (\<lparr>rr_request_id = rl_request_id request, rr_success = False, rr_message = txt e,
              rr_revision = pm_cluster_revision m\<rparr>, m, db))"

definition handle_lease_release_request ::
  "peer_ctx \<Rightarrow> (peer_lease_error \<Rightarrow> string) \<Rightarrow> int \<Rightarrow> string option \<Rightarrow> nat \<Rightarrow> server_lease_release_request \<Rightarrow>
   peer_manager \<times> cluster_db \<Rightarrow> bool \<times> peer_manager \<times> cluster_db" where
  "handle_lease_release_request cx txt now dbf p request s =
     (case release_response txt now dbf (pm_infos (fst s) p) request s of (response, m, db) \<Rightarrow>
        case peer_send (cx_io cx) p (sc_encode (cx_codec cx) (LeaseReleaseRes response)) m of
          (ok, m) \<Rightarrow> (ok, m, db))"

section \<open>Reconciliation\<close>

record local_ip_allocation =
  la_network_code :: string
  la_owner_type :: string
  la_owner_id :: string
  la_ip :: ipv4
  la_network :: ipv4_net
  la_gateway :: ipv4
  la_lease_duration_secs :: u64

text \<open>The loop over the allocations; each comes with its request id and how the waiting for its answer
  ended.\<close>

fun reconcile_loop ::
  "peer_ctx \<Rightarrow> int \<Rightarrow> string option \<Rightarrow> (peer_manager \<Rightarrow> peer_manager) \<Rightarrow>
   (local_ip_allocation \<times> string \<times> server_lease_acquire_response reply) list \<Rightarrow> u64 \<Rightarrow> peer_manager \<times> cluster_db \<Rightarrow>
   u64 \<times> peer_manager \<times> cluster_db" where
  "reconcile_loop cx now dbf env [] conflicts s = (conflicts, s)"
| "reconcile_loop cx now dbf env ((a, request_id, reply) # as) conflicts s =
     (case acquire_lease_request cx now dbf reply env
             (lease_request request_id (la_network_code a) (la_owner_type a) (la_owner_id a) (Some (la_ip a))
                (la_network a) (la_gateway a) (la_lease_duration_secs a) (la_owner_type a = ''wireguard_peer'') (fst s)) s of
        (Inr grant, s) \<Rightarrow>
          reconcile_loop cx now dbf env as (if lg_ip grant = la_ip a then conflicts else conflicts + 1) s
      | (Inl _, s) \<Rightarrow> reconcile_loop cx now dbf env as (conflicts + 1) s)"

text \<open>\<open>allocations\<close> is what \<open>load_local_ip_allocations\<close> returns, None its failure.  The result is the number
  of conflicts, or None on that failure.\<close>

definition reconcile_local_allocations ::
  "peer_ctx \<Rightarrow> int \<Rightarrow> string option \<Rightarrow> (peer_manager \<Rightarrow> peer_manager) \<Rightarrow>
   (local_ip_allocation \<times> string \<times> server_lease_acquire_response reply) list option \<Rightarrow> peer_manager \<times> cluster_db \<Rightarrow>
   u64 option \<times> peer_manager \<times> cluster_db" where
  "reconcile_local_allocations cx now dbf env allocations s =
     (case s of (m, db) \<Rightarrow>
        if \<not> cluster_enabled m \<or> is_lease_authority m then (Some 0, m\<lparr>pm_cluster_ready := True\<rparr>, db)
        else
          (let m = m\<lparr>pm_cluster_ready := False\<rparr> in
           case allocations of
             None \<Rightarrow> (None, m, db)
           | Some as \<Rightarrow>
               (case reconcile_loop cx now dbf env as 0 (m, db) of (conflicts, m, db) \<Rightarrow>
                  (Some conflicts, m\<lparr>pm_cluster_conflicts := conflicts, pm_cluster_ready := (conflicts = 0)\<rparr>, db))))"

section \<open>Messages of a link\<close>

text \<open>\<open>Inl\<close> is an error of the handler, which is logged; \<open>None\<close> a panic.  \<open>instant\<close> and \<open>now_ms\<close> are the
  clocks.\<close>

datatype message_error = MessageDecodeError | MessageSendError

definition handle_peer_message ::
  "pnet \<Rightarrow> mpsc \<Rightarrow> peer_ctx \<Rightarrow> (peer_lease_error \<Rightarrow> string) \<Rightarrow> nat \<Rightarrow> u64 \<Rightarrow> int \<Rightarrow> string option \<Rightarrow> nat \<Rightarrow> bytes \<Rightarrow>
   string hset \<times> peer_manager \<times> cluster_db \<Rightarrow>
   ((message_error + unit) \<times> string hset \<times> peer_manager \<times> cluster_db) option" where
  "handle_peer_message P mp cx txt instant now_ms now dbf p data s =
     (case s of (network_codes, m, db) \<Rightarrow>
        let sent = (\<lambda>(ok, m, db). Some (if ok then Inr () else Inl MessageSendError, network_codes, m, db)) in
        case sc_decode (cx_codec cx) data of
          None \<Rightarrow> Some (Inl MessageDecodeError, network_codes, m, db)
        | Some (PingReq timestamp) \<Rightarrow>
            (case handle_ping_request (cx_codec cx) (cx_io cx) p timestamp now_ms m of (ok, m) \<Rightarrow> sent (ok, m, db))
        | Some (PingRes request_timestamp _) \<Rightarrow>
            Some (Inr (), network_codes, handle_ping_response p request_timestamp now_ms m, db)
        | Some (ForwardData forward) \<Rightarrow> Some (Inr (), network_codes, handle_forward_data mp forward m, db)
        | Some (BroadcastData broadcast) \<Rightarrow>
            map_option (\<lambda>m. (Inr (), network_codes, m, db))
              (handle_broadcast_data P mp (cx_codec cx) (cx_io cx) instant p broadcast m)
        | Some (ClientInfoReq codes) \<Rightarrow>
            (case peer_send (cx_io cx) p (sc_encode (cx_codec cx) (ClientInfoRes (handle_client_info_request codes m))) m of
               (ok, m) \<Rightarrow> sent (ok, m, db))
        | Some (ClientInfoRes networks) \<Rightarrow>
            (case handle_client_info_response instant p network_codes networks m of
               (network_codes, m) \<Rightarrow> Some (Inr (), network_codes, m, db))
        | Some (LeaseAcquireReq request) \<Rightarrow> sent (handle_lease_acquire_request cx txt now dbf p request (m, db))
        | Some (LeaseAcquireRes response) \<Rightarrow>
            Some (Inr (), network_codes,
              if sr_request_id response \<in> set (pm_pending_lease_acquires m)
              then m\<lparr>pm_pending_lease_acquires := filter (\<lambda>i. i \<noteq> sr_request_id response) (pm_pending_lease_acquires m),
                     pm_acquire_answers := pm_acquire_answers m @ [response]\<rparr>
              else m, db)
        | Some (LeaseReleaseReq request) \<Rightarrow> sent (handle_lease_release_request cx txt now dbf p request (m, db))
        | Some (LeaseReleaseRes response) \<Rightarrow>
            Some (Inr (), network_codes,
              if rr_request_id response \<in> set (pm_pending_lease_releases m)
              then m\<lparr>pm_pending_lease_releases := filter (\<lambda>i. i \<noteq> rr_request_id response) (pm_pending_lease_releases m),
                     pm_release_answers := pm_release_answers m @ [response]\<rparr>
              else m, db)
        | Some _ \<Rightarrow> Some (Inr (), network_codes, m, db))"

section \<open>Asking the authority\<close>

lemma ucast_prefix: "(ucast (ucast (x :: u8) :: u32) :: u8) = x"
  by (rule bit_word_eqI) (auto simp: bit_simps)

lemma prefix_le: "(ucast (x :: u8) :: u32) \<le> 32 \<longleftrightarrow> unat x \<le> 32"
proof -
  have "unat x < 2 ^ LENGTH(8)" by (rule unsigned_less)
  then have "unat x < 2 ^ 32" by simp
  then show ?thesis by (simp add: word_le_nat_alt unsigned_ucast_eq take_bit_nat_eq_self)
qed

text \<open>C17. It does not matter where a lease is asked for.  A member of the cluster that asks the authority
  over the link gets what the authority's own database answers to the same request on behalf of the
  same owner: the same address, revision and expiry if it is granted, and a refusal that leaves the
  database as it was otherwise.  (Of \<open>Ipv4Net::new\<close> it is assumed that network address and prefix
  length give the network back.)\<close>

theorem lease_location_transparent:
  assumes "cluster_enabled m" "\<not> is_lease_authority m" "pm_cluster_ready m" "authority_peer m = Some p"
    and "pi_sender (pm_infos m p) = Some ch"
    and "io_stream (cx_io cx) (pm_out m) ch (sc_encode (cx_codec cx) (LeaseAcquireReq
          (lease_request rid nc ot oid req network gateway secs static m)))"
    and "is_lease_authority ma" "pi_cluster_compatible (pm_infos ma p')"
    and "cx_net cx (net_network network) (net_prefix_len network) = Some network" "unat (net_prefix_len network) \<le> 32"
    and "lease_response cx txt now dbf (pm_infos ma p') (lease_request rid nc ot oid req network gateway secs static m) (ma, dba) =
        (response, ma', dba')"
    and "acquire_lease cx now' dbf' (Reply response) env rid nc ot oid req network gateway secs static (m, db) = (r, m', db')"
    and "q = \<lparr>lq_network_code = nc, lq_owner_type = ot, lq_owner_id = oid, lq_requested_ip = req, lq_network = network,
        lq_gateway = gateway, lq_lease_duration_secs = secs, lq_static_reservation = static,
        lq_authority_id = pm_server_id ma, lq_origin_server_id = pm_server_id m\<rparr>"
  shows "db' = db \<and> dba' = snd (acquire_cluster_lease q now dbf dba) \<and>
    (case fst (acquire_cluster_lease q now dbf dba) of
       Inr g \<Rightarrow> r = Inr (Some g) \<and> pm_cluster_revision m' = lg_revision g \<and> pm_cluster_revision ma' = lg_revision g
     | Inl e \<Rightarrow> r = Inl (LeaseRefused (txt (LeaseDb e))) \<and> ma' = ma)"
proof -
  let ?req = "lease_request rid nc ot oid req network gateway secs static m"
  have q: "db_lease_request cx ?req ma = Inr q"
    using assms(9,10) by (auto simp: db_lease_request_def lease_request_def ucast_prefix prefix_le assms(13) split: option.splits)
  obtain m1 where send: "peer_send (cx_io cx) p (sc_encode (cx_codec cx) (LeaseAcquireReq ?req))
      (m\<lparr>pm_pending_lease_acquires := List.insert rid (pm_pending_lease_acquires m)\<rparr>) = (True, m1)"
    using assms(5,6) by (simp add: peer_send_def Let_def)
  have rid: "sq_request_id ?req = rid" by (simp add: lease_request_def)
  obtain res d where a: "acquire_cluster_lease q now dbf dba = (res, d)" by fastforce
  show ?thesis
  proof (cases res)
    case (Inl e)
    have "response = \<lparr>sr_request_id = rid, sr_success = False, sr_message = txt (LeaseDb e), sr_ip = 0,
        sr_revision = pm_cluster_revision ma, sr_expires_at = 0\<rparr>" "ma' = ma" "dba' = d"
      using assms(11) by (auto simp: lease_response_def assms(7,8) q a Inl rid Let_def)
    then show ?thesis using assms(12) send
      by (simp add: acquire_lease_def acquire_lease_request_def assms(1-4) rid a Inl Let_def)
  next
    case (Inr g)
    have "response = \<lparr>sr_request_id = rid, sr_success = True, sr_message = ''OK'', sr_ip = lg_ip g,
        sr_revision = lg_revision g, sr_expires_at = lg_expires_at g\<rparr>"
      "ma' = ma\<lparr>pm_cluster_revision := lg_revision g\<rparr>" "dba' = d"
      using assms(11) by (auto simp: lease_response_def assms(7,8) q a Inr rid Let_def)
    then show ?thesis using assms(12) send
      by (auto simp: acquire_lease_def acquire_lease_request_def assms(1-4) rid a Inr Let_def)
  qed
qed

section \<open>Readiness\<close>

definition confirmed :: "local_ip_allocation \<times> string \<times> server_lease_acquire_response reply \<Rightarrow> bool" where
  "confirmed x = (case x of (a, _, reply) \<Rightarrow>
     \<exists>resp. reply = Reply resp \<and> sr_success resp \<and> sr_ip resp = la_ip a)"

definition keeps_identity :: "(peer_manager \<Rightarrow> peer_manager) \<Rightarrow> bool" where
  "keeps_identity env = (\<forall>m. pm_server_id (env m) = pm_server_id m \<and> pm_lease_authority (env m) = pm_lease_authority m)"

lemma authority_cong:
  "pm_server_id m' = pm_server_id m \<Longrightarrow> pm_lease_authority m' = pm_lease_authority m \<Longrightarrow>
   is_lease_authority m' = is_lease_authority m"
  by (simp add: is_lease_authority_def cluster_enabled_def)

lemma peer_send_identity:
  "peer_send io p data m = (ok, m') \<Longrightarrow> pm_server_id m' = pm_server_id m \<and> pm_lease_authority m' = pm_lease_authority m"
  by (auto simp: peer_send_def Let_def split: option.splits)

lemma acquire_member:
  assumes "\<not> is_lease_authority m" "keeps_identity env"
    and "acquire_lease_request cx now dbf reply env request (m, db) = (r, m', db')"
  shows "\<not> is_lease_authority m' \<and> (\<forall>g. r = Inr g \<longrightarrow> (\<exists>resp. reply = Reply resp \<and> sr_success resp \<and> lg_ip g = sr_ip resp))"
proof -
  obtain ok m1 where s: "peer_send (cx_io cx) (the (authority_peer m)) (sc_encode (cx_codec cx) (LeaseAcquireReq request))
      (m\<lparr>pm_pending_lease_acquires := List.insert (sq_request_id request) (pm_pending_lease_acquires m)\<rparr>) = (ok, m1)"
    by fastforce
  have m1: "\<not> is_lease_authority m1" "\<not> is_lease_authority (env m1)"
    using peer_send_identity [OF s] assms(1,2) authority_cong [of m1 m] authority_cong [of "env m1" m]
    by (auto simp: keeps_identity_def)
  have more: "is_lease_authority (x\<lparr>pm_pending_lease_acquires := y\<rparr>) = is_lease_authority x"
    "is_lease_authority (x\<lparr>pm_cluster_revision := z\<rparr>) = is_lease_authority x" for x y z
    by (rule authority_cong; simp)+
  show ?thesis
  proof (cases "authority_peer m")
    case None
    then show ?thesis using assms(1,3) by (auto simp: acquire_lease_request_def)
  next
    case (Some p)
    then show ?thesis using assms(1,3) s m1
      by (cases ok; cases reply) (auto simp: acquire_lease_request_def Let_def more split: if_splits)
  qed
qed

lemma reconcile_loop_conflicts:
  assumes "\<not> is_lease_authority m" "keeps_identity env"
    and "reconcile_loop cx now dbf env as c (m, db) = (c', m', db')" "unat c + length as < 2 ^ 64"
  shows "unat c \<le> unat c' \<and> unat c' \<le> unat c + length as \<and> (c' = c \<longrightarrow> (\<forall>x \<in> set as. confirmed x))"
  using assms
proof (induction as arbitrary: c m db)
  case (Cons x as)
  obtain a rid reply where x: "x = (a, rid, reply)" by (metis prod_cases3)
  obtain r m1 db1 where r: "acquire_lease_request cx now dbf reply env
      (lease_request rid (la_network_code a) (la_owner_type a) (la_owner_id a) (Some (la_ip a)) (la_network a)
         (la_gateway a) (la_lease_duration_secs a) (la_owner_type a = ''wireguard_peer'') m) (m, db) = (r, m1, db1)"
    by (metis prod_cases3)
  note mem = acquire_member [OF Cons.prems(1,2) r]
  define good where "good = (case r of Inr g \<Rightarrow> lg_ip g = la_ip a | Inl _ \<Rightarrow> False)"
  define c1 where "c1 = (if good then c else c + 1)"
  have step: "reconcile_loop cx now dbf env as c1 (m1, db1) = (c', m', db')"
    using Cons.prems(3) r by (auto simp: x good_def c1_def split: sum.splits)
  have u: "unat c1 = (if good then unat c else unat c + 1)"
    using Cons.prems(4) by (auto simp: c1_def unat_word_ariths)
  have "unat c1 + length as < 2 ^ 64" using Cons.prems(4) u by auto
  from Cons.IH [OF mem [THEN conjunct1] Cons.prems(2) step this]
  have IH: "unat c1 \<le> unat c'" "unat c' \<le> unat c1 + length as" "c' = c1 \<longrightarrow> (\<forall>x \<in> set as. confirmed x)" by auto
  have "good \<Longrightarrow> confirmed x" using mem by (auto simp: x good_def confirmed_def split: sum.splits)
  moreover have "c' = c \<Longrightarrow> good" using u IH(1) by (auto split: if_splits)
  ultimately show ?case using IH u by (auto simp: c1_def split: if_splits)
qed simp

text \<open>C26. A member serves addresses only after the authority has confirmed its own.  After a
  reconciliation the member counts as ready only if every address it has handed out locally was
  answered by the authority with a lease of that very address; a database that cannot be read leaves it
  not ready.  While it is not ready it hands out no address at all.\<close>

theorem ready_means_confirmed:
  assumes "cluster_enabled m" "\<not> is_lease_authority m" "keeps_identity env" "length (case allocs of None \<Rightarrow> [] | Some as \<Rightarrow> as) < 2 ^ 64"
    and "reconcile_local_allocations cx now dbf env allocs (m, db) = (r, m', db')"
  shows "(pm_cluster_ready m' \<longrightarrow> (\<exists>as. allocs = Some as \<and> r = Some 0 \<and> (\<forall>a rid reply. (a, rid, reply) \<in> set as \<longrightarrow>
       (\<exists>resp. reply = Reply resp \<and> sr_success resp \<and> sr_ip resp = la_ip a)))) \<and>
    (\<not> pm_cluster_ready m' \<longrightarrow> is_lease_authority m' \<or> \<not> cluster_enabled m' \<or>
       acquire_lease cx now2 dbf2 reply2 env2 rid2 nc ot oid req network gateway secs static (m', db') = (Inl ClusterNotReady, m', db'))"
proof (cases allocs)
  case None
  then show ?thesis using assms(1,2,5) by (auto simp: reconcile_local_allocations_def acquire_lease_def)
next
  case (Some as)
  let ?m = "m\<lparr>pm_cluster_ready := False\<rparr>"
  obtain c m1 db1 where l: "reconcile_loop cx now dbf env as 0 (?m, db) = (c, m1, db1)" by (metis prod_cases3)
  have "\<not> is_lease_authority ?m" using assms(2) authority_cong [of ?m m] by simp
  from reconcile_loop_conflicts [OF this assms(3) l] assms(4) Some
  have "c = 0 \<longrightarrow> (\<forall>x \<in> set as. confirmed x)" by simp
  moreover have "r = Some c" "m' = m1\<lparr>pm_cluster_conflicts := c, pm_cluster_ready := (c = 0)\<rparr>" "db' = db1"
    using assms(1,2,5) Some l by (auto simp: reconcile_local_allocations_def Let_def)
  ultimately show ?thesis using Some by (auto simp: confirmed_def acquire_lease_def)
qed

text \<open>A request that times out leaves its entry in the table of pending requests.\<close>

lemma timeout_leaves_pending:
  assumes "\<not> is_lease_authority m" "authority_peer m = Some p"
    and "pi_sender (pm_infos m p) = Some ch"
    and "io_stream (cx_io cx) (pm_out m) ch (sc_encode (cx_codec cx) (LeaseAcquireReq request))"
    and "acquire_lease_request cx now dbf ReplyTimeout (\<lambda>m. m) request (m, db) = (r, m', db')"
  shows "r = Inl LeaseTimeout \<and> sq_request_id request \<in> set (pm_pending_lease_acquires m')"
proof -
  let ?m = "m\<lparr>pm_pending_lease_acquires := List.insert (sq_request_id request) (pm_pending_lease_acquires m)\<rparr>"
  obtain m1 where s: "peer_send (cx_io cx) p (sc_encode (cx_codec cx) (LeaseAcquireReq request)) ?m = (True, m1)"
    using assms(3,4) by (simp add: peer_send_def Let_def)
  then have "pm_pending_lease_acquires m1 = pm_pending_lease_acquires ?m"
    by (auto simp: peer_send_def Let_def split: option.splits)
  then show ?thesis using assms(1,2,5) s by (auto simp: acquire_lease_request_def Let_def)
qed

section \<open>Witnesses\<close>

definition wit_ctx :: peer_ctx where
  "wit_ctx = \<lparr>cx_codec = \<lparr>sc_encode = (\<lambda>_. []), sc_decode = (\<lambda>_. None)\<rparr>,
     cx_io = \<lparr>io_datagram = (\<lambda>_ _ _. True), io_stream = (\<lambda>_ _ _. True)\<rparr>, cx_net = (\<lambda>a p. Some (cidr a (unat p)))\<rparr>"

definition wit_link :: "string \<Rightarrow> peer_server_info" where
  "wit_link i = set_connected 4 5 (set_remote_metadata i 2 15 True (peer_info_new i True))"

text \<open>A member \<open>m\<close> and the authority \<open>s\<close>, connected.\<close>

definition wit_member :: peer_manager where
  "wit_member = (new_with_identity ''h'' [] (Some ''m'') (Some ''s'') [])
     \<lparr>pm_peer_servers := [0], pm_infos := (\<lambda>_. wit_link ''s''), pm_cluster_ready := True\<rparr>"

definition wit_authority :: peer_manager where
  "wit_authority = (new_with_identity ''h'' [] (Some ''s'') (Some ''s'') [])
     \<lparr>pm_peer_servers := [0], pm_infos := (\<lambda>_. wit_link ''m'')\<rparr>"

lemmas wit_peer_defs = wit_ctx_def wit_link_def wit_member_def wit_authority_def new_with_identity_def set_connected_def
  set_remote_metadata_def peer_info_new_def is_lease_authority_def cluster_enabled_def authority_peer_def Let_def

lemma wit_member_facts:
  "cluster_enabled wit_member" "\<not> is_lease_authority wit_member" "pm_cluster_ready wit_member"
  "authority_peer wit_member = Some 0" "pi_sender (pm_infos wit_member 0) = Some 4"
  "io_stream (cx_io wit_ctx) (pm_out wit_member) 4 d" "pm_server_id wit_member = ''m''"
  by (simp_all add: wit_peer_defs)

lemma wit_authority_facts:
  "is_lease_authority wit_authority" "pi_cluster_compatible (pm_infos wit_authority 0)" "pm_server_id wit_authority = ''s''"
  by (simp_all add: wit_peer_defs)

definition wit_response :: server_lease_acquire_response where
  "wit_response = fst (lease_response wit_ctx (\<lambda>_. []) 100 None (pm_infos wit_authority 0)
     (lease_request ''r'' ''n'' ''vnt_device'' ''a'' None (cidr (ip4 10 0 0 0) 24) (ip4 10 0 0 1) 60 False wit_member)
     (wit_authority, wit_cluster_db))"

theorem lease_location_transparent_witness:
  "fst (acquire_lease wit_ctx 101 None (Reply wit_response) id ''r'' ''n'' ''vnt_device'' ''a'' None
      (cidr (ip4 10 0 0 0) 24) (ip4 10 0 0 1) 60 False (wit_member, wit_cluster_db)) =
   Inr (Some \<lparr>lg_ip = ip4 10 0 0 2, lg_revision = 1, lg_expires_at = 160\<rparr>)"
proof -
  let ?req = "lease_request ''r'' ''n'' ''vnt_device'' ''a'' None (cidr (ip4 10 0 0 0) 24) (ip4 10 0 0 1) 60 False wit_member"
  have net: "cx_net wit_ctx (net_network (cidr (ip4 10 0 0 0) 24)) (net_prefix_len (cidr (ip4 10 0 0 0) 24)) =
      Some (cidr (ip4 10 0 0 0) 24)" "unat (net_prefix_len (cidr (ip4 10 0 0 0) 24)) \<le> 32"
    by (simp_all add: wit_ctx_def witness_eval)
  have q: "wit_lease_request ''m'' ''a'' = \<lparr>lq_network_code = ''n'', lq_owner_type = ''vnt_device'', lq_owner_id = ''a'',
      lq_requested_ip = None, lq_network = cidr (ip4 10 0 0 0) 24, lq_gateway = ip4 10 0 0 1, lq_lease_duration_secs = 60,
      lq_static_reservation = False, lq_authority_id = pm_server_id wit_authority, lq_origin_server_id = pm_server_id wit_member\<rparr>"
    by (simp add: wit_lease_request_def wit_member_facts wit_authority_facts)
  obtain ma' dba' where resp: "lease_response wit_ctx (\<lambda>_. []) 100 None (pm_infos wit_authority 0) ?req
      (wit_authority, wit_cluster_db) = (wit_response, ma', dba')"
    unfolding wit_response_def by (metis prod.collapse)
  obtain r m' db' where acq: "acquire_lease wit_ctx 101 None (Reply wit_response) id ''r'' ''n'' ''vnt_device'' ''a'' None
      (cidr (ip4 10 0 0 0) 24) (ip4 10 0 0 1) 60 False (wit_member, wit_cluster_db) = (r, m', db')" by (metis prod_cases3)
  show ?thesis
    using lease_location_transparent [OF wit_member_facts(1-6) wit_authority_facts(1,2) net resp acq q]
    unfolding acq fst_conv by (simp add: wit_acquire)
qed

definition wit_allocation :: local_ip_allocation where
  "wit_allocation = \<lparr>la_network_code = ''n'', la_owner_type = ''vnt_device'', la_owner_id = ''a'', la_ip = ip4 10 0 0 2,
     la_network = cidr (ip4 10 0 0 0) 24, la_gateway = ip4 10 0 0 1, la_lease_duration_secs = 60\<rparr>"

definition wit_reply :: "ipv4 \<Rightarrow> server_lease_acquire_response" where
  "wit_reply ip = \<lparr>sr_request_id = ''r'', sr_success = True, sr_message = ''OK'', sr_ip = ip, sr_revision = 1, sr_expires_at = 160\<rparr>"

text \<open>The authority confirms the address once, and answers with another address once.\<close>

theorem ready_means_confirmed_witness:
  "(\<exists>m'. snd (reconcile_local_allocations wit_ctx 100 None id (Some [(wit_allocation, ''r'', Reply (wit_reply (ip4 10 0 0 2)))])
       (wit_member, wit_cluster_db)) = (m', wit_cluster_db) \<and> pm_cluster_ready m') \<and>
   (\<exists>m'. snd (reconcile_local_allocations wit_ctx 100 None id (Some [(wit_allocation, ''r'', Reply (wit_reply (ip4 10 0 0 3)))])
       (wit_member, wit_cluster_db)) = (m', wit_cluster_db) \<and> \<not> pm_cluster_ready m')"
proof -
  have run: "reconcile_local_allocations wit_ctx 100 None id (Some [(wit_allocation, ''r'', Reply (wit_reply ip))]) (wit_member, wit_cluster_db) =
      (let c = (if ip = ip4 10 0 0 2 then 0 else 1) in (Some c, wit_member\<lparr>pm_out := [SentStream 4 [] True],
        pm_pending_lease_acquires := [''r''], pm_cluster_revision := 1, pm_cluster_conflicts := c, pm_cluster_ready := (c = 0)\<rparr>, wit_cluster_db))" for ip
    by (simp add: reconcile_local_allocations_def acquire_lease_request_def lease_request_def wit_allocation_def wit_reply_def
        peer_send_def wit_peer_defs)
  obtain m' where bad: "reconcile_local_allocations wit_ctx 100 None id (Some [(wit_allocation, ''r'', Reply (wit_reply (ip4 10 0 0 3)))])
      (wit_member, wit_cluster_db) = (Some 1, m', wit_cluster_db)" using run [of "ip4 10 0 0 3"] by (simp add: ip4_def)
  have id: "keeps_identity id" by (simp add: keeps_identity_def)
  have "\<not> pm_cluster_ready m'"
    using ready_means_confirmed [OF wit_member_facts(1,2) id _ bad] by (auto simp: wit_reply_def wit_allocation_def)
  with bad show ?thesis using run [of "ip4 10 0 0 2"] by simp
qed

end
