(* ===== verification/Boringtun.thy ===== *)
theory Boringtun
  imports Socket_Text
begin

text \<open>
  The interface of the WireGuard library \<open>boringtun\<close>, a crate outside the repository.  A tunnel is a value
  of type \<open>'t\<close>, a rate limiter one of type \<open>'r\<close>; the record \<open>noise\<close> has the functions the server and the
  client call on them, each returning the state it leaves.  The loop that empties the queue of a
  tunnel, written in both programs, is \<open>drain\<close>; \<open>noise_drains\<close> is the documented behaviour that makes it
  end: every datagram it returns leaves the queue.
\<close>

datatype wireguard_error = ConnectionExpired | OtherWireguardError

datatype tunn_result =
    TunnDone | TunnErr wireguard_error | WriteToNetwork bytes | WriteToTunnelV4 bytes ipv4
  | WriteToTunnelV6 bytes "128 word"

text \<open>The kinds of datagram; the last three carry the receiver index.\<close>

datatype noise_packet = HandshakeInit bytes | HandshakeResponse u32 | PacketCookieReply u32 | PacketData u32

record ('t, 'r) noise =
  nz_new :: "bytes \<Rightarrow> u32 \<Rightarrow> 't"
  nz_decapsulate :: "ip_addr option \<Rightarrow> bytes \<Rightarrow> 't \<Rightarrow> tunn_result \<times> 't"
  nz_encapsulate :: "bytes \<Rightarrow> 't \<Rightarrow> tunn_result \<times> 't"
  nz_update_timers :: "'t \<Rightarrow> tunn_result \<times> 't"
  nz_handshake_initiation :: "'t \<Rightarrow> tunn_result \<times> 't"
  nz_verify_packet :: "ip_addr option \<Rightarrow> bytes \<Rightarrow> 'r \<Rightarrow> (tunn_result + noise_packet) \<times> 'r"
  nz_parse_handshake_anon :: "bytes \<Rightarrow> bytes option"
  nz_reset_count :: "'r \<Rightarrow> 'r"

text \<open>UDP: whether \<open>send_to\<close> succeeds, seen the attempts made so far.\<close>

type_synonym udp_event = "bytes \<times> socket_addr \<times> bool"
type_synonym udp_io = "udp_event list \<Rightarrow> bytes \<Rightarrow> socket_addr \<Rightarrow> bool"

definition udp_send :: "udp_io \<Rightarrow> bytes \<Rightarrow> socket_addr \<Rightarrow> udp_event list \<Rightarrow> bool \<times> udp_event list" where
  "udp_send io data addr tr = (io tr data addr, tr @ [(data, addr, io tr data addr)])"

partial_function (option) drain ::
  "('t, 'r) noise \<Rightarrow> bytes list \<Rightarrow> 't \<Rightarrow> (bytes list \<times> 't) option" where
  "drain N outbound t =
     (case nz_decapsulate N None [] t of
        (r, t) \<Rightarrow> (case r of
             WriteToNetwork packet \<Rightarrow> drain N (outbound @ [packet]) t
           | _ \<Rightarrow> Some (outbound, t)))"

definition noise_drains :: "('t, 'r) noise \<Rightarrow> bool" where
  "noise_drains N \<longleftrightarrow>
     (\<exists>queued :: 't \<Rightarrow> nat. \<forall>t packet t'. nz_decapsulate N None [] t = (WriteToNetwork packet, t') \<longrightarrow>
        queued t' < queued t)"

lemma drain_returns:
  assumes "noise_drains N"
  shows "\<exists>out t'. drain N outbound t = Some (outbound @ out, t')"
proof -
  obtain queued :: "'a \<Rightarrow> nat" where q: "\<And>t p t'. nz_decapsulate N None [] t = (WriteToNetwork p, t') \<Longrightarrow> queued t' < queued t"
    using assms unfolding noise_drains_def by blast
  show ?thesis
  proof (induction "queued t" arbitrary: outbound t rule: less_induct)
    case less
    obtain r t1 where d: "nz_decapsulate N None [] t = (r, t1)" by fastforce
    show ?case
    proof (cases r)
      case (WriteToNetwork p)
      with d q less obtain out t' where "drain N (outbound @ [p]) t1 = Some ((outbound @ [p]) @ out, t')" by blast
      then show ?thesis by (subst drain.simps) (simp add: d WriteToNetwork)
    qed (subst drain.simps, simp add: d)+
  qed
qed

section \<open>Receiver indices\<close>

definition MAX_RECEIVER_INDEX :: u32 where
  "MAX_RECEIVER_INDEX = 0x00FFFFFF"

end
