(* ===== verification/Indexed_Table.thy ===== *)
theory Indexed_Table
  imports Prelude
begin

text \<open>
  A table with a secondary index: a hash map of records and a second map that finds the key of a record
  by one of its fields.  Both WireGuard runtimes keep such indices; the laws here say when an
  insertion, a removal or an update keeps table and index in step.  Also the size of a hash map after
  an operation, and a map whose values are changed in place (\<open>values_mut\<close>).
\<close>

definition indexes :: "('k, 'v) hmap \<Rightarrow> ('i, 'k) hmap \<Rightarrow> ('k \<Rightarrow> 'v \<Rightarrow> 'i) \<Rightarrow> bool" where
  "indexes m ix f \<longleftrightarrow> hm_ok ix \<and>
     (\<forall>k v. hm_get m k = Some v \<longrightarrow> hm_get ix (f k v) = Some k) \<and>
     (\<forall>i k. hm_get ix i = Some k \<longrightarrow> (\<exists>v. hm_get m k = Some v \<and> f k v = i))"

lemma indexesD:
  assumes "indexes m ix f"
  shows "hm_ok ix" "hm_get m k = Some v \<Longrightarrow> hm_get ix (f k v) = Some k"
    "hm_get ix i = Some k \<Longrightarrow> \<exists>v. hm_get m k = Some v \<and> f k v = i"
  using assms unfolding indexes_def by blast+

lemma indexes_empty: "indexes [] [] f"
  by (simp add: indexes_def)

text \<open>Two records never share an index.\<close>

lemma indexes_inj:
  "indexes m ix f \<Longrightarrow> hm_get m k = Some v \<Longrightarrow> hm_get m k' = Some v' \<Longrightarrow> f k v = f k' v' \<Longrightarrow> k = k'"
  by (metis indexesD(2) option.inject)

lemma indexes_insert:
  assumes "indexes m ix f" "hm_get m k = None" "hm_get ix (f k v) = None"
  shows "indexes (hm_insert k v m) (hm_insert (f k v) k ix) f"
  unfolding indexes_def
proof (intro conjI allI impI)
  show "hm_ok (hm_insert (f k v) k ix)" using indexesD(1) [OF assms(1)] by simp
  fix k' v' assume "hm_get (hm_insert k v m) k' = Some v'"
  then show "hm_get (hm_insert (f k v) k ix) (f k' v') = Some k'"
    using assms(3) indexesD(2) [OF assms(1), of k' v'] by (auto split: if_splits)
next
  fix i k' assume "hm_get (hm_insert (f k v) k ix) i = Some k'"
  then show "\<exists>v'. hm_get (hm_insert k v m) k' = Some v' \<and> f k' v' = i"
    using assms(2) indexesD(3) [OF assms(1), of i k'] by (auto split: if_splits)
qed

lemma indexes_remove:
  assumes "indexes m ix f" "hm_get m k = Some v"
  shows "indexes (hm_remove k m) (hm_remove (f k v) ix) f"
  unfolding indexes_def
proof (intro conjI allI impI)
  show "hm_ok (hm_remove (f k v) ix)" using indexesD(1) [OF assms(1)] by simp
  fix k' v' assume "hm_get (hm_remove k m) k' = Some v'"
  then show "hm_get (hm_remove (f k v) ix) (f k' v') = Some k'"
    using assms(2) indexesD(2) [OF assms(1), of k' v'] indexes_inj [OF assms(1)] by (auto split: if_splits)
next
  fix i k' assume "hm_get (hm_remove (f k v) ix) i = Some k'"
  then show "\<exists>v'. hm_get (hm_remove k m) k' = Some v' \<and> f k' v' = i"
    using assms(2) indexesD(3) [OF assms(1), of i k'] by (auto split: if_splits)
qed

text \<open>A change of the table that keeps the keys and their indices.\<close>

lemma indexes_cong:
  assumes "indexes m ix f" "\<And>k. map_option (f k) (hm_get m' k) = map_option (f k) (hm_get m k)"
  shows "indexes m' ix f"
  unfolding indexes_def
proof (intro conjI allI impI)
  show "hm_ok ix" by (rule indexesD(1) [OF assms(1)])
  fix k v assume "hm_get m' k = Some v"
  with assms(2) [of k] obtain v0 where "hm_get m k = Some v0" "f k v0 = f k v" by (cases "hm_get m k") auto
  then show "hm_get ix (f k v) = Some k" using indexesD(2) [OF assms(1)] by metis
next
  fix i k assume "hm_get ix i = Some k"
  then obtain v0 where "hm_get m k = Some v0" "f k v0 = i" using indexesD(3) [OF assms(1)] by blast
  with assms(2) [of k] show "\<exists>v. hm_get m' k = Some v \<and> f k v = i" by (auto simp: map_option_eq_Some)
qed

lemma indexes_update:
  "indexes m ix f \<Longrightarrow> hm_get m k = Some v \<Longrightarrow> f k v' = f k v \<Longrightarrow> indexes (hm_insert k v' m) ix f"
  by (erule indexes_cong) auto

section \<open>Sizes and values\<close>

lemma hm_length: "hm_ok m \<Longrightarrow> length m = card {k. hm_get m k \<noteq> None}"
  using hm.length_keys [of m] by (simp add: hm_keys_def)

lemma hm_length_insert:
  assumes "hm_ok m"
  shows "length (hm_insert k v m) = (if hm_contains m k then length m else Suc (length m))"
proof -
  have "{k'. hm_get (hm_insert k v m) k' \<noteq> None} = insert k {k'. hm_get m k' \<noteq> None}" by auto
  then show ?thesis using hm.finite_dom [of m]
    by (simp only: hm_length [OF assms] hm_length [OF hm.ok_insert [OF assms]]) (simp add: hm_contains_def insert_absorb card_insert_if)
qed

lemma hm_length_remove:
  assumes m: "hm_ok m" "hm_contains m k"
  shows "Suc (length (hm_remove k m)) = length m"
proof -
  from m have "{k'. hm_get (hm_insert k (the (hm_get m k)) (hm_remove k m)) k' \<noteq> None} = {k'. hm_get m k' \<noteq> None}"
    by (auto simp: hm_contains_def)
  then have "length (hm_insert k (the (hm_get m k)) (hm_remove k m)) = length m"
    using m by (simp only: hm_length hm.ok_insert hm.ok_remove)
  then show ?thesis using hm_length_insert [of "hm_remove k m" k "the (hm_get m k)"] m by (simp add: hm_contains_def)
qed

end
