(* ===== verification/Packet_Build.thy ===== *)
theory Packet_Build
  imports Net_Packet
begin

text \<open>
  A packet the server makes from nothing: a zeroed buffer of the right size, some header setters, and
  the payload (the pattern of \<open>push_client_ips\<close>, \<open>resolve_agent_request\<close>, \<open>handle_rpc\<close> and others).
\<close>

definition zero_packet :: "nat \<Rightarrow> net_packet" where
  "zero_packet n = \<lparr>buffer = replicate (HEAD_LENGTH + n) 0\<rparr>"

definition fill_packet :: "(net_packet \<Rightarrow> net_packet) \<Rightarrow> bytes \<Rightarrow> bytes option" where
  "fill_packet setters data =
     (case new_packet (replicate (HEAD_LENGTH + length data) 0) of
        Inl _ \<Rightarrow> None
      | Inr packet \<Rightarrow>
          (case set_payload data (setters packet) of
             Inl _ \<Rightarrow> None
           | Inr packet \<Rightarrow> Some (buffer packet)))"

lemma header_zero_packet [simp]:
  "header (zero_packet n) = \<lparr>type_byte = 0, ttl_byte = 0, flags_byte = 0, reserved_byte = 0, hdr_seq = 0,
     hdr_src_id = 0, hdr_dest_id = 0\<rparr>"
  by (simp add: zero_packet_def header_def header_of_bytes_def HEAD_LENGTH_def u32_of_be_def)

lemma zero_packet_ok [simp]: "packet_ok (zero_packet n)" "length (buffer (zero_packet n)) = HEAD_LENGTH + n"
  by (simp_all add: zero_packet_def packet_ok_def)

text \<open>The payload always fits, and the header is the one the setters leave.\<close>

lemma fill_packet_Some:
  assumes "packet_ok (f (zero_packet (length d)))"
    and "length (buffer (f (zero_packet (length d)))) = length (buffer (zero_packet (length d)))"
  obtains b where "fill_packet f d = Some b" "new_packet b = Inr \<lparr>buffer = b\<rparr>" "HEAD_LENGTH \<le> length b"
    "length b = HEAD_LENGTH + length d"
    "header \<lparr>buffer = b\<rparr> = header (f (zero_packet (length d)))" "payload \<lparr>buffer = b\<rparr> = d"
proof -
  let ?q = "f (zero_packet (length d))"
  define r where "r = ?q\<lparr>buffer := take HEAD_LENGTH (buffer ?q) @ d\<rparr>"
  have len: "length (buffer ?q) = HEAD_LENGTH + length d" using assms(2) by simp
  have set: "set_payload d ?q = Inr r" by (simp add: set_payload_def len r_def)
  note sp = set_payload_Inr [OF assms(1) set]
  have z: "new_packet (replicate (HEAD_LENGTH + length d) 0) = Inr (zero_packet (length d))"
    by (simp add: new_packet_def zero_packet_def)
  have r: "\<lparr>buffer = buffer r\<rparr> = r" by simp
  show thesis
  proof (rule that [of "buffer r"])
    show "fill_packet f d = Some (buffer r)" by (simp add: fill_packet_def z set)
    show "new_packet (buffer r) = Inr \<lparr>buffer = buffer r\<rparr>" using sp(2) by (simp add: new_packet_def packet_ok_def)
    show "header \<lparr>buffer = buffer r\<rparr> = header ?q" unfolding r by (rule sp(1))
    show "payload \<lparr>buffer = buffer r\<rparr> = d" unfolding r using len by (simp add: r_def payload_def)
  qed (use sp len in \<open>simp_all add: packet_ok_def\<close>)
qed

end
