(* ===== verification/Client_Bridge.thy ===== *)
theory Client_Bridge
  imports Wireguard_Bridge Packet_Build
begin

text \<open>
  The client side of the WireGuard bridge (vnt-core-2.0.0/src/wireguard_bridge.rs): what a VNT device
  accepts as a packet relayed from a WireGuard peer, and that it accepts what the server relays.

  The functions return None where the server's return an error.  The client knows two message types
  the server does not (\<open>RelayProbe\<close>, \<open>RelayProbeReply\<close>) and a third flag (\<open>is_fec\<close>).
\<close>

section \<open>Packets as the client reads them\<close>

datatype client_msg_type = CommonType msg_type | RelayProbe | RelayProbeReply

definition client_msg_type_try_from :: "u8 \<Rightarrow> io_error + client_msg_type" where
  "client_msg_type_try_from value =
     (if value = 16 then Inr RelayProbe
      else if value = 19 then Inr RelayProbeReply
      else map_sum id CommonType (msg_type_try_from value))"

definition client_packet_type :: "net_packet \<Rightarrow> io_error + client_msg_type" where
  "client_packet_type p = client_msg_type_try_from (hdr_msg_type (header p))"

definition FEC :: u8 where
  "FEC = 0x20"

definition is_fec :: "net_packet \<Rightarrow> bool" where
  "is_fec p = (flags_byte (header p) AND FEC \<noteq> 0)"

text \<open>\<open>na_network\<close> is what the method \<open>network()\<close> returns, an \<open>ipnet\<close> value of address and prefix length.\<close>

record network_addr =
  na_gateway :: ipv4
  na_broadcast :: ipv4
  na_ip :: ipv4
  na_prefix_len :: u8
  na_network :: ipv4_net

definition WIREGUARD_MAX_MTU :: nat where
  "WIREGUARD_MAX_MTU = 1420"

section \<open>Inner packets\<close>

definition client_parse_unbound :: "pnet \<Rightarrow> bytes \<Rightarrow> ipv4_route option" where
  "client_parse_unbound P packet =
     (if \<not> (20 \<le> length packet \<and> length packet \<le> WIREGUARD_MAX_MTU) then None
      else if \<not> ipv4_new P packet then None
      else if ipv4_version P packet \<noteq> 4 then None
      else let header_length = unat (ipv4_header_length P packet) * 4 in
        if header_length < 20 \<or> header_length > length packet then None
        else if unat (ipv4_total_length P packet) \<noteq> length packet then None
        else Some \<lparr>route_source = ipv4_source P packet, route_destination = ipv4_destination P packet\<rparr>)"

definition client_parse_inner :: "pnet \<Rightarrow> bytes \<Rightarrow> ipv4 \<Rightarrow> ipv4_route option" where
  "client_parse_inner P packet expected_source =
     (case client_parse_unbound P packet of
        None \<Rightarrow> None
      | Some route \<Rightarrow> if route_source route = expected_source then Some route else None)"

definition client_validate_inner ::
  "pnet \<Rightarrow> bytes \<Rightarrow> ipv4 \<Rightarrow> ipv4 option \<Rightarrow> network_addr \<Rightarrow> ipv4_route option" where
  "client_validate_inner P packet expected_source expected_destination network_addr =
     (case client_parse_inner P packet expected_source of
        None \<Rightarrow> None
      | Some route \<Rightarrow>
          let source = route_source route; destination = route_destination route in
          if (case expected_destination of Some ip \<Rightarrow> destination \<noteq> ip | None \<Rightarrow> False) then None
          else let network = na_network network_addr in
          if \<not> net_contains network source \<or> \<not> net_contains network destination
             \<or> source = net_network network \<or> source = net_broadcast network
             \<or> source = na_gateway network_addr \<or> is_multicast source
             \<or> destination = ipv4_BROADCAST \<or> is_multicast destination
             \<or> destination = net_network network \<or> destination = net_broadcast network
             \<or> destination = na_gateway network_addr
          then None else Some route)"

definition client_validate_broadcast_inner ::
  "pnet \<Rightarrow> bytes \<Rightarrow> ipv4 \<Rightarrow> network_addr \<Rightarrow> ipv4_route option" where
  "client_validate_broadcast_inner P packet expected_source network_addr =
     (case client_parse_inner P packet expected_source of
        None \<Rightarrow> None
      | Some route \<Rightarrow>
          let network = na_network network_addr; source = route_source route in
          if \<not> net_contains network source \<or> source = net_network network \<or> source = net_broadcast network
             \<or> source = na_gateway network_addr \<or> is_multicast source
          then None
          else if route_destination route \<noteq> ipv4_BROADCAST \<and> route_destination route \<noteq> net_broadcast network
                  \<and> \<not> is_multicast (route_destination route)
          then None else Some route)"

definition client_validate_subnet_inner ::
  "pnet \<Rightarrow> bytes \<Rightarrow> ipv4 \<Rightarrow> network_addr \<Rightarrow> ipv4_route option" where
  "client_validate_subnet_inner P packet expected_source network_addr =
     (case client_parse_inner P packet expected_source of
        None \<Rightarrow> None
      | Some route \<Rightarrow>
          let network = na_network network_addr in
          if \<not> net_contains network (route_source route) \<or> route_source route = net_network network
             \<or> route_source route = net_broadcast network \<or> route_source route = na_gateway network_addr
             \<or> is_unspecified (route_destination route) \<or> route_destination route = ipv4_BROADCAST
             \<or> is_multicast (route_destination route) \<or> net_contains network (route_destination route)
          then None else Some route)"

definition client_validate_subnet_reply ::
  "pnet \<Rightarrow> bytes \<Rightarrow> ipv4 \<Rightarrow> network_addr \<Rightarrow> ipv4_route option" where
  "client_validate_subnet_reply P packet expected_destination network_addr =
     (case client_parse_unbound P packet of
        None \<Rightarrow> None
      | Some route \<Rightarrow>
          let network = na_network network_addr in
          if route_destination route \<noteq> expected_destination \<or> \<not> net_contains network (route_destination route)
             \<or> route_destination route = net_network network \<or> route_destination route = net_broadcast network
             \<or> route_destination route = na_gateway network_addr
             \<or> is_unspecified (route_source route) \<or> route_source route = ipv4_BROADCAST
             \<or> is_multicast (route_source route) \<or> net_contains network (route_source route)
          then None else Some route)"

section \<open>Relayed packets\<close>

definition client_validate_relay :: "pnet \<Rightarrow> net_packet \<Rightarrow> ipv4 \<Rightarrow> network_addr \<Rightarrow> ipv4_route option" where
  "client_validate_relay P packet expected_destination network_addr =
     (if client_packet_type packet \<noteq> Inr (CommonType WireGuardRelay) \<or> is_compressed packet \<or> is_gateway packet
         \<or> is_fec packet \<or> ttl packet = 0
      then None
      else case client_validate_inner P (payload packet) (src_id packet) (Some expected_destination) network_addr of
             None \<Rightarrow> None
           | Some route \<Rightarrow> if dest_id packet \<noteq> route_destination route then None else Some route)"

definition client_validate_broadcast_relay ::
  "pnet \<Rightarrow> net_packet \<Rightarrow> ipv4 \<Rightarrow> network_addr \<Rightarrow> ipv4_route option" where
  "client_validate_broadcast_relay P packet expected_destination network_addr =
     (if client_packet_type packet \<noteq> Inr (CommonType WireGuardBroadcastRelay) \<or> is_compressed packet
         \<or> is_gateway packet \<or> is_fec packet \<or> ttl packet = 0 \<or> dest_id packet \<noteq> expected_destination
      then None
      else client_validate_broadcast_inner P (payload packet) (src_id packet) network_addr)"

definition client_validate_subnet_relay ::
  "pnet \<Rightarrow> net_packet \<Rightarrow> ipv4 \<Rightarrow> network_addr \<Rightarrow> ipv4_route option" where
  "client_validate_subnet_relay P packet expected_destination network_addr =
     (if client_packet_type packet \<noteq> Inr (CommonType WireGuardSubnetRelay) \<or> is_compressed packet
         \<or> is_gateway packet \<or> is_fec packet \<or> ttl packet = 0 \<or> dest_id packet \<noteq> expected_destination
      then None
      else client_validate_subnet_inner P (payload packet) (src_id packet) network_addr)"

section \<open>The client accepts what the server accepts\<close>

lemma client_parse_eq:
  "client_parse_unbound P b = (if inner_ipv4_ok P b then Some (inner_route P b) else None)"
  "client_parse_inner P b s = (if inner_ipv4_ok P b \<and> ipv4_source P b = s then Some (inner_route P b) else None)"
proof -
  show u: "client_parse_unbound P b = (if inner_ipv4_ok P b then Some (inner_route P b) else None)"
    by (auto simp: client_parse_unbound_def inner_ipv4_ok_def inner_route_def Let_def WIREGUARD_MAX_MTU_def)
  show "client_parse_inner P b s = (if inner_ipv4_ok P b \<and> ipv4_source P b = s then Some (inner_route P b) else None)"
    by (simp add: client_parse_inner_def u inner_route_def)
qed

lemma server_parse_eq:
  "inner_ipv4_ok P b \<and> ipv4_source P b = s \<Longrightarrow>
     parse_inner_ipv4 P b s = Inr (inner_route P b, unat (ipv4_header_length P b) * 4)"
  "\<not> (inner_ipv4_ok P b \<and> ipv4_source P b = s) \<Longrightarrow> \<exists>e. parse_inner_ipv4 P b s = Inl e"
  by (simp_all add: parse_inner_iff) (metis obj_sumE parse_inner_iff surj_pair)

lemma client_msg_type_common: "packet_msg_type p = Inr m \<Longrightarrow> client_packet_type p = Inr (CommonType m)"
  by (auto simp: packet_msg_type_def client_packet_type_def client_msg_type_try_from_def dest: msg_type_try_from_Inr)
    (auto simp: msg_type_try_from_def)

text \<open>An address a device or a peer of the network can have.\<close>

definition peer_address :: "network_addr \<Rightarrow> ipv4 \<Rightarrow> bool" where
  "peer_address na ip \<longleftrightarrow> net_contains (na_network na) ip \<and> ip \<noteq> net_network (na_network na) \<and>
     ip \<noteq> net_broadcast (na_network na) \<and> ip \<noteq> na_gateway na \<and> \<not> is_multicast ip"

text \<open>The header of a packet the server makes for a relay.\<close>

lemma envelope_header:
  assumes "build_wireguard_envelope m inner src dst = Some b"
  shows "client_packet_type \<lparr>buffer = b\<rparr> = Inr (CommonType m)" "\<not> is_compressed \<lparr>buffer = b\<rparr>" "\<not> is_gateway \<lparr>buffer = b\<rparr>"
    "\<not> is_fec \<lparr>buffer = b\<rparr>" "ttl \<lparr>buffer = b\<rparr> \<noteq> 0" "src_id \<lparr>buffer = b\<rparr> = src" "dest_id \<lparr>buffer = b\<rparr> = dst"
    "payload \<lparr>buffer = b\<rparr> = inner"
proof -
  let ?f = "\<lambda>p. set_dest_id dst (set_src_id src (set_ttl RELAY_TTL (set_msg_type m p)))"
  have "length (buffer (?f (zero_packet (length inner)))) = length (buffer (zero_packet (length inner)))"
    by (simp only: setter_length setter_frame zero_packet_ok)
  then obtain b' where f: "fill_packet ?f inner = Some b'"
      "header \<lparr>buffer = b'\<rparr> = header (?f (zero_packet (length inner)))" "payload \<lparr>buffer = b'\<rparr> = inner"
    by (rule fill_packet_Some [of ?f inner, OF dest.ok_set])
  have "build_wireguard_envelope m inner src dst = fill_packet ?f inner"
    unfolding build_wireguard_envelope_def fill_packet_def Let_def ..
  with assms have "fill_packet ?f inner = Some b" by simp
  with f have h: "header \<lparr>buffer = b\<rparr> = header (?f (zero_packet (length inner)))" "payload \<lparr>buffer = b\<rparr> = inner" by simp_all
  then have "packet_msg_type \<lparr>buffer = b\<rparr> = Inr m"
    by (simp add: packet_msg_type_def setter_header hdr_msg_type_def hdr_set_ttl_def msg_type_try_from_into
        hdr_msg_type_set [unfolded hdr_msg_type_def])
  then show "client_packet_type \<lparr>buffer = b\<rparr> = Inr (CommonType m)" by (rule client_msg_type_common)
  show "\<not> is_compressed \<lparr>buffer = b\<rparr>" "\<not> is_gateway \<lparr>buffer = b\<rparr>" "\<not> is_fec \<lparr>buffer = b\<rparr>" "ttl \<lparr>buffer = b\<rparr> \<noteq> 0"
    "src_id \<lparr>buffer = b\<rparr> = src" "dest_id \<lparr>buffer = b\<rparr> = dst" "payload \<lparr>buffer = b\<rparr> = inner"
    using h by (simp_all add: packet_accessors is_fec_def setter_header header_defs RELAY_TTL_def)
qed

lemma client_validate_eq:
  "client_validate_inner P b s (Some d) na =
     (if inner_ipv4_ok P b \<and> ipv4_source P b = s \<and> ipv4_destination P b = d \<and> peer_address na s \<and> peer_address na d \<and>
       d \<noteq> ipv4_BROADCAST then Some (inner_route P b) else None)"
  "client_validate_broadcast_inner P b s na =
     (if inner_ipv4_ok P b \<and> ipv4_source P b = s \<and> peer_address na s \<and>
       (ipv4_destination P b = ipv4_BROADCAST \<or> ipv4_destination P b = net_broadcast (na_network na) \<or>
        is_multicast (ipv4_destination P b)) then Some (inner_route P b) else None)"
  by (auto simp: client_validate_inner_def client_validate_broadcast_inner_def client_parse_eq peer_address_def
      inner_route_def Let_def)

lemma server_validate_iff:
  assumes "na_network na = n" "na_gateway na = g" "peer_address na s"
  shows "validate_inner_ipv4 P b s n g = Inr r \<longleftrightarrow>
      client_validate_inner P b s (Some (ipv4_destination P b)) na = Some r"
    "validate_broadcast_inner_ipv4 P b s n g = Inr r \<longleftrightarrow> client_validate_broadcast_inner P b s na = Some r"
    "validate_subnet_inner_ipv4 P b s n g lan = Inr r \<longleftrightarrow>
      client_validate_subnet_inner P b s na = Some r \<and> net_contains lan (route_destination r)"
proof -
  note defs = validate_inner_ipv4_def validate_broadcast_inner_ipv4_def validate_subnet_inner_ipv4_def
    client_validate_eq client_validate_subnet_inner_def client_parse_eq
  have "(validate_inner_ipv4 P b s n g = Inr r \<longleftrightarrow>
      client_validate_inner P b s (Some (ipv4_destination P b)) na = Some r) \<and>
    (validate_broadcast_inner_ipv4 P b s n g = Inr r \<longleftrightarrow> client_validate_broadcast_inner P b s na = Some r) \<and>
    (validate_subnet_inner_ipv4 P b s n g lan = Inr r \<longleftrightarrow>
      client_validate_subnet_inner P b s na = Some r \<and> net_contains lan (route_destination r))"
  proof (cases "inner_ipv4_ok P b \<and> ipv4_source P b = s")
    case True
    note d = defs server_parse_eq(1) [OF True] Let_def peer_address_def [of na] inner_route_def if_split_eq1
    have "validate_inner_ipv4 P b s n g = Inr r \<longleftrightarrow>
        client_validate_inner P b s (Some (ipv4_destination P b)) na = Some r"
      using assms True by (simp add: d) argo
    moreover have "validate_broadcast_inner_ipv4 P b s n g = Inr r \<longleftrightarrow> client_validate_broadcast_inner P b s na = Some r"
      using assms True by (simp add: d) argo
    moreover have "validate_subnet_inner_ipv4 P b s n g lan = Inr r \<longleftrightarrow>
        client_validate_subnet_inner P b s na = Some r \<and> net_contains lan (route_destination r)"
      using assms True by (auto simp add: d)
    ultimately show ?thesis by blast
  next
    case False
    then obtain e where "parse_inner_ipv4 P b s = Inl e" using server_parse_eq(2) by blast
    moreover have "client_parse_inner P b s = None" using False by (simp add: client_parse_eq(2))
    ultimately show ?thesis
      by (simp add: validate_inner_ipv4_def validate_broadcast_inner_ipv4_def validate_subnet_inner_ipv4_def
          client_validate_inner_def client_validate_broadcast_inner_def client_validate_subnet_inner_def)
  qed
  then show "validate_inner_ipv4 P b s n g = Inr r \<longleftrightarrow>
      client_validate_inner P b s (Some (ipv4_destination P b)) na = Some r"
    "validate_broadcast_inner_ipv4 P b s n g = Inr r \<longleftrightarrow> client_validate_broadcast_inner P b s na = Some r"
    "validate_subnet_inner_ipv4 P b s n g lan = Inr r \<longleftrightarrow>
      client_validate_subnet_inner P b s na = Some r \<and> net_contains lan (route_destination r)" by blast+
qed

text \<open>C9. Server and client agree on relayed packets.  Of an inner packet sent by a WireGuard peer with a
  regular address, the server accepts it for unicast, broadcast or subnet relay exactly when the
  device that receives the server's envelope accepts it there, with the same route; for a subnet the
  server checks the LAN network of the route in addition.\<close>

theorem relay_agreement:
  assumes "na_network na = n" "na_gateway na = g" "peer_address na s"
  shows "(build_wireguard_envelope WireGuardRelay inner s d = Some b \<longrightarrow>
      (client_validate_relay P \<lparr>buffer = b\<rparr> d na = Some r \<longleftrightarrow>
       validate_inner_ipv4 P inner s n g = Inr r \<and> route_destination r = d)) \<and>
    (build_wireguard_envelope WireGuardBroadcastRelay inner s d = Some b \<longrightarrow>
      (client_validate_broadcast_relay P \<lparr>buffer = b\<rparr> d na = Some r \<longleftrightarrow>
       validate_broadcast_inner_ipv4 P inner s n g = Inr r)) \<and>
    (build_wireguard_envelope WireGuardSubnetRelay inner s d = Some b \<longrightarrow>
      (client_validate_subnet_relay P \<lparr>buffer = b\<rparr> d na = Some r \<and> net_contains lan (route_destination r) \<longleftrightarrow>
       validate_subnet_inner_ipv4 P inner s n g lan = Inr r))"
proof (intro conjI impI)
  note S = server_validate_iff [OF assms]
  { assume "build_wireguard_envelope WireGuardRelay inner s d = Some b"
    note h = envelope_header [OF this]
    show "client_validate_relay P \<lparr>buffer = b\<rparr> d na = Some r \<longleftrightarrow>
       validate_inner_ipv4 P inner s n g = Inr r \<and> route_destination r = d"
      by (auto simp: client_validate_relay_def h S client_validate_eq inner_route_def split: if_splits) }
  { assume "build_wireguard_envelope WireGuardBroadcastRelay inner s d = Some b"
    note h = envelope_header [OF this]
    show "client_validate_broadcast_relay P \<lparr>buffer = b\<rparr> d na = Some r \<longleftrightarrow>
       validate_broadcast_inner_ipv4 P inner s n g = Inr r"
      by (simp add: client_validate_broadcast_relay_def h S) }
  { assume "build_wireguard_envelope WireGuardSubnetRelay inner s d = Some b"
    note h = envelope_header [OF this]
    show "client_validate_subnet_relay P \<lparr>buffer = b\<rparr> d na = Some r \<and> net_contains lan (route_destination r) \<longleftrightarrow>
       validate_subnet_inner_ipv4 P inner s n g lan = Inr r"
      by (simp add: client_validate_subnet_relay_def h S) }
qed

definition wit_na :: network_addr where
  "wit_na = \<lparr>na_gateway = ip4 10 26 0 1, na_broadcast = ip4 10 26 0 255, na_ip = ip4 10 26 0 3, na_prefix_len = 24,
             na_network = cidr (ip4 10 26 0 0) 24\<rparr>"

theorem relay_agreement_witness:
  "\<exists>b. build_wireguard_envelope WireGuardRelay wit_unicast (ip4 10 26 0 2) (ip4 10 26 0 3) = Some b \<and>
     client_validate_relay rfc_pnet \<lparr>buffer = b\<rparr> (ip4 10 26 0 3) wit_na = Some wit_route"
proof -
  have p: "peer_address wit_na (ip4 10 26 0 2)" by (simp add: peer_address_def wit_na_def witness_eval is_multicast_def)
  obtain b where b: "build_wireguard_envelope WireGuardRelay wit_unicast (ip4 10 26 0 2) (ip4 10 26 0 3) = Some b"
    by (rule build_wireguard_envelope_fields)
  have "na_network wit_na = cidr (ip4 10 26 0 0) 24" "na_gateway wit_na = ip4 10 26 0 1" by (simp_all add: wit_na_def)
  from relay_agreement [OF this p, of wit_unicast "ip4 10 26 0 3" b rfc_pnet wit_route] b wit_unicast_valid
  show ?thesis by (simp add: wit_route_def)
qed

end
