(* ===== verification/Wireguard_P2p.thy ===== *)
theory Wireguard_P2p
  imports Packet_Build Network_Delivery
begin

text \<open>
  Control requests of WireGuard agents
  (official-vnts-source-2.0.0/src/server/wireguard_p2p.rs): an agent behind a WireGuard peer asks the
  gateway for a direct path to a VNT device, the server offers the peer to the device and answers with
  the key and the endpoint of the device.

  The generated protobuf codec of these messages is the record \<open>p2p_codec\<close>.  The random numbers are a
  stream, and the loop that draws until a number is not zero returns None when there is none.
\<close>

section \<open>Messages\<close>

definition AGENT_CONTROL_PORT :: u16 where
  "AGENT_CONTROL_PORT = 51821"

definition IPV4_HEADER_LEN :: nat where
  "IPV4_HEADER_LEN = 20"

definition UDP_HEADER_LEN :: nat where
  "UDP_HEADER_LEN = 8"

definition MAX_CONTROL_PAYLOAD :: nat where
  "MAX_CONTROL_PAYLOAD = 1024"

definition LEASE_DURATION_MS :: nat where
  "LEASE_DURATION_MS = 60000"

definition PROTO_UDP :: u8 where
  "PROTO_UDP = 17"

datatype p2p_status = P2pOk | P2pNotFound | P2pNotCapable | P2pRejected | P2pBusy

text \<open>The enum as the i32 the messages carry.\<close>

fun status_code :: "p2p_status \<Rightarrow> 32 word" where
  "status_code P2pOk = 0"
| "status_code P2pNotFound = 1"
| "status_code P2pNotCapable = 2"
| "status_code P2pRejected = 3"
| "status_code P2pBusy = 4"

record p2p_agent_request =
  pq_target_ip :: u32
  pq_request_id :: u64

record p2p_agent_response =
  pr_request_id :: u64
  pr_status :: "32 word"
  pr_target_ip :: u32
  pr_target_public_key :: bytes
  pr_target_endpoint :: string
  pr_lease_id :: u64
  pr_expires_at_unix_ms :: u64

record p2p_offer =
  po_lease_id :: u64
  po_expires_at_unix_ms :: u64
  po_peer_ip :: u32
  po_peer_public_key :: bytes
  po_peer_endpoint :: string

datatype p2p_control = ControlOffer p2p_offer | ControlRevoke u64

record p2p_codec =
  pc_encode_request :: "p2p_agent_request \<Rightarrow> bytes"
  pc_decode_request :: "bytes \<Rightarrow> p2p_agent_request option"
  pc_encode_response :: "p2p_agent_response \<Rightarrow> bytes"
  pc_decode_response :: "bytes \<Rightarrow> p2p_agent_response option"
  pc_encode_control :: "p2p_control option \<Rightarrow> bytes"
  pc_decode_control :: "bytes \<Rightarrow> p2p_control option option"

text \<open>What the program relies on: decoding is the inverse of encoding.\<close>

definition p2p_codec_ok :: "p2p_codec \<Rightarrow> bool" where
  "p2p_codec_ok C \<longleftrightarrow>
     (\<forall>m. pc_decode_request C (pc_encode_request C m) = Some m) \<and>
     (\<forall>m. pc_decode_response C (pc_encode_response C m) = Some m) \<and>
     (\<forall>m. pc_decode_control C (pc_encode_control C m) = Some m)"

record agent_control_request =
  ac_source_port :: u16
  ac_target_ip :: ipv4
  ac_request_id :: u64

record granted_lease =
  gl_target_ip :: ipv4
  gl_lease_id :: u64

record resolved_agent_request =
  ra_response :: bytes
  ra_granted :: "granted_lease option"

datatype agent_control_parse = NotControl | ControlInvalid | ControlRequest agent_control_request

section \<open>Parsing a request, building a reply\<close>

definition parse_agent_control :: "pnet \<Rightarrow> p2p_codec \<Rightarrow> bytes \<Rightarrow> ipv4 \<Rightarrow> ipv4 \<Rightarrow> agent_control_parse" where
  "parse_agent_control P C packet expected_source gateway =
     (if \<not> ipv4_new P packet then NotControl
      else if ipv4_version P packet \<noteq> 4 \<or> ipv4_source P packet \<noteq> expected_source
              \<or> ipv4_destination P packet \<noteq> gateway \<or> ipv4_next_level_protocol P packet \<noteq> PROTO_UDP
      then NotControl
      else let header_len = unat (ipv4_header_length P packet) * 4;
               total_len = unat (ipv4_total_length P packet) in
      if header_len < IPV4_HEADER_LEN \<or> total_len \<noteq> length packet
         \<or> length packet < header_len + UDP_HEADER_LEN
         \<or> u16_of_be (packet ! 6) (packet ! 7) AND 0x3FFF \<noteq> 0
      then ControlInvalid
      else let udp = drop header_len packet in
      if \<not> udp_new P udp then ControlInvalid
      else if udp_destination P udp \<noteq> AGENT_CONTROL_PORT then NotControl
      else if unat (udp_length P udp) \<noteq> length packet - header_len \<or> udp_payload P udp = []
              \<or> length (udp_payload P udp) > MAX_CONTROL_PAYLOAD
      then ControlInvalid
      else case pc_decode_request C (udp_payload P udp) of
             None \<Rightarrow> ControlInvalid
           | Some request \<Rightarrow>
               if pq_request_id request = 0 \<or> is_unspecified (pq_target_ip request)
                  \<or> is_multicast (pq_target_ip request)
               then ControlInvalid
               else ControlRequest \<lparr>ac_source_port = udp_source P udp, ac_target_ip = pq_target_ip request,
                                    ac_request_id = pq_request_id request\<rparr>)"

definition build_agent_response :: "pnet \<Rightarrow> ipv4 \<Rightarrow> ipv4 \<Rightarrow> u16 \<Rightarrow> bytes \<Rightarrow> bytes option" where
  "build_agent_response P gateway destination destination_port data =
     (if destination_port = 0 \<or> data = [] \<or> length data > MAX_CONTROL_PAYLOAD then None
      else let total_len = IPV4_HEADER_LEN + UDP_HEADER_LEN + length data in
      if total_len \<ge> 2 ^ 16 \<or> UDP_HEADER_LEN + length data \<ge> 2 ^ 16 then None
      else let buf = replicate total_len 0 in
      if \<not> ipv4_new P buf then None
      else let
        buf = ipv4_set_version P 4 buf;
        buf = ipv4_set_header_length P 5 buf;
        buf = ipv4_set_total_length P (of_nat total_len) buf;
        buf = ipv4_set_ttl P 64 buf;
        buf = ipv4_set_next_level_protocol P PROTO_UDP buf;
        buf = ipv4_set_source P gateway buf;
        buf = ipv4_set_destination P destination buf in
      if \<not> udp_new P (drop IPV4_HEADER_LEN buf) then None
      else let
        buf = on_suffix IPV4_HEADER_LEN (\<lambda>udp.
          let udp = udp_set_source P AGENT_CONTROL_PORT udp;
              udp = udp_set_destination P destination_port udp;
              udp = udp_set_length P (of_nat (UDP_HEADER_LEN + length data)) udp;
              udp = udp_set_payload P data udp
          in udp_set_checksum P (udp_ipv4_checksum P udp gateway destination) udp) buf in
      if \<not> ipv4_new P buf then None
      else Some (ipv4_set_checksum P (ipv4_checksum P buf) buf))"

section \<open>Resolving a request\<close>

definition p2p_control_packet :: "ipv4 \<Rightarrow> ipv4 \<Rightarrow> bytes \<Rightarrow> bytes option" where
  "p2p_control_packet gateway target_ip control =
     fill_packet (\<lambda>packet.
       let packet = set_msg_type WireGuardP2pControl packet;
           packet = set_gateway_flag True packet;
           packet = set_ttl 1 packet;
           packet = set_src_id gateway packet
       in set_dest_id target_ip packet) control"

partial_function (option) draw_nonzero :: "(nat \<Rightarrow> u64) \<Rightarrow> nat \<Rightarrow> u64 option" where
  "draw_nonzero random i = (if random i \<noteq> 0 then Some (random i) else draw_nonzero random (i + 1))"

definition unix_millis :: "system_time \<Rightarrow> nat" where
  "unix_millis now = nat (max 0 now) div 1000000"

definition p2p_expiry :: "system_time \<Rightarrow> u64" where
  "p2p_expiry now =
     of_nat (min (min (unix_millis now + LEASE_DURATION_MS) (2 ^ 128 - 1)) (2 ^ 64 - 1))"

definition resolution :: "p2p_codec \<Rightarrow> p2p_agent_response \<Rightarrow> granted_lease option \<Rightarrow> resolved_agent_request" where
  "resolution C response granted = \<lparr>ra_response = pc_encode_response C response, ra_granted = granted\<rparr>"

definition empty_response :: "agent_control_request \<Rightarrow> p2p_agent_response" where
  "empty_response request =
     \<lparr>pr_request_id = ac_request_id request, pr_status = status_code P2pNotFound,
      pr_target_ip = ac_target_ip request, pr_target_public_key = [], pr_target_endpoint = '''',
      pr_lease_id = 0, pr_expires_at_unix_ms = 0\<rparr>"

definition resolve_agent_request ::
  "mpsc \<Rightarrow> p2p_codec \<Rightarrow> (nat \<Rightarrow> u64) \<Rightarrow> system_time \<Rightarrow> ipv4 \<Rightarrow> bytes \<Rightarrow> socket_addr \<Rightarrow>
   agent_control_request \<Rightarrow> network_state \<Rightarrow> (resolved_agent_request \<times> network_state) option" where
  "resolve_agent_request mp C random now peer_ip peer_public_key peer_endpoint request s =
     (let response = empty_response request in
      if ac_target_ip request = peer_ip \<or> ac_target_ip request = ns_gateway s
         \<or> \<not> net_contains (ns_net s) (ac_target_ip request)
      then Some (resolution C (response\<lparr>pr_status := status_code P2pRejected\<rparr>) None, s)
      else case get_wireguard_p2p_endpoint (ac_target_ip request) s of
        None \<Rightarrow> Some (resolution C (response\<lparr>pr_status := status_code P2pNotCapable\<rparr>) None, s)
      | Some target \<Rightarrow>
          (case draw_nonzero random 0 of
             None \<Rightarrow> None
           | Some lease_id \<Rightarrow>
               let expires_at_unix_ms = p2p_expiry now;
                   offer = pc_encode_control C (Some (ControlOffer
                     \<lparr>po_lease_id = lease_id, po_expires_at_unix_ms = expires_at_unix_ms, po_peer_ip = peer_ip,
                      po_peer_public_key = peer_public_key,
                      po_peer_endpoint = socket_to_string peer_endpoint\<rparr>))
               in case (case p2p_control_packet (ns_gateway s) (ac_target_ip request) offer of
                          None \<Rightarrow> (False, s)
                        | Some bytes \<Rightarrow>
                            (case try_deliver mp (ac_target_ip request) bytes FromWireGuard s of
                               (r, s) \<Rightarrow> (r = Delivered, s))) of
                    (delivered, s) \<Rightarrow>
                      if \<not> delivered
                      then Some (resolution C (response\<lparr>pr_status := status_code P2pBusy\<rparr>) None, s)
                      else Some (resolution C
                        (response\<lparr>pr_status := status_code P2pOk, pr_target_public_key := wp_public_key target,
                           pr_target_endpoint := socket_to_string (wp_endpoint target), pr_lease_id := lease_id,
                           pr_expires_at_unix_ms := expires_at_unix_ms\<rparr>)
                        (Some \<lparr>gl_target_ip = ac_target_ip request, gl_lease_id = lease_id\<rparr>), s)))"

definition revoke_lease :: "mpsc \<Rightarrow> p2p_codec \<Rightarrow> ipv4 \<Rightarrow> u64 \<Rightarrow> network_state \<Rightarrow> network_state" where
  "revoke_lease mp C target_ip lease_id s =
     (case p2p_control_packet (ns_gateway s) target_ip (pc_encode_control C (Some (ControlRevoke lease_id))) of
        None \<Rightarrow> s
      | Some bytes \<Rightarrow> snd (try_deliver mp target_ip bytes FromWireGuard s))"

section \<open>Lemmas\<close>

lemma draw_nonzero_returns: "random (i + k) \<noteq> 0 \<Longrightarrow> \<exists>l. draw_nonzero random i = Some l"
  by (induction k arbitrary: i) (subst draw_nonzero.simps, simp)+

lemma draw_nonzero_nonzero: "draw_nonzero random i = Some l \<Longrightarrow> l \<noteq> 0"
  by (erule draw_nonzero.raw_induct [where P = "\<lambda>_ _ l. l \<noteq> 0", rotated]) (auto split: if_splits)

lemma p2p_control_packet_Some:
  obtains b where "p2p_control_packet g t d = Some b" "new_packet b = Inr \<lparr>buffer = b\<rparr>" "HEAD_LENGTH \<le> length b"
    "packet_msg_type \<lparr>buffer = b\<rparr> = Inr WireGuardP2pControl" "is_gateway \<lparr>buffer = b\<rparr>"
    "\<not> is_compressed \<lparr>buffer = b\<rparr>" "ttl \<lparr>buffer = b\<rparr> = 1"
    "src_id \<lparr>buffer = b\<rparr> = g" "dest_id \<lparr>buffer = b\<rparr> = t" "payload \<lparr>buffer = b\<rparr> = d"
proof -
  let ?f = "\<lambda>packet. set_dest_id t (set_src_id g (set_ttl 1 (set_gateway_flag True
      (set_msg_type WireGuardP2pControl packet))))"
  have "length (buffer (?f (zero_packet (length d)))) = length (buffer (zero_packet (length d)))"
    by (simp only: setter_length setter_frame zero_packet_ok)
  then obtain b where b: "fill_packet ?f d = Some b" "new_packet b = Inr \<lparr>buffer = b\<rparr>" "HEAD_LENGTH \<le> length b"
      "header \<lparr>buffer = b\<rparr> = header (?f (zero_packet (length d)))" "payload \<lparr>buffer = b\<rparr> = d"
    by (rule fill_packet_Some [of ?f d, OF dest.ok_set])
  have "p2p_control_packet g t d = Some b" using b(1) by (simp add: p2p_control_packet_def Let_def)
  then show thesis using b
    by (intro that) (simp_all add: packet_accessors setter_header header_defs msg_type_try_from_def)
qed

text \<open>The two outcomes of a request: a lease, with exactly one offer handed to the device, or a
  refusal, with no offer that reached it.\<close>

definition p2p_offer_to :: "u64 \<Rightarrow> u64 \<Rightarrow> ipv4 \<Rightarrow> bytes \<Rightarrow> socket_addr \<Rightarrow> p2p_control" where
  "p2p_offer_to lease_id expires peer_ip public_key endpoint =
     ControlOffer \<lparr>po_lease_id = lease_id, po_expires_at_unix_ms = expires, po_peer_ip = peer_ip,
       po_peer_public_key = public_key, po_peer_endpoint = socket_to_string endpoint\<rparr>"

lemma resolve_agent_request_cases:
  assumes "resolve_agent_request mp C random now pip pk ep rq s = Some (res, s')"
  obtains (refused) st evs where "st \<noteq> P2pOk" "st \<noteq> P2pNotFound" "ra_granted res = None"
      "ra_response res = pc_encode_response C ((empty_response rq)\<lparr>pr_status := status_code st\<rparr>)"
      "sent s' = sent s @ evs" "\<forall>ev \<in> set evs. snd (snd ev) \<noteq> SendOk"
  | (granted) target l b sd where "get_wireguard_p2p_endpoint (ac_target_ip rq) s = Some target"
      "ac_target_ip rq \<noteq> pip" "ac_target_ip rq \<noteq> ns_gateway s" "net_contains (ns_net s) (ac_target_ip rq)"
      "draw_nonzero random 0 = Some l" "hm_get (sender_map s) (ac_target_ip rq) = Some sd"
      "p2p_control_packet (ns_gateway s) (ac_target_ip rq)
         (pc_encode_control C (Some (p2p_offer_to l (p2p_expiry now) pip pk ep))) = Some b"
      "ra_granted res = Some \<lparr>gl_target_ip = ac_target_ip rq, gl_lease_id = l\<rparr>"
      "ra_response res = pc_encode_response C ((empty_response rq)\<lparr>pr_status := status_code P2pOk,
         pr_target_public_key := wp_public_key target, pr_target_endpoint := socket_to_string (wp_endpoint target),
         pr_lease_id := l, pr_expires_at_unix_ms := p2p_expiry now\<rparr>)"
      "s' = s\<lparr>sent := sent s @ [(sender_channel sd, sender_message sd b, SendOk)]\<rparr>"
proof -
  let ?t = "ac_target_ip rq"
  note R = assms [unfolded resolve_agent_request_def Let_def]
  show thesis
  proof (cases "?t = pip \<or> ?t = ns_gateway s \<or> \<not> net_contains (ns_net s) ?t")
    case True
    with R show thesis by (intro refused [of P2pRejected "[]"]) (auto simp: resolution_def)
  next
    case out: False
    show thesis
    proof (cases "get_wireguard_p2p_endpoint ?t s")
      case None
      with R out show thesis by (intro refused [of P2pNotCapable "[]"]) (auto simp: resolution_def)
    next
      case (Some target)
      with R out obtain l where l: "draw_nonzero random 0 = Some l" by (auto split: option.splits)
      let ?c = "pc_encode_control C (Some (p2p_offer_to l (p2p_expiry now) pip pk ep))"
      obtain b where b: "p2p_control_packet (ns_gateway s) ?t ?c = Some b" by (rule p2p_control_packet_Some)
      obtain r s1 where d: "try_deliver mp ?t b FromWireGuard s = (r, s1)" by fastforce
      note S = out Some l b [unfolded p2p_offer_to_def] d
      from d show thesis
      proof (cases rule: try_deliver_cases)
        case refused
        with R S show thesis by (intro that(1) [of P2pBusy "[]"]) (auto simp: resolution_def)
      next
        case (attempted e t sd ev)
        show thesis
        proof (cases "snd (snd ev) = SendOk")
          case True
          with attempted have "r = Delivered" "s1 = s\<lparr>sent := sent s @ [ev]\<rparr>"
            by (simp_all add: delivery_outcome_def delivered_state_def Let_def)
          moreover have "ev = (sender_channel sd, sender_message sd b, SendOk)" using attempted(6) True by simp
          ultimately show thesis using R S out b attempted(5)
            by (intro granted [of target l sd b]) (auto simp: resolution_def p2p_offer_to_def)
        next
          case False
          with attempted have "r \<noteq> Delivered" by (simp add: delivery_outcome_sent)
          with R S attempted False show thesis by (intro that(1) [of P2pBusy "[ev]"]) (auto simp: resolution_def)
        qed
      qed
    qed
  qed
qed

lemma resolve_agent_request_returns:
  assumes "random k \<noteq> 0"
  shows "\<exists>res s'. resolve_agent_request mp C random now pip pk ep rq s = Some (res, s')"
  using draw_nonzero_returns [of random 0 k] assms
  by (auto simp: resolve_agent_request_def Let_def split: option.split prod.split)

section \<open>The reply packet\<close>

lemma on_suffix_overwrites:
  "n \<le> length b \<Longrightarrow> on_suffix n (\<lambda>v. overwrite off d (g v)) b = overwrite (n + off) d (on_suffix n g b)"
  "on_suffix n (\<lambda>v. v) b = b"
  by (simp_all add: on_suffix_def overwrite_def take_add ac_simps)

text \<open>The reply, byte by byte; \<open>c1\<close> and \<open>c2\<close> are the two checksums.\<close>

definition agent_reply_bytes :: "ipv4 \<Rightarrow> ipv4 \<Rightarrow> u16 \<Rightarrow> bytes \<Rightarrow> u16 \<Rightarrow> u16 \<Rightarrow> bytes" where
  "agent_reply_bytes g d p data c1 c2 =
     [0x45, 0] @ u16_be (of_nat (28 + length data)) @ [0, 0, 0, 0, 64, 17] @ u16_be c2 @ u32_be g @ u32_be d @
     u16_be AGENT_CONTROL_PORT @ u16_be p @ u16_be (of_nat (8 + length data)) @ u16_be c1 @ data"

lemma agent_reply_overwrite:
  "overwrite 10 (u16_be c2) (overwrite 26 (u16_be c1) (overwrite 28 data (overwrite 24 (u16_be (of_nat (8 + length data)))
     (overwrite 22 (u16_be p) (overwrite 20 (u16_be AGENT_CONTROL_PORT) (overwrite 16 (u32_be d) (overwrite 12 (u32_be g)
       (overwrite 9 [17] (overwrite 8 [64] (overwrite 2 (u16_be (of_nat (28 + length data))) (overwrite 0 [0x45]
         (replicate (28 + length data) 0)))))))))))) = agent_reply_bytes g d p data c1 c2"
proof -
  have z: "replicate (28 + length data) (0 :: u8) =
      [0, 0, 0, 0, 0, 0, 0, 0, 0, 0, 0, 0, 0, 0, 0, 0, 0, 0, 0, 0, 0, 0, 0, 0, 0, 0, 0, 0] @ replicate (length data) 0"
    by (simp add: replicate_add numeral_eq_Suc)
  show ?thesis unfolding z agent_reply_bytes_def by (simp add: overwrite_def u16_be_def u32_be_def)
qed

lemma build_agent_response_Some:
  assumes L: "pnet_layout P" and B: "build_agent_response P g d p data = Some b"
  obtains c1 c2 where "p \<noteq> 0" "data \<noteq> []" "length data \<le> 1024" "b = agent_reply_bytes g d p data c1 c2"
proof -
  from L have ip: "ipv4_layout P" and udp: "udp_layout P" by (simp_all add: pnet_layout_def)
  note B' = B [unfolded build_agent_response_def Let_def IPV4_HEADER_LEN_def UDP_HEADER_LEN_def MAX_CONTROL_PAYLOAD_def]
  have h: "p \<noteq> 0" "data \<noteq> []" "length data \<le> 1024" using B' by (auto split: if_splits)
  let ?z = "replicate (28 + length data) (0 :: u8)"
  let ?b1 = "ipv4_set_destination P d (ipv4_set_source P g (ipv4_set_next_level_protocol P PROTO_UDP (ipv4_set_ttl P 64
      (ipv4_set_total_length P (of_nat (28 + length data)) (ipv4_set_header_length P 5 (ipv4_set_version P 4 ?z))))))"
  let ?o1 = "overwrite 16 (u32_be d) (overwrite 12 (u32_be g) (overwrite 9 [17] (overwrite 8 [64]
      (overwrite 2 (u16_be (of_nat (28 + length data))) (overwrite 0 [0x45] ?z)))))"
  have b1: "?b1 = ?o1"
    using ip by (simp add: ipv4_layout_def PROTO_UDP_def nth_overwrite overwrite_twice)
  define f where "f = (\<lambda>udp. let udp = udp_set_payload P data (udp_set_length P (of_nat (8 + length data))
      (udp_set_destination P p (udp_set_source P AGENT_CONTROL_PORT udp)))
      in udp_set_checksum P (udp_ipv4_checksum P udp g d) udp)"
  have l1: "length ?o1 = 28 + length data" by simp
  define c1 where "c1 = udp_ipv4_checksum P (overwrite 8 data (overwrite 4 (u16_be (of_nat (8 + length data)))
      (overwrite 2 (u16_be p) (overwrite 0 (u16_be AGENT_CONTROL_PORT) (drop 20 ?o1))))) g d"
  have "on_suffix 20 f ?o1 = on_suffix 20 (\<lambda>v. overwrite 6 (u16_be c1) (overwrite 8 data (overwrite 4 (u16_be (of_nat (8 + length data)))
      (overwrite 2 (u16_be p) (overwrite 0 (u16_be AGENT_CONTROL_PORT) v))))) ?o1"
    by (rule on_suffix_cong) (use udp l1 in \<open>simp add: f_def udp_layout_def Let_def c1_def\<close>)
  also have "\<dots> = overwrite 26 (u16_be c1) (overwrite 28 data (overwrite 24 (u16_be (of_nat (8 + length data)))
      (overwrite 22 (u16_be p) (overwrite 20 (u16_be AGENT_CONTROL_PORT) ?o1))))"
    by (simp add: on_suffix_overwrites)
  finally have b2: "on_suffix 20 f ?o1 = \<dots>" .
  have "b = ipv4_set_checksum P (ipv4_checksum P (on_suffix 20 f ?b1)) (on_suffix 20 f ?b1)"
    using B' by (auto simp: f_def Let_def split: if_splits)
  then have "b = ipv4_set_checksum P (ipv4_checksum P (on_suffix 20 f ?o1)) (on_suffix 20 f ?o1)" unfolding b1 .
  moreover have "length (on_suffix 20 f ?o1) = 28 + length data" unfolding b2 by simp
  ultimately have "b = overwrite 10 (u16_be (ipv4_checksum P (on_suffix 20 f ?o1))) (on_suffix 20 f ?o1)"
    using ip by (simp add: ipv4_layout_def)
  then show thesis using that [OF h] unfolding b2 agent_reply_overwrite by blast
qed

lemma build_agent_response_packet:
  assumes L: "pnet_layout P" and B: "build_agent_response P g d p data = Some b"
  shows "length b = 28 + length data" "ipv4_version P b = 4" "ipv4_header_length P b = 5"
    "unat (ipv4_total_length P b) = length b" "ipv4_next_level_protocol P b = PROTO_UDP"
    "ipv4_source P b = g" "ipv4_destination P b = d"
    "udp_source P (drop 20 b) = AGENT_CONTROL_PORT" "udp_destination P (drop 20 b) = p"
    "unat (udp_length P (drop 20 b)) = length b - 20" "udp_payload P (drop 20 b) = data"
proof -
  obtain c1 c2 where h: "length data \<le> 1024" and b: "b = agent_reply_bytes g d p data c1 c2"
    by (rule build_agent_response_Some [OF L B])
  have u4: "u32_be x = [u32_be x ! 0, u32_be x ! 1, u32_be x ! 2, u32_be x ! 3]" for x by (simp add: u32_be_def)
  have u2: "u16_be x = [u16_be x ! 0, u16_be x ! Suc 0]" for x by (simp add: u16_be_def)
  note e = b [unfolded agent_reply_bytes_def] and r = u16_be_nth u32_of_be_nth
  show len: "length b = 28 + length data" unfolding e by simp
  from L len have ip: "ipv4_layout P" "20 \<le> length b" and udp: "udp_layout P" "8 \<le> length (drop 20 b)"
    by (simp_all add: pnet_layout_def)
  note I = ipv4_get [OF ip]
  note U = udp [unfolded udp_layout_def]
  have sz: "unat (of_nat (8 + length data) :: u16) = 8 + length data" "unat (of_nat (28 + length data) :: u16) = 28 + length data"
    using h by (simp_all only: unat_of_nat) (simp_all add: mod_less)
  show "ipv4_version P b = 4" "ipv4_header_length P b = 5" unfolding I by (simp_all add: e)
  have "u16_of_be (b ! 2) (b ! 3) = of_nat (28 + length data)" by (simp add: e u16_be_def)
  then show "unat (ipv4_total_length P b) = length b" using sz(2) by (simp add: I len)
  show "ipv4_next_level_protocol P b = PROTO_UDP" unfolding I by (simp add: e u16_be_def PROTO_UDP_def)
  have "b ! 12 = u32_be g ! 0" "b ! 13 = u32_be g ! 1" "b ! 14 = u32_be g ! 2" "b ! 15 = u32_be g ! 3"
    "b ! 16 = u32_be d ! 0" "b ! 17 = u32_be d ! 1" "b ! 18 = u32_be d ! 2" "b ! 19 = u32_be d ! 3"
    by (simp_all add: e u16_be_def u32_be_def)
  then show "ipv4_source P b = g" "ipv4_destination P b = d" using u32_of_be_nth unfolding I by simp_all
  have d: "drop 20 b = u16_be AGENT_CONTROL_PORT @ u16_be p @ u16_be (of_nat (8 + length data)) @ u16_be c1 @ data"
    by (simp add: e u16_be_def u32_be_def)
  have ud: "u16_of_be (drop 20 b ! 4) (drop 20 b ! 5) = of_nat (8 + length data)"
    "u16_of_be (drop 20 b ! 0) (drop 20 b ! 1) = AGENT_CONTROL_PORT" "u16_of_be (drop 20 b ! 2) (drop 20 b ! 3) = p"
    unfolding d by (simp_all add: u16_be_def)
  show "udp_source P (drop 20 b) = AGENT_CONTROL_PORT" "udp_destination P (drop 20 b) = p"
    using U ud by simp_all
  show "unat (udp_length P (drop 20 b)) = length b - 20" using U ud sz(1) len by simp
  have "udp_payload P (drop 20 b) = drop 8 (take (8 + length data) (drop 20 b))" using U ud sz(1) by simp
  also have "\<dots> = data" unfolding d by (simp add: u16_be_def)
  finally show "udp_payload P (drop 20 b) = data" .
qed

end
