(* ===== verification/Client_P2p.thy ===== *)
theory Client_P2p
  imports Boringtun Indexed_Table Client_Bridge Wireguard_P2p
begin

text \<open>
  The direct WireGuard endpoint of a VNT device (vnt-core-2.0.0/src/wireguard_p2p.rs).

  The runtime owns one tunnel per offered peer, found by the address of the peer or by the receiver
  index of a datagram.  Tunnels and the rate limiter are those of the interface \<open>noise\<close>; \<open>pt_udp\<close> is the
  trace of the datagrams handed to the socket, and \<open>pt_inbound\<close> the packets handed to the virtual
  interface.  None is a loop that does not end: the draw of a free receiver index, or the emptying
  of a tunnel's queue.
\<close>

definition MAX_ACTIVE_PEERS :: nat where
  "MAX_ACTIVE_PEERS = 64"

text \<open>In nanoseconds, as an Instant.\<close>

definition AUTHENTICATED_ROUTE_TTL :: nat where
  "AUTHENTICATED_ROUTE_TTL = 45000000000"

definition MAX_LEASE_AHEAD_MS :: u64 where
  "MAX_LEASE_AHEAD_MS = 120000"

record 't p2p_peer =
  pp_public_key :: bytes
  pp_endpoint :: socket_addr
  pp_receiver_index :: u32
  pp_lease_id :: u64
  pp_expires_at_unix_ms :: u64
  pp_last_authenticated :: "nat option"
  pp_tunnel :: 't

record ('t, 'r) p2p_runtime =
  pt_peers :: "(ipv4, 't p2p_peer) hmap"
  pt_receiver_indices :: "(u32, ipv4) hmap"
  pt_network_addr :: network_addr
  pt_rate_limiter :: 'r
  pt_udp :: "udp_event list"
  pt_inbound :: "(msg_type \<times> ipv4 \<times> net_packet) list"

definition unix_ms :: "system_time \<Rightarrow> u64" where
  "unix_ms now = of_nat (min (unix_millis now) (2 ^ 64 - 1))"

definition synthetic_ipv4 :: "ipv4 \<Rightarrow> ipv4 \<Rightarrow> bytes" where
  "synthetic_ipv4 source destination =
     [0x45, 0] @ u16_be 20 @ [0, 0, 0, 0, 64, 17, 0, 0] @ u32_be source @ u32_be destination"

text \<open>The draws of \<open>random_range(0..=MAX_RECEIVER_INDEX)\<close> are a stream.\<close>

partial_function (option) draw_unused :: "(nat \<Rightarrow> u32) \<Rightarrow> (u32, ipv4) hmap \<Rightarrow> nat \<Rightarrow> u32 option" where
  "draw_unused random used i =
     (if hm_contains used (random i) then draw_unused random used (i + 1) else Some (random i))"

definition p2p_remove_peer :: "ipv4 \<Rightarrow> ('t, 'r) p2p_runtime \<Rightarrow> ('t, 'r) p2p_runtime" where
  "p2p_remove_peer ip rt =
     (case hm_get (pt_peers rt) ip of
        None \<Rightarrow> rt
      | Some peer \<Rightarrow> rt\<lparr>pt_peers := hm_remove ip (pt_peers rt),
                        pt_receiver_indices := hm_remove (pp_receiver_index peer) (pt_receiver_indices rt)\<rparr>)"

definition p2p_send_datagram :: "udp_io \<Rightarrow> bytes \<Rightarrow> socket_addr \<Rightarrow> ('t, 'r) p2p_runtime \<Rightarrow> ('t, 'r) p2p_runtime" where
  "p2p_send_datagram io data addr rt = rt\<lparr>pt_udp := snd (udp_send io data addr (pt_udp rt))\<rparr>"

section \<open>Control messages\<close>

definition offer_acceptable :: "pnet \<Rightarrow> system_time \<Rightarrow> network_addr \<Rightarrow> p2p_offer \<Rightarrow> bool" where
  "offer_acceptable P now na offer =
     (let now_ms = unix_ms now in
      \<not> (po_lease_id offer = 0 \<or> po_expires_at_unix_ms offer \<le> now_ms
         \<or> saturating_sub (po_expires_at_unix_ms offer) now_ms > MAX_LEASE_AHEAD_MS
         \<or> client_validate_inner P (synthetic_ipv4 (po_peer_ip offer) (na_ip na)) (po_peer_ip offer)
             (Some (na_ip na)) na = None))"

definition apply_offer ::
  "('t, 'r) noise \<Rightarrow> pnet \<Rightarrow> udp_io \<Rightarrow> (nat \<Rightarrow> u32) \<Rightarrow> system_time \<Rightarrow> p2p_offer \<Rightarrow> ('t, 'r) p2p_runtime \<Rightarrow>
   ('t, 'r) p2p_runtime option" where
  "apply_offer N P io random now offer rt =
     (if length (po_peer_public_key offer) \<noteq> 32 then Some rt
      else case parse_socket_v4 (po_peer_endpoint offer) of
        None \<Rightarrow> Some rt
      | Some (addr, port) \<Rightarrow>
          let endpoint = SocketV4 addr port; peer_ip = po_peer_ip offer in
          if \<not> offer_acceptable P now (pt_network_addr rt) offer then Some rt
          else if length (pt_peers rt) \<ge> MAX_ACTIVE_PEERS \<and> \<not> hm_contains (pt_peers rt) peer_ip then Some rt
          else case (case hm_get (pt_peers rt) peer_ip of
                       Some peer \<Rightarrow> if pp_public_key peer = po_peer_public_key offer then Some peer else None
                     | None \<Rightarrow> None) of
            Some peer \<Rightarrow>
              Some (rt\<lparr>pt_peers := hm_insert peer_ip
                (peer\<lparr>pp_endpoint := endpoint, pp_lease_id := po_lease_id offer,
                      pp_expires_at_unix_ms := po_expires_at_unix_ms offer\<rparr>) (pt_peers rt)\<rparr>)
          | None \<Rightarrow>
              let rt = p2p_remove_peer peer_ip rt in
              (case draw_unused random (pt_receiver_indices rt) 0 of
                 None \<Rightarrow> None
               | Some receiver_index \<Rightarrow>
                   (case nz_handshake_initiation N (nz_new N (po_peer_public_key offer) receiver_index) of
                      (handshake, tunnel) \<Rightarrow>
                        let rt = rt\<lparr>pt_receiver_indices := hm_insert receiver_index peer_ip (pt_receiver_indices rt),
                                    pt_peers := hm_insert peer_ip
                                      \<lparr>pp_public_key = po_peer_public_key offer, pp_endpoint = endpoint,
                                       pp_receiver_index = receiver_index, pp_lease_id = po_lease_id offer,
                                       pp_expires_at_unix_ms = po_expires_at_unix_ms offer,
                                       pp_last_authenticated = None, pp_tunnel = tunnel\<rparr> (pt_peers rt)\<rparr>
                        in Some (case handshake of
                                   WriteToNetwork packet \<Rightarrow> p2p_send_datagram io packet endpoint rt
                                 | _ \<Rightarrow> rt))))"

definition apply_control ::
  "('t, 'r) noise \<Rightarrow> pnet \<Rightarrow> udp_io \<Rightarrow> (nat \<Rightarrow> u32) \<Rightarrow> system_time \<Rightarrow> p2p_control option \<Rightarrow> ('t, 'r) p2p_runtime \<Rightarrow>
   ('t, 'r) p2p_runtime option" where
  "apply_control N P io random now control rt =
     (case control of
        Some (ControlOffer offer) \<Rightarrow> apply_offer N P io random now offer rt
      | Some (ControlRevoke lease_id) \<Rightarrow>
          Some (case hm_find_key (\<lambda>peer. pp_lease_id peer = lease_id) (pt_peers rt) of
                  Some ip \<Rightarrow> p2p_remove_peer ip rt
                | None \<Rightarrow> rt)
      | None \<Rightarrow> Some rt)"

section \<open>Datagrams\<close>

definition deliver_inner :: "ipv4 \<Rightarrow> bytes \<Rightarrow> ('t, 'r) p2p_runtime \<Rightarrow> ('t, 'r) p2p_runtime" where
  "deliver_inner peer_ip inner rt =
     (case fill_packet (\<lambda>packet.
             let packet = set_msg_type WireGuardRelay packet;
                 packet = set_ttl 1 packet;
                 packet = set_src_id peer_ip packet
             in set_dest_id (na_ip (pt_network_addr rt)) packet) inner of
        None \<Rightarrow> rt
      | Some b \<Rightarrow> rt\<lparr>pt_inbound := pt_inbound rt @ [(Turn, peer_ip, \<lparr>buffer = b\<rparr>)]\<rparr>)"

text \<open>Which peer a datagram belongs to: a cookie reply of the rate limiter is sent back, an unknown or
  malformed datagram is dropped.\<close>

definition classify ::
  "('t, 'r) noise \<Rightarrow> udp_io \<Rightarrow> bytes \<Rightarrow> socket_addr \<Rightarrow> ('t, 'r) p2p_runtime \<Rightarrow> ipv4 option \<times> ('t, 'r) p2p_runtime" where
  "classify N io packet source rt =
     (case nz_verify_packet N (Some (socket_ip source)) packet (pt_rate_limiter rt) of
        (verified, limiter) \<Rightarrow>
          let rt = rt\<lparr>pt_rate_limiter := limiter\<rparr>;
              by_index = (\<lambda>receiver_idx. hm_get (pt_receiver_indices rt) (drop_bit 8 receiver_idx))
          in case verified of
               Inr (HandshakeInit init) \<Rightarrow>
                 (case nz_parse_handshake_anon N init of
                    None \<Rightarrow> (None, rt)
                  | Some key \<Rightarrow> (hm_find_key (\<lambda>peer. pp_public_key peer = key) (pt_peers rt), rt))
             | Inr (HandshakeResponse idx) \<Rightarrow> (by_index idx, rt)
             | Inr (PacketCookieReply idx) \<Rightarrow> (by_index idx, rt)
             | Inr (PacketData idx) \<Rightarrow> (by_index idx, rt)
             | Inl (WriteToNetwork cookie) \<Rightarrow> (None, p2p_send_datagram io cookie source rt)
             | Inl _ \<Rightarrow> (None, rt))"

text \<open>The answer of the tunnel: datagrams to send, and an inner packet for the virtual interface.\<close>

definition decapsulated :: "pnet \<Rightarrow> ipv4 \<Rightarrow> network_addr \<Rightarrow> tunn_result \<Rightarrow> (bytes list \<times> bytes option) option" where
  "decapsulated P peer_ip na r =
     (case r of
        TunnDone \<Rightarrow> Some ([], None)
      | WriteToNetwork response \<Rightarrow> Some ([response], None)
      | WriteToTunnelV4 inner source_ip \<Rightarrow>
          Some ([], if source_ip = peer_ip \<and> client_validate_inner P inner peer_ip (Some (na_ip na)) na \<noteq> None
                    then Some inner else None)
      | _ \<Rightarrow> None)"

definition p2p_handle_datagram ::
  "('t, 'r) noise \<Rightarrow> pnet \<Rightarrow> udp_io \<Rightarrow> nat \<Rightarrow> bytes \<Rightarrow> socket_addr \<Rightarrow> ('t, 'r) p2p_runtime \<Rightarrow>
   ('t, 'r) p2p_runtime option" where
  "p2p_handle_datagram N P io instant packet source rt =
     (case classify N io packet source rt of
        (None, rt) \<Rightarrow> Some rt
      | (Some peer_ip, rt) \<Rightarrow>
          (case hm_get (pt_peers rt) peer_ip of
             None \<Rightarrow> Some rt
           | Some peer \<Rightarrow>
               (case nz_decapsulate N (Some (socket_ip source)) packet (pp_tunnel peer) of
                  (r, tunnel) \<Rightarrow>
                    (case decapsulated P peer_ip (pt_network_addr rt) r of
                       None \<Rightarrow> Some (rt\<lparr>pt_peers := hm_insert peer_ip (peer\<lparr>pp_tunnel := tunnel\<rparr>) (pt_peers rt)\<rparr>)
                     | Some (outbound, inbound) \<Rightarrow>
                         (case drain N outbound tunnel of
                            None \<Rightarrow> None
                          | Some (outbound, tunnel) \<Rightarrow>
                              let rt = rt\<lparr>pt_peers := hm_insert peer_ip
                                         (peer\<lparr>pp_endpoint := source, pp_last_authenticated := Some instant,
                                               pp_tunnel := tunnel\<rparr>) (pt_peers rt)\<rparr>;
                                  rt = fold (\<lambda>response. p2p_send_datagram io response source) outbound rt
                              in Some (case inbound of
                                         Some inner \<Rightarrow> deliver_inner peer_ip inner rt
                                       | None \<Rightarrow> rt))))))"

section \<open>Sending, timers\<close>

definition send_inner ::
  "('t, 'r) noise \<Rightarrow> pnet \<Rightarrow> udp_io \<Rightarrow> system_time \<Rightarrow> nat \<Rightarrow> ipv4 \<Rightarrow> bytes \<Rightarrow> ('t, 'r) p2p_runtime \<Rightarrow>
   bool \<times> ('t, 'r) p2p_runtime" where
  "send_inner N P io now instant destination packet rt =
     (let na = pt_network_addr rt in
      if client_validate_inner P packet (na_ip na) (Some destination) na = None then (False, rt)
      else case hm_get (pt_peers rt) destination of
        None \<Rightarrow> (False, rt)
      | Some peer \<Rightarrow>
          if pp_expires_at_unix_ms peer \<le> unix_ms now
             \<or> (case pp_last_authenticated peer of None \<Rightarrow> True | Some t0 \<Rightarrow> instant - t0 > AUTHENTICATED_ROUTE_TTL)
          then (False, rt)
          else (case nz_encapsulate N packet (pp_tunnel peer) of
                  (r, tunnel) \<Rightarrow>
                    let rt = rt\<lparr>pt_peers := hm_insert destination (peer\<lparr>pp_tunnel := tunnel\<rparr>) (pt_peers rt)\<rparr>
                    in case r of
                         WriteToNetwork network_packet \<Rightarrow>
                           (case udp_send io network_packet (pp_endpoint peer) (pt_udp rt) of
                              (ok, tr) \<Rightarrow> (ok, rt\<lparr>pt_udp := tr\<rparr>))
                       | _ \<Rightarrow> (False, rt)))"

fun timer_datagram :: "tunn_result \<Rightarrow> socket_addr \<Rightarrow> (bytes \<times> socket_addr) list" where
  "timer_datagram (WriteToNetwork packet) endpoint = [(packet, endpoint)]"
| "timer_datagram _ endpoint = []"

definition p2p_update_timers ::
  "('t, 'r) noise \<Rightarrow> udp_io \<Rightarrow> system_time \<Rightarrow> ('t, 'r) p2p_runtime \<Rightarrow> ('t, 'r) p2p_runtime" where
  "p2p_update_timers N io now rt =
     (let now_ms = unix_ms now;
          expired = map fst (filter (\<lambda>(_, peer). pp_expires_at_unix_ms peer \<le> now_ms) (pt_peers rt));
          rt = fold p2p_remove_peer expired rt;
          outbound = concat (map (\<lambda>(_, peer). timer_datagram (fst (nz_update_timers N (pp_tunnel peer))) (pp_endpoint peer))
                       (pt_peers rt));
          rt = rt\<lparr>pt_peers := map (\<lambda>(ip, peer). (ip, peer\<lparr>pp_tunnel := snd (nz_update_timers N (pp_tunnel peer))\<rparr>))
                     (pt_peers rt)\<rparr>
      in fold (\<lambda>(packet, endpoint). p2p_send_datagram io packet endpoint) outbound rt)"

section \<open>The invariant\<close>

definition p2p_peer_ok :: "network_addr \<Rightarrow> ipv4 \<Rightarrow> 't p2p_peer \<Rightarrow> bool" where
  "p2p_peer_ok na ip peer \<longleftrightarrow> length (pp_public_key peer) = 32 \<and> pp_lease_id peer \<noteq> 0 \<and> peer_address na ip"

text \<open>A packet handed to the virtual interface claims to be from the peer whose tunnel decrypted it, in
  its header and in its inner IP header, and is addressed to this device.\<close>

definition inbound_ok :: "pnet \<Rightarrow> network_addr \<Rightarrow> msg_type \<times> ipv4 \<times> net_packet \<Rightarrow> bool" where
  "inbound_ok P na e \<longleftrightarrow> (case e of (t, ip, packet) \<Rightarrow>
     t = Turn \<and> peer_address na ip \<and> src_id packet = ip \<and> dest_id packet = na_ip na \<and>
     inner_ipv4_ok P (payload packet) \<and> ipv4_source P (payload packet) = ip \<and>
     ipv4_destination P (payload packet) = na_ip na)"

definition p2p_inv :: "pnet \<Rightarrow> ('t, 'r) p2p_runtime \<Rightarrow> bool" where
  "p2p_inv P rt \<longleftrightarrow> hm_ok (pt_peers rt) \<and> length (pt_peers rt) \<le> MAX_ACTIVE_PEERS \<and>
     indexes (pt_peers rt) (pt_receiver_indices rt) (\<lambda>_. pp_receiver_index) \<and>
     (\<forall>ip peer. hm_get (pt_peers rt) ip = Some peer \<longrightarrow> p2p_peer_ok (pt_network_addr rt) ip peer) \<and>
     (\<forall>e \<in> set (pt_inbound rt). inbound_ok P (pt_network_addr rt) e)"

lemma p2p_invD:
  assumes "p2p_inv P rt"
  shows "hm_ok (pt_peers rt)" "length (pt_peers rt) \<le> MAX_ACTIVE_PEERS"
    "indexes (pt_peers rt) (pt_receiver_indices rt) (\<lambda>_. pp_receiver_index)"
    "hm_get (pt_peers rt) ip = Some peer \<Longrightarrow> p2p_peer_ok (pt_network_addr rt) ip peer"
    "e \<in> set (pt_inbound rt) \<Longrightarrow> inbound_ok P (pt_network_addr rt) e"
  using assms unfolding p2p_inv_def by blast+

lemma p2p_inv_cong:
  assumes "p2p_inv P rt" "pt_peers rt' = pt_peers rt" "pt_receiver_indices rt' = pt_receiver_indices rt"
    "pt_network_addr rt' = pt_network_addr rt" "pt_inbound rt' = pt_inbound rt"
  shows "p2p_inv P rt'"
  using assms by (simp add: p2p_inv_def)

lemma p2p_send_datagram_fields [simp]:
  "pt_peers (p2p_send_datagram io d a rt) = pt_peers rt" "pt_receiver_indices (p2p_send_datagram io d a rt) = pt_receiver_indices rt"
  "pt_network_addr (p2p_send_datagram io d a rt) = pt_network_addr rt" "pt_inbound (p2p_send_datagram io d a rt) = pt_inbound rt"
  by (simp_all add: p2p_send_datagram_def)

lemma p2p_send_datagrams_fields [simp]:
  "pt_peers (fold (\<lambda>d. p2p_send_datagram io (f d) (g d)) ds rt) = pt_peers rt"
  "pt_receiver_indices (fold (\<lambda>d. p2p_send_datagram io (f d) (g d)) ds rt) = pt_receiver_indices rt"
  "pt_network_addr (fold (\<lambda>d. p2p_send_datagram io (f d) (g d)) ds rt) = pt_network_addr rt"
  "pt_inbound (fold (\<lambda>d. p2p_send_datagram io (f d) (g d)) ds rt) = pt_inbound rt"
  by (induction ds arbitrary: rt) simp_all

lemma p2p_inv_send [simp]: "p2p_inv P (p2p_send_datagram io d a rt) = p2p_inv P rt"
  "p2p_inv P (fold (\<lambda>d. p2p_send_datagram io (f d) (g d)) ds rt) = p2p_inv P rt"
  by (simp_all add: p2p_inv_def)

lemma p2p_inv_remove:
  assumes "p2p_inv P rt"
  shows "p2p_inv P (p2p_remove_peer ip rt)"
proof (cases "hm_get (pt_peers rt) ip")
  case (Some peer)
  note i = p2p_invD [OF assms]
  have "Suc (length (hm_remove ip (pt_peers rt))) = length (pt_peers rt)"
    using Some by (intro hm_length_remove i) (simp add: hm_contains_def)
  moreover have "indexes (hm_remove ip (pt_peers rt)) (hm_remove (pp_receiver_index peer) (pt_receiver_indices rt))
      (\<lambda>_. pp_receiver_index)"
    using indexes_remove [OF i(3) Some] .
  ultimately show ?thesis using i(1,2,4,5) Some by (auto simp: p2p_inv_def p2p_remove_peer_def split: if_splits)
qed (use assms in \<open>simp add: p2p_remove_peer_def\<close>)

lemma p2p_inv_update:
  assumes "p2p_inv P rt" "hm_get (pt_peers rt) ip = Some peer" "pp_receiver_index peer' = pp_receiver_index peer"
    and "p2p_peer_ok (pt_network_addr rt) ip peer'"
  shows "p2p_inv P (rt\<lparr>pt_peers := hm_insert ip peer' (pt_peers rt)\<rparr>)"
proof -
  note i = p2p_invD [OF assms(1)]
  have "indexes (hm_insert ip peer' (pt_peers rt)) (pt_receiver_indices rt) (\<lambda>_. pp_receiver_index)"
    by (rule indexes_update [OF i(3) assms(2,3)])
  moreover have "length (hm_insert ip peer' (pt_peers rt)) = length (pt_peers rt)"
    using assms(2) i(1) by (simp add: hm_length_insert hm_contains_def)
  ultimately show ?thesis using i(1,2,4,5) assms(4) by (auto simp: p2p_inv_def split: if_splits)
qed

lemma p2p_inv_insert:
  assumes "p2p_inv P rt" "hm_get (pt_peers rt) ip = None" "hm_get (pt_receiver_indices rt) (pp_receiver_index peer) = None"
    and "length (pt_peers rt) < MAX_ACTIVE_PEERS" "p2p_peer_ok (pt_network_addr rt) ip peer"
  shows "p2p_inv P (rt\<lparr>pt_receiver_indices := hm_insert (pp_receiver_index peer) ip (pt_receiver_indices rt),
      pt_peers := hm_insert ip peer (pt_peers rt)\<rparr>)"
proof -
  note i = p2p_invD [OF assms(1)]
  have "indexes (hm_insert ip peer (pt_peers rt)) (hm_insert (pp_receiver_index peer) ip (pt_receiver_indices rt))
      (\<lambda>_. pp_receiver_index)"
    by (rule indexes_insert [OF i(3) assms(2,3)])
  moreover have "length (hm_insert ip peer (pt_peers rt)) \<le> MAX_ACTIVE_PEERS"
    using assms(4) i(1) by (simp add: hm_length_insert)
  ultimately show ?thesis using i(1,4,5) assms(5) by (auto simp: p2p_inv_def split: if_splits)
qed

section \<open>Every operation keeps it\<close>

lemma draw_unused_unused: "draw_unused random used i = Some x \<Longrightarrow> hm_get used x = None"
  by (erule draw_unused.raw_induct [where P = "\<lambda>_ used _ x. hm_get used x = None", rotated])
    (auto simp: hm_contains_def split: if_splits)

lemma draw_unused_returns: "\<not> hm_contains used (random (i + k)) \<Longrightarrow> \<exists>x. draw_unused random used i = Some x"
  by (induction k arbitrary: i) (subst draw_unused.simps, simp)+

lemma p2p_remove_peer_fields [simp]:
  "pt_network_addr (p2p_remove_peer ip rt) = pt_network_addr rt"
  "pt_inbound (p2p_remove_peer ip rt) = pt_inbound rt"
  "pt_udp (p2p_remove_peer ip rt) = pt_udp rt"
  "hm_get (pt_peers (p2p_remove_peer ip rt)) = (hm_get (pt_peers rt))(ip := None)"
  by (auto simp: p2p_remove_peer_def split: option.split)

lemma offer_acceptable_address:
  "offer_acceptable P now na offer \<Longrightarrow> po_lease_id offer \<noteq> 0 \<and> peer_address na (po_peer_ip offer)"
  by (auto simp: offer_acceptable_def Let_def client_validate_eq split: if_splits)

text \<open>An accepted offer leaves one peer at the address, with the key, endpoint and lease of the offer.\<close>

lemma apply_offer_cases:
  assumes "apply_offer N P io random now offer rt = Some rt'" "p2p_inv P rt"
  obtains (ignored) "rt' = rt"
  | (accepted) a p peer where "parse_socket_v4 (po_peer_endpoint offer) = Some (a, p)"
      "offer_acceptable P now (pt_network_addr rt) offer" "p2p_inv P rt'"
      "hm_get (pt_peers rt') = (hm_get (pt_peers rt))(po_peer_ip offer \<mapsto> peer)"
      "pp_public_key peer = po_peer_public_key offer" "pp_endpoint peer = SocketV4 a p"
      "pp_lease_id peer = po_lease_id offer" "pp_expires_at_unix_ms peer = po_expires_at_unix_ms offer"
proof -
  let ?ip = "po_peer_ip offer"
  note A = assms(1) [unfolded apply_offer_def Let_def]
  consider "rt' = rt" | a p where "length (po_peer_public_key offer) = 32" "parse_socket_v4 (po_peer_endpoint offer) = Some (a, p)"
      "offer_acceptable P now (pt_network_addr rt) offer"
      "length (pt_peers rt) < MAX_ACTIVE_PEERS \<or> hm_contains (pt_peers rt) ?ip"
    using A by (auto split: option.splits if_splits)
  then show thesis
  proof cases
    case (2 a p)
    note ok = offer_acceptable_address [OF 2(3)]
    show thesis
    proof (cases "\<exists>peer. hm_get (pt_peers rt) ?ip = Some peer \<and> pp_public_key peer = po_peer_public_key offer")
      case True
      then obtain peer where peer: "hm_get (pt_peers rt) ?ip = Some peer" "pp_public_key peer = po_peer_public_key offer" by blast
      define peer' where "peer' = peer\<lparr>pp_endpoint := SocketV4 a p, pp_lease_id := po_lease_id offer,
          pp_expires_at_unix_ms := po_expires_at_unix_ms offer\<rparr>"
      have "rt' = rt\<lparr>pt_peers := hm_insert ?ip peer' (pt_peers rt)\<rparr>"
        using A 2 peer by (auto simp: peer'_def)
      moreover have "p2p_inv P (rt\<lparr>pt_peers := hm_insert ?ip peer' (pt_peers rt)\<rparr>)"
        using 2(1) peer(2) ok by (intro p2p_inv_update [OF assms(2) peer(1)]) (simp_all add: peer'_def p2p_peer_ok_def)
      ultimately show thesis using 2 peer by (intro accepted [of a p peer']) (simp_all add: peer'_def)
    next
      case False
      let ?rt = "p2p_remove_peer ?ip rt"
      have inv: "p2p_inv P ?rt" by (rule p2p_inv_remove [OF assms(2)])
      have "(case hm_get (pt_peers rt) ?ip of Some peer \<Rightarrow> if pp_public_key peer = po_peer_public_key offer then Some peer else None
          | None \<Rightarrow> None) = None" using False by (auto split: option.split)
      with A 2 obtain i h tn where d: "draw_unused random (pt_receiver_indices ?rt) 0 = Some i"
          "nz_handshake_initiation N (nz_new N (po_peer_public_key offer) i) = (h, tn)"
          and rt': "rt' = (let rt = ?rt\<lparr>pt_receiver_indices := hm_insert i ?ip (pt_receiver_indices ?rt), pt_peers := hm_insert ?ip
             \<lparr>pp_public_key = po_peer_public_key offer, pp_endpoint = SocketV4 a p, pp_receiver_index = i,
              pp_lease_id = po_lease_id offer, pp_expires_at_unix_ms = po_expires_at_unix_ms offer,
              pp_last_authenticated = None, pp_tunnel = tn\<rparr> (pt_peers ?rt)\<rparr>
            in case h of WriteToNetwork packet \<Rightarrow> p2p_send_datagram io packet (SocketV4 a p) rt | _ \<Rightarrow> rt)"
        by (auto simp: Let_def split: option.splits prod.splits)
      define peer where "peer = \<lparr>pp_public_key = po_peer_public_key offer, pp_endpoint = SocketV4 a p, pp_receiver_index = i,
              pp_lease_id = po_lease_id offer, pp_expires_at_unix_ms = po_expires_at_unix_ms offer,
              pp_last_authenticated = None, pp_tunnel = tn\<rparr>"
      define rt1 where "rt1 = ?rt\<lparr>pt_receiver_indices := hm_insert i ?ip (pt_receiver_indices ?rt),
          pt_peers := hm_insert ?ip peer (pt_peers ?rt)\<rparr>"
      have "length (pt_peers ?rt) < MAX_ACTIVE_PEERS"
        using 2(4) hm_length_remove [OF p2p_invD(1) [OF assms(2)], of ?ip] p2p_invD(2) [OF assms(2)]
        by (auto simp: p2p_remove_peer_def hm_contains_def split: option.splits)
      then have "p2p_inv P rt1"
        unfolding rt1_def using p2p_inv_insert [OF inv, of ?ip peer] draw_unused_unused [OF d(1)] 2(1) ok
        by (simp add: peer_def p2p_peer_ok_def)
      moreover have "rt' = (case h of WriteToNetwork packet \<Rightarrow> p2p_send_datagram io packet (SocketV4 a p) rt1 | _ \<Rightarrow> rt1)"
        unfolding rt' rt1_def peer_def Let_def ..
      ultimately show thesis using 2
        by (intro accepted [of a p peer]) (auto simp: peer_def rt1_def split: tunn_result.split)
    qed
  qed (rule ignored)
qed

lemma p2p_inv_control:
  assumes "apply_control N P io random now c rt = Some rt'" "p2p_inv P rt"
  shows "p2p_inv P rt'"
proof (cases c)
  case (Some x)
  show ?thesis
  proof (cases x)
    case (ControlOffer offer)
    with assms Some have "apply_offer N P io random now offer rt = Some rt'" by (simp add: apply_control_def)
    then show ?thesis using assms(2) by (cases rule: apply_offer_cases) (use assms(2) in auto)
  next
    case (ControlRevoke l)
    with assms Some show ?thesis by (auto simp: apply_control_def p2p_inv_remove split: option.splits)
  qed
qed (use assms in \<open>simp add: apply_control_def\<close>)

lemma classify_fields:
  assumes "classify N io packet source rt = (r, rt')"
  shows "pt_peers rt' = pt_peers rt" "pt_receiver_indices rt' = pt_receiver_indices rt"
    "pt_network_addr rt' = pt_network_addr rt" "pt_inbound rt' = pt_inbound rt"
  using assms by (auto simp: classify_def Let_def split: prod.splits sum.splits noise_packet.splits option.splits tunn_result.splits)

text \<open>What an operation hands to the virtual interface is wrapped in a header that names its peer.\<close>

lemma deliver_inner_Some:
  obtains b where "deliver_inner ip inner rt = rt\<lparr>pt_inbound := pt_inbound rt @ [(Turn, ip, \<lparr>buffer = b\<rparr>)]\<rparr>"
    "src_id \<lparr>buffer = b\<rparr> = ip" "dest_id \<lparr>buffer = b\<rparr> = na_ip (pt_network_addr rt)" "payload \<lparr>buffer = b\<rparr> = inner"
proof -
  let ?f = "\<lambda>packet. set_dest_id (na_ip (pt_network_addr rt)) (set_src_id ip (set_ttl 1 (set_msg_type WireGuardRelay packet)))"
  have "length (buffer (?f (zero_packet (length inner)))) = length (buffer (zero_packet (length inner)))"
    by (simp only: setter_length setter_frame zero_packet_ok)
  then obtain b where b: "fill_packet ?f inner = Some b"
      "header \<lparr>buffer = b\<rparr> = header (?f (zero_packet (length inner)))" "payload \<lparr>buffer = b\<rparr> = inner"
    by (rule fill_packet_Some [of ?f inner, OF dest.ok_set])
  then show thesis by (intro that) (simp_all add: deliver_inner_def Let_def packet_accessors setter_header header_defs)
qed

lemma p2p_inv_deliver:
  assumes "p2p_inv P rt" "client_validate_inner P inner ip (Some (na_ip (pt_network_addr rt))) (pt_network_addr rt) \<noteq> None"
  shows "p2p_inv P (deliver_inner ip inner rt)"
proof -
  obtain b where b: "deliver_inner ip inner rt = rt\<lparr>pt_inbound := pt_inbound rt @ [(Turn, ip, \<lparr>buffer = b\<rparr>)]\<rparr>"
    "src_id \<lparr>buffer = b\<rparr> = ip" "dest_id \<lparr>buffer = b\<rparr> = na_ip (pt_network_addr rt)" "payload \<lparr>buffer = b\<rparr> = inner"
    by (rule deliver_inner_Some)
  then have "inbound_ok P (pt_network_addr rt) (Turn, ip, \<lparr>buffer = b\<rparr>)"
    using assms(2) by (simp add: inbound_ok_def client_validate_eq split: if_splits)
  then show ?thesis using p2p_invD [OF assms(1)] by (simp add: b(1) p2p_inv_def)
qed

lemma p2p_inv_datagram:
  assumes "p2p_handle_datagram N P io instant packet source rt = Some rt'" "p2p_inv P rt"
  shows "p2p_inv P rt'"
proof -
  obtain r rt1 where c: "classify N io packet source rt = (r, rt1)" by fastforce
  note f = classify_fields [OF c]
  have inv: "p2p_inv P rt1" by (rule p2p_inv_cong [OF assms(2) f])
  note H = assms(1) [unfolded p2p_handle_datagram_def c prod.case]
  consider "rt' = rt1" | ip peer where "r = Some ip" "hm_get (pt_peers rt1) ip = Some peer"
    using H by (auto split: option.splits)
  then show ?thesis
  proof cases
    case (2 ip peer)
    obtain res tn where d: "nz_decapsulate N (Some (socket_ip source)) packet (pp_tunnel peer) = (res, tn)" by fastforce
    have ok: "p2p_peer_ok (pt_network_addr rt1) ip peer" by (rule p2p_invD(4) [OF inv 2(2)])
    have upd: "p2p_inv P (rt1\<lparr>pt_peers := hm_insert ip peer' (pt_peers rt1)\<rparr>)"
      if "pp_receiver_index peer' = pp_receiver_index peer" "pp_public_key peer' = pp_public_key peer"
        "pp_lease_id peer' = pp_lease_id peer" for peer'
      using that ok by (intro p2p_inv_update [OF inv 2(2)]) (simp_all add: p2p_peer_ok_def)
    note H' = H [unfolded 2(1) option.case 2(2) d prod.case]
    show ?thesis
    proof (cases "decapsulated P ip (pt_network_addr rt1) res")
      case None
      with H' show ?thesis by (auto intro!: upd)
    next
      case (Some x)
      obtain out inb where x: "x = (out, inb)" by fastforce
      with H' Some obtain out' tn' where dr: "drain N out tn = Some (out', tn')" by (auto split: option.splits)
      define rt2 where "rt2 = fold (\<lambda>response. p2p_send_datagram io response source) out' (rt1\<lparr>pt_peers := hm_insert ip
          (peer\<lparr>pp_endpoint := source, pp_last_authenticated := Some instant, pp_tunnel := tn'\<rparr>) (pt_peers rt1)\<rparr>)"
      have rt': "rt' = (case inb of Some inner \<Rightarrow> deliver_inner ip inner rt2 | None \<Rightarrow> rt2)"
        using H' [unfolded Some x option.case prod.case dr Let_def, folded rt2_def] by simp
      have i2: "p2p_inv P rt2" "pt_network_addr rt2 = pt_network_addr rt1"
        unfolding rt2_def using upd by simp_all
      have "client_validate_inner P inner ip (Some (na_ip (pt_network_addr rt1))) (pt_network_addr rt1) \<noteq> None"
        if "inb = Some inner" for inner
        using Some x that by (auto simp: decapsulated_def split: tunn_result.splits if_splits)
      then show ?thesis using i2 by (auto simp: rt' intro!: p2p_inv_deliver split: option.split)
    qed
  qed (use inv in simp)
qed

lemma p2p_inv_send_inner:
  assumes "send_inner N P io now instant d packet rt = (ok, rt')" "p2p_inv P rt"
  shows "p2p_inv P rt'"
proof -
  have upd: "p2p_inv P (rt\<lparr>pt_peers := hm_insert d (peer\<lparr>pp_tunnel := tn\<rparr>) (pt_peers rt)\<rparr>)"
    if "hm_get (pt_peers rt) d = Some peer" for peer tn
    using that p2p_invD(4) [OF assms(2) that] by (intro p2p_inv_update [OF assms(2) that]) (simp_all add: p2p_peer_ok_def)
  have udp: "p2p_inv P (rt1\<lparr>pt_udp := tr\<rparr>)" if "p2p_inv P rt1" for rt1 :: "('a, 'b) p2p_runtime" and tr
    using that by (rule p2p_inv_cong) simp_all
  show ?thesis using assms upd
    by (auto simp: send_inner_def Let_def udp_send_def intro!: udp split: option.splits if_splits prod.splits tunn_result.splits)
qed

lemma p2p_remove_peers:
  "p2p_inv P rt \<Longrightarrow> p2p_inv P (fold p2p_remove_peer ips rt)"
  "hm_get (pt_peers (fold p2p_remove_peer ips rt)) ip = (if ip \<in> set ips then None else hm_get (pt_peers rt) ip)"
  by (induction ips arbitrary: rt) (auto simp: p2p_inv_remove)

lemma p2p_update_timers_eq:
  assumes "p2p_inv P rt"
  shows "p2p_inv P (p2p_update_timers N io now rt)"
    "hm_get (pt_peers (p2p_update_timers N io now rt)) ip =
      (case hm_get (pt_peers rt) ip of
         Some peer \<Rightarrow> if pp_expires_at_unix_ms peer \<le> unix_ms now then None
                      else Some (peer\<lparr>pp_tunnel := snd (nz_update_timers N (pp_tunnel peer))\<rparr>)
       | None \<Rightarrow> None)"
proof -
  let ?ex = "map fst (filter (\<lambda>(_, peer). pp_expires_at_unix_ms peer \<le> unix_ms now) (pt_peers rt))"
  define rt1 where "rt1 = fold p2p_remove_peer ?ex rt"
  let ?g = "\<lambda>_ peer. peer\<lparr>pp_tunnel := snd (nz_update_timers N (pp_tunnel peer))\<rparr>"
  let ?ps = "map (\<lambda>(ip, peer). (ip, ?g ip peer)) (pt_peers rt1)"
  have inv: "p2p_inv P rt1" unfolding rt1_def by (rule p2p_remove_peers(1) [OF assms])
  note i = p2p_invD [OF inv]
  have "indexes ?ps (pt_receiver_indices rt1) (\<lambda>_. pp_receiver_index)"
    by (rule indexes_cong [OF i(3)]) (simp add: hm_get_map_values option.map_comp comp_def)
  then have inv2: "p2p_inv P (rt1\<lparr>pt_peers := ?ps\<rparr>)"
    using i(1,2,4,5) by (auto simp: p2p_inv_def hm_get_map_values p2p_peer_ok_def)
  have eq: "p2p_update_timers N io now rt = fold (\<lambda>d. p2p_send_datagram io (fst d) (snd d))
      (concat (map (\<lambda>(_, peer). timer_datagram (fst (nz_update_timers N (pp_tunnel peer))) (pp_endpoint peer)) (pt_peers rt1)))
      (rt1\<lparr>pt_peers := ?ps\<rparr>)"
    unfolding p2p_update_timers_def Let_def rt1_def [symmetric] by (simp only: case_prod_unfold)
  show "p2p_inv P (p2p_update_timers N io now rt)" unfolding eq using inv2 by simp
  have "ip \<in> set ?ex \<longleftrightarrow> (\<exists>peer. hm_get (pt_peers rt) ip = Some peer \<and> pp_expires_at_unix_ms peer \<le> unix_ms now)" for ip
    by (force simp: hm_mem_iff [OF p2p_invD(1) [OF assms], symmetric])
  then show "hm_get (pt_peers (p2p_update_timers N io now rt)) ip =
      (case hm_get (pt_peers rt) ip of
         Some peer \<Rightarrow> if pp_expires_at_unix_ms peer \<le> unix_ms now then None
                      else Some (peer\<lparr>pp_tunnel := snd (nz_update_timers N (pp_tunnel peer))\<rparr>)
       | None \<Rightarrow> None)"
    unfolding eq by (simp add: hm_get_map_values) (auto simp: rt1_def p2p_remove_peers(2) split: option.split)
qed

lemma p2p_network_addr:
  "apply_control N P io random now c rt = Some rt' \<Longrightarrow> pt_network_addr rt' = pt_network_addr rt"
  "p2p_handle_datagram N P io instant packet source rt = Some rt' \<Longrightarrow> pt_network_addr rt' = pt_network_addr rt"
  "send_inner N P io now instant d packet rt = (ok, rt') \<Longrightarrow> pt_network_addr rt' = pt_network_addr rt"
  "pt_network_addr (p2p_update_timers N io now rt) = pt_network_addr rt"
proof -
  show "apply_control N P io random now c rt = Some rt' \<Longrightarrow> pt_network_addr rt' = pt_network_addr rt"
    by (auto simp: apply_control_def apply_offer_def Let_def
        split: option.splits p2p_control.splits if_splits prod.splits tunn_result.splits)
  have dl: "pt_network_addr (deliver_inner ip inner r) = pt_network_addr r" for ip inner and r :: "('a, 'b) p2p_runtime"
    by (simp add: deliver_inner_def split: option.split)
  show "p2p_handle_datagram N P io instant packet source rt = Some rt' \<Longrightarrow> pt_network_addr rt' = pt_network_addr rt"
    by (auto simp: p2p_handle_datagram_def Let_def dl split: option.splits prod.splits dest: classify_fields(3))
  show "send_inner N P io now instant d packet rt = (ok, rt') \<Longrightarrow> pt_network_addr rt' = pt_network_addr rt"
    by (auto simp: send_inner_def Let_def udp_send_def split: option.splits if_splits prod.splits tunn_result.splits)
  have rm: "pt_network_addr (fold p2p_remove_peer ips r) = pt_network_addr r" for ips and r :: "('a, 'b) p2p_runtime"
    by (induction ips arbitrary: r) simp_all
  have sd: "pt_network_addr (fold (\<lambda>(d, a). p2p_send_datagram io d a) ds r) = pt_network_addr r" for ds and r :: "('a, 'b) p2p_runtime"
    by (induction ds arbitrary: r) auto
  show "pt_network_addr (p2p_update_timers N io now rt) = pt_network_addr rt"
    by (simp add: p2p_update_timers_def Let_def rm sd)
qed

section \<open>Runs\<close>

definition p2p_start :: "network_addr \<Rightarrow> 'r \<Rightarrow> ('t, 'r) p2p_runtime" where
  "p2p_start na limiter =
     \<lparr>pt_peers = [], pt_receiver_indices = [], pt_network_addr = na, pt_rate_limiter = limiter, pt_udp = [], pt_inbound = []\<rparr>"

text \<open>The events of the loop \<open>run\<close>.\<close>

inductive p2p_step :: "('t, 'r) noise \<Rightarrow> pnet \<Rightarrow> udp_io \<Rightarrow> ('t, 'r) p2p_runtime \<Rightarrow> ('t, 'r) p2p_runtime \<Rightarrow> bool"
  for N P io where
  control: "apply_control N P io random now c rt = Some rt' \<Longrightarrow> p2p_step N P io rt rt'"
| send: "send_inner N P io now instant d packet rt = (ok, rt') \<Longrightarrow> p2p_step N P io rt rt'"
| datagram: "p2p_handle_datagram N P io instant packet source rt = Some rt' \<Longrightarrow> p2p_step N P io rt rt'"
| timer: "p2p_step N P io rt (p2p_update_timers N io now rt)"

interpretation p2p: invariant_system "p2p_step N P io" "\<lambda>rt. p2p_inv P rt \<and> pt_network_addr rt = na" for N P io na
proof
  fix rt rt' assume "p2p_step N P io rt rt'" "p2p_inv P rt \<and> pt_network_addr rt = na"
  then show "p2p_inv P rt' \<and> pt_network_addr rt' = na"
    by cases (auto dest: p2p_inv_control p2p_inv_send_inner p2p_inv_datagram p2p_network_addr(1-3)
        simp: p2p_update_timers_eq(1) p2p_network_addr(4))
qed


text \<open>A concrete tunnel: every datagram decrypts to itself, sent from 10.26.0.2.\<close>

definition wit_noise :: "(unit, unit) noise" where
  "wit_noise =
     \<lparr>nz_new = (\<lambda>_ _. ()), nz_decapsulate = (\<lambda>src data t. (if src = None then TunnDone else WriteToTunnelV4 data (ip4 10 26 0 2), t)),
      nz_encapsulate = (\<lambda>data t. (WriteToNetwork data, t)), nz_update_timers = (\<lambda>t. (TunnDone, t)),
      nz_handshake_initiation = (\<lambda>t. (WriteToNetwork [1], t)), nz_verify_packet = (\<lambda>_ _ r. (Inr (PacketData 0x700), r)),
      nz_parse_handshake_anon = (\<lambda>_. None), nz_reset_count = (\<lambda>r. r)\<rparr>"

definition wit_offer :: p2p_offer where
  "wit_offer = \<lparr>po_lease_id = 9, po_expires_at_unix_ms = 60000, po_peer_ip = ip4 10 26 0 2,
     po_peer_public_key = replicate 32 42, po_peer_endpoint = socket_to_string (SocketV4 (ip4 198 51 100 8) 51820)\<rparr>"

definition wit_p2p_peer :: "unit p2p_peer" where
  "wit_p2p_peer = \<lparr>pp_public_key = replicate 32 42, pp_endpoint = SocketV4 (ip4 198 51 100 8) 51820, pp_receiver_index = 7,
     pp_lease_id = 9, pp_expires_at_unix_ms = 60000, pp_last_authenticated = None, pp_tunnel = ()\<rparr>"

definition wit_offered :: "(unit, unit) p2p_runtime" where
  "wit_offered = (p2p_start wit_na ())\<lparr>pt_peers := [(ip4 10 26 0 2, wit_p2p_peer)], pt_receiver_indices := [(7, ip4 10 26 0 2)],
     pt_udp := [([1], SocketV4 (ip4 198 51 100 8) 51820, True)]\<rparr>"

lemma wit_offer_accepted:
  "apply_offer wit_noise rfc_pnet (\<lambda>_ _ _. True) (\<lambda>_. 7) 0 wit_offer (p2p_start wit_na ()) = Some wit_offered"
proof -
  have "client_validate_inner rfc_pnet (synthetic_ipv4 (ip4 10 26 0 2) (na_ip wit_na)) (ip4 10 26 0 2) (Some (na_ip wit_na)) wit_na
      = Some wit_route"
    by (simp add: client_validate_eq peer_address_def synthetic_ipv4_def wit_na_def inner_ipv4_ok_def inner_route_def wit_route_def
        bridge_eval)
  then have "offer_acceptable rfc_pnet 0 wit_na wit_offer"
    by (simp add: offer_acceptable_def wit_offer_def unix_ms_def unix_millis_def saturating_sub_def MAX_LEASE_AHEAD_MS_def)
  moreover have "draw_unused (\<lambda>_. 7) [] 0 = Some 7" by (subst draw_unused.simps) (simp add: hm_contains_def)
  ultimately show ?thesis
    by (simp add: apply_offer_def Let_def parse_socket_to_string p2p_start_def wit_offered_def wit_p2p_peer_def wit_noise_def
        wit_offer_def MAX_ACTIVE_PEERS_def hm_contains_def p2p_remove_peer_def p2p_send_datagram_def udp_send_def hm_insert_def
        del: socket_to_string.simps)
qed


end
