(* ===== verification/P2p_Agent.thy ===== *)
theory P2p_Agent
  imports Client_P2p
begin

text \<open>
  The WireGuard agent (wireguard-agent/src/main.rs): a program on the machine of a WireGuard peer that asks
  the gateway for direct paths and installs them with the tool \<open>wg\<close>.

  The tool is a process outside the program: the argument \<open>wg\<close> gives the output of a command, None when it
  fails, seen the commands run so far; \<open>tr\<close> is the trace of these commands.  \<open>exchange\<close> is the answer of the
  gateway to a datagram.  Paths and names are strings.
\<close>

section \<open>Command line\<close>

record agent_config =
  cf_interface :: string
  cf_gateway :: ipv4
  cf_wg_path :: string
  cf_targets :: "ipv4 list"

datatype config_error =
    MissingValue string | InvalidGateway | InvalidTarget | UnknownArgument string | MissingInterface
  | MissingGateway | MissingTarget | GatewayIsTarget

text \<open>The accumulator of the loop over the arguments; \<open>Inl None\<close> is the exit of \<open>--help\<close>.\<close>

record agent_args =
  aa_interface :: "string option"
  aa_gateway :: "ipv4 option"
  aa_wg_path :: string
  aa_targets :: "ipv4 list"

fun parse_args :: "string list \<Rightarrow> agent_args \<Rightarrow> config_error option + agent_args" where
  "parse_args [] a = Inr a"
| "parse_args (arg # args) a =
     (if arg = ''--interface'' then
        (case args of [] \<Rightarrow> Inl (Some (MissingValue arg)) | v # args \<Rightarrow> parse_args args (a\<lparr>aa_interface := Some v\<rparr>))
      else if arg = ''--gateway'' then
        (case args of
           [] \<Rightarrow> Inl (Some (MissingValue arg))
         | v # args \<Rightarrow>
             (case ipv4_parse v of
                None \<Rightarrow> Inl (Some InvalidGateway)
              | Some g \<Rightarrow> parse_args args (a\<lparr>aa_gateway := Some g\<rparr>)))
      else if arg = ''--wg'' then
        (case args of [] \<Rightarrow> Inl (Some (MissingValue arg)) | v # args \<Rightarrow> parse_args args (a\<lparr>aa_wg_path := v\<rparr>))
      else if arg = ''--target'' then
        (case args of
           [] \<Rightarrow> Inl (Some (MissingValue arg))
         | v # args \<Rightarrow>
             (case ipv4_parse v of
                None \<Rightarrow> Inl (Some InvalidTarget)
              | Some t \<Rightarrow> parse_args args (a\<lparr>aa_targets := aa_targets a @ [t]\<rparr>)))
      else if arg = ''--help'' \<or> arg = ''-h'' then Inl None
      else Inl (Some (UnknownArgument arg)))"

definition config_parse :: "bool \<Rightarrow> string list \<Rightarrow> config_error option + agent_config" where
  "config_parse windows args =
     (case parse_args (drop 1 args)
             \<lparr>aa_interface = None, aa_gateway = None, aa_wg_path = (if windows then ''wg.exe'' else ''wg''), aa_targets = []\<rparr> of
        Inl e \<Rightarrow> Inl e
      | Inr a \<Rightarrow>
          (case aa_interface a of
             None \<Rightarrow> Inl (Some MissingInterface)
           | Some interface \<Rightarrow>
               (case aa_gateway a of
                  None \<Rightarrow> Inl (Some MissingGateway)
                | Some gateway \<Rightarrow>
                    if aa_targets a = [] then Inl (Some MissingTarget)
                    else let targets = remdups_adj (sort (aa_targets a)) in
                    if gateway \<in> set targets then Inl (Some GatewayIsTarget)
                    else Inr \<lparr>cf_interface = interface, cf_gateway = gateway, cf_wg_path = aa_wg_path a,
                              cf_targets = targets\<rparr>)))"

section \<open>The tool\<close>

definition probe_args :: "string \<Rightarrow> string \<Rightarrow> socket_addr \<Rightarrow> string list" where
  "probe_args interface public_key endpoint =
     [''set'', interface, ''peer'', public_key, ''endpoint'', socket_to_string endpoint, ''persistent-keepalive'', ''15'']"

definition activate_args :: "string \<Rightarrow> string \<Rightarrow> ipv4 \<Rightarrow> string list" where
  "activate_args interface public_key target =
     [''set'', interface, ''peer'', public_key, ''allowed-ips'', ipv4_to_string target @ ''/32'']"

definition remove_args :: "string \<Rightarrow> string \<Rightarrow> string list" where
  "remove_args interface public_key = [''set'', interface, ''peer'', public_key, ''remove'']"

definition show_args :: "string \<Rightarrow> string list" where
  "show_args interface = [''show'', interface, ''latest-handshakes'']"

type_synonym wg_event = "string list \<times> string option"
type_synonym wg_tool = "wg_event list \<Rightarrow> string list \<Rightarrow> string option"

definition wg_run :: "wg_tool \<Rightarrow> string list \<Rightarrow> wg_event list \<Rightarrow> string option \<times> wg_event list" where
  "wg_run wg args tr = (wg tr args, tr @ [(args, wg tr args)])"

text \<open>\<open>str::lines\<close>: the pieces between line feeds, without a final empty piece and without a carriage
  return at the end of a piece.\<close>

fun split_lines :: "string \<Rightarrow> string \<Rightarrow> string list" where
  "split_lines acc [] = (if acc = [] then [] else [rev acc])"
| "split_lines acc (c # s) =
     (if c = CHR 0x0A
      then rev (case acc of d # acc' \<Rightarrow> if d = CHR 0x0D then acc' else acc | [] \<Rightarrow> []) # split_lines [] s
      else split_lines (c # acc) s)"

definition str_lines :: "string \<Rightarrow> string list" where
  "str_lines s = split_lines [] s"

text \<open>\<open>split_whitespace\<close>.\<close>

function split_ws :: "string \<Rightarrow> string \<Rightarrow> string list" where
  "split_ws acc s =
     (case strip_ws s of
        Some t \<Rightarrow> (if acc = [] then [] else [rev acc]) @ split_ws [] t
      | None \<Rightarrow> (case s of [] \<Rightarrow> (if acc = [] then [] else [rev acc]) | c # t \<Rightarrow> split_ws (c # acc) t))"
  by pat_completeness auto
termination
  by (relation "measure (\<lambda>(_, s). length s)") (auto dest: strip_ws_length)

declare split_ws.simps [simp del]

text \<open>\<open>parse::<u64>\<close>: digits, an optional plus sign, no overflow.\<close>

definition parse_u64 :: "string \<Rightarrow> u64 option" where
  "parse_u64 s =
     (let ds = (case s of c # t \<Rightarrow> if c = CHR ''+'' then t else s | [] \<Rightarrow> [])
      in if ds \<noteq> [] \<and> list_all is_digit ds \<and> dec_val ds < 2 ^ 64 then Some (of_nat (dec_val ds)) else None)"

fun handshake_line :: "string \<Rightarrow> string list \<Rightarrow> u64 option" where
  "handshake_line public_key (k # t # _) = (if k = public_key then parse_u64 t else None)"
| "handshake_line public_key _ = None"

definition parse_latest_handshake :: "string \<Rightarrow> string \<Rightarrow> u64 option" where
  "parse_latest_handshake output public_key =
     foldr (\<lambda>line rest. case handshake_line public_key (split_ws [] line) of Some t \<Rightarrow> Some t | None \<Rightarrow> rest)
       (str_lines output) None"

definition latest_handshake :: "wg_tool \<Rightarrow> string \<Rightarrow> string \<Rightarrow> wg_event list \<Rightarrow> u64 option \<times> wg_event list" where
  "latest_handshake wg interface public_key tr =
     (case wg_run wg (show_args interface) tr of
        (None, tr) \<Rightarrow> (None, tr)
      | (Some output, tr) \<Rightarrow> (Some (case parse_latest_handshake output public_key of Some t \<Rightarrow> t | None \<Rightarrow> 0), tr))"

section \<open>Asking the gateway\<close>

record agent_lease =
  al_public_key :: bytes
  al_endpoint :: socket_addr
  al_lease_id :: u64
  al_expires_at_unix_ms :: u64

text \<open>The two errors of the endpoint (not an address, not IPv4) differ in their text only.\<close>

datatype response_error =
    ResponseNotDecoded | MismatchedResponse | TargetUnavailable "32 word" | InvalidTargetKey | InvalidTargetEndpoint
  | InvalidLeaseLifetime

definition validate_response ::
  "p2p_codec \<Rightarrow> system_time \<Rightarrow> bytes \<Rightarrow> u64 \<Rightarrow> ipv4 \<Rightarrow> response_error + agent_lease" where
  "validate_response C now data request_id target =
     (case pc_decode_response C data of
        None \<Rightarrow> Inl ResponseNotDecoded
      | Some response \<Rightarrow>
          if pr_request_id response \<noteq> request_id \<or> pr_target_ip response \<noteq> target then Inl MismatchedResponse
          else if pr_status response \<noteq> status_code P2pOk then Inl (TargetUnavailable (pr_status response))
          else if length (pr_target_public_key response) \<noteq> 32 then Inl InvalidTargetKey
          else (case parse_socket_v4 (pr_target_endpoint response) of
                  None \<Rightarrow> Inl InvalidTargetEndpoint
                | Some (a, p) \<Rightarrow>
                    let now = unix_ms now in
                    if pr_lease_id response = 0 \<or> pr_expires_at_unix_ms response \<le> now
                       \<or> saturating_sub (pr_expires_at_unix_ms response) now > MAX_LEASE_AHEAD_MS
                    then Inl InvalidLeaseLifetime
                    else Inr \<lparr>al_public_key = pr_target_public_key response, al_endpoint = SocketV4 a p,
                              al_lease_id = pr_lease_id response,
                              al_expires_at_unix_ms = pr_expires_at_unix_ms response\<rparr>))"

datatype agent_error = NetworkFailure | BadResponse response_error | WgFailure | HandshakeTimeout

definition discover ::
  "p2p_codec \<Rightarrow> (nat \<Rightarrow> u64) \<Rightarrow> (bytes \<Rightarrow> bytes option) \<Rightarrow> system_time \<Rightarrow> ipv4 \<Rightarrow> (agent_error + agent_lease) option" where
  "discover C random exchange now target =
     (case draw_nonzero random 0 of
        None \<Rightarrow> None
      | Some request_id \<Rightarrow>
          Some (case exchange (pc_encode_request C \<lparr>pq_target_ip = target, pq_request_id = request_id\<rparr>) of
                  None \<Rightarrow> Inl NetworkFailure
                | Some data \<Rightarrow>
                    (case validate_response C now (take 1024 data) request_id target of
                       Inl e \<Rightarrow> Inl (BadResponse e)
                     | Inr lease \<Rightarrow> Inr lease)))"

section \<open>One target\<close>

definition HANDSHAKE_TIMEOUT :: nat where
  "HANDSHAKE_TIMEOUT = 8000000000"

definition MAX_HANDSHAKE_AGE_SECS :: u64 where
  "MAX_HANDSHAKE_AGE_SECS = 180"

text \<open>The polling loop; \<open>clock i\<close> is the instant read in round \<open>i\<close>.\<close>

partial_function (option) poll_handshake ::
  "wg_tool \<Rightarrow> (nat \<Rightarrow> nat) \<Rightarrow> string \<Rightarrow> string \<Rightarrow> u64 \<Rightarrow> nat \<Rightarrow> nat \<Rightarrow> wg_event list \<Rightarrow>
   (bool option \<times> wg_event list) option" where
  "poll_handshake wg clock interface public_key started deadline i tr =
     (case latest_handshake wg interface public_key tr of
        (r, tr) \<Rightarrow> (case r of
             None \<Rightarrow> Some (None, tr)
           | Some t \<Rightarrow>
               if t \<ge> started then Some (Some True, tr)
               else if clock i \<ge> deadline then Some (Some False, tr)
               else poll_handshake wg clock interface public_key started deadline (i + 1) tr))"

definition unix_secs :: "system_time \<Rightarrow> u64" where
  "unix_secs now = of_nat (nat (max 0 now) div 1000000000)"

type_synonym managed = "(ipv4, string) hmap"

text \<open>The body of the loop up to its result: ask, configure the peer without a route, wait for a
  handshake, and only then route the target to the peer.  \<open>b64\<close> is the base64 text of a key, \<open>instant\<close> the
  start of the wait.  \<open>confirm_target\<close> is the part after the peer is configured.\<close>

definition confirm_target ::
  "wg_tool \<Rightarrow> (nat \<Rightarrow> nat) \<Rightarrow> nat \<Rightarrow> u64 \<Rightarrow> string \<Rightarrow> ipv4 \<Rightarrow> string \<Rightarrow> bool \<Rightarrow>
   managed \<times> wg_event list \<Rightarrow> ((agent_error + unit) \<times> managed \<times> wg_event list) option" where
  "confirm_target wg clock instant now interface target public_key same_peer s =
     (case s of (managed, tr) \<Rightarrow>
      case latest_handshake wg interface public_key tr of
        (None, tr) \<Rightarrow> Some (Inl WgFailure, managed, tr)
      | (Some latest, tr) \<Rightarrow>
          let still_fresh = (same_peer \<and> latest > 0 \<and> saturating_sub now latest \<le> MAX_HANDSHAKE_AGE_SECS) in
          (case (if still_fresh then Some (Some True, tr)
                 else poll_handshake wg clock interface public_key (saturating_sub now 1)
                        (instant + HANDSHAKE_TIMEOUT) 0 tr) of
             None \<Rightarrow> None
           | Some (None, tr) \<Rightarrow> Some (Inl WgFailure, managed, tr)
           | Some (Some False, tr) \<Rightarrow>
               (case wg_run wg (remove_args interface public_key) tr of
                  (None, tr) \<Rightarrow> Some (Inl WgFailure, managed, tr)
                | (Some _, tr) \<Rightarrow> Some (Inl HandshakeTimeout, hm_remove target managed, tr))
           | Some (Some True, tr) \<Rightarrow>
               (case wg_run wg (activate_args interface public_key target) tr of
                  (None, tr) \<Rightarrow> Some (Inl WgFailure, managed, tr)
                | (Some _, tr) \<Rightarrow> Some (Inr (), managed, tr))))"

definition install_target ::
  "wg_tool \<Rightarrow> (bytes \<Rightarrow> string) \<Rightarrow> (nat \<Rightarrow> nat) \<Rightarrow> nat \<Rightarrow> system_time \<Rightarrow> string \<Rightarrow> ipv4 \<Rightarrow> agent_error + agent_lease \<Rightarrow>
   managed \<times> wg_event list \<Rightarrow> ((agent_error + unit) \<times> managed \<times> wg_event list) option" where
  "install_target wg b64 clock instant now interface target found s =
     (case found of
        Inl e \<Rightarrow> Some (Inl e, s)
      | Inr lease \<Rightarrow>
          (case s of (managed, tr) \<Rightarrow>
           let public_key = b64 (al_public_key lease);
               previous = hm_get managed target;
               same_peer = (previous = Some public_key);
               tr = (case previous of
                       Some previous \<Rightarrow> if \<not> same_peer then snd (wg_run wg (remove_args interface previous) tr) else tr
                     | None \<Rightarrow> tr) in
           case wg_run wg (probe_args interface public_key (al_endpoint lease)) tr of
             (None, tr) \<Rightarrow> Some (Inl WgFailure, managed, tr)
           | (Some _, tr) \<Rightarrow>
               confirm_target wg clock instant (unix_secs now) interface target public_key same_peer
                 (hm_insert target public_key managed, tr)))"

text \<open>One round of \<open>run_target\<close>; the pauses between rounds have no effect.\<close>

definition run_target_once ::
  "wg_tool \<Rightarrow> (bytes \<Rightarrow> string) \<Rightarrow> (nat \<Rightarrow> nat) \<Rightarrow> nat \<Rightarrow> system_time \<Rightarrow> string \<Rightarrow> ipv4 \<Rightarrow> agent_error + agent_lease \<Rightarrow>
   managed \<times> wg_event list \<Rightarrow> ((agent_error + unit) \<times> managed \<times> wg_event list) option" where
  "run_target_once wg b64 clock instant now interface target found s =
     (case install_target wg b64 clock instant now interface target found s of
        None \<Rightarrow> None
      | Some (Inr u, s) \<Rightarrow> Some (Inr u, s)
      | Some (Inl e, managed, tr) \<Rightarrow>
          Some (Inl e, hm_remove target managed,
                case hm_get managed target of
                  Some public_key \<Rightarrow> snd (wg_run wg (remove_args interface public_key) tr)
                | None \<Rightarrow> tr))"

text \<open>The end of \<open>main\<close>: every managed peer is removed.\<close>

definition agent_shutdown :: "wg_tool \<Rightarrow> string \<Rightarrow> managed \<times> wg_event list \<Rightarrow> managed \<times> wg_event list" where
  "agent_shutdown wg interface s =
     (case s of (managed, tr) \<Rightarrow>
        ([], fold (\<lambda>peer tr. snd (wg_run wg (remove_args interface peer) tr)) (hm_values managed) tr))"

section \<open>A route needs a handshake\<close>

text \<open>The tool reported a handshake of the peer at or after a time.\<close>

definition handshake_seen :: "string \<Rightarrow> string \<Rightarrow> u64 \<Rightarrow> wg_event list \<Rightarrow> bool" where
  "handshake_seen interface k t0 evs \<longleftrightarrow>
     (\<exists>output. (show_args interface, Some output) \<in> set evs \<and>
        t0 \<le> (case parse_latest_handshake output k of Some t \<Rightarrow> t | None \<Rightarrow> 0))"

text \<open>The oldest handshake that keeps the route of a peer that is already managed.\<close>

definition fresh_since :: "u64 \<Rightarrow> u64" where
  "fresh_since now = max 1 (saturating_sub now MAX_HANDSHAKE_AGE_SECS)"

lemma fresh_since_le: "0 < t \<Longrightarrow> saturating_sub now t \<le> MAX_HANDSHAKE_AGE_SECS \<Longrightarrow> fresh_since now \<le> t"
  by (auto simp: fresh_since_def saturating_sub_def word_le_nat_alt word_less_nat_alt unat_sub_if' max_def split: if_splits)

lemma latest_handshake_event:
  assumes "latest_handshake wg interface k tr = (r, tr')"
  obtains out where "tr' = tr @ [(show_args interface, out)]"
    "\<forall>t t0. r = Some t \<and> t0 \<le> t \<longrightarrow> handshake_seen interface k t0 [(show_args interface, out)]"
  using assms that [of "wg tr (show_args interface)"]
  by (cases "wg tr (show_args interface)") (auto simp: latest_handshake_def wg_run_def handshake_seen_def)

lemma poll_handshake_events:
  assumes "poll_handshake wg clock interface k started deadline i tr = Some (r, tr')"
  shows "\<exists>evs. tr' = tr @ evs \<and> (\<forall>e \<in> set evs. fst e = show_args interface) \<and>
    (r = Some True \<longrightarrow> handshake_seen interface k started evs)"
  using assms
proof (induction wg clock interface k started deadline i tr "(r, tr')" arbitrary: r tr' rule: poll_handshake.raw_induct [rotated, consumes 1, case_names 1])
  case (1 poll wg clock interface k started deadline i tr)
  obtain l tr1 where l: "latest_handshake wg interface k tr = (l, tr1)" by fastforce
  obtain ot where o: "tr1 = tr @ [(show_args interface, ot)]"
      "\<forall>t t0. l = Some t \<and> t0 \<le> t \<longrightarrow> handshake_seen interface k t0 [(show_args interface, ot)]"
    by (rule latest_handshake_event [OF l])
  show ?case
  proof (cases "poll wg clock interface k started deadline (i + 1) tr1 = Some (r, tr')")
    case True
    from 1(1) [OF this] obtain evs where "tr' = tr1 @ evs" "\<forall>e \<in> set evs. fst e = show_args interface"
      "r = Some True \<longrightarrow> handshake_seen interface k started evs" by blast
    then show ?thesis using o(1)
      by (intro exI [of _ "(show_args interface, ot) # evs"]) (auto simp: handshake_seen_def)
  next
    case False
    with 1(2) l o show ?thesis
      by (intro exI [of _ "[(show_args interface, ot)]"]) (auto split: option.splits if_splits)
  qed
qed

lemma poll_handshake_returns:
  "deadline \<le> clock (i + n) \<Longrightarrow> \<exists>res. poll_handshake wg clock interface k started deadline i tr = Some res"
proof (induction n arbitrary: i tr)
  case 0
  then show ?case by (subst poll_handshake.simps) (auto split: option.split prod.split)
next
  case (Suc n)
  then have "deadline \<le> clock (i + 1 + n)" by simp
  note IH = Suc.IH [OF this]
  show ?case by (subst poll_handshake.simps) (use IH in \<open>auto split: option.split prod.split\<close>)
qed

lemma agent_args_distinct [simp]:
  "remove_args i k \<noteq> activate_args i' k' t" "probe_args i k e \<noteq> activate_args i' k' t" "show_args i \<noteq> activate_args i' k' t"
  "activate_args i' k' t \<noteq> remove_args i k" "activate_args i' k' t \<noteq> probe_args i k e" "activate_args i' k' t \<noteq> show_args i"
  "remove_args i k \<noteq> probe_args i' k' e" "show_args i \<noteq> probe_args i' k' e" "probe_args i' k' e \<noteq> remove_args i k"
  "probe_args i' k' e \<noteq> show_args i"
  by (simp_all add: remove_args_def activate_args_def probe_args_def show_args_def)

lemma agent_args_inject [simp]:
  "activate_args i k t = activate_args i k' t \<longleftrightarrow> k = k'" "probe_args i k e = probe_args i k' e' \<longrightarrow> k = k'"
  by (simp_all add: activate_args_def probe_args_def)

text \<open>What one round ran and what it leaves: a route only for a peer the tool saw a recent handshake of,
  and after a failure no peer that is managed and not removed.\<close>

definition round_ok ::
  "string \<Rightarrow> ipv4 \<Rightarrow> u64 \<Rightarrow> string option \<Rightarrow> string option \<Rightarrow> bool \<Rightarrow> wg_event list \<Rightarrow> bool" where
  "round_ok interface target now before after ok evs \<longleftrightarrow>
     (\<forall>k out. (activate_args interface k target, out) \<in> set evs \<longrightarrow>
        handshake_seen interface k (saturating_sub now 1) evs \<or>
        before = Some k \<and> handshake_seen interface k (fresh_since now) evs) \<and>
     (ok \<longrightarrow> (\<exists>k out. after = Some k \<and> (activate_args interface k target, Some out) \<in> set evs)) \<and>
     (\<not> ok \<longrightarrow> (\<forall>k out. (activate_args interface k target, Some out) \<notin> set evs) \<and>
        (\<forall>k. before = Some k \<or> (\<exists>e out. (probe_args interface k e, Some out) \<in> set evs) \<longrightarrow>
           after = Some k \<or> (\<exists>out. (remove_args interface k, out) \<in> set evs)))"

lemma handshake_seen_mono: "handshake_seen i k t evs \<Longrightarrow> set evs \<subseteq> set evs' \<Longrightarrow> handshake_seen i k t evs'"
  by (auto simp: handshake_seen_def)

lemma confirm_target_events:
  assumes "confirm_target wg clock instant now interface target k same (managed, tr) = Some (r, managed', tr')"
    and "hm_get managed target = Some k"
  shows "\<exists>evs. tr' = tr @ evs \<and> (\<forall>e c out. (probe_args interface e c, out) \<notin> set evs) \<and>
    (\<forall>k' out. (activate_args interface k' target, out) \<in> set evs \<longrightarrow> k' = k \<and>
       (handshake_seen interface k (saturating_sub now 1) evs \<or> same \<and> handshake_seen interface k (fresh_since now) evs)) \<and>
    (r = Inr () \<longrightarrow> hm_get managed' target = Some k \<and> (\<exists>out. (activate_args interface k target, Some out) \<in> set evs)) \<and>
    (r \<noteq> Inr () \<longrightarrow> (\<forall>k' out. (activate_args interface k' target, Some out) \<notin> set evs) \<and>
       (hm_get managed' target = Some k \<or> (\<exists>out. (remove_args interface k, out) \<in> set evs)))"
proof -
  obtain l tr3 where l: "latest_handshake wg interface k tr = (l, tr3)" by fastforce
  obtain out3 where o3: "tr3 = tr @ [(show_args interface, out3)]"
      "\<forall>t t0. l = Some t \<and> t0 \<le> t \<longrightarrow> handshake_seen interface k t0 [(show_args interface, out3)]"
    by (rule latest_handshake_event [OF l])
  note I = assms(1) [unfolded confirm_target_def prod.case l Let_def wg_run_def]
  show ?thesis
  proof (cases l)
    case None
    with I o3 assms(2) show ?thesis by (intro exI [of _ "[(show_args interface, out3)]"]) auto
  next
    case (Some t)
    define still where "still = (same \<and> 0 < t \<and> saturating_sub now t \<le> MAX_HANDSHAKE_AGE_SECS)"
    define p where "p = (if still then Some (Some True, tr3) else poll_handshake wg clock interface k
        (saturating_sub now 1) (instant + HANDSHAKE_TIMEOUT) 0 tr3)"
    note I' = I [unfolded Some option.case, folded still_def, folded p_def]
    then obtain res tr4 where p: "p = Some (res, tr4)" by (cases p) auto
    obtain evs where evs: "tr4 = tr3 @ evs" "\<forall>e \<in> set evs. fst e = show_args interface"
        "res = Some True \<longrightarrow> still \<or> handshake_seen interface k (saturating_sub now 1) evs"
      using p [unfolded p_def] poll_handshake_events [of wg clock interface k "saturating_sub now 1" "instant + HANDSHAKE_TIMEOUT" 0 tr3 res tr4]
      by (cases still) auto
    have no: "(activate_args interface k' target, out) \<notin> set evs" "(probe_args interface k' e, out) \<notin> set evs" for k' e out
      using evs(2) by auto
    have one: "still \<Longrightarrow> handshake_seen interface k (fresh_since now) [(show_args interface, out3)]"
      using Some o3(2) fresh_since_le by (auto simp: still_def)
    let ?ev = "(show_args interface, out3) # evs"
    have tr4: "tr4 = tr @ ?ev" using o3(1) evs(1) by simp
    note J = I' [unfolded p option.case prod.case]
    consider (fail) "res = None" | (late) "res = Some False" | (seen) "res = Some True" by (cases res) auto
    then show ?thesis
    proof cases
      case fail
      with J tr4 no assms(2) show ?thesis by (intro exI [of _ ?ev]) auto
    next
      case late
      let ?rm = "(remove_args interface k, wg tr4 (remove_args interface k))"
      have "tr' = tr @ (?ev @ [?rm])" "r \<noteq> Inr ()" using J late tr4 by (auto split: option.splits)
      then show ?thesis using no by (intro exI [of _ "?ev @ [?rm]"]) auto
    next
      case seen
      let ?ac = "(activate_args interface k target, wg tr4 (activate_args interface k target))"
      have tr': "tr' = tr @ (?ev @ [?ac])" and m: "managed' = managed"
        and r: "r = Inr () \<longleftrightarrow> (\<exists>out. wg tr4 (activate_args interface k target) = Some out)"
        using J seen tr4 by (auto split: option.splits)
      have "handshake_seen interface k (saturating_sub now 1) (?ev @ [?ac]) \<or> same \<and> handshake_seen interface k (fresh_since now) (?ev @ [?ac])"
        using evs(3) seen one by (auto simp: still_def intro: handshake_seen_mono)
      then show ?thesis using tr' m r no assms(2) by (intro exI [of _ "?ev @ [?ac]"]) auto
    qed
  qed
qed

lemma install_target_round:
  assumes "install_target wg b64 clock instant now interface target found (managed, tr) = Some (r, managed', tr')"
  shows "\<exists>evs. tr' = tr @ evs \<and>
    round_ok interface target (unix_secs now) (hm_get managed target) (hm_get managed' target) (r = Inr ()) evs"
proof (cases found)
  case (Inl e)
  with assms show ?thesis by (auto simp: install_target_def round_ok_def)
next
  case (Inr lease)
  let ?k = "b64 (al_public_key lease)" and ?old = "hm_get managed target"
  define e0 where "e0 = (case ?old of Some p \<Rightarrow> if ?old \<noteq> Some ?k then [(remove_args interface p, wg tr (remove_args interface p))] else []
      | None \<Rightarrow> [])"
  define pr where "pr = wg (tr @ e0) (probe_args interface ?k (al_endpoint lease))"
  let ?e1 = "(probe_args interface ?k (al_endpoint lease), pr)"
  have tr1: "(case ?old of Some previous \<Rightarrow> if ?old \<noteq> Some ?k then snd (wg_run wg (remove_args interface previous) tr) else tr
      | None \<Rightarrow> tr) = tr @ e0"
    by (auto simp: e0_def wg_run_def split: option.split)
  have old: "?old = Some p \<Longrightarrow> p \<noteq> ?k \<Longrightarrow> \<exists>out. (remove_args interface p, out) \<in> set e0" for p
    by (auto simp: e0_def)
  have e0: "(activate_args interface k target, out) \<notin> set e0" "(probe_args interface k e, out) \<notin> set e0" for k e out
    by (auto simp: e0_def split: option.splits if_splits)
  note I = assms [unfolded install_target_def Inr sum.case prod.case Let_def tr1, unfolded wg_run_def, folded pr_def]
  show ?thesis
  proof (cases pr)
    case None
    with I have "managed' = managed" "r = Inl WgFailure" "tr' = tr @ (e0 @ [?e1])" by auto
    then show ?thesis using e0 None by (intro exI [of _ "e0 @ [?e1]"]) (auto simp: round_ok_def)
  next
    case (Some x)
    have "confirm_target wg clock instant (unix_secs now) interface target ?k (?old = Some ?k)
        (hm_insert target ?k managed, tr @ e0 @ [?e1]) = Some (r, managed', tr')"
      using I Some by simp
    from confirm_target_events [OF this] obtain evs where
      c: "tr' = (tr @ e0 @ [?e1]) @ evs" "\<forall>k e out. (probe_args interface k e, out) \<notin> set evs"
        "\<forall>k out. (activate_args interface k target, out) \<in> set evs \<longrightarrow> k = ?k \<and>
           (handshake_seen interface ?k (saturating_sub (unix_secs now) 1) evs \<or> ?old = Some ?k \<and> handshake_seen interface ?k (fresh_since (unix_secs now)) evs)"
        "r = Inr () \<longrightarrow> hm_get managed' target = Some ?k \<and> (\<exists>out. (activate_args interface ?k target, Some out) \<in> set evs)"
        "r \<noteq> Inr () \<longrightarrow> (\<forall>k out. (activate_args interface k target, Some out) \<notin> set evs) \<and>
           (hm_get managed' target = Some ?k \<or> (\<exists>out. (remove_args interface ?k, out) \<in> set evs))"
      by auto
    let ?evs = "e0 @ ?e1 # evs"
    have sub: "handshake_seen interface k t evs \<Longrightarrow> handshake_seen interface k t ?evs" for k t
      by (erule handshake_seen_mono) auto
    have pk: "(probe_args interface k e, out) \<in> set ?evs \<Longrightarrow> k = ?k" for k e out
      using e0 c(2) agent_args_inject(2) by auto
    have "round_ok interface target (unix_secs now) ?old (hm_get managed' target) (r = Inr ()) ?evs"
      unfolding round_ok_def
    proof (intro conjI allI impI)
      fix k out assume "(activate_args interface k target, out) \<in> set ?evs"
      then have "(activate_args interface k target, out) \<in> set evs" using e0 by auto
      then show "handshake_seen interface k (saturating_sub (unix_secs now) 1) ?evs \<or>
          ?old = Some k \<and> handshake_seen interface k (fresh_since (unix_secs now)) ?evs" using c(3) sub by blast
    next
      fix k assume f: "\<not> r = Inr ()" "?old = Some k \<or> (\<exists>e out. (probe_args interface k e, Some out) \<in> set ?evs)"
      then have "?old = Some k \<or> k = ?k" using pk by blast
      then show "hm_get managed' target = Some k \<or> (\<exists>out. (remove_args interface k, out) \<in> set ?evs)"
        using c(5) f(1) old by (cases "k = ?k") auto
    qed (use c(4,5) e0 in auto)
    then show ?thesis using c(1) by (intro exI [of _ ?evs]) simp
  qed
qed

lemma install_target_returns:
  assumes "instant + HANDSHAKE_TIMEOUT \<le> clock n"
  shows "\<exists>r managed' tr'. install_target wg b64 clock instant now interface target found s = Some (r, managed', tr')"
proof -
  have "\<exists>res. poll_handshake wg clock interface k started (instant + HANDSHAKE_TIMEOUT) 0 tr = Some res" for k started tr
    using poll_handshake_returns [of "instant + HANDSHAKE_TIMEOUT" clock 0 n] assms by simp
  then have p: "poll_handshake wg clock interface k started (instant + HANDSHAKE_TIMEOUT) 0 tr = None \<longleftrightarrow> False" for k started tr
    by (metis option.distinct(1))
  have "confirm_target wg clock instant t interface target k same s \<noteq> None" for t k same s
    by (auto simp: p confirm_target_def Let_def split: prod.splits option.splits if_splits bool.splits)
  then have "install_target wg b64 clock instant now interface target found s \<noteq> None"
    by (auto simp: install_target_def Let_def split: prod.splits option.splits sum.splits)
  then show ?thesis by (metis option.exhaust surj_pair)
qed

lemma confirm_target_frame:
  "confirm_target wg clock instant now interface target k same (managed, tr) = Some (r, managed', tr') \<Longrightarrow>
   managed' = managed \<or> managed' = hm_remove target managed"
  by (auto simp: confirm_target_def Let_def split: prod.splits option.splits if_splits bool.splits)

lemma install_target_frame:
  "install_target wg b64 clock instant now interface target found (managed, tr) = Some (r, managed', tr') \<Longrightarrow>
   target' \<noteq> target \<Longrightarrow> hm_get managed' target' = hm_get managed target'"
  by (auto simp: install_target_def Let_def dest!: confirm_target_frame split: sum.splits prod.splits option.splits)

text \<open>C12.  A round of the agent for one target ends once the clock passes the deadline of the handshake
  wait, and what it asks of the \<open>wg\<close> tool is guarded.  The target is routed to a peer only when, in this round,
  the tool reported a handshake of that very peer no older than the start of the wait, or no older than
  three minutes for a peer that already carried the route.  After a success the target is managed under the
  routed peer.  After a failure nothing was routed, the target is no longer managed, and every peer
  that was managed for it or configured in the round was told to be removed.  Other targets are not touched.\<close>

theorem agent_route_guarded:
  assumes "instant + HANDSHAKE_TIMEOUT \<le> clock n"
  shows "\<exists>r managed' evs.
    run_target_once wg b64 clock instant now interface target found (managed, tr) = Some (r, managed', tr @ evs) \<and>
    (\<forall>k out. (activate_args interface k target, out) \<in> set evs \<longrightarrow>
       handshake_seen interface k (saturating_sub (unix_secs now) 1) evs \<or>
       hm_get managed target = Some k \<and> handshake_seen interface k (fresh_since (unix_secs now)) evs) \<and>
    (r = Inr () \<longrightarrow> (\<exists>k out. hm_get managed' target = Some k \<and> (activate_args interface k target, Some out) \<in> set evs)) \<and>
    (r \<noteq> Inr () \<longrightarrow> hm_get managed' target = None \<and> (\<forall>k out. (activate_args interface k target, Some out) \<notin> set evs) \<and>
       (\<forall>k. hm_get managed target = Some k \<or> (\<exists>e out. (probe_args interface k e, Some out) \<in> set evs) \<longrightarrow>
          (\<exists>out. (remove_args interface k, out) \<in> set evs))) \<and>
    (\<forall>target'. target' \<noteq> target \<longrightarrow> hm_get managed' target' = hm_get managed target')"
proof -
  obtain r m tr1 where i: "install_target wg b64 clock instant now interface target found (managed, tr) = Some (r, m, tr1)"
    using install_target_returns [where clock=clock and n=n, OF assms] by blast
  obtain evs where evs: "tr1 = tr @ evs"
      "round_ok interface target (unix_secs now) (hm_get managed target) (hm_get m target) (r = Inr ()) evs"
    using install_target_round [OF i] by blast
  note frame = install_target_frame [OF i]
  show ?thesis
  proof (cases r)
    case (Inr u)
    then have "run_target_once wg b64 clock instant now interface target found (managed, tr) = Some (Inr (), m, tr @ evs)"
      using i evs(1) by (simp add: run_target_once_def)
    moreover have "r = Inr ()" using Inr by simp
    ultimately show ?thesis using evs(2) [unfolded round_ok_def] frame by blast
  next
    case (Inl e)
    define rm where "rm = (case hm_get m target of
        Some k \<Rightarrow> [(remove_args interface k, wg tr1 (remove_args interface k))] | None \<Rightarrow> [])"
    have run: "run_target_once wg b64 clock instant now interface target found (managed, tr) =
        Some (Inl e, hm_remove target m, tr @ (evs @ rm))"
      using i Inl evs(1) by (auto simp: run_target_once_def wg_run_def rm_def split: option.split)
    have rm: "(activate_args interface k target, out) \<notin> set rm" "(probe_args interface k ep, out) \<notin> set rm"
      "hm_get m target = Some k \<Longrightarrow> \<exists>out. (remove_args interface k, out) \<in> set rm" for k ep out
      by (auto simp: rm_def split: option.splits)
    have mono: "handshake_seen interface k t evs \<Longrightarrow> handshake_seen interface k t (evs @ rm)" for k t
      by (erule handshake_seen_mono) simp
    have f: "(activate_args interface k target, Some out) \<notin> set evs"
      "hm_get managed target = Some k \<or> (\<exists>ep out. (probe_args interface k ep, Some out) \<in> set evs) \<Longrightarrow>
         hm_get m target = Some k \<or> (\<exists>out. (remove_args interface k, out) \<in> set evs)" for k out
      using evs(2) Inl unfolding round_ok_def by blast+
    have act: "(activate_args interface k target, out) \<in> set evs \<Longrightarrow>
         handshake_seen interface k (saturating_sub (unix_secs now) 1) (evs @ rm) \<or>
         hm_get managed target = Some k \<and> handshake_seen interface k (fresh_since (unix_secs now)) (evs @ rm)" for k out
      using evs(2) mono unfolding round_ok_def by blast
    have gone: "\<exists>out. (remove_args interface k, out) \<in> set (evs @ rm)"
      if "hm_get managed target = Some k \<or> (\<exists>ep out. (probe_args interface k ep, Some out) \<in> set (evs @ rm))" for k
      using f(2) [of k] rm(2,3) that by auto
    show ?thesis
      by (rule exI [of _ "Inl e"], rule exI [of _ "hm_remove target m"], rule exI [of _ "evs @ rm"],
          intro conjI allI impI, rule run) (use act gone f(1) rm(1) frame in auto)
  qed
qed

text \<open>Witness: the tool never reports a handshake, so a round for a fresh lease fails and removes the peer.\<close>

theorem agent_route_guarded_witness:
  "0 + HANDSHAKE_TIMEOUT \<le> 1 * 8000000000 \<and>
   (\<exists>r managed' evs.
      run_target_once (\<lambda>_ _. Some []) (\<lambda>_. ''key'') (\<lambda>i. i * 8000000000) 0 1000000000000 ''wg0'' 5
        (Inr \<lparr> al_public_key = replicate 32 0, al_endpoint = SocketV4 7 51820, al_lease_id = 1, al_expires_at_unix_ms = 0 \<rparr>)
        ([(5, ''old''), (6, ''other'')], []) =
      Some (r, managed', evs) \<and> hm_get managed' 6 = Some ''other'')"
proof -
  have h: "0 + HANDSHAKE_TIMEOUT \<le> 1 * 8000000000" by (simp add: HANDSHAKE_TIMEOUT_def)
  have o: "hm_get [(5 :: ipv4, ''old''), (6, ''other'')] 6 = Some ''other''" "(6 :: ipv4) \<noteq> 5" by (simp_all add: hm_get_def)
  show ?thesis
    using agent_route_guarded [of 0 "\<lambda>i. i * 8000000000" 1 "\<lambda>_ _. Some []" "\<lambda>_. ''key''" 1000000000000 "''wg0''" 5
      "Inr \<lparr> al_public_key = replicate 32 0, al_endpoint = SocketV4 7 51820, al_lease_id = 1, al_expires_at_unix_ms = 0 \<rparr>"
      "[(5, ''old''), (6, ''other'')]" "[]", OF h] h o unfolding append_Nil by metis
qed

end
