(* ===== verification/P2p_Path.thy ===== *)
theory P2p_Path
  imports P2p_Agent
begin

text \<open>
  The set up of a direct path, across the three programs that take part: the server answers the request
  of an agent and offers the lease to the device (\<open>Wireguard_P2p\<close>), the agent validates the answer
  (\<open>P2p_Agent\<close>), and the device takes the offer from its connection to the server and holds the peer
  (\<open>Client_P2p\<close>).  The branch of \<open>ServerTurnInboundHandler\<close> of the client that receives the offer
  (\<open>tunnel_core/server/inbound.rs\<close>) is modelled here.
\<close>

section \<open>The offer at the device\<close>

text \<open>The error stands for a message that does not decode.\<close>

definition inbound_p2p_control ::
  "p2p_codec \<Rightarrow> bool \<Rightarrow> network_addr \<Rightarrow> net_packet \<Rightarrow> unit + p2p_control option option" where
  "inbound_p2p_control C allow_wire_guard na packet =
     (if \<not> allow_wire_guard \<or> \<not> is_gateway packet \<or> ttl packet = 0 \<or> src_id packet \<noteq> na_gateway na
         \<or> dest_id packet \<noteq> na_ip na
      then Inr None
      else case pc_decode_control C (payload packet) of
             None \<Rightarrow> Inl ()
           | Some control \<Rightarrow> Inr (Some control))"

lemma synthetic_ipv4_fields:
  assumes "ipv4_layout P"
  shows "inner_ipv4_ok P (synthetic_ipv4 s d)" "ipv4_source P (synthetic_ipv4 s d) = s" "ipv4_destination P (synthetic_ipv4 s d) = d"
proof -
  let ?b = "synthetic_ipv4 s d"
  have l: "length ?b = 20" by (simp add: synthetic_ipv4_def)
  note I = ipv4_get [OF assms, of ?b, unfolded l, simplified]
  have "?b ! 12 = u32_be s ! 0" "?b ! 13 = u32_be s ! 1" "?b ! 14 = u32_be s ! 2" "?b ! 15 = u32_be s ! 3"
    "?b ! 16 = u32_be d ! 0" "?b ! 17 = u32_be d ! 1" "?b ! 18 = u32_be d ! 2" "?b ! 19 = u32_be d ! 3"
    by (simp_all add: synthetic_ipv4_def u16_be_def u32_be_def)
  then show "ipv4_source P ?b = s" "ipv4_destination P ?b = d" using u32_of_be_nth unfolding I by simp_all
  have "?b ! 0 = 0x45" "?b ! 2 = 0" "?b ! 3 = 20" by (simp_all add: synthetic_ipv4_def u16_be_def)
  then have "ipv4_version P ?b = 4" "ipv4_header_length P ?b = 5" "ipv4_total_length P ?b = 20"
    using I(2-4) by (simp_all add: u16_of_be_def)
  then show "inner_ipv4_ok P ?b" using I(1) l by (simp add: inner_ipv4_ok_def)
qed

text \<open>When a device holds an offer.\<close>

lemma apply_offer_accepts:
  assumes "ipv4_layout P" "length (po_peer_public_key offer) = 32"
    and "po_peer_endpoint offer = socket_to_string (SocketV4 a p)" "po_lease_id offer \<noteq> 0"
    and "unix_ms now < po_expires_at_unix_ms offer" "po_expires_at_unix_ms offer - unix_ms now \<le> MAX_LEASE_AHEAD_MS"
    and "pt_network_addr rt = na" "peer_address na (po_peer_ip offer)" "peer_address na (na_ip na)" "na_ip na \<noteq> ipv4_BROADCAST"
    and "length (pt_peers rt) < MAX_ACTIVE_PEERS" "hm_get (pt_receiver_indices rt) (random k) = None"
  obtains rt' peer where "apply_offer N P io random now offer rt = Some rt'" "hm_get (pt_peers rt') (po_peer_ip offer) = Some peer"
    "pp_public_key peer = po_peer_public_key offer" "pp_endpoint peer = SocketV4 a p"
    "pp_lease_id peer = po_lease_id offer" "pp_expires_at_unix_ms peer = po_expires_at_unix_ms offer"
proof -
  let ?ip = "po_peer_ip offer"
  have acc: "offer_acceptable P now na offer"
    using assms(4-6,8-10) synthetic_ipv4_fields [OF assms(1)]
    by (auto simp: offer_acceptable_def Let_def client_validate_eq saturating_sub_def)
  have "hm_get (pt_receiver_indices (p2p_remove_peer ?ip rt)) (random k) = None"
    using assms(12) by (simp add: p2p_remove_peer_def split: option.split)
  then obtain i where i: "draw_unused random (pt_receiver_indices (p2p_remove_peer ?ip rt)) 0 = Some i"
    using draw_unused_returns [of "pt_receiver_indices (p2p_remove_peer ?ip rt)" random 0 k] by (auto simp: hm_contains_def)
  obtain h t where ht: "nz_handshake_initiation N (nz_new N (po_peer_public_key offer) i) = (h, t)" by fastforce
  have cap: "\<not> MAX_ACTIVE_PEERS \<le> length (pt_peers rt)" using assms(11) by simp
  note A = apply_offer_def Let_def assms(2,3,7) cap parse_socket_to_string acc
  show thesis
  proof (cases "\<exists>peer. hm_get (pt_peers rt) ?ip = Some peer \<and> pp_public_key peer = po_peer_public_key offer")
    case True
    then obtain peer where peer: "hm_get (pt_peers rt) ?ip = Some peer" "pp_public_key peer = po_peer_public_key offer" by blast
    let ?peer = "peer\<lparr>pp_endpoint := SocketV4 a p, pp_lease_id := po_lease_id offer,
        pp_expires_at_unix_ms := po_expires_at_unix_ms offer\<rparr>"
    have "apply_offer N P io random now offer rt = Some (rt\<lparr>pt_peers := hm_insert ?ip ?peer (pt_peers rt)\<rparr>)"
      by (simp add: A peer del: socket_to_string.simps)
    then show thesis by (rule that [where peer = ?peer]) (simp_all add: peer)
  next
    case False
    then have "(case hm_get (pt_peers rt) ?ip of
        Some peer \<Rightarrow> if pp_public_key peer = po_peer_public_key offer then Some peer else None | None \<Rightarrow> None) = None"
      by (auto split: option.split)
    note none = this
    let ?peer = "\<lparr>pp_public_key = po_peer_public_key offer, pp_endpoint = SocketV4 a p, pp_receiver_index = i,
        pp_lease_id = po_lease_id offer, pp_expires_at_unix_ms = po_expires_at_unix_ms offer,
        pp_last_authenticated = None, pp_tunnel = t\<rparr>"
    define rt1 where "rt1 = (let rt = p2p_remove_peer ?ip rt in
        rt\<lparr>pt_receiver_indices := hm_insert i ?ip (pt_receiver_indices rt), pt_peers := hm_insert ?ip ?peer (pt_peers rt)\<rparr>)"
    have ok: "apply_offer N P io random now offer rt =
        Some (case h of WriteToNetwork packet \<Rightarrow> p2p_send_datagram io packet (SocketV4 a p) rt1 | _ \<Rightarrow> rt1)"
      unfolding rt1_def Let_def by (simp add: A none i ht del: socket_to_string.simps)
    have "pt_peers (case h of WriteToNetwork packet \<Rightarrow> p2p_send_datagram io packet (SocketV4 a p) rt1 | _ \<Rightarrow> rt1) = pt_peers rt1"
      by (cases h) simp_all
    then show thesis by (intro that [OF ok, where peer = ?peer]) (simp_all add: rt1_def Let_def)
  qed
qed

section \<open>The three programs agree\<close>

text \<open>C10. A granted request sets up one and the same path on both sides.  The agent, reading the answer
  while the lease runs, accepts it with the key and endpoint the device registered; the one packet the server sent to
  the device is an offer that the device accepts from its server and, if it has room, holds under the
  address, key and endpoint of the agent.  Both sides have the same nonzero lease id and the same expiry.\<close>

theorem p2p_lease_agreement:
  assumes "p2p_codec_ok C" "ipv4_layout P"
    and "resolve_agent_request mp C random now pip pk (SocketV4 a p) rq s = Some (res, s')" "ra_granted res = Some g"
    and "get_wireguard_p2p_endpoint (ac_target_ip rq) s = Some target" "wp_endpoint target = SocketV4 a' p'"
    and "length pk = 32" "length (wp_public_key target) = 32"
    and "unix_ms t1 < p2p_expiry now" "p2p_expiry now - unix_ms t1 \<le> MAX_LEASE_AHEAD_MS"
    and "unix_ms t2 < p2p_expiry now" "p2p_expiry now - unix_ms t2 \<le> MAX_LEASE_AHEAD_MS"
    and "na_ip na = ac_target_ip rq" "na_gateway na = ns_gateway s"
    and "peer_address na pip" "peer_address na (na_ip na)" "na_ip na \<noteq> ipv4_BROADCAST"
    and "pt_network_addr rt = na" "length (pt_peers rt) < MAX_ACTIVE_PEERS" "hm_get (pt_receiver_indices rt) (rnd k) = None"
  shows "gl_lease_id g \<noteq> 0 \<and>
    validate_response C t1 (ra_response res) (ac_request_id rq) (ac_target_ip rq) =
      Inr \<lparr>al_public_key = wp_public_key target, al_endpoint = wp_endpoint target, al_lease_id = gl_lease_id g,
           al_expires_at_unix_ms = p2p_expiry now\<rparr> \<and>
    (\<exists>sd b control rt' peer.
       hm_get (sender_map s) (ac_target_ip rq) = Some sd \<and>
       sent s' = sent s @ [(sender_channel sd, sender_message sd b, SendOk)] \<and>
       inbound_p2p_control C True na \<lparr>buffer = b\<rparr> = Inr (Some control) \<and>
       apply_control N P io rnd t2 control rt = Some rt' \<and> hm_get (pt_peers rt') pip = Some peer \<and>
       pp_public_key peer = pk \<and> pp_endpoint peer = SocketV4 a p \<and> pp_lease_id peer = gl_lease_id g \<and>
       pp_expires_at_unix_ms peer = p2p_expiry now)"
  using assms(3)
proof (cases rule: resolve_agent_request_cases)
  case refused
  with assms(4) show ?thesis by simp
next
  case (granted target' l b sd)
  have l: "l \<noteq> 0" "gl_lease_id g = l" "target' = target"
    using granted(1,5,8) assms(4,5) by (auto dest: draw_nonzero_nonzero)
  have C: "pc_decode_response C (pc_encode_response C r) = Some r" "pc_decode_control C (pc_encode_control C c) = Some c" for r c
    using assms(1) by (simp_all add: p2p_codec_ok_def)
  have "validate_response C t1 (ra_response res) (ac_request_id rq) (ac_target_ip rq) =
      Inr \<lparr>al_public_key = wp_public_key target, al_endpoint = wp_endpoint target, al_lease_id = gl_lease_id g,
           al_expires_at_unix_ms = p2p_expiry now\<rparr>"
    using assms(6,8-10) l unfolding granted(9) not_less [symmetric]
    by (simp add: validate_response_def C empty_response_def parse_socket_to_string saturating_sub_def Let_def not_le
        del: socket_to_string.simps)
  moreover define offer where "offer = \<lparr>po_lease_id = l, po_expires_at_unix_ms = p2p_expiry now, po_peer_ip = pip,
      po_peer_public_key = pk, po_peer_endpoint = socket_to_string (SocketV4 a p)\<rparr>"
  then have o: "p2p_offer_to l (p2p_expiry now) pip pk (SocketV4 a p) = ControlOffer offer"
      "po_peer_public_key offer = pk" "po_peer_endpoint offer = socket_to_string (SocketV4 a p)" "po_lease_id offer = l"
      "po_expires_at_unix_ms offer = p2p_expiry now" "po_peer_ip offer = pip"
    by (simp_all add: p2p_offer_to_def del: socket_to_string.simps)
  moreover have "inbound_p2p_control C True na \<lparr>buffer = b\<rparr> = Inr (Some (Some (ControlOffer offer)))"
  proof -
    obtain b' where b': "p2p_control_packet (ns_gateway s) (ac_target_ip rq) (pc_encode_control C (Some (ControlOffer offer))) = Some b'"
        "is_gateway \<lparr>buffer = b'\<rparr>" "ttl \<lparr>buffer = b'\<rparr> = 1" "src_id \<lparr>buffer = b'\<rparr> = ns_gateway s"
        "dest_id \<lparr>buffer = b'\<rparr> = ac_target_ip rq" "payload \<lparr>buffer = b'\<rparr> = pc_encode_control C (Some (ControlOffer offer))"
      by (rule p2p_control_packet_Some)
    then have "b' = b" using granted(7) o(1) by simp
    then show ?thesis using b' C(2) assms(13,14) by (simp add: inbound_p2p_control_def)
  qed
  moreover obtain rt' peer where "apply_offer N P io rnd t2 offer rt = Some rt'" "hm_get (pt_peers rt') pip = Some peer"
      "pp_public_key peer = pk" "pp_endpoint peer = SocketV4 a p" "pp_lease_id peer = l" "pp_expires_at_unix_ms peer = p2p_expiry now"
    by (rule apply_offer_accepts [of P offer a p t2 rt na rnd k N io, unfolded o(2-6)])
      (use assms l o in \<open>simp_all del: socket_to_string.simps\<close>)
  ultimately show ?thesis using l granted(6,10)
    by (intro conjI, simp, simp) (intro exI conjI, assumption, simp, assumption, simp add: apply_control_def, assumption+, simp_all)
qed

section \<open>A concrete path\<close>

text \<open>A self delimiting codec of the three messages, standing for the generated one.\<close>

primrec enc_bytes :: "bytes \<Rightarrow> bytes" where
  "enc_bytes [] = [0]"
| "enc_bytes (b # bs) = 1 # b # enc_bytes bs"

fun dec_bytes :: "bytes \<Rightarrow> bytes \<times> bytes" where
  "dec_bytes (t # b # bs) = (if t = 0 then ([], b # bs) else case dec_bytes bs of (x, r) \<Rightarrow> (b # x, r))"
| "dec_bytes bs = ([], [])"

lemma dec_enc_bytes [simp]: "dec_bytes (enc_bytes b @ r) = (b, r)"
  by (induction b) (cases r; simp)+

definition enc_word :: "'a :: len word \<Rightarrow> bytes" where
  "enc_word w = enc_bytes (replicate (unat w) 0)"

definition dec_word :: "bytes \<Rightarrow> 'a :: len word \<times> bytes" where
  "dec_word b = (case dec_bytes b of (x, r) \<Rightarrow> (of_nat (length x), r))"

lemma dec_enc_word [simp]: "dec_word (enc_word w @ r) = (w, r)"
  by (simp add: dec_word_def enc_word_def)

definition enc_text :: "string \<Rightarrow> bytes" where
  "enc_text s = enc_bytes (map (\<lambda>c. of_nat (of_char c)) s)"

definition dec_text :: "bytes \<Rightarrow> string \<times> bytes" where
  "dec_text b = (case dec_bytes b of (x, r) \<Rightarrow> (map (\<lambda>b. char_of (unat b)) x, r))"

lemma dec_enc_text [simp]: "dec_text (enc_text s @ r) = (s, r)"
proof -
  have "char_of (unat (of_nat (of_char c) :: u8)) = c" for c
    using nat_of_char_less_256 [of c] by (simp add: unat_of_nat)
  then show ?thesis by (simp add: dec_text_def enc_text_def comp_def)
qed

definition wit_p2p_codec :: p2p_codec where
  "wit_p2p_codec =
     \<lparr>pc_encode_request = (\<lambda>m. enc_word (pq_target_ip m) @ enc_word (pq_request_id m) @ []),
      pc_decode_request = (\<lambda>b. case dec_word b of (t, b) \<Rightarrow> case dec_word b of (i, b) \<Rightarrow>
        Some \<lparr>pq_target_ip = t, pq_request_id = i\<rparr>),
      pc_encode_response = (\<lambda>m. enc_word (pr_request_id m) @ enc_word (pr_status m) @ enc_word (pr_target_ip m) @
        enc_bytes (pr_target_public_key m) @ enc_text (pr_target_endpoint m) @ enc_word (pr_lease_id m) @
        enc_word (pr_expires_at_unix_ms m) @ []),
      pc_decode_response = (\<lambda>b. case dec_word b of (i, b) \<Rightarrow> case dec_word b of (s, b) \<Rightarrow> case dec_word b of (t, b) \<Rightarrow>
        case dec_bytes b of (k, b) \<Rightarrow> case dec_text b of (e, b) \<Rightarrow> case dec_word b of (l, b) \<Rightarrow> case dec_word b of (x, b) \<Rightarrow>
        Some \<lparr>pr_request_id = i, pr_status = s, pr_target_ip = t, pr_target_public_key = k, pr_target_endpoint = e,
              pr_lease_id = l, pr_expires_at_unix_ms = x\<rparr>),
      pc_encode_control = (\<lambda>m. case m of
          None \<Rightarrow> []
        | Some (ControlRevoke l) \<Rightarrow> 1 # enc_word l @ []
        | Some (ControlOffer m) \<Rightarrow> 2 # enc_word (po_lease_id m) @ enc_word (po_expires_at_unix_ms m) @ enc_word (po_peer_ip m) @
            enc_bytes (po_peer_public_key m) @ enc_text (po_peer_endpoint m) @ []),
      pc_decode_control = (\<lambda>b. Some (case b of
          [] \<Rightarrow> None
        | t # b \<Rightarrow> Some (if t = 1 then ControlRevoke (fst (dec_word b))
            else case dec_word b of (l, b) \<Rightarrow> case dec_word b of (x, b) \<Rightarrow> case dec_word b of (i, b) \<Rightarrow>
              case dec_bytes b of (k, b) \<Rightarrow> case dec_text b of (e, b) \<Rightarrow>
              ControlOffer \<lparr>po_lease_id = l, po_expires_at_unix_ms = x, po_peer_ip = i, po_peer_public_key = k,
                            po_peer_endpoint = e\<rparr>)))\<rparr>"

lemma wit_p2p_codec_ok: "p2p_codec_ok wit_p2p_codec"
  unfolding p2p_codec_ok_def
proof (intro conjI allI)
  show "pc_decode_request wit_p2p_codec (pc_encode_request wit_p2p_codec m) = Some m" for m
    unfolding wit_p2p_codec_def p2p_codec.simps by (simp del: append_Nil2)
  show "pc_decode_response wit_p2p_codec (pc_encode_response wit_p2p_codec m) = Some m" for m
    unfolding wit_p2p_codec_def p2p_codec.simps by (simp del: append_Nil2)
  show "pc_decode_control wit_p2p_codec (pc_encode_control wit_p2p_codec m) = Some m" for m
    unfolding wit_p2p_codec_def p2p_codec.simps by (simp del: append_Nil2 split: option.split p2p_control.split)
qed

text \<open>Witness: the device 10.26.0.3 is online with a direct endpoint, the agent 10.26.0.2 asks for it.\<close>

definition wit_target :: wireguard_p2p_endpoint where
  "wit_target = \<lparr>wp_public_key = replicate 32 7, wp_endpoint = SocketV4 (ip4 203 0 113 9) 51820\<rparr>"

definition wit_path_ns :: network_state where
  "wit_path_ns = wit_ns\<lparr>ns_net := cidr (ip4 10 26 0 0) 24, ns_gateway := ip4 10 26 0 1,
     online_endpoints := [(ip4 10 26 0 3, EpVnt 1 True 0 True (Some wit_target))],
     sender_map := [(ip4 10 26 0 3, SenderVnt 4)]\<rparr>"

definition wit_agent_request :: agent_control_request where
  "wit_agent_request = \<lparr>ac_source_port = 40000, ac_target_ip = ip4 10 26 0 3, ac_request_id = 5\<rparr>"

lemma wit_path_granted:
  "\<exists>res s'. resolve_agent_request all_ok wit_p2p_codec (\<lambda>_. 9) 0 (ip4 10 26 0 2) (replicate 32 42)
     (SocketV4 (ip4 198 51 100 8) 51820) wit_agent_request wit_path_ns = Some (res, s') \<and>
   ra_granted res = Some \<lparr>gl_target_ip = ip4 10 26 0 3, gl_lease_id = 9\<rparr>"
proof -
  let ?c = "pc_encode_control wit_p2p_codec (Some (ControlOffer \<lparr>po_lease_id = 9, po_expires_at_unix_ms = p2p_expiry 0,
      po_peer_ip = ip4 10 26 0 2, po_peer_public_key = replicate 32 42,
      po_peer_endpoint = socket_to_string (SocketV4 (ip4 198 51 100 8) 51820)\<rparr>))"
  obtain b where b: "p2p_control_packet (ip4 10 26 0 1) (ip4 10 26 0 3) ?c = Some b" "new_packet b = Inr \<lparr>buffer = b\<rparr>"
      "packet_msg_type \<lparr>buffer = b\<rparr> = Inr WireGuardP2pControl"
    by (rule p2p_control_packet_Some)
  have a: "ac_target_ip wit_agent_request = ip4 10 26 0 3" by (simp add: wit_agent_request_def)
  have d: "draw_nonzero (\<lambda>_. 9) 0 = Some 9" by (subst draw_nonzero.simps) simp
  have e: "get_wireguard_p2p_endpoint (ip4 10 26 0 3) wit_path_ns = Some wit_target"
    by (simp add: get_wireguard_p2p_endpoint_def wit_path_ns_def hm_get_def)
  have g: "ns_gateway wit_path_ns = ip4 10 26 0 1" "ns_net wit_path_ns = cidr (ip4 10 26 0 0) 24"
    "net_contains (cidr (ip4 10 26 0 0) 24) (ip4 10 26 0 3)" "ip4 10 26 0 3 \<noteq> ip4 10 26 0 2" "ip4 10 26 0 3 \<noteq> ip4 10 26 0 1"
    by (simp_all add: wit_path_ns_def witness_eval)
  have "\<exists>s'. try_deliver all_ok (ip4 10 26 0 3) b FromWireGuard wit_path_ns = (Delivered, s')"
    using b(2,3)
    by (simp add: try_deliver_def wit_path_ns_def hm_get_def delivery_allowed_def sender_try_send_def all_ok_def Let_def split: unit.split)
  then obtain s' where t: "try_deliver all_ok (ip4 10 26 0 3) b FromWireGuard wit_path_ns = (Delivered, s')" ..
  show ?thesis
    by (simp add: resolve_agent_request_def Let_def a g e d b(1) t resolution_def del: socket_to_string.simps One_nat_def)
qed

theorem p2p_lease_agreement_witness:
  "\<exists>res s' control rt' peer.
     resolve_agent_request all_ok wit_p2p_codec (\<lambda>_. 9) 0 (ip4 10 26 0 2) (replicate 32 42)
       (SocketV4 (ip4 198 51 100 8) 51820) wit_agent_request wit_path_ns = Some (res, s') \<and>
     validate_response wit_p2p_codec 0 (ra_response res) 5 (ip4 10 26 0 3) =
       Inr \<lparr>al_public_key = replicate 32 7, al_endpoint = SocketV4 (ip4 203 0 113 9) 51820, al_lease_id = 9,
            al_expires_at_unix_ms = p2p_expiry 0\<rparr> \<and>
     apply_control wit_noise rfc_pnet (\<lambda>_ _ _. True) (\<lambda>_. 7) 0 control (p2p_start wit_na ()) = Some rt' \<and>
     hm_get (pt_peers rt') (ip4 10 26 0 2) = Some peer \<and> pp_public_key peer = replicate 32 42 \<and> pp_lease_id peer = 9"
proof -
  obtain res s' where r: "resolve_agent_request all_ok wit_p2p_codec (\<lambda>_. 9) 0 (ip4 10 26 0 2) (replicate 32 42)
      (SocketV4 (ip4 198 51 100 8) 51820) wit_agent_request wit_path_ns = Some (res, s')"
      "ra_granted res = Some \<lparr>gl_target_ip = ip4 10 26 0 3, gl_lease_id = 9\<rparr>"
    using wit_path_granted by blast
  have L: "ipv4_layout rfc_pnet" using rfc_pnet_layout by (simp add: pnet_layout_def)
  have t: "ac_target_ip wit_agent_request = ip4 10 26 0 3" "ac_request_id wit_agent_request = 5"
    "wp_endpoint wit_target = SocketV4 (ip4 203 0 113 9) 51820" "wp_public_key wit_target = replicate 32 7"
    by (simp_all add: wit_agent_request_def wit_target_def)
  have e: "get_wireguard_p2p_endpoint (ip4 10 26 0 3) wit_path_ns = Some wit_target"
    by (simp add: get_wireguard_p2p_endpoint_def wit_path_ns_def hm_get_def)
  have x: "unix_ms 0 < p2p_expiry 0" "p2p_expiry 0 - unix_ms 0 \<le> MAX_LEASE_AHEAD_MS"
    by (simp_all add: unix_ms_def unix_millis_def p2p_expiry_def LEASE_DURATION_MS_def MAX_LEASE_AHEAD_MS_def)
  have n: "na_ip wit_na = ip4 10 26 0 3" "na_gateway wit_na = ns_gateway wit_path_ns" "peer_address wit_na (ip4 10 26 0 2)"
    "peer_address wit_na (ip4 10 26 0 3)" "ip4 10 26 0 3 \<noteq> ipv4_BROADCAST"
    by (simp_all add: wit_na_def wit_path_ns_def peer_address_def witness_eval is_multicast_def ipv4_BROADCAST_def)
  have st: "pt_network_addr (p2p_start wit_na ()) = wit_na" "length (pt_peers (p2p_start wit_na ())) < MAX_ACTIVE_PEERS"
    "hm_get (pt_receiver_indices (p2p_start wit_na ())) ((\<lambda>_. 7) 0) = None"
    by (simp_all add: p2p_start_def MAX_ACTIVE_PEERS_def)
  from p2p_lease_agreement [where rnd = "\<lambda>_. 7" and k = 0 and N = wit_noise and io = "\<lambda>_ _ _. True", OF wit_p2p_codec_ok L r e [folded t(1)] t(3) _ _ x x n(1) [folded t(1)] n(2,3) _ _ st]
  show ?thesis using r(1) n by (auto simp: t)
qed

end
