(* ===== verification/Control_Service.thy ===== *)
theory Control_Service
  imports Network_Peers Peer_Leases Packet_Build
begin

text \<open>
  The control service (src/server/control_server/service.rs): it owns the configuration of the networks, the
  live state of each network (NetworkStateProvider) and the link to other servers, and offers
  registration, delivery, maintenance and the operations of the console.

  A session refers to its NetworkState by an \<open>Arc\<close>; here it is the entry of the provider under the
  network code of the session, since the service drops an entry only when the network has no member.
  The manager of peer servers shares the provider: it is \<open>pm_networks\<close> of \<open>cs_pm\<close>, and \<open>cs_linked\<close> says whether a
  manager is set.  Results of database calls are arguments and writes are kept in \<open>cs_db_writes\<close>.
  Durations and instants are in nanoseconds.
\<close>

section \<open>State\<close>

datatype network_source = SourceConfig | SourceManual | SourceDeviceRegister

record network_config =
  nf_net :: ipv4_net
  nf_lease_duration :: nat
  nf_source :: network_source

record network_record =
  nr_network_code :: string
  nr_gateway :: string
  nr_netmask :: u8
  nr_lease_duration :: i64
  nr_source :: network_source
  nr_created_at :: i64

datatype db_write =
    SaveNetwork network_record | UpdateNetwork string string u8 i64 | DeleteNetwork string
  | SaveDevice device_record | DeleteDevice string string | ReleaseDeviceIp string string

record control_service =
  cs_default_net :: ipv4_net
  cs_default_lease_duration :: nat
  cs_db_nets :: "(string, network_config) hmap"
  cs_pm :: peer_manager
  cs_linked :: bool
  cs_cluster_db :: cluster_db
  cs_db_writes :: "db_write list"

datatype service_error =
    ServiceRequest Control_Message.message_error | ServiceLease peer_lease_error | ServiceAllocation lease_error
  | ServicePeer peer_error | ServiceDb string | NetworkExists | NetworkMissing | NetworkOccupied
  | InvalidNetwork | DeviceIsOnline | PeerNotFound

definition cs_networks :: "control_service \<Rightarrow> network_states" where
  "cs_networks cs = pm_networks (cs_pm cs)"

definition set_networks :: "network_states \<Rightarrow> control_service \<Rightarrow> control_service" where
  "set_networks ns cs = cs\<lparr>cs_pm := (cs_pm cs)\<lparr>pm_networks := ns\<rparr>\<rparr>"

definition put_state :: "string \<Rightarrow> network_state \<Rightarrow> control_service \<Rightarrow> control_service" where
  "put_state network_code s cs = set_networks (hm_insert network_code s (cs_networks cs)) cs"

definition add_write :: "db_write \<Rightarrow> control_service \<Rightarrow> control_service" where
  "add_write w cs = cs\<lparr>cs_db_writes := cs_db_writes cs @ [w]\<rparr>"

definition as_secs :: "nat \<Rightarrow> u64" where
  "as_secs duration = of_nat (duration div 1000000000)"

definition u64_be :: "u64 \<Rightarrow> bytes" where
  "u64_be x = u32_be (ucast (drop_bit 32 x)) @ u32_be (ucast x)"

section \<open>Networks\<close>

text \<open>The result is None where \<open>new_assert\<close> panics; \<open>mk_net\<close> is \<open>Ipv4Net::new\<close>.\<close>

definition service_network_config ::
  "(ipv4 \<Rightarrow> u8 \<Rightarrow> ipv4_net option) \<Rightarrow> string \<Rightarrow> ipv4 option \<Rightarrow> control_service \<Rightarrow> network_config option" where
  "service_network_config mk_net network_code ip cs =
     (case hm_get (cs_db_nets cs) network_code of
        Some config \<Rightarrow> Some config
      | None \<Rightarrow>
          (case (case ip of
                   Some ip \<Rightarrow> (case mk_net ip 24 of None \<Rightarrow> None | Some n \<Rightarrow> mk_net (net_network n) 24)
                 | None \<Rightarrow> Some (cs_default_net cs)) of
             None \<Rightarrow> None
           | Some net \<Rightarrow> Some \<lparr>nf_net = net, nf_lease_duration = cs_default_lease_duration cs,
                                nf_source = SourceDeviceRegister\<rparr>))"

record db_load =
  dl_instant :: nat
  dl_now :: system_time
  dl_devices :: "device_record list option"
  dl_allocations :: "(ipv4 \<times> string) list option"

definition get_or_create_network_state ::
  "db_load \<Rightarrow> string \<Rightarrow> network_config \<Rightarrow> control_service \<Rightarrow> network_state \<times> control_service" where
  "get_or_create_network_state d network_code config cs =
     (let s = (case hm_get (cs_networks cs) network_code of
                 Some existing \<Rightarrow> update_time (dl_instant d) existing
               | None \<Rightarrow> new_from_db (dl_instant d) network_code (nf_net config) (nf_lease_duration config) (dl_now d)
                           (dl_devices d) (dl_allocations d))
      in (s, put_state network_code s cs))"

definition wireguard_network_state ::
  "db_load \<Rightarrow> string \<Rightarrow> control_service \<Rightarrow> (service_error + network_state) \<times> control_service" where
  "wireguard_network_state d network_code cs =
     (case hm_get (cs_db_nets cs) network_code of
        None \<Rightarrow> (Inl NetworkMissing, cs)
      | Some config \<Rightarrow>
          (case get_or_create_network_state d network_code config cs of (s, cs) \<Rightarrow> (Inr s, cs)))"

section \<open>Registration\<close>

datatype registration_status = Confirmed | PendingConfirmation

text \<open>The renewal task of a cluster lease and what it shares with the session.\<close>

record lease_task =
  lt_expires_at :: int
  lt_valid :: bool
  lt_running :: bool

record session =
  ss_network_code :: string
  ss_device_id :: string
  ss_ip :: ipv4
  ss_random_id :: u64
  ss_registration_status :: registration_status
  ss_allow_wire_guard :: bool
  ss_client_capabilities :: u64
  ss_cluster_lease :: "lease_task option"

definition cluster_lease_valid :: "session \<Rightarrow> bool" where
  "cluster_lease_valid session = (case ss_cluster_lease session of None \<Rightarrow> True | Some t \<Rightarrow> lt_valid t)"

definition renew_lease :: "int \<Rightarrow> peer_lease_error + cluster_lease_grant option \<Rightarrow> lease_task \<Rightarrow> lease_task" where
  "renew_lease now result t =
     (if \<not> lt_running t then t
      else case result of
             Inr (Some renewed) \<Rightarrow> t\<lparr>lt_expires_at := lg_expires_at renewed, lt_valid := True\<rparr>
           | Inr None \<Rightarrow> t\<lparr>lt_running := False\<rparr>
           | Inl _ \<Rightarrow> if now \<ge> lt_expires_at t then t\<lparr>lt_valid := False, lt_running := False\<rparr> else t)"

text \<open>What a registration reads from outside: clocks, database, the reply of the lease authority, what other
  tasks do while it is awaited, and a random number.\<close>

record register_io =
  rg_load :: db_load
  rg_unix :: int
  rg_dbf :: "string option"
  rg_reply :: "server_lease_acquire_response reply"
  rg_env :: "peer_manager \<Rightarrow> peer_manager"
  rg_request_id :: string
  rg_random_id :: u64

definition service_acquire_lease ::
  "peer_ctx \<Rightarrow> register_io \<Rightarrow> string \<Rightarrow> string \<Rightarrow> string \<Rightarrow> ipv4 option \<Rightarrow> network_config \<Rightarrow> ipv4 \<Rightarrow> bool \<Rightarrow> control_service \<Rightarrow>
   (peer_lease_error + cluster_lease_grant option) \<times> control_service" where
  "service_acquire_lease cx io network_code owner_type owner_id requested_ip config gateway static cs =
     (if \<not> cs_linked cs then (Inr None, cs)
      else case acquire_lease cx (rg_unix io) (rg_dbf io) (rg_reply io) (rg_env io) (rg_request_id io) network_code
                  owner_type owner_id requested_ip (nf_net config) gateway (as_secs (nf_lease_duration config)) static
                  (cs_pm cs, cs_cluster_db cs) of
             (r, m, db) \<Rightarrow> (r, cs\<lparr>cs_pm := m, cs_cluster_db := db\<rparr>))"

definition registered_p2p :: "socket_addr \<Rightarrow> reg_request_msg \<Rightarrow> wireguard_p2p_endpoint option" where
  "registered_p2p remote_addr reg_req =
     (case rq_wireguard_p2p reg_req of
        None \<Rightarrow> None
      | Some registration \<Rightarrow>
          (case remote_addr of
             SocketV4 a _ \<Rightarrow> Some \<lparr>wp_public_key = p2p_public_key registration, wp_endpoint = SocketV4 a (p2p_port registration)\<rparr>
           | _ \<Rightarrow> None))"

definition new_network_record :: "string \<Rightarrow> network_config \<Rightarrow> system_time \<Rightarrow> network_record" where
  "new_network_record network_code config now =
     \<lparr>nr_network_code = network_code, nr_gateway = ipv4_to_string (net_network (nf_net config) + 1),
      nr_netmask = net_prefix_len (nf_net config), nr_lease_duration = as_secs (nf_lease_duration config),
      nr_source = SourceDeviceRegister, nr_created_at = system_time_to_i64 now\<rparr>"

text \<open>From the allocation to the session: the part of \<open>register\<close> after the last await.\<close>

definition open_session ::
  "register_io \<Rightarrow> reg_request_msg \<Rightarrow> nat \<Rightarrow> wireguard_p2p_endpoint option \<Rightarrow> cluster_lease_grant option \<Rightarrow> network_state \<Rightarrow>
   control_service \<Rightarrow> (service_error + session \<times> device_entry option) \<times> control_service" where
  "open_session io reg_req sender p2p grant s cs =
     (let reg_req = (case grant of Some g \<Rightarrow> reg_req\<lparr>rq_ip := Some (lg_ip g), rq_ip_variable := False\<rparr> | None \<Rightarrow> reg_req);
          network_code = rq_network_code reg_req
      in case allocate_ip_and_get_entry reg_req (rg_random_id io) sender p2p (dl_now (rg_load io)) s of
           (Inl e, s) \<Rightarrow> (Inl (ServiceAllocation e), put_state network_code s cs)
         | (Inr (ip, old_ip, entry), s) \<Rightarrow>
             (Inr (\<lparr>ss_network_code = network_code, ss_device_id = rq_device_id reg_req, ss_ip = ip,
                    ss_random_id = rg_random_id io,
                    ss_registration_status =
                      (case rq_registration_mode reg_req of Normal \<Rightarrow> Confirmed | PreRegister \<Rightarrow> PendingConfirmation),
                    ss_allow_wire_guard = rq_allow_wire_guard reg_req,
                    ss_client_capabilities = rq_client_capabilities reg_req,
                    ss_cluster_lease = (case grant of
                        Some g \<Rightarrow> if cs_linked cs then Some \<lparr>lt_expires_at = lg_expires_at g, lt_valid = True, lt_running = True\<rparr>
                                  else None
                      | None \<Rightarrow> None)\<rparr>, entry),
              put_state network_code s cs))"

text \<open>None: a panic of \<open>new_assert\<close>, or other tasks have dropped the network during the await.\<close>

definition register ::
  "peer_ctx \<Rightarrow> register_io \<Rightarrow> reg_request_msg \<Rightarrow> nat \<Rightarrow> socket_addr \<Rightarrow> control_service \<Rightarrow>
   ((service_error + session) \<times> control_service) option" where
  "register cx io reg_req sender remote_addr cs =
     (case reg_request_check reg_req of
        Inl e \<Rightarrow> Some (Inl (ServiceRequest e), cs)
      | Inr _ \<Rightarrow>
          let network_code = rq_network_code reg_req;
              is_new_network = \<not> hm_contains (cs_db_nets cs) network_code in
          (case service_network_config (cx_net cx) network_code (rq_ip reg_req) cs of
             None \<Rightarrow> None
           | Some config \<Rightarrow>
               let cs = (if is_new_network then cs\<lparr>cs_db_nets := hm_insert network_code config (cs_db_nets cs)\<rparr> else cs) in
               (case get_or_create_network_state (rg_load io) network_code config cs of (s, cs) \<Rightarrow>
                case service_acquire_lease cx io network_code ''vnt_device'' (rq_device_id reg_req)
                       (if rq_ip_variable reg_req then None else rq_ip reg_req) config (ns_gateway s) False cs of
                  (Inl e, cs) \<Rightarrow> Some (Inl (ServiceLease e), cs)
                | (Inr grant, cs) \<Rightarrow>
                    (case hm_get (cs_networks cs) network_code of
                       None \<Rightarrow> None
                     | Some s \<Rightarrow>
                         (case open_session io reg_req sender (registered_p2p remote_addr reg_req) grant s cs of
                            (Inl e, cs) \<Rightarrow> Some (Inl e, cs)
                          | (Inr (session, entry), cs) \<Rightarrow>
                              let cs = (if is_new_network
                                        then add_write (SaveNetwork (new_network_record network_code config (dl_now (rg_load io)))) cs
                                        else cs);
                                  cs = (if rq_registration_mode reg_req = Normal
                                        then case entry of
                                               Some entry \<Rightarrow>
                                                 (case hm_get (cs_networks cs) network_code of
                                                    Some s \<Rightarrow> add_write (SaveDevice (to_record (ns_lease s) network_code entry)) cs
                                                  | None \<Rightarrow> cs)
                                             | None \<Rightarrow> cs
                                        else cs)
                              in Some (Inr session, cs))))))"

text \<open>\<open>Drop for Session\<close>: a confirmed session goes offline, a pending one gives its address back.\<close>

definition drop_session :: "system_time \<Rightarrow> session \<Rightarrow> control_service \<Rightarrow> control_service" where
  "drop_session now session cs =
     (case hm_get (cs_networks cs) (ss_network_code session) of
        None \<Rightarrow> cs
      | Some s \<Rightarrow>
          (case ss_registration_status session of
             Confirmed \<Rightarrow>
               (case offline_ip (ss_device_id session) (ss_ip session) (ss_random_id session) now s of
                  (record, s) \<Rightarrow>
                    let cs = put_state (ss_network_code session) s cs
                    in case record of Some r \<Rightarrow> add_write (SaveDevice r) cs | None \<Rightarrow> cs)
           | PendingConfirmation \<Rightarrow>
               put_state (ss_network_code session)
                 (release_pre_registered_ip (ss_device_id session) (ss_ip session) (ss_random_id session) s) cs))"

section \<open>Maintenance\<close>

definition RELEASE_TIMEOUT :: nat where
  "RELEASE_TIMEOUT = 3600000000000"

definition release_one :: "nat \<Rightarrow> string \<Rightarrow> control_service \<Rightarrow> control_service" where
  "release_one now network_code cs =
     (case hm_get (cs_networks cs) network_code of
        None \<Rightarrow> cs
      | Some state \<Rightarrow>
          if \<not> network_is_empty state then cs
          else if now < ns_time state + RELEASE_TIMEOUT then cs
          else set_networks (hm_remove network_code (cs_networks cs)) cs)"

definition release_network :: "nat \<Rightarrow> control_service \<Rightarrow> control_service" where
  "release_network now cs =
     fold (release_one now) (map fst (filter (\<lambda>(_, state). ns_time state + RELEASE_TIMEOUT < now) (cs_networks cs))) cs"

definition release_expired_ips :: "system_time \<Rightarrow> string \<Rightarrow> control_service \<Rightarrow> control_service" where
  "release_expired_ips now network_code cs =
     (case hm_get (cs_networks cs) network_code of
        None \<Rightarrow> cs
      | Some state \<Rightarrow>
          let expired_devices = collect_expired_devices now state in
          if expired_devices = [] then cs
          else fold (\<lambda>device_id. add_write (ReleaseDeviceIp network_code device_id)) expired_devices
                 (put_state network_code (remove_devices expired_devices state) cs))"

definition ping_packet :: "u64 \<Rightarrow> bytes option" where
  "ping_packet timestamp =
     fill_packet (\<lambda>packet.
       let packet = set_msg_type Ping packet; packet = set_gateway_flag True packet
       in set_ttl 1 packet) (u64_be timestamp)"

definition ping_network :: "mpsc \<Rightarrow> u64 \<Rightarrow> network_state \<Rightarrow> network_state" where
  "ping_network mp timestamp s =
     fold (\<lambda>(ip, sender) s.
         if is_wireguard_endpoint ip s then s
         else case ping_packet timestamp of
                None \<Rightarrow> s
              | Some buf \<Rightarrow> s\<lparr>sent := snd (sender_try_send mp sender buf (sent s))\<rparr>)
       (sender_map s) s"

definition ping_local_clients :: "mpsc \<Rightarrow> (string \<Rightarrow> u64) \<Rightarrow> control_service \<Rightarrow> control_service" where
  "ping_local_clients mp clock cs =
     fold (\<lambda>network_code cs.
         case hm_get (cs_networks cs) network_code of
           None \<Rightarrow> cs
         | Some s \<Rightarrow> put_state network_code (ping_network mp (clock network_code) s) cs)
       (hm_keys (cs_db_nets cs)) cs"

section \<open>Relaying\<close>

definition route_wireguard_relay ::
  "peer_ctx \<Rightarrow> mpsc \<Rightarrow> string \<Rightarrow> ipv4 \<Rightarrow> bytes \<Rightarrow> relay_origin \<Rightarrow> control_service \<Rightarrow> local_delivery_result \<times> control_service" where
  "route_wireguard_relay cx mp network_code destination data origin cs =
     (case hm_get (cs_networks cs) network_code of
        None \<Rightarrow> (NotFound, cs)
      | Some state \<Rightarrow>
          (case try_deliver mp destination data origin state of
             (local, state) \<Rightarrow>
               if local \<noteq> NotFound
               then (local, put_state network_code
                       (if local = Delivered then record_rx_traffic destination (length data) state else state) cs)
               else let cs = put_state network_code state cs in
                    if \<not> cs_linked cs then (NotFound, cs)
                    else case forward_with_best_route (cx_codec cx) (cx_io cx) network_code destination data origin (cs_pm cs) of
                           (forwarded, m) \<Rightarrow> (if forwarded then Delivered else NotFound, cs\<lparr>cs_pm := m\<rparr>)))"

text \<open>None where building an envelope panics; \<open>request_id\<close> is the random part of the broadcast identifier.\<close>

definition route_wireguard_broadcast ::
  "pnet \<Rightarrow> peer_ctx \<Rightarrow> mpsc \<Rightarrow> nat \<Rightarrow> string \<Rightarrow> string \<Rightarrow> ipv4 \<Rightarrow> bytes \<Rightarrow> relay_origin \<Rightarrow> control_service \<Rightarrow>
   (bool \<times> control_service) option" where
  "route_wireguard_broadcast P cx mp instant request_id network_code source inner origin cs =
     (case hm_get (cs_networks cs) network_code of
        None \<Rightarrow> Some (False, cs)
      | Some state \<Rightarrow>
          (case relay_wireguard_broadcast P mp source inner origin state of
             None \<Rightarrow> None
           | Some (Inl _, state) \<Rightarrow> Some (False, put_state network_code state cs)
           | Some (Inr _, state) \<Rightarrow>
               let cs = put_state network_code state cs in
               Some (True, if \<not> cs_linked cs then cs
                 else cs\<lparr>cs_pm := snd (broadcast_wireguard (cx_codec cx) (cx_io cx) instant request_id network_code source inner
                                     origin (cs_pm cs))\<rparr>)))"

section \<open>Console\<close>

definition add_network ::
  "(ipv4 \<Rightarrow> u8 \<Rightarrow> ipv4_net option) \<Rightarrow> string + unit \<Rightarrow> system_time \<Rightarrow> string \<Rightarrow> ipv4 \<Rightarrow> u8 \<Rightarrow> nat option \<Rightarrow> control_service \<Rightarrow>
   (service_error + unit) \<times> control_service" where
  "add_network mk_net saved now network_code gateway netmask lease_duration cs =
     (if hm_contains (cs_db_nets cs) network_code then (Inl NetworkExists, cs)
      else let lease_duration = (case lease_duration of Some d \<Rightarrow> d | None \<Rightarrow> cs_default_lease_duration cs) in
      case saved of
        Inl e \<Rightarrow> (Inl (ServiceDb e), cs)
      | Inr _ \<Rightarrow>
          let cs = add_write (SaveNetwork
                     \<lparr>nr_network_code = network_code, nr_gateway = ipv4_to_string gateway, nr_netmask = netmask,
                      nr_lease_duration = as_secs lease_duration, nr_source = SourceManual,
                      nr_created_at = system_time_to_i64 now\<rparr>) cs in
          (case mk_net (gateway - 1) netmask of
             None \<Rightarrow> (Inl InvalidNetwork, cs)
           | Some net \<Rightarrow>
               (Inr (), cs\<lparr>cs_db_nets := hm_insert network_code
                  \<lparr>nf_net = net, nf_lease_duration = lease_duration, nf_source = SourceManual\<rparr> (cs_db_nets cs)\<rparr>)))"

text \<open>The guard of \<open>update_network\<close> and \<open>delete_network\<close>.\<close>

definition network_vacant :: "string + bool \<Rightarrow> string \<Rightarrow> control_service \<Rightarrow> service_error option" where
  "network_vacant owners network_code cs =
     (case owners of
        Inl e \<Rightarrow> Some (ServiceDb e)
      | Inr True \<Rightarrow> Some NetworkOccupied
      | Inr False \<Rightarrow>
          (case hm_get (cs_networks cs) network_code of
             Some state \<Rightarrow> if fst (network_count state) > 0 then Some NetworkOccupied else None
           | None \<Rightarrow> None))"

definition update_network ::
  "(ipv4 \<Rightarrow> u8 \<Rightarrow> ipv4_net option) \<Rightarrow> string + bool \<Rightarrow> string + unit \<Rightarrow> string \<Rightarrow> ipv4 \<Rightarrow> u8 \<Rightarrow> nat \<Rightarrow> control_service \<Rightarrow>
   (service_error + unit) \<times> control_service" where
  "update_network mk_net owners saved network_code gateway netmask lease_duration cs =
     (case hm_get (cs_db_nets cs) network_code of
        None \<Rightarrow> (Inl NetworkMissing, cs)
      | Some config \<Rightarrow>
          (case network_vacant owners network_code cs of
             Some e \<Rightarrow> (Inl e, cs)
           | None \<Rightarrow>
               (case saved of
                  Inl e \<Rightarrow> (Inl (ServiceDb e), cs)
                | Inr _ \<Rightarrow>
                    let cs = add_write (UpdateNetwork network_code (ipv4_to_string gateway) netmask (as_secs lease_duration)) cs in
                    (case mk_net (gateway - 1) netmask of
                       None \<Rightarrow> (Inl InvalidNetwork, cs)
                     | Some net \<Rightarrow>
                         let cs = cs\<lparr>cs_db_nets := hm_insert network_code
                                     \<lparr>nf_net = net, nf_lease_duration = lease_duration, nf_source = nf_source config\<rparr>
                                     (cs_db_nets cs)\<rparr>
                         in (Inr (), set_networks (hm_remove network_code (cs_networks cs)) cs)))))"

definition delete_network ::
  "string + bool \<Rightarrow> string + unit \<Rightarrow> string \<Rightarrow> control_service \<Rightarrow> (service_error + unit) \<times> control_service" where
  "delete_network owners deleted network_code cs =
     (if \<not> hm_contains (cs_db_nets cs) network_code then (Inl NetworkMissing, cs)
      else case network_vacant owners network_code cs of
        Some e \<Rightarrow> (Inl e, cs)
      | None \<Rightarrow>
          (case deleted of
             Inl e \<Rightarrow> (Inl (ServiceDb e), cs)
           | Inr _ \<Rightarrow>
               let cs = add_write (DeleteNetwork network_code) cs;
                   cs = cs\<lparr>cs_db_nets := hm_remove network_code (cs_db_nets cs)\<rparr>
               in (Inr (), set_networks (hm_remove network_code (cs_networks cs)) cs)))"

definition delete_device ::
  "string + unit \<Rightarrow> string \<Rightarrow> string \<Rightarrow> control_service \<Rightarrow> (service_error + unit) \<times> control_service" where
  "delete_device deleted network_code device_id cs =
     (case hm_get (cs_networks cs) network_code of
        Some state \<Rightarrow>
          if is_device_online device_id state then (Inl DeviceIsOnline, cs)
          else let cs = put_state network_code (snd (remove_device_from_memory device_id state)) cs in
               (case deleted of
                  Inl e \<Rightarrow> (Inl (ServiceDb e), cs)
                | Inr _ \<Rightarrow> (Inr (), add_write (DeleteDevice network_code device_id) cs))
      | None \<Rightarrow>
          (case deleted of
             Inl e \<Rightarrow> (Inl (ServiceDb e), cs)
           | Inr _ \<Rightarrow> (Inr (), add_write (DeleteDevice network_code device_id) cs)))"

subsection \<open>WireGuard peers\<close>

record wireguard_peer_vo =
  wv_network_code :: string
  wv_peer_id :: string
  wv_public_key :: bytes
  wv_enabled :: bool
  wv_ip :: "ipv4 option"
  wv_created_at :: i64
  wv_updated_at :: i64

definition make_peer_vo :: "wireguard_peer_record \<Rightarrow> ipv4 option \<Rightarrow> wireguard_peer_vo" where
  "make_peer_vo rec ip =
     \<lparr>wv_network_code = pe_network_code rec, wv_peer_id = pe_peer_id rec, wv_public_key = pe_public_key rec,
      wv_enabled = pe_enabled rec, wv_ip = ip, wv_created_at = pe_created_at rec, wv_updated_at = pe_updated_at rec\<rparr>"

definition peer_record :: "system_time \<Rightarrow> string \<Rightarrow> string \<Rightarrow> bytes \<Rightarrow> bool \<Rightarrow> wireguard_peer_record" where
  "peer_record now network_code peer_id public_key enabled =
     \<lparr>pe_network_code = network_code, pe_peer_id = peer_id, pe_public_key = public_key, pe_enabled = enabled,
      pe_created_at = system_time_to_i64 now, pe_updated_at = system_time_to_i64 now\<rparr>"

text \<open>Every operation on a peer first looks up the network and creates its state if it is not live.\<close>

definition on_network ::
  "db_load \<Rightarrow> string \<Rightarrow> (network_state \<Rightarrow> (peer_error + 'a) \<times> network_state) \<Rightarrow> control_service \<Rightarrow>
   (service_error + 'a) \<times> control_service" where
  "on_network d network_code f cs =
     (case wireguard_network_state d network_code cs of
        (Inl e, cs) \<Rightarrow> (Inl e, cs)
      | (Inr state, cs) \<Rightarrow>
          (case f state of
             (Inl e, state) \<Rightarrow> (Inl (ServicePeer e), put_state network_code state cs)
           | (Inr x, state) \<Rightarrow> (Inr x, put_state network_code state cs)))"

definition service_create_wireguard_peer ::
  "db_load \<Rightarrow> string + unit \<Rightarrow> (network_state \<Rightarrow> network_state) \<Rightarrow> string \<Rightarrow> string \<Rightarrow> bytes \<Rightarrow> bool \<Rightarrow> control_service \<Rightarrow>
   (service_error + wireguard_peer_vo) \<times> control_service" where
  "service_create_wireguard_peer d persist env network_code peer_id public_key enabled cs =
     (let rec = peer_record (dl_now d) network_code peer_id public_key enabled in
      case on_network d network_code (create_wireguard_peer rec persist env) cs of
        (Inl e, cs) \<Rightarrow> (Inl e, cs)
      | (Inr ip, cs) \<Rightarrow> (Inr (make_peer_vo rec ip), cs))"

definition service_create_with_automatic_ip ::
  "peer_ctx \<Rightarrow> register_io \<Rightarrow> string + unit \<Rightarrow> (network_state \<Rightarrow> network_state) \<Rightarrow> string \<Rightarrow> string \<Rightarrow> bytes \<Rightarrow> bool \<Rightarrow>
   control_service \<Rightarrow> (service_error + wireguard_peer_vo \<times> ipv4_net) \<times> control_service" where
  "service_create_with_automatic_ip cx io persist env network_code peer_id public_key enabled cs =
     (let d = rg_load io; rec = peer_record (dl_now d) network_code peer_id public_key enabled in
      case hm_get (cs_db_nets cs) network_code of
        None \<Rightarrow> (Inl NetworkMissing, cs)
      | Some config \<Rightarrow>
          (case get_or_create_network_state d network_code config cs of (state, cs) \<Rightarrow>
           case service_acquire_lease cx io network_code ''wireguard_peer'' peer_id None config (ns_gateway state) True cs of
             (Inl e, cs) \<Rightarrow> (Inl (ServiceLease e), cs)
           | (Inr grant, cs) \<Rightarrow>
               (case on_network d network_code (\<lambda>s. case grant of
                         Some g \<Rightarrow> create_wireguard_peer_with_ip rec (lg_ip g) persist env (dl_instant d) s
                       | None \<Rightarrow> create_wireguard_peer_with_automatic_ip rec persist env (dl_instant d) s) cs of
                  (Inl e, cs) \<Rightarrow> (Inl e, cs)
                | (Inr ip, cs) \<Rightarrow> (Inr (make_peer_vo rec (Some ip), nf_net config), cs))))"

definition service_set_peer_enabled ::
  "db_load \<Rightarrow> string + bool \<Rightarrow> string + wireguard_peer_record option \<Rightarrow> string + unit \<Rightarrow> string \<Rightarrow> string \<Rightarrow> bool \<Rightarrow>
   control_service \<Rightarrow> (service_error + wireguard_peer_vo) \<times> control_service" where
  "service_set_peer_enabled d updated loaded revoke network_code peer_id enabled cs =
     (case on_network d network_code
             (\<lambda>s. (set_wireguard_peer_enabled peer_id enabled updated loaded revoke s, s)) cs of
        (Inl e, cs) \<Rightarrow> (Inl e, cs)
      | (Inr None, cs) \<Rightarrow> (Inl PeerNotFound, cs)
      | (Inr (Some (peer, ip)), cs) \<Rightarrow> (Inr (make_peer_vo peer ip), cs))"

definition service_list_wireguard_peers ::
  "db_load \<Rightarrow> string + wireguard_peer_record list \<Rightarrow> string \<Rightarrow> control_service \<Rightarrow>
   (service_error + wireguard_peer_vo list) \<times> control_service" where
  "service_list_wireguard_peers d peers network_code cs =
     (case on_network d network_code (\<lambda>s. (list_wireguard_peers peers s, s)) cs of
        (Inl e, cs) \<Rightarrow> (Inl e, cs)
      | (Inr l, cs) \<Rightarrow> (Inr (map (\<lambda>(peer, ip). make_peer_vo peer ip) l), cs))"

definition service_list_peer_ips ::
  "db_load \<Rightarrow> string \<Rightarrow> control_service \<Rightarrow> (service_error + (string \<times> ipv4) list) \<times> control_service" where
  "service_list_peer_ips d network_code cs = on_network d network_code (\<lambda>s. (Inr (list_wireguard_peer_ips s), s)) cs"

text \<open>What follows a removal: the cluster lease of the peer is given back.\<close>

definition service_release_lease ::
  "peer_ctx \<Rightarrow> int \<Rightarrow> string option \<Rightarrow> server_lease_release_response reply \<Rightarrow> (peer_manager \<Rightarrow> peer_manager) \<Rightarrow> string \<Rightarrow>
   string \<Rightarrow> string \<Rightarrow> control_service \<Rightarrow> (service_error + unit) \<times> control_service" where
  "service_release_lease cx now dbf reply env request_id network_code peer_id cs =
     (if \<not> cs_linked cs then (Inr (), cs)
      else case release_lease cx now dbf reply env request_id network_code ''wireguard_peer'' peer_id (cs_pm cs, cs_cluster_db cs) of
             (r, m, db) \<Rightarrow>
               (case r of Inl e \<Rightarrow> Inl (ServiceLease e) | Inr _ \<Rightarrow> Inr (), cs\<lparr>cs_pm := m, cs_cluster_db := db\<rparr>))"

definition service_delete_wireguard_peer ::
  "(control_service \<Rightarrow> (service_error + unit) \<times> control_service) \<Rightarrow> db_load \<Rightarrow> string + wireguard_peer_delete_result \<Rightarrow>
   string + unit \<Rightarrow> (network_state \<Rightarrow> network_state) \<Rightarrow> string \<Rightarrow> string \<Rightarrow> control_service \<Rightarrow>
   (service_error + wireguard_peer_delete_result) \<times> control_service" where
  "service_delete_wireguard_peer give_back d persist revoke env network_code peer_id cs =
     (case on_network d network_code (delete_wireguard_peer_with peer_id persist revoke env (dl_instant d)) cs of
        (Inl e, cs) \<Rightarrow> (Inl e, cs)
      | (Inr result, cs) \<Rightarrow>
          if ip_released result
          then (case give_back cs of (Inl e, cs) \<Rightarrow> (Inl e, cs) | (Inr _, cs) \<Rightarrow> (Inr result, cs))
          else (Inr result, cs))"

definition service_release_peer_ip ::
  "(control_service \<Rightarrow> (service_error + unit) \<times> control_service) \<Rightarrow> db_load \<Rightarrow> string + bool \<Rightarrow>
   string + unit \<Rightarrow> (network_state \<Rightarrow> network_state) \<Rightarrow> string \<Rightarrow> string \<Rightarrow> control_service \<Rightarrow>
   (service_error + bool) \<times> control_service" where
  "service_release_peer_ip give_back d persist revoke env network_code peer_id cs =
     (case on_network d network_code (release_wireguard_peer_ip peer_id persist revoke env (dl_instant d)) cs of
        (Inl e, cs) \<Rightarrow> (Inl e, cs)
      | (Inr removed, cs) \<Rightarrow>
          if removed
          then (case give_back cs of (Inl e, cs) \<Rightarrow> (Inl e, cs) | (Inr _, cs) \<Rightarrow> (Inr removed, cs))
          else (Inr removed, cs))"

definition service_reserve_peer_ip ::
  "peer_ctx \<Rightarrow> register_io \<Rightarrow> string + unit \<Rightarrow> string + unit \<Rightarrow> (network_state \<Rightarrow> network_state) \<Rightarrow> string \<Rightarrow> string \<Rightarrow> ipv4 \<Rightarrow>
   control_service \<Rightarrow> (service_error + unit) \<times> control_service" where
  "service_reserve_peer_ip cx io persist revoke env network_code peer_id ip cs =
     (let d = rg_load io in
      case hm_get (cs_db_nets cs) network_code of
        None \<Rightarrow> (Inl NetworkMissing, cs)
      | Some config \<Rightarrow>
          (case get_or_create_network_state d network_code config cs of (state, cs) \<Rightarrow>
           case service_acquire_lease cx io network_code ''wireguard_peer'' peer_id (Some ip) config (ns_gateway state) True cs of
             (Inl e, cs) \<Rightarrow> (Inl (ServiceLease e), cs)
           | (Inr _, cs) \<Rightarrow>
               on_network d network_code (reserve_wireguard_peer_ip peer_id ip persist revoke env (dl_instant d)) cs))"

subsection \<open>Views\<close>

record network_info_vo =
  ni_network_code :: string
  ni_gateway :: ipv4
  ni_netmask :: u8
  ni_net :: ipv4_net
  ni_lease_duration :: u64
  ni_source :: network_source
  ni_all_count :: u32
  ni_online_count :: u32

definition get_network_info :: "control_service \<Rightarrow> network_info_vo list" where
  "get_network_info cs =
     map (\<lambda>(code, config).
       let (all_count, online_count) =
             (case hm_get (cs_networks cs) code of Some s \<Rightarrow> network_count s | None \<Rightarrow> (0, 0))
       in \<lparr>ni_network_code = code, ni_gateway = net_network (nf_net config) + 1,
           ni_netmask = net_prefix_len (nf_net config), ni_net = nf_net config,
           ni_lease_duration = as_secs (nf_lease_duration config), ni_source = nf_source config,
           ni_all_count = all_count, ni_online_count = online_count\<rparr>) (cs_db_nets cs)"

text \<open>Rows for devices of the database when the network is not live, and for those of other servers.\<close>

definition offline_device_info :: "(system_time \<Rightarrow> string option) \<Rightarrow> device_record \<Rightarrow> device_info_vo" where
  "offline_device_info format r =
     \<lparr>vo_device_id = dr_device_id r, vo_device_name = dr_device_name r, vo_device_version = dr_device_version r,
      vo_ip = (case dr_ip r of Some t \<Rightarrow> ipv4_parse t | None \<Rightarrow> None), vo_status = ''Offline'',
      vo_last_connect_time = (case format (i64_to_system_time (dr_last_connect_time r)) of Some t \<Rightarrow> t | None \<Rightarrow> []),
      vo_disconnect_time = None, vo_latency_ms = None, vo_server_addr = None,
      vo_tx_bytes = dr_tx_bytes r, vo_rx_bytes = dr_rx_bytes r\<rparr>"

definition remote_device_info :: "ipv4 \<times> string \<times> u32 \<Rightarrow> device_info_vo" where
  "remote_device_info r =
     (case r of (ip, server_addr, latency_ms) \<Rightarrow>
        \<lparr>vo_device_id = ''remote-'' @ ipv4_to_string ip, vo_device_name = ''Remote Device ('' @ ipv4_to_string ip @ '')'',
         vo_device_version = ''Unknown'', vo_ip = Some ip, vo_status = ''Remote'', vo_last_connect_time = ''-'',
         vo_disconnect_time = None, vo_latency_ms = Some latency_ms, vo_server_addr = Some server_addr,
         vo_tx_bytes = 0, vo_rx_bytes = 0\<rparr>)"

definition get_device_info ::
  "(system_time \<Rightarrow> string option) \<Rightarrow> string + device_record list \<Rightarrow> string \<Rightarrow> control_service \<Rightarrow>
   service_error + device_info_vo list option" where
  "get_device_info format records network_code cs =
     (if \<not> hm_contains (cs_db_nets cs) network_code then Inr None
      else case (case hm_get (cs_networks cs) network_code of
                   Some state \<Rightarrow> Inr (get_device_infos format state)
                 | None \<Rightarrow> (case records of Inl e \<Rightarrow> Inl (ServiceDb e) | Inr rs \<Rightarrow> Inr (map (offline_device_info format) rs))) of
             Inl e \<Rightarrow> Inl e
           | Inr devices \<Rightarrow>
               Inr (Some (devices @
                 (if cs_linked cs then map remote_device_info (get_remote_devices network_code (cs_pm cs)) else []))))"

definition active_wireguard_peers :: "control_service \<Rightarrow> nat" where
  "active_wireguard_peers cs =
     sum_list (map (\<lambda>(_, state). length (filter (\<lambda>(ip, _). is_wireguard_endpoint ip state) (sender_map state))) (cs_networks cs))"

section \<open>Start\<close>

definition to_ipv4_net :: "(ipv4 \<Rightarrow> u8 \<Rightarrow> ipv4_net option) \<Rightarrow> network_record \<Rightarrow> ipv4_net option" where
  "to_ipv4_net mk_net r =
     (case ipv4_parse (nr_gateway r) of
        None \<Rightarrow> None
      | Some gateway \<Rightarrow> mk_net (gateway - 1) (nr_netmask r))"

definition load_networks_from_db ::
  "(ipv4 \<Rightarrow> u8 \<Rightarrow> ipv4_net option) \<Rightarrow> network_record list option \<Rightarrow> (string, network_config) hmap" where
  "load_networks_from_db mk_net records =
     (case records of
        None \<Rightarrow> []
      | Some rs \<Rightarrow>
          fold (\<lambda>r nets. case to_ipv4_net mk_net r of
                  None \<Rightarrow> nets
                | Some net \<Rightarrow> hm_insert (nr_network_code r)
                    \<lparr>nf_net = net, nf_lease_duration = unat (nr_lease_duration r) * 1000000000, nf_source = nr_source r\<rparr> nets)
            rs [])"

definition config_network_record :: "nat \<Rightarrow> system_time \<Rightarrow> string \<Rightarrow> ipv4_net \<Rightarrow> network_record" where
  "config_network_record lease_duration now code net =
     \<lparr>nr_network_code = code, nr_gateway = ipv4_to_string (net_network net + 1), nr_netmask = net_prefix_len net,
      nr_lease_duration = as_secs lease_duration, nr_source = SourceConfig, nr_created_at = system_time_to_i64 now\<rparr>"

text \<open>\<open>records\<close> is the table after the networks of the configuration were saved; \<open>m\<close> has no network yet.\<close>

definition service_new ::
  "(ipv4 \<Rightarrow> u8 \<Rightarrow> ipv4_net option) \<Rightarrow> network_record list option \<Rightarrow> ipv4_net \<Rightarrow> nat \<Rightarrow> peer_manager \<Rightarrow> cluster_db \<Rightarrow>
   control_service" where
  "service_new mk_net records default_net lease_duration m db =
     \<lparr>cs_default_net = default_net, cs_default_lease_duration = lease_duration,
      cs_db_nets = load_networks_from_db mk_net records, cs_pm = m\<lparr>pm_networks := []\<rparr>, cs_linked = False,
      cs_cluster_db = db, cs_db_writes = []\<rparr>"

definition set_peer_manager :: "peer_manager \<Rightarrow> control_service \<Rightarrow> control_service" where
  "set_peer_manager manager cs = cs\<lparr>cs_pm := manager\<lparr>pm_networks := cs_networks cs\<rparr>, cs_linked := True\<rparr>"

end
