(* ===== verification/Control_Handler.thy ===== *)
theory Control_Handler
  imports Control_Service Wireguard_Bridge
begin

text \<open>
  The handler of one client connection (src/server/control_server/handler.rs): registration, its
  confirmation, and every packet a registered client sends.

  A function returns its result, the messages it tries to send to the client of the connection, the
  handler and the service; None is a panic.  The channel to the client is held weakly: \<open>hd_sender\<close> is None
  when it is gone, and \<open>send_ok\<close> is whether an awaited send succeeds.  \<open>rpc_codec\<close> is the generated codec
  of the remote procedure call, \<open>txt\<close> the text of an error.
\<close>

section \<open>Handler\<close>

record handler =
  hd_addr :: socket_addr
  hd_sender :: "nat option"
  hd_session :: "session option"

datatype handler_error =
    SessionActive | SessionMissing | NotRegistration | SenderDropped | SenderClosed | NotPending | LeaseExpired
  | HandlerMessage Control_Message.message_error | HandlerPacket io_error | RpcDecode

record rpc_codec =
  rc_decode :: "bytes \<Rightarrow> (u64 \<times> bool) option"
  rc_encode :: "u64 \<Rightarrow> client_info list \<Rightarrow> bytes"

definition handler_new :: "socket_addr \<Rightarrow> nat \<Rightarrow> handler" where
  "handler_new addr sender = \<lparr>hd_addr = addr, hd_sender = Some sender, hd_session = None\<rparr>"

definition handle_reg ::
  "peer_ctx \<Rightarrow> register_io \<Rightarrow> proto_codec \<Rightarrow> bool \<Rightarrow> (service_error \<Rightarrow> string) \<Rightarrow> string \<Rightarrow> bytes \<Rightarrow> handler \<Rightarrow> control_service \<Rightarrow>
   ((handler_error + unit) \<times> bytes list \<times> handler \<times> control_service) option" where
  "handle_reg cx io C send_ok txt server_version buf h cs =
     (if hd_session h \<noteq> None then Some (Inl SessionActive, [], h, cs)
      else case request_from_slice C buf of
        Inl e \<Rightarrow> Some (Inl (HandlerMessage e), [], h, cs)
      | Inr ReqConfirmReg \<Rightarrow> Some (Inl NotRegistration, [], h, cs)
      | Inr (ReqReg reg) \<Rightarrow>
          (case hd_sender h of
             None \<Rightarrow> Some (Inl SenderDropped, [], h, cs)
           | Some sender \<Rightarrow>
               (case register cx io reg sender (hd_addr h) cs of
                  None \<Rightarrow> None
                | Some (Inl e, cs) \<Rightarrow>
                    Some (if send_ok then Inr () else Inl SenderClosed, [response_encode C (ResError 400 (txt e))], h, cs)
                | Some (Inr session, cs) \<Rightarrow>
                    (case hm_get (cs_networks cs) (ss_network_code session) of
                       None \<Rightarrow> None
                     | Some state \<Rightarrow>
                         Some (if send_ok then Inr () else Inl SenderClosed,
                               [response_encode C (ResReg
                                  \<lparr>rs_ip = ss_ip session, rs_prefix_len = net_prefix_len (ns_net state),
                                   rs_gateway = ns_gateway state, rs_server_version = server_version\<rparr>)],
                               h\<lparr>hd_session := Some session\<rparr>, cs)))))"

text \<open>The database write comes first, so that a failed one leaves the session pending.\<close>

definition handle_confirm_reg ::
  "proto_codec \<Rightarrow> bool \<Rightarrow> (string \<Rightarrow> string) \<Rightarrow> (device_record \<Rightarrow> string + unit) \<Rightarrow> (network_state \<Rightarrow> network_state) \<Rightarrow>
   handler \<Rightarrow> control_service \<Rightarrow> ((handler_error + unit) \<times> bytes list \<times> handler \<times> control_service) option" where
  "handle_confirm_reg C send_ok txt save env h cs =
     (case hd_session h of
        None \<Rightarrow> Some (Inl SessionMissing, [], h, cs)
      | Some session \<Rightarrow>
          (case hd_sender h of
             None \<Rightarrow> Some (Inl SenderDropped, [], h, cs)
           | Some sender \<Rightarrow>
               if ss_registration_status session \<noteq> PendingConfirmation then Some (Inl NotPending, [], h, cs)
               else (case hm_get (cs_networks cs) (ss_network_code session) of
                  None \<Rightarrow> None
                | Some state \<Rightarrow>
                    (case confirm_registration (ss_network_code session) (ss_device_id session) (ss_ip session)
                            (ss_random_id session) save env state of
                       (Inl e, state) \<Rightarrow>
                         Some (if send_ok then Inr () else Inl SenderClosed, [response_encode C (ResError 500 (txt e))], h,
                               put_state (ss_network_code session) state cs)
                     | (Inr _, state) \<Rightarrow>
                         Some (if send_ok then Inr () else Inl SenderClosed, [response_encode C (ResConfirmReg True)],
                               h\<lparr>hd_session := Some (session\<lparr>ss_registration_status := Confirmed\<rparr>)\<rparr>,
                               put_state (ss_network_code session) state cs)))))"

section \<open>Packets for the gateway\<close>

definition ICMP :: u8 where
  "ICMP = 1"

definition EchoRequest :: u8 where
  "EchoRequest = 8"

text \<open>Some None: no reply.  None: the slice \<open>payload[..total_len]\<close> or \<open>reply_ip_buf[ip_header_len..]\<close> is out of
  range, a panic.\<close>

definition handle_icmp_ping :: "pnet \<Rightarrow> net_packet \<Rightarrow> bytes option option" where
  "handle_icmp_ping P packet =
     (let pl = payload packet in
      if \<not> ipv4_new P pl then Some None
      else if ipv4_next_level_protocol P pl \<noteq> ICMP then Some None
      else let icmp_payload = ipv4_payload P pl in
      if \<not> echo_request_new P icmp_payload then Some None
      else if echo_request_type P icmp_payload \<noteq> EchoRequest then Some None
      else let ip_header_len = unat (ipv4_header_length P pl) * 4;
               total_len = unat (ipv4_total_length P pl) in
      if total_len > length pl then None
      else let reply = take total_len pl in
      if \<not> ipv4_new P reply then Some None
      else let reply = ipv4_set_source P (ipv4_destination P pl) reply;
               reply = ipv4_set_destination P (ipv4_source P pl) reply;
               reply = ipv4_set_checksum P (ipv4_checksum P reply) reply in
      if ip_header_len > length reply then None
      else if \<not> icmp_new P (drop ip_header_len reply) then Some None
      else let reply = on_suffix ip_header_len (\<lambda>icmp.
                 let icmp = icmp_set_type P 0 icmp; icmp = icmp_set_code P 0 icmp
                 in icmp_set_checksum P (icmp_checksum P icmp) icmp) reply in
      Some (fill_packet (\<lambda>r.
        let r = set_msg_type Turn r; r = set_gateway_flag True r; r = set_ttl 1 r
        in set_seq (packet_seq packet) r) reply))"

definition push_client_ips :: "proto_codec \<Rightarrow> client_simple_info_list \<Rightarrow> bytes option" where
  "push_client_ips C l =
     fill_packet (\<lambda>r.
       let r = set_msg_type PushClientIps r; r = set_ttl 1 r in set_gateway_flag True r) (client_list_encode C l)"

definition handle_rpc ::
  "rpc_codec \<Rightarrow> (system_time \<Rightarrow> i64) \<Rightarrow> session \<Rightarrow> network_state \<Rightarrow> net_packet \<Rightarrow> (handler_error + unit) \<times> bytes list" where
  "handle_rpc R unix_timestamp session state packet =
     (case rc_decode R (payload packet) of
        None \<Rightarrow> (Inl RpcDecode, [])
      | Some (_, False) \<Rightarrow> (Inr (), [])
      | Some (i, True) \<Rightarrow>
          (case fill_packet (\<lambda>r.
                  let r = set_msg_type RpcRes r; r = set_gateway_flag True r in set_ttl 1 r)
                  (rc_encode R i (client_info_list unix_timestamp (ss_ip session) (ss_allow_wire_guard session) state)) of
             None \<Rightarrow> (Inr (), [])
           | Some reply \<Rightarrow> (Inr (), [reply])))"

definition u64_of_be :: "bytes \<Rightarrow> u64" where
  "u64_of_be b =
     push_bit 32 (ucast (u32_of_be (b ! 0) (b ! 1) (b ! 2) (b ! 3))) OR ucast (u32_of_be (b ! 4) (b ! 5) (b ! 6) (b ! 7))"

text \<open>The answer to a \<open>PingTurn\<close>: a changed client list instead of a pong when there is one.\<close>

definition handle_ping_turn :: "proto_codec \<Rightarrow> session \<Rightarrow> network_state \<Rightarrow> net_packet \<Rightarrow> bytes list" where
  "handle_ping_turn C session state packet =
     (let pong = buffer (set_msg_type PongTurn packet); n = length (payload packet) in
      if n = 8 then [pong]
      else if n \<noteq> 16 then []
      else case changed_client_simple_list (ss_ip session) (u64_of_be (drop 8 (payload packet))) (ss_allow_wire_guard session) state of
             Some l \<Rightarrow>
               (case push_client_ips C (l\<lparr>cl_time := u64_of_be (take 8 (payload packet))\<rparr>) of
                  Some buf \<Rightarrow> [buf]
                | None \<Rightarrow> [pong])
           | None \<Rightarrow> [pong])"

definition handle_gateway ::
  "pnet \<Rightarrow> proto_codec \<Rightarrow> rpc_codec \<Rightarrow> (system_time \<Rightarrow> i64) \<Rightarrow> u64 \<Rightarrow> bytes \<Rightarrow> handler \<Rightarrow> control_service \<Rightarrow>
   ((handler_error + unit) \<times> bytes list \<times> handler \<times> control_service) option" where
  "handle_gateway P C R unix_timestamp now_ms buf h cs =
     (case hd_session h of
        None \<Rightarrow> Some (Inl SessionMissing, [], h, cs)
      | Some session \<Rightarrow>
          if \<not> cluster_lease_valid session then Some (Inl LeaseExpired, [], h, cs)
          else case new_packet buf of
            Inl e \<Rightarrow> Some (Inl (HandlerPacket e), [], h, cs)
          | Inr packet \<Rightarrow>
              (case packet_msg_type packet of
                 Inl e \<Rightarrow> Some (Inl (HandlerPacket e), [], h, cs)
               | Inr msg_type \<Rightarrow>
                   if hd_sender h = None then Some (Inl SenderDropped, [], h, cs)
                   else if ttl packet = 0 then Some (Inr (), [], h, cs)
                   else (case hm_get (cs_networks cs) (ss_network_code session) of
                      None \<Rightarrow> None
                    | Some state \<Rightarrow>
                        (case msg_type of
                           Turn \<Rightarrow>
                             (case handle_icmp_ping P packet of
                                None \<Rightarrow> None
                              | Some None \<Rightarrow> Some (Inr (), [], h, cs)
                              | Some (Some reply) \<Rightarrow> Some (Inr (), [reply], h, cs))
                         | PingTurn \<Rightarrow> Some (Inr (), handle_ping_turn C session state packet, h, cs)
                         | Pong \<Rightarrow>
                             if length (payload packet) = 8
                             then let rtt = saturating_sub now_ms (u64_of_be (payload packet));
                                      latency_ms = ucast (rtt div 2)
                                  in Some (Inr (), [], h, set_networks
                                       (provider_update_client_latency (ss_network_code session) (ss_ip session) latency_ms
                                          (cs_networks cs)) cs)
                             else Some (Inr (), [], h, cs)
                         | RpcReq \<Rightarrow>
                             (case handle_rpc R unix_timestamp session state packet of
                                (r, replies) \<Rightarrow> Some (r, replies, h, cs))
                         | _ \<Rightarrow> Some (Inr (), [], h, cs)))))"

section \<open>Packets for other members\<close>

text \<open>\<open>Turn\<close>, \<open>Ping\<close>, \<open>Pong\<close>, \<open>PunchStart1\<close>, \<open>PunchStart2\<close> and \<open>Quic\<close>: the fastest route, or the local client.\<close>

definition relay_turn ::
  "peer_ctx \<Rightarrow> mpsc \<Rightarrow> session \<Rightarrow> ipv4 \<Rightarrow> net_packet \<Rightarrow> control_service \<Rightarrow> control_service" where
  "relay_turn cx mp session dest packet cs =
     (case decr_ttl packet of
        (False, _) \<Rightarrow> cs
      | (True, packet) \<Rightarrow>
          let data = buffer packet; network_code = ss_network_code session;
              (forwarded, cs) = (if \<not> cs_linked cs then (False, cs)
                else case forward_with_best_route (cx_codec cx) (cx_io cx) network_code dest data FromVnt (cs_pm cs) of
                       (f, m) \<Rightarrow> (f, cs\<lparr>cs_pm := m\<rparr>))
          in if forwarded then cs
             else case hm_get (cs_networks cs) network_code of
                    None \<Rightarrow> cs
                  | Some state \<Rightarrow>
                      (case try_deliver mp dest data FromVnt state of
                         (r, state) \<Rightarrow> put_state network_code
                           (if r = Delivered then record_rx_traffic dest (length data) state else state) cs))"

text \<open>The senders of a broadcast: all VNT sessions of the network but the source.\<close>

definition broadcast_senders :: "(ipv4 \<Rightarrow> bool) \<Rightarrow> ipv4 \<Rightarrow> network_state \<Rightarrow> network_sender list" where
  "broadcast_senders sel src s =
     map snd (filter (\<lambda>(ip, _). sel ip \<and> ip \<noteq> src \<and> \<not> is_wireguard_endpoint ip s) (sender_map s))"

definition send_all :: "mpsc \<Rightarrow> bytes \<Rightarrow> network_sender list \<Rightarrow> network_state \<Rightarrow> network_state" where
  "send_all mp data senders s = fold (\<lambda>sender s. s\<lparr>sent := snd (sender_try_send mp sender data (sent s))\<rparr>) senders s"

definition vnt_broadcast ::
  "mpsc \<Rightarrow> (ipv4 \<Rightarrow> bool) \<Rightarrow> ipv4 \<Rightarrow> net_packet \<Rightarrow> session \<Rightarrow> control_service \<Rightarrow> control_service" where
  "vnt_broadcast mp sel src packet session cs =
     (case decr_ttl packet of
        (False, _) \<Rightarrow> cs
      | (True, packet) \<Rightarrow>
          (case hm_get (cs_networks cs) (ss_network_code session) of
             None \<Rightarrow> cs
           | Some state \<Rightarrow>
               put_state (ss_network_code session) (send_all mp (buffer packet) (broadcast_senders sel src state) state) cs))"

text \<open>\<open>ExcludeBroadcast\<close> and \<open>TargetBroadcast\<close> carry the packet and a set of addresses in the payload.\<close>

definition handle_selective_broadcast ::
  "proto_codec \<Rightarrow> mpsc \<Rightarrow> bool \<Rightarrow> ipv4 \<Rightarrow> bytes \<Rightarrow> session \<Rightarrow> control_service \<Rightarrow> (handler_error + unit) \<times> control_service" where
  "handle_selective_broadcast C mp targets src pl session cs =
     (case selective_broadcast_from_slice C pl of
        Inl e \<Rightarrow> (Inl (HandlerMessage e), cs)
      | Inr b \<Rightarrow>
          (case new_packet (sb_data b) of
             Inl e \<Rightarrow> (Inl (HandlerPacket e), cs)
           | Inr packet \<Rightarrow> (Inr (), vnt_broadcast mp (\<lambda>ip. (ip \<in> set (sb_ips b)) = targets) src packet session cs)))"

text \<open>\<open>WireGuardRelay\<close> and \<open>WireGuardSubnetRelay\<close>, after their checks.\<close>

definition relay_checked :: "peer_ctx \<Rightarrow> mpsc \<Rightarrow> bool \<Rightarrow> session \<Rightarrow> ipv4 \<Rightarrow> net_packet \<Rightarrow> control_service \<Rightarrow> control_service" where
  "relay_checked cx mp ok session dest packet cs =
     (if \<not> ok then cs
      else case decr_ttl packet of
             (False, _) \<Rightarrow> cs
           | (True, packet) \<Rightarrow>
               snd (route_wireguard_relay cx mp (ss_network_code session) dest (buffer packet) FromVnt cs))"

definition relay_broadcast_checked ::
  "pnet \<Rightarrow> peer_ctx \<Rightarrow> mpsc \<Rightarrow> nat \<Rightarrow> string \<Rightarrow> bool \<Rightarrow> session \<Rightarrow> net_packet \<Rightarrow> control_service \<Rightarrow> control_service option" where
  "relay_broadcast_checked P cx mp instant request_id ok session packet cs =
     (if \<not> ok then Some cs
      else case decr_ttl packet of
             (False, _) \<Rightarrow> Some cs
           | (True, packet) \<Rightarrow>
               map_option snd (route_wireguard_broadcast P cx mp instant request_id (ss_network_code session) (ss_ip session)
                 (payload packet) FromVnt cs))"

text \<open>A packet of a confirmed session that is not for the gateway.\<close>

definition forward_packet ::
  "pnet \<Rightarrow> peer_ctx \<Rightarrow> mpsc \<Rightarrow> proto_codec \<Rightarrow> nat \<Rightarrow> string \<Rightarrow> session \<Rightarrow> msg_type \<Rightarrow> net_packet \<Rightarrow> network_state \<Rightarrow> control_service \<Rightarrow>
   ((handler_error + unit) \<times> control_service) option" where
  "forward_packet P cx mp C instant request_id session msg_type packet state cs =
     (let src = src_id packet; dest = dest_id packet; net = ns_net state; gateway = ns_gateway state in
      case msg_type of
        WireGuardRelay \<Rightarrow>
          Some (Inr (), relay_checked cx mp (ss_allow_wire_guard session \<and>
            (case validate_vnt_relay P packet (ss_ip session) net gateway of Inr _ \<Rightarrow> True | Inl _ \<Rightarrow> False)) session dest packet cs)
      | WireGuardSubnetRelay \<Rightarrow>
          Some (Inr (), relay_checked cx mp (ss_allow_wire_guard session \<and>
            has_capability (ss_client_capabilities session) CLIENT_CAP_WIREGUARD_SUBNET_RELAY \<and>
            (case validate_vnt_subnet_relay P packet (ss_ip session) net gateway of Inr _ \<Rightarrow> True | Inl _ \<Rightarrow> False)) session dest packet cs)
      | WireGuardBroadcastRelay \<Rightarrow>
          map_option (\<lambda>cs. (Inr (), cs)) (relay_broadcast_checked P cx mp instant request_id (ss_allow_wire_guard session \<and>
            has_capability (ss_client_capabilities session) CLIENT_CAP_WIREGUARD_BROADCAST_RELAY \<and>
            (case validate_vnt_broadcast_relay P packet (ss_ip session) net gateway of Inr _ \<Rightarrow> True | Inl _ \<Rightarrow> False)) session packet cs)
      | Broadcast \<Rightarrow> Some (Inr (), vnt_broadcast mp (\<lambda>_. True) src packet session cs)
      | ExcludeBroadcast \<Rightarrow> Some (handle_selective_broadcast C mp False src (payload packet) session cs)
      | TargetBroadcast \<Rightarrow> Some (handle_selective_broadcast C mp True src (payload packet) session cs)
      | _ \<Rightarrow>
          if msg_type \<in> {Turn, Ping, Pong, PunchStart1, PunchStart2, Quic}
          then Some (Inr (), relay_turn cx mp session dest packet cs)
          else Some (Inr (), cs))"

text \<open>What a packet of a client reads from outside.\<close>

record data_io =
  da_instant :: nat
  da_now_ms :: u64
  da_request_id :: string
  da_send_ok :: bool
  da_save :: "device_record \<Rightarrow> string + unit"
  da_env :: "network_state \<Rightarrow> network_state"
  da_txt :: "string \<Rightarrow> string"
  da_timestamp :: "system_time \<Rightarrow> i64"

definition handle_data ::
  "pnet \<Rightarrow> peer_ctx \<Rightarrow> mpsc \<Rightarrow> proto_codec \<Rightarrow> rpc_codec \<Rightarrow> data_io \<Rightarrow> bytes \<Rightarrow> handler \<Rightarrow> control_service \<Rightarrow>
   ((handler_error + unit) \<times> bytes list \<times> handler \<times> control_service) option" where
  "handle_data P cx mp C R io buf h cs =
     (case hd_session h of
        None \<Rightarrow> Some (Inl SessionMissing, [], h, cs)
      | Some session \<Rightarrow>
          if ss_registration_status session = PendingConfirmation
          then (case request_from_slice C buf of
                  Inr ReqConfirmReg \<Rightarrow> handle_confirm_reg C (da_send_ok io) (da_txt io) (da_save io) (da_env io) h cs
                | _ \<Rightarrow> Some (Inr (), [], h, cs))
          else case new_packet buf of
            Inl e \<Rightarrow> Some (Inl (HandlerPacket e), [], h, cs)
          | Inr packet \<Rightarrow>
              (case packet_msg_type packet of
                 Inl e \<Rightarrow> Some (Inl (HandlerPacket e), [], h, cs)
               | Inr msg_type \<Rightarrow>
                   if is_gateway packet then handle_gateway P C R (da_timestamp io) (da_now_ms io) buf h cs
                   else if \<not> cluster_lease_valid session then Some (Inl LeaseExpired, [], h, cs)
                   else (case hm_get (cs_networks cs) (ss_network_code session) of
                      None \<Rightarrow> None
                    | Some state \<Rightarrow>
                        let cs = put_state (ss_network_code session) (record_tx_traffic (src_id packet) (length buf) state) cs in
                        map_option (\<lambda>(r, cs). (r, [], h, cs))
                          (forward_packet P cx mp C (da_instant io) (da_request_id io) session msg_type packet state cs))))"

end
