(* ===== verification/Service_Steps.thy ===== *)
theory Service_Steps
  imports Control_Handler
begin

text \<open>
  What the service and its handlers do to the networks.  Every operation acts on the network of its
  session or argument by steps of that network and leaves the others alone (\<open>confined\<close>); over all
  operations, the configuration and the live networks stay well formed (\<open>service_inv\<close>).
\<close>

section \<open>What happens to the networks\<close>

text \<open>The changes of one network: the steps of NetworkState, the time of the last use, and sends.\<close>

inductive svc_net :: "network_state \<Rightarrow> network_state \<Rightarrow> bool" where
  svc_op: "net_step s s' \<Longrightarrow> svc_net s s'"
| svc_touch: "svc_net s (update_time t s)"
| svc_send: "svc_net s (s\<lparr>sent := tr\<rparr>)"

definition same_network :: "network_state \<Rightarrow> network_state \<Rightarrow> bool" where
  "same_network s s' \<longleftrightarrow> ns_network_code s' = ns_network_code s \<and> ns_net s' = ns_net s \<and> ns_gateway s' = ns_gateway s \<and>
     ns_lease_duration s' = ns_lease_duration s"

lemma net_step_same:
  assumes "net_step s s'"
  shows "same_network s s'"
  using assms
proof cases
  case (net_allocate req rid c p2p now r)
  then show ?thesis
    by (auto simp: same_network_def allocate_ip_and_get_entry_def Let_def drop_online_def split: sum.splits prod.splits option.splits)
qed (auto simp: same_network_def offline_ip_def remove_device_from_memory_def release_pre_registered_ip_def
    release_pre_registered_lease_def confirm_endpoint_def remove_devices_def update_client_latency_def drop_online_def
    connect_wireguard_peer_def disconnect_wireguard_peer_def update_remote_wireguard_ips_def remove_remote_wireguard_source_def
    try_deliver_def count_drop_def record_tx_traffic_def record_rx_traffic_def update_time_def Let_def
    split: sum.splits prod.splits option.splits if_splits online_endpoint.splits unit.splits network_send_error.splits)

lemma svc_net_inv: "svc_net s s' \<Longrightarrow> session_inv s \<Longrightarrow> session_inv s'"
  by (induction rule: svc_net.induct) (auto dest: net.preserved simp: update_time_def session_inv_def)

lemma svc_net_same: "svc_net s s' \<Longrightarrow> same_network s s'"
  by (induction rule: svc_net.induct) (auto dest: net_step_same simp: update_time_def same_network_def)

definition evolves :: "network_state \<Rightarrow> network_state \<Rightarrow> bool" where
  "evolves = svc_net\<^sup>*\<^sup>*"

lemma evolves_refl [simp, intro]: "evolves s s"
  by (simp add: evolves_def)

lemma evolves_trans: "evolves s s' \<Longrightarrow> evolves s' s'' \<Longrightarrow> evolves s s''"
  by (simp add: evolves_def)

lemma evolves_net: "net_step s s' \<Longrightarrow> evolves s s'"
  by (simp add: evolves_def svc_op r_into_rtranclp)

lemma evolves_touch [intro]: "evolves s (update_time t s)"
  by (simp add: evolves_def svc_touch r_into_rtranclp)

lemma evolves_send [intro]: "evolves s (s\<lparr>sent := tr\<rparr>)"
  by (simp add: evolves_def svc_send r_into_rtranclp)

text \<open>What every evolution of a network keeps.\<close>

interpretation svc: invariant_system svc_net "\<lambda>s. session_inv s \<and> same_network s0 s" for s0
  by unfold_locales (auto dest: svc_net_inv svc_net_same simp: same_network_def)

lemma evolves_inv:
  assumes "evolves s s'" "session_inv s"
  shows "session_inv s'" "same_network s s'"
  using svc.reachable [OF assms(1) [unfolded evolves_def], of s] assms(2) by (auto simp: same_network_def)

lemmas evolves_ops = evolves_net [OF net_allocate] evolves_net [OF net_offline] evolves_net [OF net_remove_device]
  evolves_net [OF net_deliver] evolves_net [OF net_connect] evolves_net [OF net_disconnect] evolves_net [OF net_prepare]
  evolves_net [OF net_release]

lemmas evolves_steps [intro] = evolves_net [OF net_release_pre_registered] evolves_net [OF net_confirm]
  evolves_net [OF net_latency] evolves_net [OF net_record_tx] evolves_net [OF net_record_rx] evolves_net [OF net_expire]
  evolves_net [OF net_commit] evolves_net [OF net_rollback]

lemma evolves_deliver:
  "try_deliver mp ip data origin s = (r, s') \<Longrightarrow> evolves s (if r = Delivered then record_rx_traffic ip n s' else s')"
  using evolves_ops(4) [of mp ip data origin s r s'] evolves_trans [of s s' "record_rx_traffic ip n s'"] by auto

lemma evolves_broadcast_loop:
  "broadcast_loop mp inner route origin targets n s = Some (k, s') \<Longrightarrow> evolves s s'"
proof (induction mp inner route origin targets n s rule: broadcast_loop.induct)
  case (2 mp inner route origin t ts n s)
  then obtain d where "build_wireguard_broadcast_relay inner route t = Some d" by (auto split: option.splits)
  moreover obtain r s1 where "try_deliver mp t d origin s = (r, s1)" by fastforce
  ultimately have d: "build_wireguard_broadcast_relay inner route t = Some d" "try_deliver mp t d origin s = (r, s1)" by auto
  note e = evolves_deliver [OF d(2), of "length d"]
  show ?case
  proof (cases "r = Delivered")
    case True
    with 2 d have "evolves (record_rx_traffic t (length d) s1) s'" by simp
    with e True show ?thesis by (auto intro: evolves_trans)
  next
    case False
    with 2 d have "evolves s1 s'" by simp
    with e False show ?thesis by (auto intro: evolves_trans)
  qed
qed simp

lemma evolves_relay_broadcast:
  "relay_wireguard_broadcast P mp source inner origin s = Some (r, s') \<Longrightarrow> evolves s s'"
  by (auto simp: relay_wireguard_broadcast_def dest: evolves_broadcast_loop split: sum.splits)

lemma evolves_fold: "(\<And>x s. evolves s (f x s)) \<Longrightarrow> evolves s (fold f xs s)"
  by (induction xs arbitrary: s) (auto intro: evolves_trans)

lemma evolves_ping: "evolves s (ping_network mp t s)"
  unfolding ping_network_def by (rule evolves_fold) (auto split: option.split)

section \<open>Operations on one network\<close>

definition confined :: "string \<Rightarrow> control_service \<Rightarrow> control_service \<Rightarrow> bool" where
  "confined code cs cs' \<longleftrightarrow> cs_db_nets cs' = cs_db_nets cs \<and> cs_default_net cs' = cs_default_net cs \<and>
     (hm_ok (cs_networks cs) \<longrightarrow> hm_ok (cs_networks cs')) \<and>
     (\<forall>c. c \<noteq> code \<longrightarrow> hm_get (cs_networks cs') c = hm_get (cs_networks cs) c) \<and>
     rel_option evolves (hm_get (cs_networks cs) code) (hm_get (cs_networks cs') code)"

lemma confined_refl [simp, intro]: "confined code cs cs"
  by (simp add: confined_def option.rel_refl)

lemma confined_trans: "confined code cs cs' \<Longrightarrow> confined code cs' cs'' \<Longrightarrow> confined code cs cs''"
  unfolding confined_def
  by (auto simp: option.rel_sel elim: evolves_trans)

lemma networks_simps [simp]:
  "cs_networks (set_networks ns cs) = ns" "cs_networks (put_state c s cs) = hm_insert c s (cs_networks cs)"
  "cs_networks (add_write w cs) = cs_networks cs" "cs_networks (cs\<lparr>cs_db_nets := x\<rparr>) = cs_networks cs"
  "cs_networks (cs\<lparr>cs_pm := m\<rparr>) = pm_networks m" "cs_networks (cs\<lparr>cs_pm := m, cs_cluster_db := db\<rparr>) = pm_networks m"
  "cs_db_nets (set_networks ns cs) = cs_db_nets cs" "cs_db_nets (put_state c s cs) = cs_db_nets cs"
  "cs_db_nets (add_write w cs) = cs_db_nets cs" "cs_default_net (set_networks ns cs) = cs_default_net cs"
  "cs_default_net (put_state c s cs) = cs_default_net cs" "cs_default_net (add_write w cs) = cs_default_net cs"
  "cs_linked (set_networks ns cs) = cs_linked cs" "cs_linked (put_state c s cs) = cs_linked cs"
  by (simp_all add: cs_networks_def set_networks_def put_state_def add_write_def)

lemma confined_put: "hm_get (cs_networks cs) code = Some s \<Longrightarrow> evolves s s' \<Longrightarrow> confined code cs (put_state code s' cs)"
  by (auto simp: confined_def)

lemma confined_write [intro]: "confined code cs (add_write w cs)"
  by (simp add: confined_def option.rel_refl)

lemma confined_pm: "pm_networks m = cs_networks cs \<Longrightarrow> confined code cs (cs\<lparr>cs_pm := m\<rparr>)"
  by (simp add: confined_def option.rel_refl)

lemma send_datagram_networks: "send_datagram io p d m = (ok, m') \<Longrightarrow> pm_networks m' = pm_networks m"
  by (auto simp: send_datagram_def Let_def split: option.splits)

lemma forward_networks: "forward_with_best_route cd io nc ip d origin m = (ok, m') \<Longrightarrow> pm_networks m' = pm_networks m"
  by (auto simp: forward_with_best_route_def forward_to_peer_def Let_def split: option.splits prod.splits if_splits
      dest: send_datagram_networks)

lemma confined_forward_pm:
  "forward_with_best_route cd io nc ip d origin (cs_pm cs) = (ok, m) \<Longrightarrow> confined code cs (cs\<lparr>cs_pm := m\<rparr>)"
  by (rule confined_pm) (simp add: cs_networks_def forward_networks)

lemma forward_broadcast_loop_networks:
  "forward_broadcast_loop io msg incoming peers ids n m = (k, m') \<Longrightarrow> pm_networks m' = pm_networks m"
  by (induction io msg incoming peers ids n m rule: forward_broadcast_loop.induct)
    (auto simp: Let_def split: if_splits prod.splits dest: send_datagram_networks)

lemma broadcast_wireguard_networks: "pm_networks (snd (broadcast_wireguard cd io now rid nc src d origin m)) = pm_networks m"
  using forward_broadcast_loop_networks
  by (auto simp: broadcast_wireguard_def forward_broadcast_message_def Let_def prod_eq_iff)

lemma confined_relay:
  assumes "route_wireguard_relay cx mp code dest data origin cs = (r, cs')"
  shows "confined code cs cs'"
proof (cases "hm_get (cs_networks cs) code")
  case (Some s)
  obtain l s1 where d: "try_deliver mp dest data origin s = (l, s1)" by fastforce
  note p = confined_put [OF Some evolves_deliver [OF d]]
  show ?thesis
  proof (cases "l = NotFound")
    case False
    with assms Some d p [of "length data"] show ?thesis by (auto simp: route_wireguard_relay_def)
  next
    case nf: True
    with p [of 0] have c: "confined code cs (put_state code s1 cs)" by simp
    obtain f m where f: "forward_with_best_route (cx_codec cx) (cx_io cx) code dest data origin (cs_pm (put_state code s1 cs)) = (f, m)"
      by fastforce
    from c confined_forward_pm [OF f] have "confined code cs ((put_state code s1 cs)\<lparr>cs_pm := m\<rparr>)" by (rule confined_trans)
    with assms Some d nf c f show ?thesis by (auto simp: route_wireguard_relay_def Let_def split: if_splits)
  qed
qed (use assms in \<open>simp add: route_wireguard_relay_def\<close>)

lemma confined_broadcast:
  assumes "route_wireguard_broadcast P cx mp instant rid code src inner origin cs = Some (r, cs')"
  shows "confined code cs cs'"
proof (cases "hm_get (cs_networks cs) code")
  case (Some s)
  with assms obtain x s1 where x: "relay_wireguard_broadcast P mp src inner origin s = Some (x, s1)"
    by (auto simp: route_wireguard_broadcast_def split: option.splits)
  have c: "confined code cs (put_state code s1 cs)" by (rule confined_put [OF Some evolves_relay_broadcast [OF x]])
  have "confined code (put_state code s1 cs) ((put_state code s1 cs)\<lparr>cs_pm := snd (broadcast_wireguard (cx_codec cx) (cx_io cx)
      instant rid code src inner origin (cs_pm (put_state code s1 cs)))\<rparr>)"
    by (rule confined_pm) (simp add: broadcast_wireguard_networks cs_networks_def)
  from confined_trans [OF c this] assms Some x c show ?thesis
    by (auto simp: route_wireguard_broadcast_def Let_def split: sum.splits if_splits)
qed (use assms in \<open>simp add: route_wireguard_broadcast_def\<close>)

section \<open>Packets of a client\<close>

lemma confined_turn: "confined (ss_network_code session) cs (relay_turn cx mp session dest packet cs)"
proof -
  let ?nc = "ss_network_code session"
  obtain ok packet' where ttl: "decr_ttl packet = (ok, packet')" by fastforce
  let ?d = "buffer packet'"
  obtain f cs1 where f: "(if \<not> cs_linked cs then (False, cs)
      else case forward_with_best_route (cx_codec cx) (cx_io cx) ?nc dest ?d FromVnt (cs_pm cs) of (f, m) \<Rightarrow> (f, cs\<lparr>cs_pm := m\<rparr>)) = (f, cs1)"
    by fastforce
  then have c: "confined ?nc cs cs1" by (auto dest: confined_forward_pm split: if_splits prod.splits)
  have eq: "relay_turn cx mp session dest packet cs = (if \<not> ok then cs else if f then cs1 else
      case hm_get (cs_networks cs1) ?nc of None \<Rightarrow> cs1
      | Some state \<Rightarrow> (case try_deliver mp dest ?d FromVnt state of (r, state) \<Rightarrow>
          put_state ?nc (if r = Delivered then record_rx_traffic dest (length ?d) state else state) cs1))"
    by (cases ok) (simp_all only: relay_turn_def ttl prod.case bool.case Let_def f if_True if_False simp_thms)
  show ?thesis
  proof (cases "hm_get (cs_networks cs1) ?nc")
    case (Some st)
    obtain r st1 where d: "try_deliver mp dest ?d FromVnt st = (r, st1)" by fastforce
    show ?thesis unfolding eq using Some d confined_trans [OF c confined_put [OF Some evolves_deliver [OF d]]] c by simp
  qed (use eq c in simp)
qed

lemma evolves_send_all: "evolves s (send_all mp data senders s)"
  unfolding send_all_def by (rule evolves_fold) auto

lemma confined_vnt_broadcast: "confined (ss_network_code session) cs (vnt_broadcast mp sel src packet session cs)"
  unfolding vnt_broadcast_def
  by (auto intro: confined_put evolves_send_all split: prod.split bool.split option.split)

lemma confined_selective:
  "handle_selective_broadcast C mp targets src pl session cs = (r, cs') \<Longrightarrow> confined (ss_network_code session) cs cs'"
  using confined_vnt_broadcast by (auto simp: handle_selective_broadcast_def split: sum.splits)

lemma confined_relay_checked: "confined (ss_network_code session) cs (relay_checked cx mp ok session dest packet cs)"
  using confined_relay by (fastforce simp: relay_checked_def prod_eq_iff split: prod.split bool.split)

lemma confined_broadcast_checked:
  "relay_broadcast_checked P cx mp instant rid ok session packet cs = Some cs' \<Longrightarrow> confined (ss_network_code session) cs cs'"
  using confined_broadcast by (fastforce simp: relay_broadcast_checked_def split: prod.splits bool.splits if_splits)

lemma confined_forward:
  assumes "forward_packet P cx mp C instant rid session msg_type packet state cs = Some (r, cs')"
  shows "confined (ss_network_code session) cs cs'"
proof (cases msg_type)
  case WireGuardBroadcastRelay
  with assms show ?thesis by (auto simp: forward_packet_def Let_def dest: confined_broadcast_checked)
next
  case ExcludeBroadcast
  with assms show ?thesis by (auto simp: forward_packet_def Let_def dest: confined_selective)
next
  case TargetBroadcast
  with assms show ?thesis by (auto simp: forward_packet_def Let_def dest: confined_selective)
qed (use assms confined_relay_checked confined_vnt_broadcast confined_turn in \<open>auto simp: forward_packet_def Let_def split: if_splits\<close>)

lemma confined_latency:
  "confined nc cs (set_networks (provider_update_client_latency nc ip l (cs_networks cs)) cs)"
proof (cases "hm_get (cs_networks cs) nc")
  case None
  then show ?thesis by (simp add: provider_update_client_latency_def get_network_state_def confined_def)
next
  case (Some s)
  then show ?thesis by (auto simp: provider_update_client_latency_def get_network_state_def confined_def)
qed

lemma handle_gateway_confined:
  assumes "handle_gateway P C R ts now buf h cs = Some (r, out, h', cs')"
  shows "h' = h \<and> (case hd_session h of None \<Rightarrow> cs' = cs | Some session \<Rightarrow> confined (ss_network_code session) cs cs')"
  using assms confined_latency
  by (auto simp: handle_gateway_def Let_def split: option.splits if_splits sum.splits msg_type.splits prod.splits)

lemma confirm_evolves:
  assumes "confirm_registration nc d ip rid save env s = (r, s')" "\<And>s. evolves s (env s)"
  shows "evolves s s'"
proof (cases "get_device_entry d s")
  case (Some e)
  with assms evolves_trans [OF assms(2), of s "confirm_endpoint ip rid (env s)"] show ?thesis
    by (cases "save (to_record (ns_lease s) nc e)") (auto simp: confirm_registration_def split: unit.splits)
qed (use assms in \<open>auto simp: confirm_registration_def\<close>)

lemma handle_confirm_confined:
  assumes "handle_confirm_reg C ok txt save env h cs = Some (r, out, h', cs')" "\<And>s. evolves s (env s)"
    and "hd_session h = Some session"
  shows "confined (ss_network_code session) cs cs'"
    "h' = h \<or> h' = h\<lparr>hd_session := Some (session\<lparr>ss_registration_status := Confirmed\<rparr>)\<rparr>"
  using assms(1,3)
  by (auto simp: handle_confirm_reg_def intro!: confined_put dest: confirm_evolves [OF _ assms(2)]
      split: option.splits if_splits prod.splits sum.splits)

lemma handle_data_confined:
  assumes "handle_data P cx mp C R io buf h cs = Some (r, out, h', cs')" "\<And>s. evolves s (da_env io s)"
    and "hd_session h = Some session"
  shows "confined (ss_network_code session) cs cs'"
    "h' = h \<or> h' = h\<lparr>hd_session := Some (session\<lparr>ss_registration_status := Confirmed\<rparr>)\<rparr>"
proof -
  let ?nc = "ss_network_code session"
  have "confined ?nc cs cs' \<and> (h' = h \<or> h' = h\<lparr>hd_session := Some (session\<lparr>ss_registration_status := Confirmed\<rparr>)\<rparr>)"
  proof (cases "ss_registration_status session = PendingConfirmation")
    case True
    with assms show ?thesis
      by (auto simp: handle_data_def dest: handle_confirm_confined [OF _ assms(2,3)]
          split: sum.splits request_message.splits)
  next
    case False
    note D = assms(1) [unfolded handle_data_def assms(3) option.case if_not_P [OF False]]
    show ?thesis
    proof (cases "new_packet buf")
      case (Inr packet)
      note D = D [unfolded Inr sum.case]
      show ?thesis
      proof (cases "packet_msg_type packet")
        case mt: (Inr mt)
        note D = D [unfolded mt sum.case]
        show ?thesis
        proof (cases "is_gateway packet \<or> \<not> cluster_lease_valid session")
          case True
          with D assms(3) handle_gateway_confined show ?thesis by (fastforce split: if_splits)
        next
          case False
          with D obtain st where st: "hm_get (cs_networks cs) ?nc = Some st" by (auto split: option.splits)
          let ?cs = "put_state ?nc (record_tx_traffic (src_id packet) (length buf) st) cs"
          have f: "forward_packet P cx mp C (da_instant io) (da_request_id io) session mt packet st ?cs = Some (r, cs')" "h' = h"
            using D False st by (auto simp: Let_def)
          have "confined ?nc cs ?cs" by (rule confined_put [OF st]) auto
          with confined_forward [OF f(1)] f(2) show ?thesis by (auto intro: confined_trans)
        qed
      qed (use D in auto)
    qed (use D in auto)
  qed
  then show "confined ?nc cs cs'" "h' = h \<or> h' = h\<lparr>hd_session := Some (session\<lparr>ss_registration_status := Confirmed\<rparr>)\<rparr>"
    by auto
qed


section \<open>Echo requests to the gateway\<close>

lemma handle_icmp_ping_panics:
  fixes packet
  assumes "pnet_layout P" "echo_layout P"
  defines "pl \<equiv> payload packet"
  defines "hl \<equiv> unat (pl ! 0 AND 0x0F) * 4" and "n \<equiv> unat (u16_of_be (pl ! 2) (pl ! 3))"
  shows "handle_icmp_ping P packet = None \<longleftrightarrow>
    20 \<le> length pl \<and> pl ! 9 = ICMP \<and> 8 \<le> n - hl \<and> max 20 hl + 8 \<le> length pl \<and> pl ! max 20 hl = EchoRequest \<and> length pl < n"
proof (cases "20 \<le> length pl \<and> pl ! 9 = ICMP")
  case True
  let ?icmp = "take (n - hl) (drop (max 20 hl) pl)"
  have new: "ipv4_new P b \<longleftrightarrow> 20 \<le> length b" for b using assms(1) by (simp add: pnet_layout_def ipv4_layout_def)
  have set: "20 \<le> length b \<Longrightarrow> length (ipv4_set_checksum P c (ipv4_set_destination P d (ipv4_set_source P a b))) = length b" for a c d b
    using assms(1) by (simp add: pnet_layout_def ipv4_layout_def)
  have f: "ipv4_next_level_protocol P pl = pl ! 9" "ipv4_header_length P pl = pl ! 0 AND 0x0F"
      "ipv4_total_length P pl = u16_of_be (pl ! 2) (pl ! 3)" "ipv4_payload P pl = ?icmp"
    using assms(1,2) True by (simp_all add: pnet_layout_def ipv4_layout_def echo_layout_def Let_def hl_def n_def)
  have e: "echo_request_new P b \<longleftrightarrow> 8 \<le> length b" "8 \<le> length b \<Longrightarrow> echo_request_type P b = b ! 0" for b
    using assms(2) by (simp_all add: echo_layout_def)
  have first: "drop (max 20 hl) pl ! 0 = pl ! max 20 hl" if "max 20 hl + 8 \<le> length pl"
    using nth_drop [OF add_leD1 [OF that], of 0] by simp
  show ?thesis
  proof (cases "8 \<le> length ?icmp \<and> ?icmp ! 0 = EchoRequest")
    case echo: True
    then have fits: "8 \<le> n - hl" "max 20 hl + 8 \<le> length pl" by auto
    then have nth: "pl ! max 20 hl = EchoRequest" using echo first by simp
    have r: "handle_icmp_ping P packet = None" if "length pl < n"
      using that True echo f e by (simp add: handle_icmp_ping_def Let_def new pl_def [symmetric] n_def [symmetric])
    have "handle_icmp_ping P packet \<noteq> None" if "n \<le> length pl"
      using that True echo f e fits set
      by (auto simp: handle_icmp_ping_def Let_def new pl_def [symmetric] n_def [symmetric] hl_def [symmetric] min_def)
    with r True fits nth show ?thesis by (metis not_le)
  next
    case False
    then have "handle_icmp_ping P packet = Some None"
      using True f e by (auto simp: handle_icmp_ping_def Let_def new pl_def [symmetric])
    moreover have "\<not> (8 \<le> n - hl \<and> max 20 hl + 8 \<le> length pl \<and> pl ! max 20 hl = EchoRequest)"
      using False first by auto
    ultimately show ?thesis by auto
  qed
next
  case False
  then show ?thesis
    using assms(1) by (auto simp: handle_icmp_ping_def Let_def pnet_layout_def ipv4_layout_def pl_def [symmetric])
qed

text \<open>C36. One ICMP echo request to the gateway stops the server.  A packet of a confirmed client that is addressed to the gateway
  panics the handler (and the release build aborts on a panic) exactly when it carries an ICMP echo request whose
  total length field is greater than the number of bytes present; any other such packet is handled.\<close>

theorem echo_request_aborts:
  assumes "pnet_layout P" "echo_layout P" "hd_session h = Some session" "ss_registration_status session = Confirmed"
    and "cluster_lease_valid session" "hd_sender h \<noteq> None" "hm_get (cs_networks cs) (ss_network_code session) = Some s"
    and "new_packet buf = Inr packet" "packet_msg_type packet = Inr Turn" "is_gateway packet" "ttl packet \<noteq> 0"
  shows "handle_data P cx mp C R io buf h cs = None \<longleftrightarrow>
    (let pl = payload packet; hl = unat (pl ! 0 AND 0x0F) * 4; total_length = unat (u16_of_be (pl ! 2) (pl ! 3)) in
     20 \<le> length pl \<and> pl ! 9 = ICMP \<and> 8 \<le> total_length - hl \<and> max 20 hl + 8 \<le> length pl \<and>
     pl ! max 20 hl = EchoRequest \<and> length pl < total_length)"
  unfolding Let_def handle_icmp_ping_panics [OF assms(1,2), symmetric]
  using assms(3-11) by (auto simp: handle_data_def handle_gateway_def split: option.splits)

definition wit_session :: session where
  "wit_session = \<lparr>ss_network_code = ''net'', ss_device_id = ''a'', ss_ip = ip4 10 26 0 2, ss_random_id = 7,
     ss_registration_status = Confirmed, ss_allow_wire_guard = True, ss_client_capabilities = 0, ss_cluster_lease = None\<rparr>"

definition wit_handler :: handler where
  "wit_handler = \<lparr>hd_addr = SocketV4 0 0, hd_sender = Some 0, hd_session = Some wit_session\<rparr>"

definition wit_live :: control_service where
  "wit_live = put_state ''net'' wit_ns1 (service_new (\<lambda>_ _. None) None wit_net 0 wit_member wit_cluster_db)"

definition wit_data_io :: data_io where
  "wit_data_io = \<lparr>da_instant = 0, da_now_ms = 0, da_request_id = [], da_send_ok = True, da_save = (\<lambda>_. Inr ()), da_env = id,
     da_txt = id, da_timestamp = (\<lambda>_. 0)\<rparr>"

definition wit_rpc :: rpc_codec where
  "wit_rpc = \<lparr>rc_decode = (\<lambda>_. None), rc_encode = (\<lambda>_ _. [])\<rparr>"

text \<open>An echo request of 28 bytes that claims 100.\<close>

definition wit_echo :: bytes where
  "wit_echo = [1, 0x11, 0x40, 0, 0, 0, 0, 0, 10, 26, 0, 2, 10, 26, 0, 1,
     0x45, 0, 0, 100, 0, 0, 0, 0, 64, 1, 0, 0, 10, 26, 0, 2, 10, 26, 0, 1, 8, 0, 0, 0, 0, 7, 0, 1]"

definition wit_turn :: bytes where
  "wit_turn = [1, 0, 0, 0, 0, 0, 0, 0, 10, 26, 0, 2, 10, 26, 0, 2]"

lemmas handler_eval = wit_handler_def wit_session_def wit_live_def cluster_lease_valid_def service_new_def new_packet_def
  packet_msg_type_def header_def header_of_bytes_def msg_type_try_from_def is_gateway_def ttl_def payload_def HEAD_LENGTH_def
  hdr_msg_type_def hdr_curr_ttl_def GATEWAY_def

theorem echo_request_aborts_witness:
  "handle_data rfc_pnet wit_ctx all_ok Control_Message.wit_codec wit_rpc wit_data_io wit_echo wit_handler wit_live = None"
  by (subst echo_request_aborts [OF rfc_pnet_layout rfc_echo_layout, where packet = "\<lparr>buffer = wit_echo\<rparr>" and session = wit_session
        and s = wit_ns1])
    (simp_all add: handler_eval wit_echo_def ICMP_def EchoRequest_def witness_eval)


end
