(* ===== verification/Service_Inv.thy ===== *)
theory Service_Inv
  imports Service_Steps
begin

text \<open>
  The control service over all its operations: the configuration of the networks and the live networks stay
  well formed and agree (\<open>service_inv\<close>), from the start of the server on (\<open>svc_step\<close>).
\<close>

section \<open>Invariant\<close>

definition net_fits :: "ipv4_net \<Rightarrow> bool" where
  "net_fits net \<longleftrightarrow> ipv4_net_ok net \<and> net_network net \<noteq> - 1"

text \<open>A live network runs under its own code, with the range and lease duration of its configuration, and
  the first address of the range as gateway.\<close>

definition runs_as :: "string \<Rightarrow> network_config \<Rightarrow> network_state \<Rightarrow> bool" where
  "runs_as code config s \<longleftrightarrow> session_inv s \<and> ns_network_code s = code \<and> ns_net s = nf_net config \<and>
     ns_lease_duration s = nf_lease_duration config \<and> ns_gateway s = net_network (nf_net config) + 1"

definition service_inv :: "control_service \<Rightarrow> bool" where
  "service_inv cs \<longleftrightarrow> hm_ok (cs_db_nets cs) \<and> hm_ok (cs_networks cs) \<and> net_fits (cs_default_net cs) \<and>
     (\<forall>code config. hm_get (cs_db_nets cs) code = Some config \<longrightarrow> net_fits (nf_net config)) \<and>
     (\<forall>code s. hm_get (cs_networks cs) code = Some s \<longrightarrow>
        (\<exists>config. hm_get (cs_db_nets cs) code = Some config \<and> runs_as code config s))"

lemma runs_as_evolves: "runs_as code config s \<Longrightarrow> evolves s s' \<Longrightarrow> runs_as code config s'"
  using evolves_inv by (auto simp: runs_as_def same_network_def)

text \<open>Networks that only evolve or are dropped.\<close>

definition nets_follow :: "network_states \<Rightarrow> network_states \<Rightarrow> bool" where
  "nets_follow ns ns' \<longleftrightarrow> (hm_ok ns \<longrightarrow> hm_ok ns') \<and>
     (\<forall>code s'. hm_get ns' code = Some s' \<longrightarrow> (\<exists>s. hm_get ns code = Some s \<and> evolves s s'))"

lemma nets_follow_refl [simp, intro]: "nets_follow ns ns"
  by (auto simp: nets_follow_def)

lemma nets_follow_trans: "nets_follow ns ns' \<Longrightarrow> nets_follow ns' ns'' \<Longrightarrow> nets_follow ns ns''"
  unfolding nets_follow_def by (meson evolves_trans)

definition follows :: "control_service \<Rightarrow> control_service \<Rightarrow> bool" where
  "follows cs cs' \<longleftrightarrow> cs_db_nets cs' = cs_db_nets cs \<and> cs_default_net cs' = cs_default_net cs \<and>
     nets_follow (cs_networks cs) (cs_networks cs')"

lemma follows_refl [simp, intro]: "follows cs cs"
  by (simp add: follows_def)

lemma follows_trans: "follows cs cs' \<Longrightarrow> follows cs' cs'' \<Longrightarrow> follows cs cs''"
  unfolding follows_def by (auto intro: nets_follow_trans)

lemma follows_inv: "follows cs cs' \<Longrightarrow> service_inv cs \<Longrightarrow> service_inv cs'"
  unfolding follows_def nets_follow_def service_inv_def using runs_as_evolves by fastforce

lemma confined_follows: "confined code cs cs' \<Longrightarrow> follows cs cs'"
proof -
  assume c: "confined code cs cs'"
  have "\<exists>s. hm_get (cs_networks cs) k = Some s \<and> evolves s s'" if "hm_get (cs_networks cs') k = Some s'" for k s'
    using c that by (cases "k = code") (auto simp: confined_def option.rel_sel)
  with c show ?thesis by (simp add: confined_def follows_def nets_follow_def)
qed

lemmas follows_put = confined_follows [OF confined_put]
  and follows_write [intro] = confined_follows [OF confined_write]

lemma follows_remove: "follows cs (set_networks (hm_remove code (cs_networks cs)) cs)"
  by (auto simp: follows_def nets_follow_def)

lemma follows_fold: "(\<And>x cs. follows cs (f x cs)) \<Longrightarrow> follows cs (fold f xs cs)"
  by (induction xs arbitrary: cs) (auto intro: follows_trans)

section \<open>Creating a network\<close>

text \<open>\<open>Ipv4Net::new\<close>: the network of the address, for a prefix up to 32.\<close>

definition net_maker :: "(ipv4 \<Rightarrow> u8 \<Rightarrow> ipv4_net option) \<Rightarrow> bool" where
  "net_maker mk \<longleftrightarrow> (\<forall>a p. case mk a p of None \<Rightarrow> p > 32
     | Some n \<Rightarrow> p \<le> 32 \<and> ipv4_net_ok n \<and> net_network n = push_bit (32 - unat p) (drop_bit (32 - unat p) a))"

definition cidr_maker :: "ipv4 \<Rightarrow> u8 \<Rightarrow> ipv4_net option" where
  "cidr_maker a p = (if p \<le> 32 then Some (cidr a (unat p)) else None)"

definition load_ok :: "db_load \<Rightarrow> bool" where
  "load_ok d \<longleftrightarrow> (\<exists>rs as. dl_devices d = Some rs \<and> dl_allocations d = Some as \<and> db_consistent rs as)"

lemma service_inv_put:
  "service_inv cs \<Longrightarrow> hm_get (cs_db_nets cs) code = Some config \<Longrightarrow> runs_as code config s \<Longrightarrow> service_inv (put_state code s cs)"
  by (auto simp: service_inv_def split: if_splits)

lemma not_configured: "service_inv cs \<Longrightarrow> hm_get (cs_db_nets cs) code = None \<Longrightarrow> hm_get (cs_networks cs) code = None"
  by (cases "hm_get (cs_networks cs) code") (fastforce simp: service_inv_def)+

lemma service_inv_configure:
  "service_inv cs \<Longrightarrow> hm_get (cs_networks cs) code = None \<Longrightarrow> net_fits (nf_net config) \<Longrightarrow>
   service_inv (cs\<lparr>cs_db_nets := hm_insert code config (cs_db_nets cs)\<rparr>)"
  by (auto simp: service_inv_def split: if_splits)

lemma get_or_create_inv:
  assumes "get_or_create_network_state d code config cs = (s, cs')" "service_inv cs" "load_ok d"
    and "hm_get (cs_db_nets cs) code = Some config"
  shows "service_inv cs' \<and> hm_get (cs_networks cs') code = Some s \<and> cs_db_nets cs' = cs_db_nets cs"
proof (cases "hm_get (cs_networks cs) code")
  case (Some s0)
  with assms(1) have "follows cs cs'" "s = update_time (dl_instant d) s0" "cs' = put_state code s cs"
    by (auto simp: get_or_create_network_state_def Let_def intro!: follows_put)
  with assms(2) follows_inv show ?thesis by auto
next
  case None
  obtain rs as where l: "dl_devices d = Some rs" "dl_allocations d = Some as" "db_consistent rs as"
    using assms(3) by (auto simp: load_ok_def)
  have "net_fits (nf_net config)" using assms(2,4) by (auto simp: service_inv_def)
  then have "session_inv (new_from_db (dl_instant d) code (nf_net config) (nf_lease_duration config) (dl_now d) (Some rs) (Some as))"
    using l(3) by (auto simp: net_fits_def intro!: session_inv_new)
  then have "runs_as code config (new_from_db (dl_instant d) code (nf_net config) (nf_lease_duration config) (dl_now d) (Some rs) (Some as))"
    by (auto simp: runs_as_def new_from_db_def Let_def)
  with assms None l show ?thesis
    by (auto simp: get_or_create_network_state_def Let_def intro: service_inv_put)
qed

lemma push_drop_le: "push_bit n (drop_bit n a) \<noteq> - 1" if "a \<noteq> - 1" for a :: "32 word"
proof
  assume h: "push_bit n (drop_bit n a) = - 1"
  have "bit a k" if "k < 32" for k
    using arg_cong [OF h, of "\<lambda>w. bit w k"] that by (auto simp: bit_simps split: if_splits)
  then have "a = - 1" by (auto intro!: bit_word_eqI)
  with \<open>a \<noteq> - 1\<close> show False by simp
qed

lemma net_maker_fits: "net_maker mk \<Longrightarrow> mk a p = Some n \<Longrightarrow> a \<noteq> - 1 \<Longrightarrow> net_fits n"
  using push_drop_le by (force simp: net_maker_def net_fits_def split: option.splits)

lemma push_drop_24: "push_bit 8 (drop_bit 8 a) \<noteq> - 1" for a :: "32 word"
proof
  assume "push_bit 8 (drop_bit 8 a) = - 1"
  from arg_cong [OF this, of "\<lambda>w. bit w 0"] show False by (simp add: bit_simps)
qed

lemma service_network_config_ok:
  assumes "service_network_config mk code ip cs = Some config" "net_maker mk" "service_inv cs"
  shows "net_fits (nf_net config)" "hm_get (cs_db_nets cs) code = Some c \<Longrightarrow> config = c"
proof -
  have "net_fits n" if n: "mk a 24 = Some n0" "mk (net_network n0) 24 = Some n" for a n0 n
  proof (rule net_maker_fits [OF assms(2) n(2)])
    show "net_network n0 \<noteq> - 1"
      using assms(2) n(1) push_drop_24 by (fastforce simp: net_maker_def split: option.splits)
  qed
  with assms show "net_fits (nf_net config)"
    by (auto simp: service_network_config_def service_inv_def split: option.splits)
  show "config = c" if "hm_get (cs_db_nets cs) code = Some c"
    using assms(1) that by (simp add: service_network_config_def)
qed

section \<open>Leases of the cluster\<close>

lemma peer_send_networks: "peer_send io p d m = (ok, m') \<Longrightarrow> pm_networks m' = pm_networks m"
  by (auto simp: peer_send_def Let_def split: option.splits)

lemma awaited_networks:
  assumes "peer_send io p d (m\<lparr>pm_pending_lease_acquires := l\<rparr>) = (ok, m1) \<or> peer_send io p d (m\<lparr>pm_pending_lease_releases := l\<rparr>) = (ok, m1)"
    and "\<And>m. nets_follow (pm_networks m) (pm_networks (env m))"
  shows "nets_follow (pm_networks m) (pm_networks m1)" "nets_follow (pm_networks m) (pm_networks (env m1))"
  using assms(1) assms(2) [of m1] by (auto dest: peer_send_networks)

lemma acquire_request_networks:
  assumes "acquire_lease_request cx now dbf reply env q (m, db) = (x, m', db')"
    and env: "\<And>m. nets_follow (pm_networks m) (pm_networks (env m))"
  shows "nets_follow (pm_networks m) (pm_networks m')"
proof (cases "is_lease_authority m \<or> authority_peer m = None")
  case True
  with assms(1) show ?thesis
    by (auto simp: acquire_lease_request_def split: if_splits sum.splits prod.splits option.splits)
next
  case False
  then obtain p where p: "authority_peer m = Some p" by auto
  obtain ok m1 where s: "peer_send (cx_io cx) p (sc_encode (cx_codec cx) (LeaseAcquireReq q))
      (m\<lparr>pm_pending_lease_acquires := List.insert (sq_request_id q) (pm_pending_lease_acquires m)\<rparr>) = (ok, m1)" by fastforce
  from awaited_networks [OF disjI1 [OF s] env] assms(1) False p s show ?thesis
    by (cases ok) (auto simp: acquire_lease_request_def Let_def split: reply.splits if_splits)
qed

lemma acquire_follows:
  assumes "service_acquire_lease cx io code ot oid req config gw static cs = (r, cs')"
    and "\<And>m. nets_follow (pm_networks m) (pm_networks (rg_env io m))"
  shows "follows cs cs'"
proof -
  have "nets_follow (pm_networks m) (pm_networks m')"
    if "acquire_lease cx now dbf reply (rg_env io) rid code ot oid req net gw secs static (m, db) = (x, m', db')"
    for now dbf reply rid net gw secs m db x m' db'
    using that acquire_request_networks [OF _ assms(2)]
    by (fastforce simp: acquire_lease_def split: if_splits prod.splits sum.splits)
  with assms(1) show ?thesis
    by (auto simp: service_acquire_lease_def follows_def cs_networks_def split: if_splits prod.splits)
qed

lemma release_networks:
  assumes "release_lease cx now dbf reply env rid code ot oid (m, db) = (r, m', db')"
    and env: "\<And>m. nets_follow (pm_networks m) (pm_networks (env m))"
  shows "nets_follow (pm_networks m) (pm_networks m')"
proof (cases "\<not> cluster_enabled m \<or> is_lease_authority m \<or> authority_peer m = None")
  case True
  with assms(1) show ?thesis
    by (auto simp: release_lease_def split: if_splits sum.splits prod.splits option.splits)
next
  case False
  then obtain p where p: "authority_peer m = Some p" by auto
  obtain ok m1 where s: "peer_send (cx_io cx) p (sc_encode (cx_codec cx) (LeaseReleaseReq
      \<lparr>rl_request_id = rid, rl_network_code = code, rl_owner_type = ot, rl_owner_id = oid\<rparr>))
      (m\<lparr>pm_pending_lease_releases := List.insert rid (pm_pending_lease_releases m)\<rparr>) = (ok, m1)" by fastforce
  from awaited_networks [OF disjI2 [OF s] env] assms(1) False p s show ?thesis
    by (cases ok) (auto simp: release_lease_def Let_def split: reply.splits if_splits)
qed

lemma release_follows:
  assumes "service_release_lease cx now dbf reply env rid code p cs = (r, cs')"
    and "\<And>m. nets_follow (pm_networks m) (pm_networks (env m))"
  shows "follows cs cs'"
  using assms(1) release_networks [OF _ assms(2)]
  by (auto simp: service_release_lease_def follows_def cs_networks_def split: if_splits prod.splits)

section \<open>Registration and sessions\<close>

lemma open_session_follows:
  assumes "open_session io req sender p2p grant s cs = (r, cs')" "hm_get (cs_networks cs) (rq_network_code req) = Some s"
  shows "follows cs cs'"
  using assms follows_put [OF assms(2) evolves_ops(1)]
  by (cases grant) (auto simp: open_session_def Let_def split: prod.splits sum.splits)

lemma register_inv:
  assumes "register cx io req sender addr cs = Some (r, cs')" "service_inv cs" "net_maker (cx_net cx)"
    and "load_ok (rg_load io)" "\<And>m. nets_follow (pm_networks m) (pm_networks (rg_env io m))"
  shows "service_inv cs'"
proof (cases "reg_request_check req")
  case Inl
  with assms show ?thesis by (simp add: register_def)
next
  case (Inr u)
  let ?code = "rq_network_code req"
  from assms(1) Inr obtain config where config: "service_network_config (cx_net cx) ?code (rq_ip req) cs = Some config"
    by (auto simp: register_def Let_def split: option.splits)
  let ?cs1 = "if \<not> hm_contains (cs_db_nets cs) ?code then cs\<lparr>cs_db_nets := hm_insert ?code config (cs_db_nets cs)\<rparr> else cs"
  note c = service_network_config_ok [OF config assms(3,2)]
  have cs1: "service_inv ?cs1" "hm_get (cs_db_nets ?cs1) ?code = Some config"
    using assms(2) c not_configured service_inv_configure by (auto simp: hm_contains_def)
  obtain s cs2 where gc: "get_or_create_network_state (rg_load io) ?code config ?cs1 = (s, cs2)" by fastforce
  have cs2: "service_inv cs2" using get_or_create_inv [OF gc cs1(1) assms(4) cs1(2)] by simp
  obtain g cs3 where acq: "service_acquire_lease cx io ?code ''vnt_device'' (rq_device_id req)
      (if rq_ip_variable req then None else rq_ip req) config (ns_gateway s) False cs2 = (g, cs3)" by fastforce
  have cs3: "service_inv cs3" by (rule follows_inv [OF acquire_follows [OF acq assms(5)] cs2])
  note R = assms(1) [unfolded register_def Inr sum.case Let_def config option.case gc prod.case acq]
  show ?thesis
  proof (cases g)
    case Inl
    with R cs3 show ?thesis by simp
  next
    case (Inr grant)
    with R obtain s3 where s3: "hm_get (cs_networks cs3) ?code = Some s3" by (auto split: option.splits)
    obtain x cs4 where op: "open_session io req sender (registered_p2p addr req) grant s3 cs3 = (x, cs4)" by fastforce
    have cs4: "service_inv cs4" by (rule follows_inv [OF open_session_follows [OF op s3] cs3])
    have "follows cs4 cs'"
      using R [unfolded Inr sum.case s3 option.case op prod.case]
      by (auto split: sum.splits prod.splits option.splits if_splits intro: follows_trans)
    then show ?thesis using cs4 by (rule follows_inv)
  qed
qed

lemma handle_reg_inv:
  assumes "handle_reg cx io C ok txt v buf h cs = Some (r, out, h', cs')" "service_inv cs" "net_maker (cx_net cx)"
    and "load_ok (rg_load io)" "\<And>m. nets_follow (pm_networks m) (pm_networks (rg_env io m))"
  shows "service_inv cs'"
  using assms(1) register_inv [OF _ assms(2-5)] assms(2)
  by (auto simp: handle_reg_def split: if_splits sum.splits option.splits prod.splits request_message.splits)

lemma follows_drop: "follows cs (drop_session now session cs)"
proof (cases "hm_get (cs_networks cs) (ss_network_code session)")
  case (Some s)
  obtain rec s' where o: "offline_ip (ss_device_id session) (ss_ip session) (ss_random_id session) now s = (rec, s')" by fastforce
  show ?thesis
    using Some o follows_put [OF Some evolves_ops(2) [OF o]] follows_put [OF Some]
    by (auto simp: drop_session_def Let_def split: registration_status.splits option.splits intro: follows_trans)
qed (simp add: drop_session_def)

section \<open>Maintenance\<close>

lemma follows_release_one: "follows cs (release_one now code cs)"
  using follows_remove by (auto simp: release_one_def split: option.splits)

lemma follows_release: "follows cs (release_network now cs)"
  unfolding release_network_def by (rule follows_fold) (rule follows_release_one)

lemma follows_expired: "follows cs (release_expired_ips now code cs)"
proof (cases "hm_get (cs_networks cs) code")
  case (Some s)
  let ?cs = "put_state code (remove_devices (collect_expired_devices now s) s) cs"
  have "follows cs ?cs" by (rule follows_put [OF Some]) auto
  moreover have "follows ?cs (fold (\<lambda>d. add_write (ReleaseDeviceIp code d)) (collect_expired_devices now s) ?cs)"
    by (rule follows_fold) auto
  ultimately show ?thesis using Some by (auto simp: release_expired_ips_def Let_def intro: follows_trans)
qed (simp add: release_expired_ips_def)

lemma follows_ping: "follows cs (ping_local_clients mp clock cs)"
  unfolding ping_local_clients_def by (rule follows_fold) (auto intro: follows_put evolves_ping split: option.split)

section \<open>Console\<close>

lemma service_inv_write [simp]: "service_inv (add_write w cs) = service_inv cs"
  by (simp add: service_inv_def)

lemma add_network_inv:
  assumes "add_network mk saved now code gateway netmask dur cs = (r, cs')" "service_inv cs" "net_maker mk" "gateway \<noteq> 0"
  shows "service_inv cs'"
proof -
  have "gateway - 1 \<noteq> - 1" using assms(4) by (simp add: diff_eq_eq)
  note fits = net_maker_fits [OF assms(3) _ this]
  have "service_inv ((add_write w cs)\<lparr>cs_db_nets := hm_insert code config (cs_db_nets cs)\<rparr>)"
    if "hm_get (cs_db_nets cs) code = None" "net_fits (nf_net config)" for w config
    using service_inv_configure [of "add_write w cs" code config] that assms(2) not_configured by simp
  with assms(1,2) show ?thesis
    by (auto simp: add_network_def Let_def hm_contains_def dest: fits split: if_splits sum.splits option.splits)
qed

lemma update_network_inv:
  assumes "update_network mk owners saved code gateway netmask dur cs = (r, cs')" "service_inv cs" "net_maker mk" "gateway \<noteq> 0"
  shows "service_inv cs'"
proof -
  have "gateway - 1 \<noteq> - 1" using assms(4) by (simp add: diff_eq_eq)
  note fits = net_maker_fits [OF assms(3) _ this]
  have "service_inv (set_networks (hm_remove code (cs_networks c)) (c\<lparr>cs_db_nets := hm_insert code config (cs_db_nets c)\<rparr>))"
    if "service_inv c" "net_fits (nf_net config)" for c config
    using that by (auto simp: service_inv_def split: if_splits)
  from this [of "add_write _ cs"] show ?thesis
    using assms(1,2) by (auto simp: update_network_def Let_def dest: fits split: sum.splits option.splits)
qed

lemma delete_network_inv:
  assumes "delete_network owners deleted code cs = (r, cs')" "service_inv cs"
  shows "service_inv cs'"
proof -
  have "service_inv (set_networks (hm_remove code (cs_networks c)) (c\<lparr>cs_db_nets := hm_remove code (cs_db_nets c)\<rparr>))"
    if "service_inv c" for c
    using that by (auto simp: service_inv_def)
  from this [of "add_write _ cs"] show ?thesis
    using assms by (auto simp: delete_network_def Let_def split: if_splits sum.splits option.splits)
qed

lemma follows_delete_device:
  assumes "delete_device deleted code d cs = (r, cs')"
  shows "follows cs cs'"
proof (cases "hm_get (cs_networks cs) code")
  case (Some s)
  have "follows cs (put_state code (snd (remove_device_from_memory d s)) cs)"
    by (rule follows_put [OF Some evolves_ops(3) [OF surjective_pairing]])
  with Some assms show ?thesis by (auto simp: delete_device_def Let_def split: if_splits sum.splits intro: follows_trans)
qed (use assms in \<open>auto simp: delete_device_def split: sum.splits\<close>)

section \<open>WireGuard peers\<close>

lemma finish_evolves:
  assumes "finish_reservation p ip prev persist env t s = (r, s')" "\<And>s. evolves s (env s)"
  shows "evolves s s'"
proof -
  have "evolves (env s) (on_lease (rollback_wireguard_peer_ip_reservation p ip prev) (env s))"
    "evolves (env s) (update_time t (on_lease (commit_wireguard_peer_ip_reservation p ip prev) (env s)))"
    by (auto simp: on_lease_def intro: evolves_trans [OF evolves_steps(7)])
  with assms evolves_trans [OF assms(2)] show ?thesis by (auto simp: finish_reservation_def Let_def split: sum.splits)
qed

lemma reserve_evolves:
  assumes "prepare_wireguard_peer_ip_reservation p ip (ns_lease s) = (pr, g)"
    and "finish_reservation p ip prev persist env t (s\<lparr>ns_lease := g\<rparr>) = (r, s')" "\<And>s. evolves s (env s)"
  shows "evolves s s'"
  by (rule evolves_trans [OF evolves_ops(7) [OF assms(1)] finish_evolves [OF assms(2,3)]])

lemma release_ip_evolves:
  assumes "inner_release_wireguard_peer_ip p (ns_lease (env s)) = (b, g)" "\<And>s. evolves s (env s)"
  shows "evolves s ((env s)\<lparr>ns_lease := g\<rparr>)" "evolves s (update_time t ((env s)\<lparr>ns_lease := g\<rparr>))"
  using evolves_trans [OF assms(2) evolves_ops(8) [OF assms(1)]] by (auto intro: evolves_trans)

lemma peer_ops_evolve:
  assumes "\<And>s. evolves s (env s)"
  shows "create_wireguard_peer rec persist env s = (r1, s') \<Longrightarrow> evolves s s'"
    "create_wireguard_peer_with_automatic_ip rec persist env t s = (r2, s') \<Longrightarrow> evolves s s'"
    "create_wireguard_peer_with_ip rec ip persist env t s = (r2, s') \<Longrightarrow> evolves s s'"
    "delete_wireguard_peer_with p result revoke env t s = (r3, s') \<Longrightarrow> evolves s s'"
    "reserve_wireguard_peer_ip p ip persist revoke env t s = (r4, s') \<Longrightarrow> evolves s s'"
    "release_wireguard_peer_ip p removed revoke env t s = (r5, s') \<Longrightarrow> evolves s s'"
proof -
  note [dest] = reserve_evolves [OF _ _ assms] evolves_ops(7) and splits = sum.splits prod.splits if_splits
  show "create_wireguard_peer rec persist env s = (r1, s') \<Longrightarrow> evolves s s'"
    using assms by (auto simp: create_wireguard_peer_def Let_def split: sum.splits)
  show "create_wireguard_peer_with_automatic_ip rec persist env t s = (r2, s') \<Longrightarrow> evolves s s'"
    by (auto simp: create_wireguard_peer_with_automatic_ip_def split: splits)
  show "create_wireguard_peer_with_ip rec ip persist env t s = (r2, s') \<Longrightarrow> evolves s s'"
    by (auto simp: create_wireguard_peer_with_ip_def split: splits)
  show "delete_wireguard_peer_with p result revoke env t s = (r3, s') \<Longrightarrow> evolves s s'"
    using assms release_ip_evolves [OF _ assms]
    by (auto simp: delete_wireguard_peer_with_def Let_def split: splits)
  show "reserve_wireguard_peer_ip p ip persist revoke env t s = (r4, s') \<Longrightarrow> evolves s s'"
    by (auto simp: reserve_wireguard_peer_ip_def reserve_wireguard_peer_ip_with_def split: splits)
  show "release_wireguard_peer_ip p removed revoke env t s = (r5, s') \<Longrightarrow> evolves s s'"
    using assms release_ip_evolves [OF _ assms]
    by (auto simp: release_wireguard_peer_ip_def release_wireguard_peer_ip_with_def Let_def split: splits)
qed

lemma on_network_inv:
  assumes "on_network d code f cs = (r, cs')" "service_inv cs" "load_ok d" "\<And>s r s'. f s = (r, s') \<Longrightarrow> evolves s s'"
  shows "service_inv cs'"
proof (cases "hm_get (cs_db_nets cs) code")
  case None
  with assms(1,2) show ?thesis by (simp add: on_network_def wireguard_network_state_def)
next
  case (Some config)
  obtain s cs1 where gc: "get_or_create_network_state d code config cs = (s, cs1)" by fastforce
  note g = get_or_create_inv [OF gc assms(2,3) Some]
  obtain x s' where f: "f s = (x, s')" by fastforce
  have "cs' = put_state code s' cs1"
    using assms(1) Some gc f by (auto simp: on_network_def wireguard_network_state_def split: sum.splits)
  with g follows_inv [OF follows_put [OF _ assms(4) [OF f]]] show ?thesis by simp
qed

lemma acquire_on_network_inv:
  assumes "get_or_create_network_state d code config cs = (s, cs1)" "hm_get (cs_db_nets cs) code = Some config"
    and "service_acquire_lease cx io code ot oid req config (ns_gateway s) static cs1 = (r, cs2)" "service_inv cs" "load_ok d"
    and "\<And>m. nets_follow (pm_networks m) (pm_networks (rg_env io m))"
  shows "service_inv cs2"
  using get_or_create_inv [OF assms(1,4,5,2)] follows_inv [OF acquire_follows [OF assms(3,6)]] by simp

lemma create_auto_inv:
  assumes "service_create_with_automatic_ip cx io persist env code p key enabled cs = (r, cs')" "service_inv cs"
    and "load_ok (rg_load io)" "\<And>m. nets_follow (pm_networks m) (pm_networks (rg_env io m))" "\<And>s. evolves s (env s)"
  shows "service_inv cs'"
proof (cases "hm_get (cs_db_nets cs) code")
  case None
  with assms(1,2) show ?thesis by (simp add: service_create_with_automatic_ip_def Let_def)
next
  case (Some config)
  obtain s cs1 where gc: "get_or_create_network_state (rg_load io) code config cs = (s, cs1)" by fastforce
  obtain g cs2 where acq: "service_acquire_lease cx io code ''wireguard_peer'' p None config (ns_gateway s) True cs1 = (g, cs2)"
    by fastforce
  have cs2: "service_inv cs2" by (rule acquire_on_network_inv [OF gc Some acq assms(2-4)])
  note R = assms(1) [unfolded service_create_with_automatic_ip_def Let_def Some option.case gc prod.case acq]
  show ?thesis
  proof (cases g)
    case (Inr grant)
    let ?rec = "peer_record (dl_now (rg_load io)) code p key enabled"
    let ?f = "\<lambda>s. case grant of
        Some g \<Rightarrow> create_wireguard_peer_with_ip ?rec (lg_ip g) persist env (dl_instant (rg_load io)) s
      | None \<Rightarrow> create_wireguard_peer_with_automatic_ip ?rec persist env (dl_instant (rg_load io)) s"
    obtain x cs3 where n: "on_network (rg_load io) code ?f cs2 = (x, cs3)" by fastforce
    have "service_inv cs3"
      by (rule on_network_inv [OF n cs2 assms(3)]) (auto dest: peer_ops_evolve(2,3) [OF assms(5)] split: option.splits)
    moreover have "cs' = cs3" using R [unfolded Inr sum.case n prod.case] by (auto split: sum.splits)
    ultimately show ?thesis by simp
  qed (use R cs2 in simp)
qed

lemma reserve_ip_inv:
  assumes "service_reserve_peer_ip cx io persist revoke env code p ip cs = (r, cs')" "service_inv cs"
    and "load_ok (rg_load io)" "\<And>m. nets_follow (pm_networks m) (pm_networks (rg_env io m))" "\<And>s. evolves s (env s)"
  shows "service_inv cs'"
proof (cases "hm_get (cs_db_nets cs) code")
  case None
  with assms(1,2) show ?thesis by (simp add: service_reserve_peer_ip_def Let_def)
next
  case (Some config)
  obtain s cs1 where gc: "get_or_create_network_state (rg_load io) code config cs = (s, cs1)" by fastforce
  obtain g cs2 where acq: "service_acquire_lease cx io code ''wireguard_peer'' p (Some ip) config (ns_gateway s) True cs1 = (g, cs2)"
    by fastforce
  have cs2: "service_inv cs2" by (rule acquire_on_network_inv [OF gc Some acq assms(2-4)])
  note R = assms(1) [unfolded service_reserve_peer_ip_def Let_def Some option.case gc prod.case acq]
  show ?thesis
  proof (cases g)
    case Inr
    with R have "on_network (rg_load io) code (reserve_wireguard_peer_ip p ip persist revoke env (dl_instant (rg_load io))) cs2 = (r, cs')"
      by simp
    then show ?thesis by (rule on_network_inv [OF _ cs2 assms(3)]) (rule peer_ops_evolve(5) [OF assms(5)])
  qed (use R cs2 in simp)
qed

lemma peer_console_inv:
  assumes "service_inv cs" "load_ok d" "\<And>s. evolves s (env s)" "\<And>c r c'. give_back c = (r, c') \<Longrightarrow> follows c c'"
  shows "service_create_wireguard_peer d persist env code p key enabled cs = (r1, cs') \<Longrightarrow> service_inv cs'"
    "service_set_peer_enabled d updated loaded revoke code p enabled cs = (r1, cs') \<Longrightarrow> service_inv cs'"
    "service_delete_wireguard_peer give_back d result revoke env code p cs = (r2, cs') \<Longrightarrow> service_inv cs'"
    "service_release_peer_ip give_back d removed revoke env code p cs = (r3, cs') \<Longrightarrow> service_inv cs'"
proof -
  note inv = on_network_inv [OF _ assms(1,2)] and give = follows_inv [OF assms(4)]
  show "service_create_wireguard_peer d persist env code p key enabled cs = (r1, cs') \<Longrightarrow> service_inv cs'"
    using inv [OF _ peer_ops_evolve(1) [OF assms(3)]]
    by (fastforce simp: service_create_wireguard_peer_def Let_def split: prod.splits sum.splits)
  show "service_set_peer_enabled d updated loaded revoke code p enabled cs = (r1, cs') \<Longrightarrow> service_inv cs'"
    using inv [of code "\<lambda>s. (set_wireguard_peer_enabled p enabled updated loaded revoke s, s)"]
    by (fastforce simp: service_set_peer_enabled_def split: prod.splits sum.splits option.splits)
  show "service_delete_wireguard_peer give_back d result revoke env code p cs = (r2, cs') \<Longrightarrow> service_inv cs'"
    using inv [OF _ peer_ops_evolve(4) [OF assms(3)]] give
    by (fastforce simp: service_delete_wireguard_peer_def split: prod.splits sum.splits if_splits)
  show "service_release_peer_ip give_back d removed revoke env code p cs = (r3, cs') \<Longrightarrow> service_inv cs'"
    using inv [OF _ peer_ops_evolve(6) [OF assms(3)]] give
    by (fastforce simp: service_release_peer_ip_def split: prod.splits sum.splits if_splits)
qed

lemma list_inv:
  assumes "service_inv cs" "load_ok d"
  shows "service_list_wireguard_peers d peers code cs = (r1, cs') \<Longrightarrow> service_inv cs'"
    "service_list_peer_ips d code cs = (r2, cs') \<Longrightarrow> service_inv cs'"
proof -
  show "service_list_wireguard_peers d peers code cs = (r1, cs') \<Longrightarrow> service_inv cs'"
    using on_network_inv [OF _ assms, of code "\<lambda>s. (list_wireguard_peers peers s, s)"]
    by (fastforce simp: service_list_wireguard_peers_def split: prod.splits sum.splits)
  show "service_list_peer_ips d code cs = (r2, cs') \<Longrightarrow> service_inv cs'"
    unfolding service_list_peer_ips_def by (erule on_network_inv [OF _ assms]) auto
qed

section \<open>Other servers\<close>

lemma nets_follow_insert:
  "hm_get ns code = Some s \<Longrightarrow> evolves s s' \<Longrightarrow> nets_follow ns (hm_insert code s' ns)"
  by (auto simp: nets_follow_def split: if_splits)

lemmas evolves_remote = evolves_net [OF net_update_remote [OF surjective_pairing]] evolves_net [OF net_remove_remote [OF surjective_pairing]]

lemma sync_network_follow: "nets_follow (pm_networks (snd acc)) (pm_networks (snd (sync_network t p ni acc)))"
  by (cases acc) (auto simp: sync_network_def Let_def get_network_state_def intro: nets_follow_insert evolves_remote split: option.splits prod.splits)

lemma sync_follow:
  assumes "handle_client_info_response t p codes ns m = (codes', m')"
  shows "nets_follow (pm_networks m) (pm_networks m')"
proof -
  have "nets_follow (pm_networks (snd acc)) (pm_networks (snd (fold (sync_network t p) ns acc)))" for acc
  proof (induction ns arbitrary: acc)
    case (Cons ni ns)
    show ?case using nets_follow_trans [OF sync_network_follow Cons.IH] by simp
  qed simp
  from this [of "(codes, m)"] assms show ?thesis by (simp add: handle_client_info_response_def)
qed

lemma forward_follow: "nets_follow (pm_networks m) (pm_networks (handle_forward_data mp f m))"
  by (auto simp: handle_forward_data_def Let_def get_network_state_def intro!: nets_follow_insert
      intro: evolves_ops(4) evolves_trans [OF evolves_ops(4)] split: option.splits sum.splits prod.splits)

lemma forward_message_networks: "pm_networks (snd (forward_broadcast_message cd io b incoming m)) = pm_networks m"
  by (simp add: forward_broadcast_message_def forward_broadcast_loop_networks [OF surjective_pairing])

lemma broadcast_follow:
  assumes "handle_broadcast_data P mp cd io now incoming b m = Some m'"
  shows "nets_follow (pm_networks m) (pm_networks m')"
proof -
  obtain fresh seen where mark: "mark_broadcast_seen now (bc_broadcast_id b) (pm_broadcast_seen m) = (fresh, seen)" by fastforce
  show ?thesis
    using assms evolves_relay_broadcast
    by (auto simp: handle_broadcast_data_def mark Let_def get_network_state_def forward_message_networks
        intro!: nets_follow_insert split: if_splits option.splits)
qed

lemma cleanup_follow: "nets_follow (pm_networks m) (pm_networks (cleanup_network t p code m))"
  by (auto simp: cleanup_network_def Let_def get_network_state_def intro: nets_follow_insert evolves_remote split: option.splits)

lemma cleanup_routes_follow: "nets_follow (pm_networks m) (pm_networks (cleanup_routes t p codes m))"
proof -
  have "nets_follow (pm_networks m) (pm_networks (fold (cleanup_network t p) codes m))"
    by (induction codes arbitrary: m) (auto intro: nets_follow_trans [OF cleanup_follow])
  then show ?thesis by (simp add: cleanup_routes_def)
qed

lemma closed_follow: "nets_follow (pm_networks m) (pm_networks (connection_closed t p codes m))"
proof -
  have "pm_networks (upd_info p set_disconnected m) = pm_networks m" by (simp add: upd_info_def)
  then show ?thesis
    using cleanup_routes_follow [of "upd_info p set_disconnected m" t p codes]
      cleanup_routes_follow [of "(upd_info p set_disconnected m)\<lparr>pm_cluster_ready := False\<rparr>" t p codes]
    by (simp add: connection_closed_def Let_def)
qed

lemma response_networks:
  "lease_response cx txt now dbf i q (m, db) = (x, m', db') \<Longrightarrow> pm_networks m' = pm_networks m"
  "release_response txt now dbf i q' (m, db) = (y, m', db') \<Longrightarrow> pm_networks m' = pm_networks m"
  by (auto simp: lease_response_def release_response_def Let_def split: if_splits sum.splits prod.splits)

lemma request_networks:
  "handle_lease_acquire_request cx txt now dbf p q (m, db) = (ok, m', db') \<Longrightarrow> pm_networks m' = pm_networks m"
  "handle_lease_release_request cx txt now dbf p q' (m, db) = (ok, m', db') \<Longrightarrow> pm_networks m' = pm_networks m"
  by (auto simp: handle_lease_acquire_request_def handle_lease_release_request_def split: prod.splits
      dest!: response_networks peer_send_networks)

lemma peer_message_follow:
  assumes "handle_peer_message P mp cx txt instant now_ms now dbf p data (codes, m, db) = Some (r, codes', m', db')"
  shows "nets_follow (pm_networks m) (pm_networks m')"
proof (cases "sc_decode (cx_codec cx) data")
  case (Some msg)
  note D = assms [unfolded handle_peer_message_def prod.case Let_def Some option.case]
  note net = peer_send_networks request_networks
  show ?thesis
    using D broadcast_follow forward_follow sync_follow
    by (cases msg) (auto simp: handle_ping_request_def handle_ping_response_def Let_def upd_info_def split: prod.splits if_splits dest!: net)
qed (use assms in \<open>simp add: handle_peer_message_def\<close>)

section \<open>Steps of the service\<close>

text \<open>Everything that changes the service: connections of clients, the WireGuard runtime, maintenance, the
  console, and the links to other servers.  \<open>env\<close> is what other tasks do to the networks during an await.\<close>

definition env_ok :: "(network_state \<Rightarrow> network_state) \<Rightarrow> bool" where
  "env_ok env \<longleftrightarrow> (\<forall>s. evolves s (env s))"

definition peers_env_ok :: "(peer_manager \<Rightarrow> peer_manager) \<Rightarrow> bool" where
  "peers_env_ok env \<longleftrightarrow> (\<forall>m. nets_follow (pm_networks m) (pm_networks (env m)))"

inductive svc_step :: "(ipv4 \<Rightarrow> u8 \<Rightarrow> ipv4_net option) \<Rightarrow> control_service \<Rightarrow> control_service \<Rightarrow> bool" for mk where
  svc_reg: "handle_reg cx io C ok txt v buf h cs = Some (r, out, h', cs') \<Longrightarrow> cx_net cx = mk \<Longrightarrow> load_ok (rg_load io) \<Longrightarrow>
    peers_env_ok (rg_env io) \<Longrightarrow> svc_step mk cs cs'"
| svc_data: "handle_data P cx mp C R dio buf h cs = Some (r, out, h', cs') \<Longrightarrow> env_ok (da_env dio) \<Longrightarrow> svc_step mk cs cs'"
| svc_drop: "svc_step mk cs (drop_session now session cs)"
| svc_relay: "route_wireguard_relay cx mp code dest data origin cs = (res, cs') \<Longrightarrow> svc_step mk cs cs'"
| svc_broadcast: "route_wireguard_broadcast P cx mp instant rid code src inner origin cs = Some (ok, cs') \<Longrightarrow> svc_step mk cs cs'"
| svc_release: "svc_step mk cs (release_network now_i cs)"
| svc_expire: "svc_step mk cs (release_expired_ips now code cs)"
| svc_ping: "svc_step mk cs (ping_local_clients mp clock cs)"
| svc_add: "add_network mk saved now code gateway netmask dur cs = (ru, cs') \<Longrightarrow> gateway \<noteq> 0 \<Longrightarrow> svc_step mk cs cs'"
| svc_update: "update_network mk owners saved code gateway netmask d cs = (ru, cs') \<Longrightarrow> gateway \<noteq> 0 \<Longrightarrow> svc_step mk cs cs'"
| svc_delete: "delete_network owners deleted code cs = (ru, cs') \<Longrightarrow> svc_step mk cs cs'"
| svc_delete_device: "delete_device deleted code dev cs = (ru, cs') \<Longrightarrow> svc_step mk cs cs'"
| svc_create_peer: "service_create_wireguard_peer ld persist env code p key enabled cs = (rv, cs') \<Longrightarrow> load_ok ld \<Longrightarrow> env_ok env \<Longrightarrow>
    svc_step mk cs cs'"
| svc_create_auto: "service_create_with_automatic_ip cx io persist env code p key enabled cs = (rn, cs') \<Longrightarrow> load_ok (rg_load io) \<Longrightarrow>
    peers_env_ok (rg_env io) \<Longrightarrow> env_ok env \<Longrightarrow> svc_step mk cs cs'"
| svc_set_enabled: "service_set_peer_enabled ld updated loaded revoke code p enabled cs = (rv, cs') \<Longrightarrow> load_ok ld \<Longrightarrow> svc_step mk cs cs'"
| svc_delete_peer: "service_delete_wireguard_peer (service_release_lease cx now_s dbf reply penv rid code p) ld result revoke env code p cs
    = (rd, cs') \<Longrightarrow> load_ok ld \<Longrightarrow> peers_env_ok penv \<Longrightarrow> env_ok env \<Longrightarrow> svc_step mk cs cs'"
| svc_release_ip: "service_release_peer_ip (service_release_lease cx now_s dbf reply penv rid code p) ld removed revoke env code p cs
    = (rb, cs') \<Longrightarrow> load_ok ld \<Longrightarrow> peers_env_ok penv \<Longrightarrow> env_ok env \<Longrightarrow> svc_step mk cs cs'"
| svc_reserve: "service_reserve_peer_ip cx io persist revoke env code p ip cs = (ru, cs') \<Longrightarrow> load_ok (rg_load io) \<Longrightarrow>
    peers_env_ok (rg_env io) \<Longrightarrow> env_ok env \<Longrightarrow> svc_step mk cs cs'"
| svc_list_peers: "service_list_wireguard_peers ld peers code cs = (rl, cs') \<Longrightarrow> load_ok ld \<Longrightarrow> svc_step mk cs cs'"
| svc_list_ips: "service_list_peer_ips ld code cs = (ri, cs') \<Longrightarrow> load_ok ld \<Longrightarrow> svc_step mk cs cs'"
| svc_link: "svc_step mk cs (set_peer_manager m cs)"
| svc_peer_message: "handle_peer_message P mp cx etxt instant now_ms now_s dbf i data (codes, cs_pm cs, cs_cluster_db cs)
    = Some (rm, codes', m, db) \<Longrightarrow> svc_step mk cs (cs\<lparr>cs_pm := m, cs_cluster_db := db\<rparr>)"
| svc_peer_closed: "svc_step mk cs (cs\<lparr>cs_pm := connection_closed instant i codes (cs_pm cs)\<rparr>)"
| svc_peers: "pm_networks m = cs_networks cs \<Longrightarrow> svc_step mk cs (cs\<lparr>cs_pm := m, cs_cluster_db := db\<rparr>)"

lemma follows_pm:
  "nets_follow (cs_networks cs) (pm_networks m) \<Longrightarrow> follows cs (cs\<lparr>cs_pm := m\<rparr>)"
  "nets_follow (cs_networks cs) (pm_networks m) \<Longrightarrow> follows cs (cs\<lparr>cs_pm := m, cs_cluster_db := db\<rparr>)"
  "follows cs (set_peer_manager m cs)"
  by (simp_all add: follows_def set_peer_manager_def cs_networks_def)

lemma data_follows:
  assumes "handle_data P cx mp C R io buf h cs = Some (r, out, h', cs')" "env_ok (da_env io)"
  shows "follows cs cs'"
proof (cases "hd_session h")
  case (Some session)
  with assms show ?thesis by (auto simp: env_ok_def intro: confined_follows handle_data_confined(1))
qed (use assms in \<open>auto simp: handle_data_def\<close>)

lemma svc_step_inv:
  assumes "svc_step mk cs cs'" "net_maker mk" "service_inv cs"
  shows "service_inv cs'"
  using assms(1)
proof cases
  case svc_reg
  then show ?thesis using assms handle_reg_inv by (auto simp: peers_env_ok_def)
next
  case svc_add
  then show ?thesis using assms add_network_inv by blast
next
  case svc_update
  then show ?thesis using assms update_network_inv by blast
next
  case svc_delete
  then show ?thesis using assms delete_network_inv by blast
next
  case svc_create_peer
  show ?thesis
    by (rule peer_console_inv(1) [OF assms(3) _ _ _ svc_create_peer(1), where give_back = "\<lambda>c. (Inr (), c)"])
      (use svc_create_peer in \<open>auto simp: env_ok_def\<close>)
next
  case svc_create_auto
  then show ?thesis using assms(3) create_auto_inv by (auto simp: env_ok_def peers_env_ok_def)
next
  case svc_set_enabled
  show ?thesis
    by (rule peer_console_inv(2) [OF assms(3) _ _ _ svc_set_enabled(1), where give_back = "\<lambda>c. (Inr (), c)" and env = id])
      (use svc_set_enabled in auto)
next
  case svc_delete_peer
  show ?thesis
    by (rule peer_console_inv(3) [OF assms(3) _ _ release_follows svc_delete_peer(1)])
      (use svc_delete_peer in \<open>auto simp: env_ok_def peers_env_ok_def\<close>)
next
  case svc_release_ip
  show ?thesis
    by (rule peer_console_inv(4) [OF assms(3) _ _ release_follows svc_release_ip(1)])
      (use svc_release_ip in \<open>auto simp: env_ok_def peers_env_ok_def\<close>)
next
  case svc_reserve
  then show ?thesis using assms(3) reserve_ip_inv by (auto simp: env_ok_def peers_env_ok_def)
next
  case svc_list_peers
  then show ?thesis using list_inv(1) [OF assms(3)] by blast
next
  case svc_list_ips
  then show ?thesis using list_inv(2) [OF assms(3)] by blast
next
  case svc_data
  show ?thesis by (rule follows_inv [OF data_follows [OF svc_data] assms(3)])
next
  case svc_relay
  show ?thesis by (rule follows_inv [OF confined_follows [OF confined_relay [OF svc_relay]] assms(3)])
next
  case svc_broadcast
  show ?thesis by (rule follows_inv [OF confined_follows [OF confined_broadcast [OF svc_broadcast]] assms(3)])
next
  case svc_delete_device
  show ?thesis by (rule follows_inv [OF follows_delete_device [OF svc_delete_device] assms(3)])
next
  case svc_peer_message
  show ?thesis unfolding svc_peer_message(1)
    by (rule follows_inv [OF follows_pm(2) assms(3)]) (unfold cs_networks_def, rule peer_message_follow [OF svc_peer_message(2)])
next
  case svc_peer_closed
  show ?thesis unfolding svc_peer_closed
    by (rule follows_inv [OF follows_pm(1) assms(3)]) (simp add: cs_networks_def closed_follow)
next
  case svc_peers
  show ?thesis unfolding svc_peers(1) by (rule follows_inv [OF follows_pm(2) assms(3)]) (simp add: svc_peers(2))
qed (use follows_inv [OF follows_drop assms(3)] follows_inv [OF follows_release assms(3)] follows_inv [OF follows_expired assms(3)]
    follows_inv [OF follows_ping assms(3)] follows_inv [OF follows_pm(3) assms(3)] in simp_all)

interpretation service: invariant_system "svc_step mk" "\<lambda>cs. net_maker mk \<longrightarrow> service_inv cs" for mk
  by unfold_locales (use svc_step_inv in blast)

lemma load_networks_inv:
  assumes "net_maker mk" "Some 0 \<notin> (ipv4_parse \<circ> nr_gateway) ` set rs"
  shows "hm_ok (load_networks_from_db mk (Some rs)) \<and>
    (\<forall>code config. hm_get (load_networks_from_db mk (Some rs)) code = Some config \<longrightarrow> net_fits (nf_net config))"
proof -
  have fits: "net_fits net" if "r \<in> set rs" "to_ipv4_net mk r = Some net" for r net
  proof -
    from that(2) obtain g where g: "ipv4_parse (nr_gateway r) = Some g" "mk (g - 1) (nr_netmask r) = Some net"
      by (auto simp: to_ipv4_net_def split: option.splits)
    with assms(2) that(1) have "g - 1 \<noteq> - 1" by (auto simp: diff_eq_eq image_iff)
    with assms(1) g(2) show ?thesis by (rule net_maker_fits)
  qed
  let ?f = "\<lambda>r nets. case to_ipv4_net mk r of None \<Rightarrow> nets | Some net \<Rightarrow> hm_insert (nr_network_code r)
      \<lparr>nf_net = net, nf_lease_duration = unat (nr_lease_duration r) * 1000000000, nf_source = nr_source r\<rparr> nets"
  have "hm_ok (fold ?f xs nets) \<and> (\<forall>code config. hm_get (fold ?f xs nets) code = Some config \<longrightarrow> net_fits (nf_net config))"
    if "set xs \<subseteq> set rs" "hm_ok nets" "\<And>code config. hm_get nets code = Some config \<Longrightarrow> net_fits (nf_net config)" for xs nets
    using that
  proof (induction xs arbitrary: nets)
    case (Cons r xs)
    have "hm_ok (?f r nets)" "hm_get (?f r nets) code = Some config \<Longrightarrow> net_fits (nf_net config)" for code config
      using Cons.prems fits [of r] by (auto split: option.splits if_splits)
    from Cons.IH [OF _ this] Cons.prems(1) show ?case by simp
  qed simp
  from this [of rs "[]"] show ?thesis by (simp add: load_networks_from_db_def)
qed

lemma service_new_inv:
  assumes "net_maker mk" "net_fits default_net" "Some 0 \<notin> (ipv4_parse \<circ> nr_gateway) ` set rs"
  shows "service_inv (service_new mk (Some rs) default_net dur m db)"
  using load_networks_inv [OF assms(1,3)] assms(2)
  by (simp add: service_inv_def service_new_def cs_networks_def)

section \<open>Properties\<close>


definition wit_service :: control_service where
  "wit_service = service_new cidr_maker (Some []) wit_net 0 wit_member wit_cluster_db"

definition wit_load :: db_load where
  "wit_load = \<lparr>dl_instant = 0, dl_now = 0, dl_devices = Some [], dl_allocations = Some []\<rparr>"

definition wit_service1 :: control_service where
  "wit_service1 = snd (add_network cidr_maker (Inr ()) 0 ''net'' wit_gw 24 None wit_service)"

definition wit_service2 :: control_service where
  "wit_service2 = snd (service_create_wireguard_peer wit_load (Inr ()) id ''net'' ''p'' [] True wit_service1)"

lemma cidr_maker_ok: "net_maker cidr_maker"
  by (auto simp: net_maker_def cidr_maker_def cidr_ok not_le) (simp add: cidr_def Let_def)

lemma wit_net_fits: "net_fits wit_net"
  using wit_net_ok by (simp add: net_fits_def wit_net_def witness_eval)

lemma wit_service_steps: "(svc_step cidr_maker)\<^sup>*\<^sup>* wit_service wit_service2"
proof -
  have "svc_step cidr_maker wit_service wit_service1"
    unfolding wit_service1_def by (rule svc_add [OF surjective_pairing]) (simp add: wit_gw_def witness_eval)
  moreover have "svc_step cidr_maker wit_service1 wit_service2"
    unfolding wit_service2_def
    by (rule svc_create_peer [OF surjective_pairing]) (auto simp: load_ok_def wit_load_def wit_db env_ok_def)
  ultimately show ?thesis by auto
qed

lemma wit_service1_eq: "hm_get (cs_networks wit_service1) code = None" "hm_get (cs_db_nets wit_service1) ''net'' \<noteq> None"
  by (simp_all add: wit_service1_def wit_service_def add_network_def service_new_def cidr_maker_def Let_def
      load_networks_from_db_def hm_contains_def cs_networks_def add_write_def)

lemma wit_service2_live: "hm_get (cs_networks wit_service2) ''net'' \<noteq> None"
  using wit_service1_eq
  by (auto simp: wit_service2_def service_create_wireguard_peer_def on_network_def wireguard_network_state_def
      get_or_create_network_state_def Let_def split: prod.splits sum.splits)


end
