(* ===== verification/Spec2Isabelle.thy ===== *)
theory Spec2Isabelle
  imports Network_Peers Web_Security Peer_Routes Peer_Broadcast Peer_Leases P2p_Path Service_Inv
begin

text \<open>
  A verification of the VNT virtual network: the server (directory official-vnts-source-2.0.0, called
  \<open>vnts\<close> below), the parts of the client library vnt-core-2.0.0 that talk to it, and the WireGuard agent.

  \<^bold>\<open>The program.\<close>  A server keeps, for every virtual network, the address leases of VNT devices and
  WireGuard peers and the sessions that are online, and forwards their packets.  VNT devices register over
  TCP, QUIC or WebSocket with protobuf messages and exchange packets with a 16 byte header.  Standard
  WireGuard peers reach the network through an UDP endpoint of the server, which wraps their IP packets for VNT devices
  and unwraps the answers.  Servers link up: they exchange client lists, forward packets along the
  fastest route, flood broadcasts, and in a cluster take addresses from one lease authority with a
  database.  A WireGuard agent can ask for a direct path to a device; the server then gives both sides
  a short lease.  An administrator uses a web console with a login.

  \<^bold>\<open>Theories, from the bottom up\<close> (files under vnts/src unless another directory is named).

  \<^item> \<open>Prelude\<close>: machine integers, big endian encodings, hash maps (\<open>hm_\<close> operations on association lists
    with distinct keys, locale \<open>hash_map\<close>), the interface of \<open>ipnet::Ipv4Net\<close>, and the locale
    \<open>invariant_system\<close> for invariants of step relations.  \<open>Address_Scan\<close>: the search for a free address.
    \<open>Std_Text\<close>, \<open>Socket_Text\<close>: texts of IPv4 and socket addresses, with their parsers.  \<open>Indexed_Table\<close>:
    a hash map with a second map as index.
  \<^item> \<open>Net_Packet\<close>: protocol/ip_packet_protocol.rs, the header and its accessors.  \<open>Packet_Build\<close>: packets made
    from nothing.  \<open>Control_Message\<close>: protocol/control_message.rs.  \<open>Pnet\<close>: the packet crate as an interface.
  \<^item> \<open>Wireguard_Bridge\<close>: server/wireguard_bridge.rs, the validators and envelopes of relayed packets.
  \<^item> \<open>Lease_State\<close>: the lease table, NetworkStateInner of server/network_state_provider.rs.  \<open>Lease_Steps\<close>: its critical
    sections as a step relation, with the reservation in flight.  \<open>Network_State\<close>: NetworkState itself.
    \<open>Network_Sessions\<close>: the invariant between lease table and online sessions.  \<open>Network_Delivery\<close>:
    delivery, broadcast relay and traffic counters.  \<open>Network_Views\<close>: what clients and console are shown, with the
    client side of the incremental list (vnt-core src/context/mod.rs).  \<open>Network_Peers\<close>: addresses of WireGuard peers.
  \<^item> \<open>Cluster_Lease\<close>: the lease tables of server/control_server/db.rs with the constraints of db/migrations.rs.
  \<^item> \<open>Peer_Server\<close>: links between servers (server/peer_server.rs).  \<open>Peer_Routes\<close>, \<open>Peer_Broadcast\<close>, \<open>Peer_Leases\<close>:
    its routes, its flooding, its lease requests.
  \<^item> \<open>Web_Security\<close>: http/web_security.rs and the login handler of http/web_server.rs.
  \<^item> \<open>Wireguard_P2p\<close>: server/wireguard_p2p.rs, requests for direct paths.  \<open>Client_Bridge\<close>, \<open>Client_P2p\<close>: wireguard_bridge.rs
    and wireguard_p2p.rs of vnt-core.  \<open>Boringtun\<close>: the WireGuard crate as an interface.
    \<open>P2p_Agent\<close>: wireguard-agent/src/main.rs.  \<open>P2p_Path\<close>: the three together.
  \<^item> \<open>Control_Service\<close>: server/control_server/service.rs.  \<open>Control_Handler\<close>: server/control_server/handler.rs, the
    packets of one connection.  \<open>Service_Steps\<close>: what they do to the networks.  \<open>Service_Inv\<close>: all of the
    server as one step relation (\<open>svc_step\<close>) with its invariant.

  \<^bold>\<open>State and operations.\<close>  A struct is a record with the source's fields, an enum a datatype, a method a function
  that returns the new state.  Objects behind \<open>Arc\<close> that are changed through several references
  (traffic counters, peer servers) live in a store and are named by their number.  A method that holds a lock
  is one step; where the code releases a lock in between, the parts are separate definitions and
  the step relations interleave them (\<open>lease_step\<close>, \<open>net_step\<close>).  Maps are association lists, so the order of iteration is arbitrary but fixed.
  Counters wrap as in a release build.  Errors are values; the text of an error is left out unless it is sent.

  \<^bold>\<open>Code outside the repository\<close> is an argument: the \<open>ipnet\<close> operations of a network (\<open>ipv4_net_ok\<close>, \<open>net_maker\<close>), the \<open>pnet_packet\<close> accessors
  (\<open>pnet_layout\<close>, \<open>echo_layout\<close>: the layouts of RFC 791, 792 and 768), the generated protobuf codecs (decoding is the inverse of encoding),
  boringtun (\<open>noise_drains\<close>: a tunnel queues finitely many datagrams), \<open>jsonwebtoken\<close>, base64, the \<open>wg\<close> tool, the
  outcome of channel sends, datagrams and database calls, the clocks and the random numbers.  Every theorem
  that assumes something of an argument has a witness with a concrete one.

  \<^bold>\<open>Loops.\<close>  Loops over collections are structural.  The four loops without a bound are \<open>partial_function\<close>s with value None when they do not end:
  drawing a nonzero or unused random number (ends when the stream has one: \<open>draw_nonzero_returns\<close>, \<open>draw_unused_returns\<close>),
  emptying the queue of a tunnel (\<open>drain_returns\<close>), and the wait for a handshake (ends when the clock passes the deadline:
  \<open>poll_handshake_returns\<close>).  There is no other fuel in the development.

  \<^bold>\<open>What the theorems show.\<close>  Addresses are exclusive and reservations atomic under any interleaving; lease table and
  sessions agree; the server as a whole keeps its networks as configured, and a client reaches its own network only;
  what can reach an endpoint; relayed packets cannot claim another source, and server and client agree on them;
  incremental lists keep clients right, except for removed devices; routes are the fastest ones
  and never stale; broadcasts are handled once and die out; a cluster lease is exclusive, renewable and the same whether asked for over a link or not;
  logins lock out and sessions are exactly authorised; a direct path is set up alike on both ends, routed only after
  a handshake and bounded by its lease.  Several theorems establish faults of the code: an echo request that stops the
  server, an address that leaks, two races, a removed device that clients keep.

  \<^bold>\<open>Not modelled.\<close>  Sockets, TLS, QUIC and WebSocket framing, process start, the Windows service, reading of configuration and log files:
  input and output only.  Key encryption and the SQL engine: libraries.  The UDP runtime wireguard_runtime.rs.  Of the client, its tunnels, hole punching and error correction.
  The graphical interfaces, the bindings generated for them and the vendored remote desktop.
\<close>

end
